(* ===== verification/Paw_Prelude.thy ===== *)
theory Paw_Prelude
  imports Complex_Main "HOL-Library.Multiset"
begin

text \<open>
  The prelude of the Paw development: validation issues and results
  (\<open>contracts.ts\<close>), thrown errors as values, the parts of the JavaScript string and
  array library the sources use (\<open>trim\<close>, \<open>startsWith\<close>, \<open>endsWith\<close>, \<open>includes\<close>,
  \<open>split\<close>, \<open>join\<close>, \<open>replaceAll\<close>, template interpolation of integers, the stable
  \<open>sort\<close>), and the lemmas about them that the component theories share.

  Strings are lists of characters, read as code units 0 to 255; \<open>paw_simps\<close> collects
  the definitions that component proofs unfold.
\<close>

named_theorems paw_simps \<open>definitions unfolded by the component proofs\<close>

section \<open>Issues, results and thrown errors\<close>

datatype PawValidationIssue = Issue (issue_path: string) (issue_message: string)

datatype 'a PawValidationResult = Ok 'a | Invalid "PawValidationIssue list"

text \<open>A thrown value: an \<open>Error\<close> with its message, or a file-system error with its code.\<close>

datatype js_error = JsError (error_message: string) | FileSystemError (error_code: string)

type_synonym 'a throws = "js_error + 'a"

text \<open>
  A string that the source casts to a union of literals (\<open>value as T\<close>): a member of the
  union, or any other string that only a later validation rejects.
\<close>

datatype 'a cast = Member 'a | Foreign string

fun result_of_issues :: "PawValidationIssue list \<Rightarrow> 'a \<Rightarrow> 'a PawValidationResult" where
  "result_of_issues [] v = Ok v"
| "result_of_issues (i # is) v = Invalid (i # is)"

lemma result_of_issues_Ok [simp]: "result_of_issues is v = Ok w \<longleftrightarrow> is = [] \<and> w = v"
  by (cases "is") auto

lemma result_of_issues_Invalid [simp]:
  "result_of_issues is v = Invalid js \<longleftrightarrow> is \<noteq> [] \<and> js = is"
  by (cases "is") auto

lemma result_of_issues_if:
  "result_of_issues is v = (if length is > 0 then Invalid is else Ok v)"
  by (cases "is") auto

section \<open>Strings\<close>

definition js_space :: "char \<Rightarrow> bool" where
  "js_space c \<longleftrightarrow> (of_char c :: nat) \<in> {9, 10, 11, 12, 13, 32, 160}"

definition js_trim :: "string \<Rightarrow> string" where
  "js_trim s = rev (dropWhile js_space (rev (dropWhile js_space s)))"

text \<open>The recurring test \<open>value.trim() === ""\<close>.\<close>

definition blank :: "string \<Rightarrow> bool" where
  "blank s \<longleftrightarrow> js_trim s = ''''"

lemma blank_iff_all_space: "blank s \<longleftrightarrow> list_all js_space s"
proof
  assume "blank s"
  then have sub: "\<forall>x \<in> set (dropWhile js_space s). js_space x"
    by (simp add: blank_def js_trim_def dropWhile_eq_Nil_conv)
  have "dropWhile js_space s = []"
    using sub hd_dropWhile [of js_space s] by (metis list.set_sel(1))
  then show "list_all js_space s" by (simp add: dropWhile_eq_Nil_conv list_all_iff)
next
  assume "list_all js_space s"
  then show "blank s" by (auto simp: blank_def js_trim_def list_all_iff dest: set_dropWhileD)
qed

lemma blank_Nil [simp]: "blank []"
  by (simp add: blank_def js_trim_def)

lemma js_trim_no_leading: "js_trim s \<noteq> [] \<Longrightarrow> \<not> js_space (hd (js_trim s))"
proof -
  assume ne: "js_trim s \<noteq> []"
  let ?d = "dropWhile js_space s"
  have suf: "\<exists>t. ?d = js_trim s @ t"
  proof -
    have "rev ?d = takeWhile js_space (rev ?d) @ dropWhile js_space (rev ?d)" by simp
    then have "?d = rev (dropWhile js_space (rev ?d)) @ rev (takeWhile js_space (rev ?d))"
      by (metis rev_append rev_rev_ident)
    then show ?thesis by (auto simp: js_trim_def)
  qed
  then obtain t where t: "?d = js_trim s @ t" by blast
  with ne have "hd (js_trim s) = hd ?d" and "?d \<noteq> []" by simp_all
  then show ?thesis using hd_dropWhile [of js_space s] by simp
qed

fun starts_with :: "string \<Rightarrow> string \<Rightarrow> bool" where
  "starts_with [] s = True"
| "starts_with (p # ps) [] = False"
| "starts_with (p # ps) (c # cs) = (p = c \<and> starts_with ps cs)"

lemma starts_with_iff: "starts_with p s \<longleftrightarrow> (\<exists>t. s = p @ t)"
  by (induction p s rule: starts_with.induct) auto

definition ends_with :: "string \<Rightarrow> string \<Rightarrow> bool" where
  "ends_with p s \<longleftrightarrow> starts_with (rev p) (rev s)"

fun includes_str :: "string \<Rightarrow> string \<Rightarrow> bool" where
  "includes_str p [] = (p = [])"
| "includes_str p (c # cs) = (starts_with p (c # cs) \<or> includes_str p cs)"

lemma includes_str_iff: "includes_str p s \<longleftrightarrow> (\<exists>a b. s = a @ p @ b)"
proof (induction s)
  case Nil
  then show ?case by auto
next
  case (Cons c cs)
  show ?case
  proof
    assume "includes_str p (c # cs)"
    then consider "starts_with p (c # cs)" | "includes_str p cs" by auto
    then show "\<exists>a b. c # cs = a @ p @ b"
    proof cases
      case 1
      then show ?thesis by (metis append_Nil starts_with_iff)
    next
      case 2
      then show ?thesis using Cons.IH by (metis append_Cons)
    qed
  next
    assume "\<exists>a b. c # cs = a @ p @ b"
    then obtain a b where ab: "c # cs = a @ p @ b" by blast
    show "includes_str p (c # cs)"
    proof (cases a)
      case Nil
      with ab show ?thesis by (metis append_Nil includes_str.simps(2) starts_with_iff)
    next
      case (Cons x xs)
      with ab have "cs = xs @ p @ b" by simp
      with Cons.IH show ?thesis by auto
    qed
  qed
qed

text \<open>\<open>s.split(c)\<close> for a one-character separator, and \<open>xs.join(sep)\<close>.\<close>

fun split_on :: "char \<Rightarrow> string \<Rightarrow> string list" where
  "split_on d [] = [[]]"
| "split_on d (c # cs) =
     (if c = d then [] # split_on d cs
      else case split_on d cs of [] \<Rightarrow> [[c]] | w # ws \<Rightarrow> (c # w) # ws)"

fun join_with :: "string \<Rightarrow> string list \<Rightarrow> string" where
  "join_with sep [] = ''''"
| "join_with sep [x] = x"
| "join_with sep (x # y # ys) = x @ sep @ join_with sep (y # ys)"

lemma split_on_ne [simp]: "split_on d s \<noteq> []"
  by (induction s) (auto split: list.splits)

lemma join_split_on: "join_with [d] (split_on d s) = s"
proof (induction s)
  case Nil
  then show ?case by simp
next
  case (Cons c cs)
  obtain w ws where sp: "split_on d cs = w # ws" by (meson neq_Nil_conv split_on_ne)
  show ?case
    using Cons.IH by (cases ws) (auto simp: sp)
qed

lemma split_on_no_sep: "w \<in> set (split_on d s) \<Longrightarrow> d \<notin> set w"
proof (induction s arbitrary: w)
  case Nil
  then show ?case by simp
next
  case (Cons c cs)
  obtain v vs where sp: "split_on d cs = v # vs" by (meson neq_Nil_conv split_on_ne)
  show ?case
    using Cons.prems Cons.IH by (auto simp: sp split: if_splits)
qed

lemma split_on_single: "d \<notin> set w \<Longrightarrow> split_on d w = [w]"
  by (induction w) auto

lemma length_split_on: "length (split_on d s) = Suc (count_list s d)"
proof (induction s)
  case Nil
  then show ?case by simp
next
  case (Cons c cs)
  obtain v vs where sp: "split_on d cs = v # vs" by (meson neq_Nil_conv split_on_ne)
  show ?case using Cons.IH by (auto simp: sp)
qed

text \<open>\<open>s.split\<close> at white space: the pieces between its maximal runs.\<close>

function split_spaces :: "string \<Rightarrow> string list" where
  "split_spaces s =
     (let w = takeWhile (\<lambda>c. \<not> js_space c) s; rest = dropWhile (\<lambda>c. \<not> js_space c) s in
      if rest = [] then [w] else w # split_spaces (dropWhile js_space rest))"
  by pat_completeness auto
termination
proof (relation "measure length")
  fix s w rest :: string
  assume rest: "rest = dropWhile (\<lambda>c. \<not> js_space c) s" "rest \<noteq> []"
  obtain c cs where cs: "rest = c # cs" "js_space c" using rest by (metis hd_dropWhile list.exhaust_sel)
  have "length rest \<le> length s" unfolding rest(1) by (rule length_dropWhile_le)
  moreover have "length (dropWhile js_space rest) < length rest"
    using length_dropWhile_le [of js_space cs] cs by (simp add: le_imp_less_Suc)
  ultimately have "length (dropWhile js_space rest) < length s" by simp
  then show "(dropWhile js_space rest, s) \<in> measure length" by simp
qed simp

declare split_spaces.simps [simp del]

definition replace_char :: "char \<Rightarrow> char \<Rightarrow> string \<Rightarrow> string" where
  "replace_char a b s = map (\<lambda>c. if c = a then b else c) s"

text \<open>Interpolation of integers into template strings.\<close>

definition digit_char :: "nat \<Rightarrow> char" where
  "digit_char d = char_of (48 + d)"

fun show_nat :: "nat \<Rightarrow> string" where
  "show_nat n = (if n < 10 then [digit_char n] else show_nat (n div 10) @ [digit_char (n mod 10)])"

declare show_nat.simps [simp del]

definition show_int :: "int \<Rightarrow> string" where
  "show_int i = (if i < 0 then ''-'' @ show_nat (nat (- i)) else show_nat (nat i))"

definition show_bool :: "bool \<Rightarrow> string" where
  "show_bool b = (if b then ''true'' else ''false'')"

lemma show_nat_not_Nil [simp]: "show_nat n \<noteq> []" "[] \<noteq> show_nat n"
  by (subst show_nat.simps, simp)+

lemma digit_char_eq_iff: "a < 10 \<Longrightarrow> b < 10 \<Longrightarrow> digit_char a = digit_char b \<longleftrightarrow> a = b"
proof -
  assume ab: "a < 10" "b < 10"
  have "(of_char (digit_char a) :: nat) = 48 + a" "(of_char (digit_char b) :: nat) = 48 + b"
    using ab by (simp_all add: digit_char_def)
  then show ?thesis by (metis add_left_cancel)
qed

text \<open>Different indices are printed differently, so issue paths identify their element.\<close>

lemma show_nat_inject [simp]: "show_nat m = show_nat n \<longleftrightarrow> m = n"
proof
  show "show_nat m = show_nat n \<Longrightarrow> m = n"
  proof (induction m arbitrary: n rule: show_nat.induct)
    case (1 m)
    consider "m < 10" "n < 10" | "m < 10" "\<not> n < 10" | "\<not> m < 10" "n < 10" | "\<not> m < 10" "\<not> n < 10"
      by blast
    then show ?case
    proof cases
      case 1
      with "1.prems" show ?thesis by (simp add: show_nat.simps [of m] show_nat.simps [of n] digit_char_eq_iff)
    next
      case 2
      with "1.prems" show ?thesis by (simp add: show_nat.simps [of m] show_nat.simps [of n])
    next
      case 3
      with "1.prems" show ?thesis by (simp add: show_nat.simps [of m] show_nat.simps [of n])
    next
      case 4
      with "1.prems" have eq: "show_nat (m div 10) = show_nat (n div 10)"
        and d: "digit_char (m mod 10) = digit_char (n mod 10)"
        by (simp_all add: show_nat.simps [of m] show_nat.simps [of n])
      from "1.IH" [OF 4(1) eq] d have "m div 10 = n div 10" "m mod 10 = n mod 10"
        by (simp_all add: digit_char_eq_iff)
      then show ?thesis by (metis div_mult_mod_eq)
    qed
  qed
qed simp

section \<open>Lists\<close>

text \<open>\<open>xs.entries()\<close>: the elements paired with their indices.\<close>

definition entries :: "'a list \<Rightarrow> (nat \<times> 'a) list" where
  "entries xs = zip [0..<length xs] xs"

lemma entries_Nil [simp]: "entries [] = []"
  by (simp add: entries_def)

lemma set_entries: "set (entries xs) = {(i, xs ! i) |i. i < length xs}"
  by (force simp: entries_def set_zip)

lemma map_snd_entries [simp]: "map snd (entries xs) = xs"
  by (simp add: entries_def)

text \<open>
  The stable \<open>Array.prototype.sort\<close> with a comparator: on a comparator that is a total
  preorder every stable sort gives the same list, so insertion sort stands for it.
\<close>

fun insort_by :: "('a \<Rightarrow> 'a \<Rightarrow> int) \<Rightarrow> 'a \<Rightarrow> 'a list \<Rightarrow> 'a list" where
  "insort_by cmp x [] = [x]"
| "insort_by cmp x (y # ys) = (if cmp x y \<le> 0 then x # y # ys else y # insort_by cmp x ys)"

definition sort_by :: "('a \<Rightarrow> 'a \<Rightarrow> int) \<Rightarrow> 'a list \<Rightarrow> 'a list" where
  "sort_by cmp xs = foldr (insort_by cmp) xs []"

lemma sort_by_Nil [simp]: "sort_by cmp [] = []"
  by (simp add: sort_by_def)

lemma sort_by_Cons [simp]: "sort_by cmp (x # xs) = insort_by cmp x (sort_by cmp xs)"
  by (simp add: sort_by_def)

lemma mset_insort_by [simp]: "mset (insort_by cmp x xs) = add_mset x (mset xs)"
  by (induction xs) auto

lemma mset_sort_by [simp]: "mset (sort_by cmp xs) = mset xs"
  by (induction xs) auto

lemma set_sort_by [simp]: "set (sort_by cmp xs) = set xs"
  by (metis mset_sort_by set_mset_mset)

lemma length_sort_by [simp]: "length (sort_by cmp xs) = length xs"
  by (metis mset_sort_by size_mset)

lemma distinct_map_sort_by [simp]: "distinct (map f (sort_by cmp xs)) \<longleftrightarrow> distinct (map f xs)"
  by (metis mset_map mset_sort_by mset_eq_imp_distinct_iff)

lemma set_insort_by [simp]: "set (insort_by cmp x xs) = insert x (set xs)"
  by (metis mset_insort_by set_mset_add_mset_insert set_mset_mset)

text \<open>What a comparator must promise for the sort to order its input.\<close>

locale comparator =
  fixes cmp :: "'a \<Rightarrow> 'a \<Rightarrow> int"
  assumes total_cmp: "cmp x y \<le> 0 \<or> cmp y x \<le> 0"
    and trans_cmp: "cmp x y \<le> 0 \<Longrightarrow> cmp y z \<le> 0 \<Longrightarrow> cmp x z \<le> 0"
begin

lemma sorted_insort:
  "sorted_wrt (\<lambda>a b. cmp a b \<le> 0) xs \<Longrightarrow> sorted_wrt (\<lambda>a b. cmp a b \<le> 0) (insort_by cmp x xs)"
proof (induction xs)
  case Nil
  then show ?case by simp
next
  case (Cons y ys)
  show ?case
  proof (cases "cmp x y \<le> 0")
    case True
    with Cons.prems show ?thesis by (auto intro: trans_cmp)
  next
    case False
    then have "cmp y x \<le> 0" using total_cmp by blast
    with Cons False show ?thesis by auto
  qed
qed

lemma sorted_sort: "sorted_wrt (\<lambda>a b. cmp a b \<le> 0) (sort_by cmp xs)"
  by (induction xs) (auto intro: sorted_insort)

end

section \<open>Machines whose steps validate\<close>

text \<open>
  A run of a fallible step function stops at the first rejected transition, as the commands
  that drive a session do.
\<close>

fun run_steps ::
  "('s \<Rightarrow> 't \<Rightarrow> 's PawValidationResult) \<Rightarrow> 's \<Rightarrow> 't list \<Rightarrow> 's PawValidationResult" where
  "run_steps step s [] = Ok s"
| "run_steps step s (t # ts) =
     (case step s t of Ok s' \<Rightarrow> run_steps step s' ts | Invalid is \<Rightarrow> Invalid is)"

lemma run_steps_append:
  "run_steps step s (ts @ us) =
     (case run_steps step s ts of Ok s' \<Rightarrow> run_steps step s' us | Invalid is \<Rightarrow> Invalid is)"
  by (induction ts arbitrary: s) (auto split: PawValidationResult.splits)

text \<open>The contract of such a machine: an accepted step keeps the invariant.\<close>

locale validated_machine =
  fixes step :: "'s \<Rightarrow> 't \<Rightarrow> 's PawValidationResult"
    and inv :: "'s \<Rightarrow> bool"
  assumes step_inv: "inv s \<Longrightarrow> step s t = Ok s' \<Longrightarrow> inv s'"
begin

lemma run_inv: "inv s \<Longrightarrow> run_steps step s ts = Ok s' \<Longrightarrow> inv s'"
proof (induction ts arbitrary: s)
  case Nil
  then show ?case by simp
next
  case (Cons t ts)
  then obtain u where "step s t = Ok u" "run_steps step u ts = Ok s'"
    by (auto split: PawValidationResult.splits)
  with Cons show ?case using step_inv by blast
qed

end

text \<open>
  A machine that also keeps an account of what it was given: every accepted step extends
  the account by what the step contributes.
\<close>

fun run_total :: "('s \<Rightarrow> 't \<Rightarrow> 's PawValidationResult) \<Rightarrow> ('s \<Rightarrow> 't \<Rightarrow> 'a list) \<Rightarrow>
    's \<Rightarrow> 't list \<Rightarrow> 'a list" where
  "run_total step gain s [] = []"
| "run_total step gain s (t # ts) =
     gain s t @ (case step s t of Ok s' \<Rightarrow> run_total step gain s' ts | Invalid is \<Rightarrow> [])"

locale accounted_machine = validated_machine step inv
  for step :: "'s \<Rightarrow> 't \<Rightarrow> 's PawValidationResult" and inv :: "'s \<Rightarrow> bool" +
  fixes account :: "'s \<Rightarrow> 'a list"
    and gain :: "'s \<Rightarrow> 't \<Rightarrow> 'a list"
  assumes step_account: "inv s \<Longrightarrow> step s t = Ok s' \<Longrightarrow> account s' = account s @ gain s t"
begin

lemma run_account:
  "inv s \<Longrightarrow> run_steps step s ts = Ok s' \<Longrightarrow> account s' = account s @ run_total step gain s ts"
proof (induction ts arbitrary: s)
  case Nil
  then show ?case by simp
next
  case (Cons t ts)
  then obtain u where u: "step s t = Ok u" "run_steps step u ts = Ok s'"
    by (auto split: PawValidationResult.splits)
  with Cons.prems have "inv u" "account u = account s @ gain s t"
    by (auto intro: step_inv step_account)
  with Cons.IH [OF _ u(2)] u(1) show ?case by simp
qed

end

section \<open>Interfaces of storage and locking\<close>

text \<open>
  What the session commands rely on of the keyed store of session documents: a saved
  document is what the next load of its key returns, and other keys are untouched.
\<close>

fun save_all :: "('fs \<Rightarrow> 'd \<Rightarrow> 'e + 'fs) \<Rightarrow> 'fs \<Rightarrow> 'd list \<Rightarrow> 'e + 'fs" where
  "save_all save fs [] = Inr fs"
| "save_all save fs (d # ds) =
     (case save fs d of Inl e \<Rightarrow> Inl e | Inr fs' \<Rightarrow> save_all save fs' ds)"

lemma find_snoc:
  "find P (xs @ [x]) =
     (case find P xs of Some y \<Rightarrow> Some y | None \<Rightarrow> if P x then Some x else None)"
  by (induction xs) auto

locale document_store =
  fixes load :: "'fs \<Rightarrow> string \<Rightarrow> 'e + 'd"
    and save :: "'fs \<Rightarrow> 'd \<Rightarrow> 'e + 'fs"
    and key :: "'d \<Rightarrow> string"
  assumes load_saved: "save fs d = Inr fs' \<Longrightarrow> load fs' (key d) = Inr d"
    and load_other: "save fs d = Inr fs' \<Longrightarrow> k \<noteq> key d \<Longrightarrow> load fs' k = load fs k"
begin

lemma last_save_wins:
  "save_all save fs ds = Inr fs' \<Longrightarrow>
     load fs' k = (case find (\<lambda>d. key d = k) (rev ds) of Some d \<Rightarrow> Inr d | None \<Rightarrow> load fs k)"
proof (induction ds arbitrary: fs)
  case Nil
  then show ?case by simp
next
  case (Cons d ds)
  then obtain fs1 where 1: "save fs d = Inr fs1" "save_all save fs1 ds = Inr fs'"
    by (auto split: sum.splits)
  show ?case
    using Cons.IH [OF 1(2)] load_saved [OF 1(1)] load_other [OF 1(1)]
    by (auto simp: find_snoc split: option.splits)
qed

end

text \<open>
  What they rely on of the session lock: an actor takes a free lock, and fails on a lock it
  sees as live, leaving the store as it is.
\<close>

fun lock_winners :: "('a \<Rightarrow> 'fs \<Rightarrow> bool \<times> 'fs) \<Rightarrow> 'fs \<Rightarrow> 'a list \<Rightarrow> 'a list" where
  "lock_winners acquire fs [] = []"
| "lock_winners acquire fs (a # as) =
     (case acquire a fs of (ok, fs') \<Rightarrow>
        (if ok then [a] else []) @ lock_winners acquire fs' as)"

locale exclusive_lock =
  fixes holder :: "'fs \<Rightarrow> 'l option"
    and sane :: "'fs \<Rightarrow> bool"
    and able :: "'a \<Rightarrow> bool"
    and live :: "'a \<Rightarrow> 'l \<Rightarrow> bool"
    and mine :: "'a \<Rightarrow> 'l"
    and acquire :: "'a \<Rightarrow> 'fs \<Rightarrow> bool \<times> 'fs"
  assumes acquire_live: "sane fs \<Longrightarrow> able a \<Longrightarrow> holder fs = Some l \<Longrightarrow> live a l \<Longrightarrow>
      acquire a fs = (False, fs)"
    and acquire_free: "sane fs \<Longrightarrow> able a \<Longrightarrow> (\<forall>l. holder fs = Some l \<longrightarrow> \<not> live a l) \<Longrightarrow>
      \<exists>fs'. acquire a fs = (True, fs') \<and> holder fs' = Some (mine a) \<and> sane fs'"
begin

lemma live_lock_blocks_all:
  "sane fs \<Longrightarrow> holder fs = Some l \<Longrightarrow> (\<forall>a \<in> set as. able a \<and> live a l) \<Longrightarrow>
     lock_winners acquire fs as = []"
  by (induction as) (auto simp: acquire_live)

lemma first_acquirer_wins:
  assumes "sane fs" "able a" "\<forall>l. holder fs = Some l \<longrightarrow> \<not> live a l"
    and "\<forall>b \<in> set as. able b \<and> live b (mine a)"
  shows "lock_winners acquire fs (a # as) = [a]"
proof -
  from acquire_free [OF assms(1-3)] obtain fs' where
    "acquire a fs = (True, fs')" "holder fs' = Some (mine a)" "sane fs'" by blast
  with live_lock_blocks_all [of fs' "mine a" as] assms(4) show ?thesis by simp
qed

end

end
