(* ===== verification/Paw_State.thy ===== *)
theory Paw_State
  imports Paw_Prelude
begin

text \<open>
  The persisted session state machine of \<open>paw/state.ts\<close>: the active and blocked states,
  the session record, its validation, and the guarded transitions (advance, approve a plan,
  select a slice, complete a slice, block, resume).

  The lemmas show that validation decides a declarative well-formedness predicate, that
  every accepted transition keeps it, that the transition function is exactly the step
  relation \<open>paw_step\<close>, and that along any run from the initial state the planned slices
  are neither lost, duplicated nor reordered.
\<close>

section \<open>States and session records\<close>

datatype PawActiveStateName =
    IDLE | INTAKE | CLASSIFYING | CLARIFYING | SPEC_DRAFTED | SPEC_APPROVED | SCOUTING
  | PLAN_DRAFTED | PLAN_APPROVED | SLICE_SELECT | IMPLEMENTING | REVIEWING | VERIFYING
  | SLICE_DONE | FINAL_REPORT

datatype PawBlockedReasonCode =
    NEEDS_USER_DECISION | BUDGET_EXCEEDED | TEST_FAILURE | BUILD_FAILURE | TOOL_PERMISSION
  | CONTEXT_MISSING | PROVIDER_UNAVAILABLE | SANDBOX_UNAVAILABLE | PATCH_APPLY_FAILED

text \<open>A session state name: an active state, or \<open>BLOCKED_\<close> followed by a reason code.\<close>

datatype PawSessionStateName = Active PawActiveStateName | Blocked PawBlockedReasonCode

fun activeStateString :: "PawActiveStateName \<Rightarrow> string" where
  "activeStateString IDLE = ''IDLE''"
| "activeStateString INTAKE = ''INTAKE''"
| "activeStateString CLASSIFYING = ''CLASSIFYING''"
| "activeStateString CLARIFYING = ''CLARIFYING''"
| "activeStateString SPEC_DRAFTED = ''SPEC_DRAFTED''"
| "activeStateString SPEC_APPROVED = ''SPEC_APPROVED''"
| "activeStateString SCOUTING = ''SCOUTING''"
| "activeStateString PLAN_DRAFTED = ''PLAN_DRAFTED''"
| "activeStateString PLAN_APPROVED = ''PLAN_APPROVED''"
| "activeStateString SLICE_SELECT = ''SLICE_SELECT''"
| "activeStateString IMPLEMENTING = ''IMPLEMENTING''"
| "activeStateString REVIEWING = ''REVIEWING''"
| "activeStateString VERIFYING = ''VERIFYING''"
| "activeStateString SLICE_DONE = ''SLICE_DONE''"
| "activeStateString FINAL_REPORT = ''FINAL_REPORT''"

fun blockedCodeString :: "PawBlockedReasonCode \<Rightarrow> string" where
  "blockedCodeString NEEDS_USER_DECISION = ''NEEDS_USER_DECISION''"
| "blockedCodeString BUDGET_EXCEEDED = ''BUDGET_EXCEEDED''"
| "blockedCodeString TEST_FAILURE = ''TEST_FAILURE''"
| "blockedCodeString BUILD_FAILURE = ''BUILD_FAILURE''"
| "blockedCodeString TOOL_PERMISSION = ''TOOL_PERMISSION''"
| "blockedCodeString CONTEXT_MISSING = ''CONTEXT_MISSING''"
| "blockedCodeString PROVIDER_UNAVAILABLE = ''PROVIDER_UNAVAILABLE''"
| "blockedCodeString SANDBOX_UNAVAILABLE = ''SANDBOX_UNAVAILABLE''"
| "blockedCodeString PATCH_APPLY_FAILED = ''PATCH_APPLY_FAILED''"

fun stateNameString :: "PawSessionStateName \<Rightarrow> string" where
  "stateNameString (Active a) = activeStateString a"
| "stateNameString (Blocked c) = ''BLOCKED_'' @ blockedCodeString c"

definition PAW_ACTIVE_STATE_NAMES :: "PawActiveStateName list" where
  "PAW_ACTIVE_STATE_NAMES = [IDLE, INTAKE, CLASSIFYING, CLARIFYING, SPEC_DRAFTED, SPEC_APPROVED,
     SCOUTING, PLAN_DRAFTED, PLAN_APPROVED, SLICE_SELECT, IMPLEMENTING, REVIEWING, VERIFYING,
     SLICE_DONE, FINAL_REPORT]"

definition PAW_BLOCKED_REASON_CODES :: "PawBlockedReasonCode list" where
  "PAW_BLOCKED_REASON_CODES = [NEEDS_USER_DECISION, BUDGET_EXCEEDED, TEST_FAILURE, BUILD_FAILURE,
     TOOL_PERMISSION, CONTEXT_MISSING, PROVIDER_UNAVAILABLE, SANDBOX_UNAVAILABLE,
     PATCH_APPLY_FAILED]"

definition PAW_SESSION_STATE_NAMES :: "PawSessionStateName list" where
  "PAW_SESSION_STATE_NAMES =
     map Active PAW_ACTIVE_STATE_NAMES @ map Blocked PAW_BLOCKED_REASON_CODES"

text \<open>The string a cast value holds, and the cast of a string to a union of literals.\<close>

definition castOf :: "('a \<Rightarrow> string) \<Rightarrow> 'a list \<Rightarrow> string \<Rightarrow> 'a cast" where
  "castOf f xs s = (case find (\<lambda>a. f a = s) xs of Some a \<Rightarrow> Member a | None \<Rightarrow> Foreign s)"

fun castString :: "('a \<Rightarrow> string) \<Rightarrow> 'a cast \<Rightarrow> string" where
  "castString f (Member a) = f a"
| "castString f (Foreign s) = s"

record PawBlockedReason =
  code :: "PawBlockedReasonCode cast"
  reason_message :: string
  suggested_action :: string
  reason_slice_id :: "string option"
  resume_state :: "PawActiveStateName cast"

record PawSessionState =
  session_id :: string
  state_name :: "PawSessionStateName cast"
  current_slice_id :: "string option"
  pending_slice_ids :: "string list"
  completed_slice_ids :: "string list"
  blocked_reason :: "PawBlockedReason option"

record PawBlockedReasonInput =
  input_code :: "PawBlockedReasonCode option"
  input_message :: string
  input_suggested_action :: string
  input_slice_id :: "string option"

record PawStateTransition =
  to_state :: PawSessionStateName
  slice_ids :: "string list option"
  transition_reason :: "PawBlockedReasonInput option"

fun PAW_ALLOWED_ACTIVE_TRANSITIONS :: "PawActiveStateName \<Rightarrow> PawActiveStateName list" where
  "PAW_ALLOWED_ACTIVE_TRANSITIONS IDLE = [INTAKE]"
| "PAW_ALLOWED_ACTIVE_TRANSITIONS INTAKE = [CLASSIFYING]"
| "PAW_ALLOWED_ACTIVE_TRANSITIONS CLASSIFYING = [CLARIFYING]"
| "PAW_ALLOWED_ACTIVE_TRANSITIONS CLARIFYING = [SPEC_DRAFTED]"
| "PAW_ALLOWED_ACTIVE_TRANSITIONS SPEC_DRAFTED = [SPEC_APPROVED]"
| "PAW_ALLOWED_ACTIVE_TRANSITIONS SPEC_APPROVED = [SCOUTING]"
| "PAW_ALLOWED_ACTIVE_TRANSITIONS SCOUTING = [PLAN_DRAFTED]"
| "PAW_ALLOWED_ACTIVE_TRANSITIONS PLAN_DRAFTED = [PLAN_APPROVED]"
| "PAW_ALLOWED_ACTIVE_TRANSITIONS PLAN_APPROVED = [SLICE_SELECT]"
| "PAW_ALLOWED_ACTIVE_TRANSITIONS SLICE_SELECT = [IMPLEMENTING]"
| "PAW_ALLOWED_ACTIVE_TRANSITIONS IMPLEMENTING = [REVIEWING]"
| "PAW_ALLOWED_ACTIVE_TRANSITIONS REVIEWING = [VERIFYING]"
| "PAW_ALLOWED_ACTIVE_TRANSITIONS VERIFYING = [SLICE_DONE]"
| "PAW_ALLOWED_ACTIVE_TRANSITIONS SLICE_DONE = [SLICE_SELECT, FINAL_REPORT]"
| "PAW_ALLOWED_ACTIVE_TRANSITIONS FINAL_REPORT = [IDLE]"

definition createInitialPawSessionState :: "string \<Rightarrow> PawSessionState" where
  "createInitialPawSessionState sid =
     \<lparr>session_id = sid, state_name = Member (Active IDLE), current_slice_id = None,
      pending_slice_ids = [], completed_slice_ids = [], blocked_reason = None\<rparr>"

fun isPawBlockedState :: "PawSessionStateName cast \<Rightarrow> bool" where
  "isPawBlockedState (Member (Blocked c)) = True"
| "isPawBlockedState (Member (Active a)) = False"
| "isPawBlockedState (Foreign s) = False"

section \<open>Validation of a session\<close>

text \<open>\<open>addDuplicateIssues\<close>: the loop carries the set of the values already seen.\<close>

fun duplicateIssues :: "string \<Rightarrow> string list \<Rightarrow> string list \<Rightarrow> PawValidationIssue list" where
  "duplicateIssues path seen [] = []"
| "duplicateIssues path seen (v # vs) =
     (if blank v then [Issue path ''Slice ids cannot be empty.''] else [])
     @ (if v \<in> set seen then [Issue path (''Duplicate slice id '' @ v @ ''.'')] else [])
     @ duplicateIssues path (v # seen) vs"

definition addDuplicateIssues :: "string \<Rightarrow> string list \<Rightarrow> PawValidationIssue list" where
  "addDuplicateIssues path vs = duplicateIssues path [] vs"

definition validatePawSliceListOverlap :: "PawSessionState \<Rightarrow> PawValidationIssue list" where
  "validatePawSliceListOverlap s =
     concat (map (\<lambda>sid. if sid \<in> set (completed_slice_ids s)
       then [Issue ''/pending_slice_ids''
               (''Slice '' @ sid @ '' cannot be both pending and completed.'')]
       else []) (pending_slice_ids s))"

definition validateBlockedReason ::
  "PawBlockedReasonCode \<Rightarrow> PawBlockedReason \<Rightarrow> PawValidationIssue list" where
  "validateBlockedReason expected br =
     (if code br \<noteq> Member expected
      then [Issue ''/blocked_reason/code'' (''Blocked reason code ''
              @ castString blockedCodeString (code br) @ '' does not match ''
              @ stateNameString (Blocked expected) @ ''.'')] else [])
     @ (if blank (reason_message br)
        then [Issue ''/blocked_reason/message'' ''Blocked reason message is required.''] else [])
     @ (if blank (suggested_action br)
        then [Issue ''/blocked_reason/suggested_action''
                ''Blocked reason suggested action is required.''] else [])
     @ (case resume_state br of
          Member a \<Rightarrow> []
        | Foreign s \<Rightarrow> [Issue ''/blocked_reason/resume_state''
                          ''Blocked reason resume state must be active.''])"

definition validatePawBlockedReasonField ::
  "PawSessionStateName cast \<Rightarrow> PawBlockedReason option \<Rightarrow> PawValidationIssue list" where
  "validatePawBlockedReasonField name reason =
     (case name of
        Member (Blocked c) \<Rightarrow>
          (case reason of
             None \<Rightarrow> [Issue ''/blocked_reason'' ''Blocked states require blocked_reason metadata.'']
           | Some br \<Rightarrow> validateBlockedReason c br)
      | _ \<Rightarrow>
          (case reason of
             None \<Rightarrow> []
           | Some br \<Rightarrow> [Issue ''/blocked_reason''
                            ''Unblocked states must not carry blocked_reason metadata.'']))"

text \<open>The issues \<open>assertValidPawSessionState\<close> pushes, in its order.\<close>

definition sessionStateIssues :: "PawSessionState \<Rightarrow> PawValidationIssue list" where
  "sessionStateIssues s =
     (if blank (session_id s) then [Issue ''/session_id'' ''Session id is required.''] else [])
     @ (case state_name s of
          Member n \<Rightarrow> []
        | Foreign n \<Rightarrow> [Issue ''/name'' (''Unknown Paw session state '' @ n @ ''.'')])
     @ (case current_slice_id s of
          Some c \<Rightarrow> if blank c
            then [Issue ''/current_slice_id'' ''Current slice id cannot be empty.''] else []
        | None \<Rightarrow> [])
     @ addDuplicateIssues ''/pending_slice_ids'' (pending_slice_ids s)
     @ addDuplicateIssues ''/completed_slice_ids'' (completed_slice_ids s)
     @ (case current_slice_id s of
          Some c \<Rightarrow> if c \<in> set (pending_slice_ids s)
            then [Issue ''/current_slice_id'' ''Current slice cannot also be pending.''] else []
        | None \<Rightarrow> [])
     @ (case current_slice_id s of
          Some c \<Rightarrow> if c \<in> set (completed_slice_ids s)
            then [Issue ''/current_slice_id'' ''Current slice cannot already be completed.''] else []
        | None \<Rightarrow> [])
     @ validatePawSliceListOverlap s
     @ validatePawBlockedReasonField (state_name s) (blocked_reason s)"

definition assertValidPawSessionState :: "PawSessionState \<Rightarrow> PawSessionState PawValidationResult" where
  "assertValidPawSessionState s =
     (let issues = sessionStateIssues s in if length issues > 0 then Invalid issues else Ok s)"

section \<open>Transitions\<close>

definition invalidTransition ::
  "PawSessionStateName \<Rightarrow> PawSessionStateName \<Rightarrow> PawSessionState PawValidationResult" where
  "invalidTransition from to =
     Invalid [Issue ''/transition/to'' (''Cannot transition from '' @ stateNameString from
                @ '' to '' @ stateNameString to @ ''.'')]"

definition resumeBlockedState ::
  "PawSessionState \<Rightarrow> PawBlockedReasonCode \<Rightarrow> PawStateTransition \<Rightarrow>
     PawSessionState PawValidationResult" where
  "resumeBlockedState s c t =
     (case blocked_reason s of
        None \<Rightarrow> Invalid [Issue ''/blocked_reason'' ''Blocked states require blocked_reason metadata.'']
      | Some br \<Rightarrow>
          (case to_state t of
             Blocked c' \<Rightarrow> invalidTransition (Blocked c) (Blocked c')
           | Active a \<Rightarrow>
               if Member a \<noteq> resume_state br
               then Invalid [Issue ''/transition/to'' (''Blocked state ''
                      @ stateNameString (Blocked c) @ '' can only resume to ''
                      @ castString activeStateString (resume_state br) @ ''.'')]
               else Ok (s\<lparr>state_name := Member (Active a), blocked_reason := None\<rparr>)))"

text \<open>The session \<open>enterBlockedState\<close> builds for an accepted reason.\<close>

definition blockedSession ::
  "PawSessionState \<Rightarrow> PawActiveStateName \<Rightarrow> PawBlockedReasonCode \<Rightarrow> PawBlockedReasonInput \<Rightarrow>
     PawSessionState" where
  "blockedSession s resume c r =
     s\<lparr>state_name := Member (Blocked c),
       blocked_reason := Some \<lparr>code = Member c, reason_message = input_message r,
         suggested_action = input_suggested_action r,
         reason_slice_id = (case input_slice_id r of
            Some i \<Rightarrow> Some i | None \<Rightarrow> current_slice_id s),
         resume_state = Member resume\<rparr>\<rparr>"

text \<open>
  \<open>enterBlockedState\<close> receives the active name of the session as the resume state, so its
  own first check (the session must not be blocked already) holds by construction.
\<close>

definition enterBlockedState ::
  "PawSessionState \<Rightarrow> PawActiveStateName \<Rightarrow> PawBlockedReasonCode \<Rightarrow>
     PawBlockedReasonInput option \<Rightarrow> PawSessionState PawValidationResult" where
  "enterBlockedState s resume c reason =
     (let issues =
        (if resume = IDLE \<or> resume = FINAL_REPORT
         then [Issue ''/transition/to'' (''Cannot transition from '' @ activeStateString resume
                 @ '' to '' @ stateNameString (Blocked c) @ ''.'')] else [])
        @ (case reason of
             None \<Rightarrow> [Issue ''/transition/blocked_reason''
                        ''Blocked transitions require blocked_reason metadata.'']
           | Some r \<Rightarrow> [])
        @ (case reason of
             Some r \<Rightarrow> (case input_code r of
                 Some c' \<Rightarrow> if c' \<noteq> c
                   then [Issue ''/transition/blocked_reason/code'' (''Blocked reason code ''
                           @ blockedCodeString c' @ '' does not match ''
                           @ stateNameString (Blocked c) @ ''.'')] else []
               | None \<Rightarrow> [])
           | None \<Rightarrow> [])
        @ (case reason of
             Some r \<Rightarrow> if blank (input_message r)
               then [Issue ''/transition/blocked_reason/message''
                       ''Blocked reason message is required.''] else []
           | None \<Rightarrow> [])
        @ (case reason of
             Some r \<Rightarrow> if blank (input_suggested_action r)
               then [Issue ''/transition/blocked_reason/suggested_action''
                       ''Blocked reason suggested action is required.''] else []
           | None \<Rightarrow> [])
      in case reason of
           None \<Rightarrow> Invalid issues
         | Some r \<Rightarrow>
             if length issues > 0 then Invalid issues
             else assertValidPawSessionState (blockedSession s resume c r))"

definition validateActiveTransitionGuard ::
  "PawSessionState \<Rightarrow> PawActiveStateName \<Rightarrow> PawActiveStateName \<Rightarrow> string list option \<Rightarrow>
     PawValidationIssue list" where
  "validateActiveTransitionGuard s from to ids =
     (if to = PLAN_APPROVED \<and> (ids = None \<or> ids = Some []) then
        [Issue ''/transition/slice_ids'' ''PLAN_APPROVED requires at least one planned slice id.'']
      else if to = SLICE_SELECT \<and> length (pending_slice_ids s) = 0 then
        [Issue ''/pending_slice_ids'' ''SLICE_SELECT requires at least one pending slice.'']
      else if to = IMPLEMENTING \<and> current_slice_id s = None then
        [Issue ''/current_slice_id'' ''IMPLEMENTING requires a current slice.'']
      else if (to = REVIEWING \<or> to = VERIFYING \<or> to = SLICE_DONE) \<and> current_slice_id s = None then
        [Issue ''/current_slice_id'' (activeStateString to @ '' requires a current slice.'')]
      else if from = SLICE_DONE \<and> to = FINAL_REPORT \<and> length (pending_slice_ids s) > 0 then
        [Issue ''/pending_slice_ids'' ''FINAL_REPORT requires all planned slices to be completed.'']
      else [])"

definition applyActiveTransition ::
  "PawSessionState \<Rightarrow> PawActiveStateName \<Rightarrow> string list option \<Rightarrow> PawSessionState" where
  "applyActiveTransition s to ids =
     (if to = PLAN_APPROVED then
        s\<lparr>state_name := Member (Active to),
          pending_slice_ids := (case ids of Some xs \<Rightarrow> xs | None \<Rightarrow> [])\<rparr>
      else if to = SLICE_SELECT then
        (case pending_slice_ids s of
           [] \<Rightarrow> s\<lparr>state_name := Member (Active to), current_slice_id := None,
                 pending_slice_ids := []\<rparr>
         | x # xs \<Rightarrow> s\<lparr>state_name := Member (Active to), current_slice_id := Some x,
                 pending_slice_ids := xs\<rparr>)
      else if to = SLICE_DONE then
        s\<lparr>state_name := Member (Active to), current_slice_id := None,
          completed_slice_ids := (case current_slice_id s of
             None \<Rightarrow> completed_slice_ids s
           | Some c \<Rightarrow> if c \<in> set (completed_slice_ids s) then completed_slice_ids s
                       else completed_slice_ids s @ [c])\<rparr>
      else s\<lparr>state_name := Member (Active to), blocked_reason := None\<rparr>)"

text \<open>
  The three shapes of a state name select the branch: a blocked session can only resume, an
  active one blocks or advances. A foreign name never gets past the validation.
\<close>

definition transitionPawSessionState ::
  "PawSessionState \<Rightarrow> PawStateTransition \<Rightarrow> PawSessionState PawValidationResult" where
  "transitionPawSessionState s t =
     (case assertValidPawSessionState s of
        Invalid issues \<Rightarrow> Invalid issues
      | Ok _ \<Rightarrow>
          (case state_name s of
             Foreign n \<Rightarrow> Invalid []
           | Member (Blocked c) \<Rightarrow> resumeBlockedState s c t
           | Member (Active from) \<Rightarrow>
               (case to_state t of
                  Blocked c \<Rightarrow> enterBlockedState s from c (transition_reason t)
                | Active to \<Rightarrow>
                    if to \<notin> set (PAW_ALLOWED_ACTIVE_TRANSITIONS from)
                    then invalidTransition (Active from) (Active to)
                    else
                      let guardIssues = validateActiveTransitionGuard s from to (slice_ids t)
                      in if length guardIssues > 0 then Invalid guardIssues
                         else assertValidPawSessionState
                                (applyActiveTransition s to (slice_ids t)))))"

section \<open>Declarative well-formedness and the step relation\<close>

definition reason_wf :: "PawSessionStateName \<Rightarrow> PawBlockedReason option \<Rightarrow> bool" where
  "reason_wf n r =
     (case n of
        Active a \<Rightarrow> r = None
      | Blocked c \<Rightarrow>
          (case r of None \<Rightarrow> False
           | Some br \<Rightarrow> code br = Member c \<and> \<not> blank (reason_message br)
               \<and> \<not> blank (suggested_action br) \<and> (\<exists>a. resume_state br = Member a)))"

definition plan_order :: "PawSessionState \<Rightarrow> string list" where
  "plan_order s = completed_slice_ids s
     @ (case current_slice_id s of None \<Rightarrow> [] | Some c \<Rightarrow> [c]) @ pending_slice_ids s"

definition session_wf :: "PawSessionState \<Rightarrow> bool" where
  "session_wf s \<longleftrightarrow> \<not> blank (session_id s)
     \<and> (\<exists>n. state_name s = Member n \<and> reason_wf n (blocked_reason s))
     \<and> distinct (plan_order s) \<and> (\<forall>x \<in> set (plan_order s). \<not> blank x)"

text \<open>One rule per kind of transition the machine has.\<close>

inductive paw_step :: "PawSessionState \<Rightarrow> PawSessionState \<Rightarrow> bool" where
  advance: "\<lbrakk>state_name s = Member (Active a); b \<in> set (PAW_ALLOWED_ACTIVE_TRANSITIONS a);
     b \<notin> {PLAN_APPROVED, SLICE_SELECT, SLICE_DONE};
     b \<in> {IMPLEMENTING, REVIEWING, VERIFYING} \<Longrightarrow> current_slice_id s \<noteq> None;
     b = FINAL_REPORT \<Longrightarrow> pending_slice_ids s = []\<rbrakk>
   \<Longrightarrow> paw_step s (s\<lparr>state_name := Member (Active b)\<rparr>)"
| approve: "\<lbrakk>state_name s = Member (Active PLAN_DRAFTED); xs \<noteq> []\<rbrakk>
   \<Longrightarrow> paw_step s (s\<lparr>state_name := Member (Active PLAN_APPROVED), pending_slice_ids := xs\<rparr>)"
| select: "\<lbrakk>state_name s = Member (Active a); a \<in> {PLAN_APPROVED, SLICE_DONE};
     pending_slice_ids s = x # xs\<rbrakk>
   \<Longrightarrow> paw_step s (s\<lparr>state_name := Member (Active SLICE_SELECT), current_slice_id := Some x,
         pending_slice_ids := xs\<rparr>)"
| complete: "\<lbrakk>state_name s = Member (Active VERIFYING); current_slice_id s = Some c\<rbrakk>
   \<Longrightarrow> paw_step s (s\<lparr>state_name := Member (Active SLICE_DONE), current_slice_id := None,
         completed_slice_ids := completed_slice_ids s @ [c]\<rparr>)"
| block: "\<lbrakk>state_name s = Member (Active a); a \<notin> {IDLE, FINAL_REPORT};
     \<not> blank m; \<not> blank act; i = current_slice_id s \<or> (\<exists>j. i = Some j)\<rbrakk>
   \<Longrightarrow> paw_step s (s\<lparr>state_name := Member (Blocked c), blocked_reason := Some \<lparr>code = Member c,
         reason_message = m, suggested_action = act, reason_slice_id = i,
         resume_state = Member a\<rparr>\<rparr>)"
| resume: "\<lbrakk>state_name s = Member (Blocked c); blocked_reason s = Some br;
     resume_state br = Member a\<rbrakk>
   \<Longrightarrow> paw_step s (s\<lparr>state_name := Member (Active a), blocked_reason := None\<rparr>)"

section \<open>Validation decides well-formedness\<close>

lemma duplicateIssues_Nil:
  "duplicateIssues path seen vs = [] \<longleftrightarrow>
     (\<forall>v \<in> set vs. \<not> blank v) \<and> distinct vs \<and> set vs \<inter> set seen = {}"
  by (induction vs arbitrary: seen) auto

lemma overlap_Nil:
  "validatePawSliceListOverlap s = [] \<longleftrightarrow>
     set (pending_slice_ids s) \<inter> set (completed_slice_ids s) = {}"
  by (auto simp: validatePawSliceListOverlap_def)

lemma blockedReasonField_Nil:
  "validatePawBlockedReasonField (Member n) r = [] \<longleftrightarrow> reason_wf n r"
  by (auto simp: validatePawBlockedReasonField_def validateBlockedReason_def reason_wf_def
      split: PawSessionStateName.splits option.splits cast.splits)

lemma sessionStateIssues_Nil: "sessionStateIssues s = [] \<longleftrightarrow> session_wf s"
proof (cases "state_name s")
  case (Member n)
  then show ?thesis
    by (auto simp: sessionStateIssues_def session_wf_def addDuplicateIssues_def plan_order_def
        duplicateIssues_Nil overlap_Nil blockedReasonField_Nil split: option.splits)
next
  case (Foreign n)
  then show ?thesis by (simp add: sessionStateIssues_def session_wf_def)
qed

lemma assertValid_Ok [simp]:
  "assertValidPawSessionState s = Ok s' \<longleftrightarrow> session_wf s \<and> s' = s"
  by (auto simp: assertValidPawSessionState_def Let_def sessionStateIssues_Nil [symmetric])

lemma assertValid_wf: "session_wf s \<Longrightarrow> assertValidPawSessionState s = Ok s"
  by simp

lemma assertValid_not_wf:
  "\<not> session_wf s \<Longrightarrow> assertValidPawSessionState s = Invalid (sessionStateIssues s)"
  by (auto simp: assertValidPawSessionState_def Let_def sessionStateIssues_Nil [symmetric])

section \<open>The transition function is the step relation\<close>

lemma guard_Nil:
  "validateActiveTransitionGuard s from to ids = [] \<longleftrightarrow>
     (to = PLAN_APPROVED \<longrightarrow> (\<exists>xs. ids = Some xs \<and> xs \<noteq> []))
     \<and> (to = SLICE_SELECT \<longrightarrow> pending_slice_ids s \<noteq> [])
     \<and> (to \<in> {IMPLEMENTING, REVIEWING, VERIFYING, SLICE_DONE} \<longrightarrow> current_slice_id s \<noteq> None)
     \<and> (from = SLICE_DONE \<and> to = FINAL_REPORT \<longrightarrow> pending_slice_ids s = [])"
  by (cases ids) (auto simp: validateActiveTransitionGuard_def)

lemma transition_wf:
  assumes "transitionPawSessionState s t = Ok s'"
  shows "session_wf s"
  using assms by (auto simp: transitionPawSessionState_def split: PawValidationResult.splits)

text \<open>The branches of the transition function on a well-formed session.\<close>

lemma transition_active:
  assumes "session_wf s" "state_name s = Member (Active a)" "to_state t = Active b"
  shows "transitionPawSessionState s t = Ok s' \<longleftrightarrow>
    b \<in> set (PAW_ALLOWED_ACTIVE_TRANSITIONS a)
    \<and> validateActiveTransitionGuard s a b (slice_ids t) = []
    \<and> session_wf s' \<and> s' = applyActiveTransition s b (slice_ids t)"
  using assms
  by (auto simp: transitionPawSessionState_def assertValid_wf invalidTransition_def Let_def)

lemma transition_block:
  assumes "session_wf s" "state_name s = Member (Active a)" "to_state t = Blocked c"
  shows "transitionPawSessionState s t = enterBlockedState s a c (transition_reason t)"
  using assms by (simp add: transitionPawSessionState_def assertValid_wf)

lemma transition_resume:
  assumes "session_wf s" "state_name s = Member (Blocked c)"
  shows "transitionPawSessionState s t = resumeBlockedState s c t"
  using assms by (simp add: transitionPawSessionState_def assertValid_wf)

lemma enterBlocked_Ok:
  "enterBlockedState s a c reason = Ok s' \<longleftrightarrow>
     (\<exists>r. reason = Some r \<and> a \<notin> {IDLE, FINAL_REPORT} \<and> input_code r \<in> {None, Some c}
        \<and> \<not> blank (input_message r) \<and> \<not> blank (input_suggested_action r)
        \<and> s' = blockedSession s a c r \<and> session_wf s')"
  by (cases reason) (auto simp: enterBlockedState_def Let_def split: option.splits if_splits)

lemma resume_Ok:
  "resumeBlockedState s c t = Ok s' \<longleftrightarrow>
     (\<exists>br a. blocked_reason s = Some br \<and> to_state t = Active a \<and> resume_state br = Member a
        \<and> s' = s\<lparr>state_name := Member (Active a), blocked_reason := None\<rparr>)"
  by (auto simp: resumeBlockedState_def invalidTransition_def
      split: option.splits PawSessionStateName.splits if_splits)

lemma session_wf_active_reason:
  "session_wf s \<Longrightarrow> state_name s = Member (Active a) \<Longrightarrow> blocked_reason s = None"
  by (auto simp: session_wf_def reason_wf_def)

lemma session_wf_blocked_reason:
  "session_wf s \<Longrightarrow> state_name s = Member (Blocked c) \<Longrightarrow>
     \<exists>br a. blocked_reason s = Some br \<and> resume_state br = Member a"
  by (auto simp: session_wf_def reason_wf_def split: option.splits)

lemma session_wf_name: "session_wf s \<Longrightarrow> \<exists>n. state_name s = Member n"
  by (auto simp: session_wf_def)

lemma clear_reason_id:
  "blocked_reason s = None \<Longrightarrow> s\<lparr>state_name := n, blocked_reason := None\<rparr> = s\<lparr>state_name := n\<rparr>"
  by (cases s) simp

lemma current_not_completed:
  "session_wf s \<Longrightarrow> current_slice_id s = Some c \<Longrightarrow> c \<notin> set (completed_slice_ids s)"
  by (auto simp: session_wf_def plan_order_def)

text \<open>An accepted transition is a step, and ends in a well-formed session.\<close>

lemma resume_keeps_wf:
  "session_wf s \<Longrightarrow> session_wf (s\<lparr>state_name := Member (Active a), blocked_reason := None\<rparr>)"
  by (auto simp: session_wf_def plan_order_def reason_wf_def)

lemma transition_keeps_wf:
  assumes t: "transitionPawSessionState s t = Ok s'"
  shows "session_wf s'"
proof -
  from t have wf: "session_wf s" by (rule transition_wf)
  from session_wf_name [OF wf] obtain n where n: "state_name s = Member n" ..
  show ?thesis
  proof (cases n)
    case (Active a)
    with t wf n show ?thesis
      by (cases "to_state t") (auto simp: transition_active transition_block enterBlocked_Ok)
  next
    case (Blocked c)
    with t wf n show ?thesis
      by (auto simp: transition_resume resume_Ok intro: resume_keeps_wf)
  qed
qed

lemma apply_is_step:
  assumes wf: "session_wf s" and n: "state_name s = Member (Active a)"
    and b: "b \<in> set (PAW_ALLOWED_ACTIVE_TRANSITIONS a)"
    and g: "validateActiveTransitionGuard s a b ids = []"
  shows "paw_step s (applyActiveTransition s b ids)"
proof -
  consider (plan) "b = PLAN_APPROVED" | (sel) "b = SLICE_SELECT" | (fin) "b = SLICE_DONE"
    | (other) "b \<notin> {PLAN_APPROVED, SLICE_SELECT, SLICE_DONE}" by blast
  then show ?thesis
  proof cases
    case plan
    with b have "a = PLAN_DRAFTED" by (cases a) auto
    with plan g n show ?thesis
      by (auto simp: guard_Nil applyActiveTransition_def intro: paw_step.approve)
  next
    case sel
    with b have "a \<in> {PLAN_APPROVED, SLICE_DONE}" by (cases a) auto
    moreover from sel g obtain x xs where "pending_slice_ids s = x # xs"
      by (auto simp: guard_Nil neq_Nil_conv)
    ultimately show ?thesis using sel n
      by (simp add: applyActiveTransition_def paw_step.select)
  next
    case fin
    with b have a: "a = VERIFYING" by (cases a) auto
    from fin g obtain c where c: "current_slice_id s = Some c" by (auto simp: guard_Nil)
    with current_not_completed [OF wf c] fin n a show ?thesis
      by (simp add: applyActiveTransition_def paw_step.complete)
  next
    case other
    have "b = FINAL_REPORT \<Longrightarrow> a = SLICE_DONE" using b by (cases a) auto
    with other g n b have "paw_step s (s\<lparr>state_name := Member (Active b)\<rparr>)"
      by (intro paw_step.advance [of s a]) (auto simp: guard_Nil)
    with other clear_reason_id [OF session_wf_active_reason [OF wf n]] show ?thesis
      by (simp add: applyActiveTransition_def)
  qed
qed

lemma transition_is_step:
  assumes t: "transitionPawSessionState s t = Ok s'"
  shows "paw_step s s'"
proof -
  from t have wf: "session_wf s" by (rule transition_wf)
  from session_wf_name [OF wf] obtain n where n: "state_name s = Member n" ..
  show ?thesis
  proof (cases n)
    case (Active a)
    show ?thesis
    proof (cases "to_state t")
      case (Active b)
      with t wf n \<open>n = Active a\<close> show ?thesis by (auto simp: transition_active intro: apply_is_step)
    next
      case (Blocked c)
      with t wf n \<open>n = Active a\<close> have "enterBlockedState s a c (transition_reason t) = Ok s'"
        by (simp add: transition_block)
      then obtain r where r: "a \<notin> {IDLE, FINAL_REPORT}"
        "\<not> blank (input_message r)" "\<not> blank (input_suggested_action r)"
        "s' = blockedSession s a c r"
        unfolding enterBlocked_Ok by blast
      show ?thesis unfolding r(4) blockedSession_def
        by (rule paw_step.block) (use n \<open>n = Active a\<close> r in \<open>auto split: option.splits\<close>)
    qed
  next
    case (Blocked c)
    with t wf n show ?thesis by (auto simp: transition_resume resume_Ok intro: paw_step.resume)
  qed
qed

text \<open>Conversely every step between well-formed sessions is some transition.\<close>

lemma step_is_transition:
  assumes "paw_step s s'" and wf: "session_wf s" and wf': "session_wf s'"
  shows "\<exists>t. transitionPawSessionState s t = Ok s'"
  using assms
proof (induction rule: paw_step.induct)
  case (advance s a b)
  let ?t = "\<lparr>to_state = Active b, slice_ids = None, transition_reason = None\<rparr>"
  have "s\<lparr>state_name := Member (Active b)\<rparr> = applyActiveTransition s b None"
    using advance clear_reason_id [OF session_wf_active_reason [OF advance(6,1)]]
    by (simp add: applyActiveTransition_def)
  with advance have "transitionPawSessionState s ?t = Ok (s\<lparr>state_name := Member (Active b)\<rparr>)"
    by (subst transition_active [of s a _ b]) (auto simp: guard_Nil)
  then show ?case ..
next
  case (approve s xs)
  let ?t = "\<lparr>to_state = Active PLAN_APPROVED, slice_ids = Some xs, transition_reason = None\<rparr>"
  from approve have "transitionPawSessionState s ?t
      = Ok (s\<lparr>state_name := Member (Active PLAN_APPROVED), pending_slice_ids := xs\<rparr>)"
    by (subst transition_active) (auto simp: guard_Nil applyActiveTransition_def)
  then show ?case ..
next
  case (select s a x xs)
  let ?t = "\<lparr>to_state = Active SLICE_SELECT, slice_ids = None, transition_reason = None\<rparr>"
  from select have "transitionPawSessionState s ?t
      = Ok (s\<lparr>state_name := Member (Active SLICE_SELECT), current_slice_id := Some x,
         pending_slice_ids := xs\<rparr>)"
    by (subst transition_active) (auto simp: guard_Nil applyActiveTransition_def)
  then show ?case ..
next
  case (complete s c)
  let ?t = "\<lparr>to_state = Active SLICE_DONE, slice_ids = None, transition_reason = None\<rparr>"
  from complete current_not_completed [OF complete(3,2)] have "transitionPawSessionState s ?t
      = Ok (s\<lparr>state_name := Member (Active SLICE_DONE), current_slice_id := None,
         completed_slice_ids := completed_slice_ids s @ [c]\<rparr>)"
    by (subst transition_active) (auto simp: guard_Nil applyActiveTransition_def)
  then show ?case ..
next
  case (block s a m act i c)
  let ?t = "\<lparr>to_state = Blocked c, slice_ids = None, transition_reason = Some \<lparr>input_code = None,
     input_message = m, input_suggested_action = act, input_slice_id = i\<rparr>\<rparr>"
  from block have "transitionPawSessionState s ?t = Ok (s\<lparr>state_name := Member (Blocked c),
      blocked_reason := Some \<lparr>code = Member c, reason_message = m, suggested_action = act,
        reason_slice_id = i, resume_state = Member a\<rparr>\<rparr>)"
    by (subst transition_block) (auto simp: enterBlocked_Ok blockedSession_def split: option.splits)
  then show ?case ..
next
  case (resume s c br a)
  let ?t = "\<lparr>to_state = Active a, slice_ids = None, transition_reason = None\<rparr>"
  from resume have "transitionPawSessionState s ?t
      = Ok (s\<lparr>state_name := Member (Active a), blocked_reason := None\<rparr>)"
    by (simp add: transition_resume resume_Ok)
  then show ?case ..
qed

section \<open>Phases: which slice fields each state carries\<close>

text \<open>The active state a session is in or will resume to.\<close>

definition phase :: "PawSessionState \<Rightarrow> PawActiveStateName option" where
  "phase s = (case state_name s of
      Member (Active a) \<Rightarrow> Some a
    | Member (Blocked c) \<Rightarrow> (case blocked_reason s of
         Some br \<Rightarrow> (case resume_state br of Member a \<Rightarrow> Some a | Foreign n \<Rightarrow> None)
       | None \<Rightarrow> None)
    | Foreign n \<Rightarrow> None)"

definition working_states :: "PawActiveStateName set" where
  "working_states = {SLICE_SELECT, IMPLEMENTING, REVIEWING, VERIFYING}"

definition phase_inv :: "PawSessionState \<Rightarrow> bool" where
  "phase_inv s \<longleftrightarrow> session_wf s \<and>
     (\<exists>a. phase s = Some a
        \<and> (a \<in> working_states \<longleftrightarrow> current_slice_id s \<noteq> None)
        \<and> (a = PLAN_APPROVED \<longrightarrow> pending_slice_ids s \<noteq> [])
        \<and> (a \<notin> working_states \<union> {PLAN_APPROVED, SLICE_DONE} \<longrightarrow> pending_slice_ids s = []))"

lemma phase_inv_init: "\<not> blank sid \<Longrightarrow> phase_inv (createInitialPawSessionState sid)"
  by (simp add: phase_inv_def session_wf_def reason_wf_def plan_order_def phase_def
      working_states_def createInitialPawSessionState_def)

lemma phase_inv_step:
  assumes "paw_step s s'" "phase_inv s" "session_wf s'"
  shows "phase_inv s'"
  using assms
proof (induction rule: paw_step.induct)
  case (advance s a b)
  then show ?case
    by (cases a) (auto simp: phase_inv_def phase_def working_states_def)
qed (auto simp: phase_inv_def phase_def working_states_def)

lemma plan_order_step:
  assumes "paw_step s s'" "phase_inv s"
  shows "plan_order s' = plan_order s
     @ (if state_name s = Member (Active PLAN_DRAFTED) \<and> state_name s' = Member (Active PLAN_APPROVED)
        then pending_slice_ids s' else [])"
  using assms
proof (induction rule: paw_step.induct)
  case (advance s a b)
  then show ?case by (auto simp: plan_order_def)
qed (auto simp: plan_order_def phase_inv_def phase_def working_states_def split: option.splits)

text \<open>What a transition contributes to the plan: the slice ids of an approved plan.\<close>

definition approvedSlices :: "PawSessionState \<Rightarrow> PawStateTransition \<Rightarrow> string list" where
  "approvedSlices s t =
     (if state_name s = Member (Active PLAN_DRAFTED) \<and> to_state t = Active PLAN_APPROVED
      then (case slice_ids t of Some xs \<Rightarrow> xs | None \<Rightarrow> []) else [])"

lemma transition_account:
  assumes inv: "phase_inv s" and t: "transitionPawSessionState s t = Ok s'"
  shows "plan_order s' = plan_order s @ approvedSlices s t"
proof (cases "state_name s = Member (Active PLAN_DRAFTED)")
  case True
  from inv have wf: "session_wf s" by (simp add: phase_inv_def)
  show ?thesis
  proof (cases "to_state t")
    case (Active b)
    with t wf True have b: "b = PLAN_APPROVED" and s': "s' = applyActiveTransition s b (slice_ids t)"
      by (auto simp: transition_active)
    with True Active plan_order_step [OF transition_is_step [OF t] inv] show ?thesis
      by (simp add: applyActiveTransition_def approvedSlices_def)
  next
    case (Blocked c)
    with t wf True have "state_name s' = Member (Blocked c)"
      by (auto simp: transition_block enterBlocked_Ok blockedSession_def)
    with Blocked plan_order_step [OF transition_is_step [OF t] inv] show ?thesis
      by (simp add: approvedSlices_def)
  qed
next
  case False
  with plan_order_step [OF transition_is_step [OF t] inv] show ?thesis
    by (simp add: approvedSlices_def)
qed

text \<open>The session machine provides both contracts of the prelude.\<close>

interpretation session_machine: accounted_machine transitionPawSessionState phase_inv
  plan_order approvedSlices
proof
  fix s t s'
  assume "phase_inv s" "transitionPawSessionState s t = Ok s'"
  then show "phase_inv s'"
    by (blast intro: phase_inv_step transition_is_step transition_keeps_wf)
next
  fix s t s'
  assume "phase_inv s" "transitionPawSessionState s t = Ok s'"
  then show "plan_order s' = plan_order s @ approvedSlices s t"
    by (rule transition_account)
qed

section \<open>The canonical run of a plan\<close>

definition goto :: "PawActiveStateName \<Rightarrow> PawStateTransition" where
  "goto a = \<lparr>to_state = Active a, slice_ids = None, transition_reason = None\<rparr>"

definition slice_cycle :: "PawStateTransition list" where
  "slice_cycle = map goto [SLICE_SELECT, IMPLEMENTING, REVIEWING, VERIFYING, SLICE_DONE]"

text \<open>Past its guard, only a plan approval can still be rejected by the final validation.\<close>

lemma apply_keeps_wf:
  assumes "session_wf s" "state_name s = Member (Active a)" "b \<noteq> PLAN_APPROVED"
    and "validateActiveTransitionGuard s a b ids = []"
  shows "session_wf (applyActiveTransition s b ids)"
  using assms
  by (auto simp: session_wf_def plan_order_def applyActiveTransition_def reason_wf_def guard_Nil
      neq_Nil_conv split: option.splits)

lemma transition_goto:
  assumes "session_wf s" "state_name s = Member (Active a)" "b \<noteq> PLAN_APPROVED"
    and "b \<in> set (PAW_ALLOWED_ACTIVE_TRANSITIONS a)"
    and "validateActiveTransitionGuard s a b None = []"
  shows "transitionPawSessionState s (goto b) = Ok (applyActiveTransition s b None)"
  using assms apply_keeps_wf [OF assms(1,2,3,5)]
  by (subst transition_active [of s a _ b]) (auto simp: goto_def)

lemma transition_goto_name:
  assumes "session_wf s" "state_name s = Member (Active a)"
    and "b \<in> {IMPLEMENTING, REVIEWING, VERIFYING}" "b \<in> set (PAW_ALLOWED_ACTIVE_TRANSITIONS a)"
    and "current_slice_id s \<noteq> None"
  shows "transitionPawSessionState s (goto b) = Ok (s\<lparr>state_name := Member (Active b)\<rparr>)"
    and "session_wf (s\<lparr>state_name := Member (Active b)\<rparr>)"
proof -
  have g: "validateActiveTransitionGuard s a b None = []" using assms by (auto simp: guard_Nil)
  have eq: "applyActiveTransition s b None = s\<lparr>state_name := Member (Active b)\<rparr>"
    using assms clear_reason_id [OF session_wf_active_reason [OF assms(1,2)]]
    by (auto simp: applyActiveTransition_def)
  have ne: "b \<noteq> PLAN_APPROVED" using assms(3) by auto
  show "transitionPawSessionState s (goto b) = Ok (s\<lparr>state_name := Member (Active b)\<rparr>)"
    using transition_goto [OF assms(1,2) ne assms(4) g] by (simp add: eq)
  show "session_wf (s\<lparr>state_name := Member (Active b)\<rparr>)"
    using apply_keeps_wf [OF assms(1,2) ne g] by (simp add: eq)
qed

lemma slice_cycle_run:
  assumes wf: "session_wf s" and n: "state_name s = Member (Active a)"
    and a: "a \<in> {PLAN_APPROVED, SLICE_DONE}"
    and p: "pending_slice_ids s = x # xs"
  shows "run_steps transitionPawSessionState s slice_cycle
       = Ok (s\<lparr>state_name := Member (Active SLICE_DONE), current_slice_id := None,
             pending_slice_ids := xs, completed_slice_ids := completed_slice_ids s @ [x]\<rparr>)"
proof -
  let ?s1 = "s\<lparr>state_name := Member (Active SLICE_SELECT), current_slice_id := Some x,
              pending_slice_ids := xs\<rparr>"
  have g1: "validateActiveTransitionGuard s a SLICE_SELECT None = []" using p by (simp add: guard_Nil)
  have e1: "applyActiveTransition s SLICE_SELECT None = ?s1" using p
    by (simp add: applyActiveTransition_def)
  have t1: "transitionPawSessionState s (goto SLICE_SELECT) = Ok ?s1" and w1: "session_wf ?s1"
    using transition_goto [OF wf n _ _ g1] apply_keeps_wf [OF wf n _ g1] a by (auto simp: e1)
  note t2 = transition_goto_name [OF w1, of SLICE_SELECT IMPLEMENTING, simplified]
  note t3 = transition_goto_name [OF t2(2), of IMPLEMENTING REVIEWING, simplified]
  note t4 = transition_goto_name [OF t3(2), of REVIEWING VERIFYING, simplified]
  let ?s4 = "?s1\<lparr>state_name := Member (Active VERIFYING)\<rparr>"
  have n4: "state_name ?s4 = Member (Active VERIFYING)" by simp
  have w4: "session_wf ?s4" using t4(2) by simp
  have x: "x \<notin> set (completed_slice_ids s)" using current_not_completed [OF w4] by simp
  have t5: "transitionPawSessionState ?s4 (goto SLICE_DONE) = Ok (applyActiveTransition ?s4 SLICE_DONE None)"
    by (rule transition_goto [OF w4 n4]) (auto simp: guard_Nil)
  show ?thesis
    using t1 t2(1) t3(1) t4(1) t5 x by (simp add: slice_cycle_def applyActiveTransition_def)
qed

lemma plan_run:
  assumes "session_wf s" "state_name s = Member (Active a)" "a \<in> {PLAN_APPROVED, SLICE_DONE}"
    and "current_slice_id s = None" and "a = PLAN_APPROVED \<Longrightarrow> pending_slice_ids s \<noteq> []"
  shows "run_steps transitionPawSessionState s
           (concat (replicate (length (pending_slice_ids s)) slice_cycle) @ [goto FINAL_REPORT])
       = Ok (s\<lparr>state_name := Member (Active FINAL_REPORT), pending_slice_ids := [],
             completed_slice_ids := completed_slice_ids s @ pending_slice_ids s\<rparr>)"
  using assms
proof (induction "pending_slice_ids s" arbitrary: s a)
  case Nil
  then have a: "a = SLICE_DONE" by auto
  from Nil have g: "validateActiveTransitionGuard s a FINAL_REPORT None = []" by (simp add: guard_Nil)
  from Nil a have "transitionPawSessionState s (goto FINAL_REPORT)
      = Ok (applyActiveTransition s FINAL_REPORT None)"
    by (intro transition_goto [of s a]) (auto simp: guard_Nil)
  with Nil session_wf_active_reason [OF Nil.prems(1,2)] show ?case
    by (cases s) (simp add: applyActiveTransition_def)
next
  case (Cons x xs)
  let ?u = "s\<lparr>state_name := Member (Active SLICE_DONE), current_slice_id := None,
             pending_slice_ids := xs, completed_slice_ids := completed_slice_ids s @ [x]\<rparr>"
  have c: "run_steps transitionPawSessionState s slice_cycle = Ok ?u"
    using Cons by (intro slice_cycle_run) auto
  have "phase_inv s"
    using Cons.prems Cons.hyps(2) [symmetric]
    by (auto simp: phase_inv_def phase_def working_states_def)
  with c have "session_wf ?u"
    using session_machine.run_inv phase_inv_def by blast
  with Cons.hyps(1) [of ?u SLICE_DONE] have
    "run_steps transitionPawSessionState ?u
       (concat (replicate (length xs) slice_cycle) @ [goto FINAL_REPORT])
     = Ok (?u\<lparr>state_name := Member (Active FINAL_REPORT), pending_slice_ids := [],
           completed_slice_ids := completed_slice_ids ?u @ xs\<rparr>)"
    by simp
  with c Cons.hyps(2) [symmetric] Cons.prems(4) show ?case
    by (cases s) (simp add: run_steps_append)
qed

section \<open>Properties of the session machine\<close>

lemma fresh_slice_id: "\<exists>x. \<not> blank x \<and> x \<notin> set xs"
proof -
  let ?x = "CHR ''a'' # concat xs"
  have "length y \<le> length (concat xs)" if "y \<in> set xs" for y
    using that by (simp add: length_concat member_le_sum_list)
  then have "?x \<notin> set xs" by fastforce
  moreover have "\<not> blank ?x" by (simp add: blank_iff_all_space js_space_def)
  ultimately show ?thesis by blast
qed

lemma approve_step_possible:
  assumes "phase_inv s" "state_name s = Member (Active PLAN_DRAFTED)"
  shows "\<exists>t s'. transitionPawSessionState s t = Ok s'"
proof -
  obtain x where x: "\<not> blank x" "x \<notin> set (plan_order s)" using fresh_slice_id by blast
  let ?t = "\<lparr>to_state = Active PLAN_APPROVED, slice_ids = Some [x], transition_reason = None\<rparr>"
  from assms have wf: "session_wf s" and cur: "current_slice_id s = None"
    and p: "pending_slice_ids s = []"
    by (auto simp: phase_inv_def phase_def working_states_def)
  have "transitionPawSessionState s ?t = Ok (applyActiveTransition s PLAN_APPROVED (Some [x]))"
    using wf assms(2) x cur p
    by (subst transition_active)
      (auto simp: guard_Nil session_wf_def plan_order_def applyActiveTransition_def reason_wf_def)
  then show ?thesis by blast
qed

text \<open>
  A session record passes \<open>assertValidPawSessionState\<close> exactly when it is well-formed:
  a non-blank id, a known state name whose blocked metadata fits it, and slice ids that are
  non-blank and pairwise different across the completed, current and pending slices.
  Otherwise the result carries at least one issue.
\<close>

theorem session_validation_decides_wf:
  "assertValidPawSessionState s =
     (if session_wf s then Ok s else Invalid (sessionStateIssues s))
   \<and> (sessionStateIssues s = [] \<longleftrightarrow> session_wf s)"
  by (simp add: assertValid_wf assertValid_not_wf sessionStateIssues_Nil)

text \<open>
  (C3) The transition function implements exactly the step relation: some transition takes
  the session \<open>s\<close> to \<open>s'\<close> iff both are well-formed and \<open>s'\<close> is an advance along the
  transition table, a plan approval, a slice selection, a slice completion, a block or a
  resume of \<open>s\<close>.
\<close>

theorem transition_implements_steps:
  "(\<exists>t. transitionPawSessionState s t = Ok s') \<longleftrightarrow> session_wf s \<and> session_wf s' \<and> paw_step s s'"
  by (blast intro: transition_wf transition_keeps_wf transition_is_step step_is_transition)

text \<open>
  (C1) Along every accepted run from a new session, the completed, current and pending slices,
  read in this order, are exactly the slices of the approved plans in plan order: no slice is
  lost, duplicated, reordered or executed out of turn, whatever blocks and resumes happen in
  between.
\<close>

theorem plan_slices_conserved:
  assumes "\<not> blank sid"
    and "run_steps transitionPawSessionState (createInitialPawSessionState sid) ts = Ok s"
  shows "plan_order s =
     run_total transitionPawSessionState approvedSlices (createInitialPawSessionState sid) ts"
proof -
  have "plan_order (createInitialPawSessionState sid) = []"
    by (simp add: plan_order_def createInitialPawSessionState_def)
  with session_machine.run_account [OF phase_inv_init [OF assms(1)] assms(2)] show ?thesis by simp
qed

definition intake_to_plan :: "string list \<Rightarrow> PawStateTransition list" where
  "intake_to_plan ids = map goto [INTAKE, CLASSIFYING, CLARIFYING, SPEC_DRAFTED, SPEC_APPROVED,
     SCOUTING, PLAN_DRAFTED]
     @ [\<lparr>to_state = Active PLAN_APPROVED, slice_ids = Some ids, transition_reason = None\<rparr>]"

definition sample_session :: "PawSessionStateName \<Rightarrow> string option \<Rightarrow> string list \<Rightarrow> string list \<Rightarrow>
    PawSessionState" where
  "sample_session n cur pend compl = \<lparr>session_id = ''s1'', state_name = Member n,
     current_slice_id = cur, pending_slice_ids = pend, completed_slice_ids = compl,
     blocked_reason = None\<rparr>"

lemma sample_run:
  "run_steps transitionPawSessionState (createInitialPawSessionState ''s1'')
     (intake_to_plan [''a'', ''b''] @ slice_cycle @ [goto SLICE_SELECT])
   = Ok (sample_session (Active SLICE_SELECT) (Some ''b'') [] [''a''])"
  by code_simp

lemma sample_run_final:
  "run_steps transitionPawSessionState (createInitialPawSessionState ''s1'')
     (intake_to_plan [''a''] @ slice_cycle @ [goto FINAL_REPORT])
   = Ok (sample_session (Active FINAL_REPORT) None [] [''a''])"
  by code_simp

theorem plan_slices_conserved_witness:
  "plan_order (sample_session (Active SLICE_SELECT) (Some ''b'') [] [''a'']) =
     run_total transitionPawSessionState approvedSlices (createInitialPawSessionState ''s1'')
       (intake_to_plan [''a'', ''b''] @ slice_cycle @ [goto SLICE_SELECT])"
  by (rule plan_slices_conserved [OF _ sample_run]) code_simp

text \<open>
  (C2) A run that has reached the final report (or gone back to \<open>IDLE\<close> after it) has
  completed every slice of every approved plan, in plan order; nothing is pending or current.
\<close>

theorem final_report_completes_plan:
  assumes "\<not> blank sid"
    and "run_steps transitionPawSessionState (createInitialPawSessionState sid) ts = Ok s"
    and "state_name s = Member (Active FINAL_REPORT) \<or> state_name s = Member (Active IDLE)"
  shows "completed_slice_ids s =
     run_total transitionPawSessionState approvedSlices (createInitialPawSessionState sid) ts
   \<and> current_slice_id s = None \<and> pending_slice_ids s = []"
proof -
  have "plan_order s =
     run_total transitionPawSessionState approvedSlices (createInitialPawSessionState sid) ts"
    using session_machine.run_account [OF phase_inv_init [OF assms(1)] assms(2)]
    by (simp add: plan_order_def createInitialPawSessionState_def)
  moreover have "phase_inv s"
    using session_machine.run_inv [OF phase_inv_init [OF assms(1)] assms(2)] .
  ultimately show ?thesis using assms(3)
    by (auto simp: phase_inv_def phase_def working_states_def plan_order_def)
qed

theorem final_report_completes_plan_witness:
  "[''a''] = run_total transitionPawSessionState approvedSlices (createInitialPawSessionState ''s1'')
     (intake_to_plan [''a''] @ slice_cycle @ [goto FINAL_REPORT])"
proof -
  have "\<not> blank ''s1''" by code_simp
  from final_report_completes_plan [OF this sample_run_final] show ?thesis
    by (simp add: sample_session_def)
qed

text \<open>
  (C36) Blocking loses nothing: resuming a blocked session at the state it was blocked in gives
  back the session as it was before the block, and every other target is rejected.
\<close>

theorem block_resume_roundtrip:
  assumes "transitionPawSessionState s t = Ok b"
    and "state_name s = Member (Active a)" and "to_state t = Blocked c"
  shows "transitionPawSessionState b u = Ok r \<longleftrightarrow> to_state u = Active a \<and> r = s"
proof -
  from assms(1) have wf: "session_wf s" and wb: "session_wf b"
    by (auto intro: transition_wf transition_keeps_wf)
  from assms wf obtain i where b: "b = blockedSession s a c i"
    by (auto simp: transition_block enterBlocked_Ok)
  have "s = b\<lparr>state_name := Member (Active a), blocked_reason := None\<rparr>"
    using assms(2) session_wf_active_reason [OF wf assms(2)]
    by (cases s) (simp add: b blockedSession_def)
  moreover have "state_name b = Member (Blocked c)"
    and "\<exists>br. blocked_reason b = Some br \<and> resume_state br = Member a"
    by (simp_all add: b blockedSession_def)
  ultimately show ?thesis by (auto simp: transition_resume [OF wb] resume_Ok)
qed

definition sample_block :: PawStateTransition where
  "sample_block = \<lparr>to_state = Blocked TEST_FAILURE, slice_ids = None,
     transition_reason = Some \<lparr>input_code = None, input_message = ''m'',
       input_suggested_action = ''fix'', input_slice_id = None\<rparr>\<rparr>"

definition sample_blocked :: PawSessionState where
  "sample_blocked = (sample_session (Blocked TEST_FAILURE) (Some ''b'') [''c''] [''a''])
     \<lparr>blocked_reason := Some \<lparr>code = Member TEST_FAILURE, reason_message = ''m'',
       suggested_action = ''fix'', reason_slice_id = Some ''b'',
       resume_state = Member IMPLEMENTING\<rparr>\<rparr>"

lemma sample_block_run:
  "transitionPawSessionState (sample_session (Active IMPLEMENTING) (Some ''b'') [''c''] [''a''])
     sample_block = Ok sample_blocked"
  by code_simp

theorem block_resume_roundtrip_witness:
  "transitionPawSessionState sample_blocked (goto IMPLEMENTING)
     = Ok (sample_session (Active IMPLEMENTING) (Some ''b'') [''c''] [''a''])"
  using block_resume_roundtrip [OF sample_block_run, of IMPLEMENTING TEST_FAILURE "goto IMPLEMENTING"]
  by (simp add: sample_block_def sample_session_def goto_def)

text \<open>
  The plan can always be driven to its end: from an approved plan (or between slices) the
  sequence select, implement, review, verify, complete, repeated once per pending slice and
  followed by the final report, is accepted at every step and completes the pending slices in
  order.
\<close>

theorem plan_can_be_completed:
  assumes "session_wf s" and "state_name s = Member (Active a)"
    and "a = PLAN_APPROVED \<and> pending_slice_ids s \<noteq> [] \<or> a = SLICE_DONE"
    and "current_slice_id s = None"
  shows "run_steps transitionPawSessionState s
           (concat (replicate (length (pending_slice_ids s)) slice_cycle) @ [goto FINAL_REPORT])
       = Ok (s\<lparr>state_name := Member (Active FINAL_REPORT), pending_slice_ids := [],
             completed_slice_ids := completed_slice_ids s @ pending_slice_ids s\<rparr>)"
  using assms by (intro plan_run [of s a]) auto

theorem plan_can_be_completed_witness:
  "run_steps transitionPawSessionState
     (sample_session (Active PLAN_APPROVED) None [''a'', ''b''] [])
     (slice_cycle @ slice_cycle @ [goto FINAL_REPORT])
   = Ok (sample_session (Active FINAL_REPORT) None [] [''a'', ''b''])"
proof -
  have "session_wf (sample_session (Active PLAN_APPROVED) None [''a'', ''b''] [])"
    unfolding sessionStateIssues_Nil [symmetric] by code_simp
  from plan_can_be_completed [OF this, of PLAN_APPROVED] show ?thesis
    by (simp add: sample_session_def)
qed

text \<open>
  No state a session can reach is a dead end: every session that satisfies the phase
  invariant, in particular every state reached from a new session, accepts some transition.
\<close>

theorem session_never_stuck:
  assumes "phase_inv s"
  shows "\<exists>t s'. transitionPawSessionState s t = Ok s'"
proof -
  from assms have wf: "session_wf s" by (simp add: phase_inv_def)
  from session_wf_name [OF wf] obtain n where n: "state_name s = Member n" ..
  show ?thesis
  proof (cases n)
    case (Blocked c)
    with wf n session_wf_blocked_reason obtain br a where
      "blocked_reason s = Some br" "resume_state br = Member a" by blast
    then have "transitionPawSessionState s (goto a)
        = Ok (s\<lparr>state_name := Member (Active a), blocked_reason := None\<rparr>)"
      using transition_resume [OF wf, of c "goto a"] n Blocked by (simp add: resume_Ok goto_def)
    then show ?thesis by blast
  next
    case (Active a)
    show ?thesis
    proof (cases "a = PLAN_DRAFTED")
      case True
      with assms n Active show ?thesis by (intro approve_step_possible) auto
    next
      case False
      define b where "b = (if a = SLICE_DONE \<and> pending_slice_ids s = [] then FINAL_REPORT
        else hd (PAW_ALLOWED_ACTIVE_TRANSITIONS a))"
      have "b \<in> set (PAW_ALLOWED_ACTIVE_TRANSITIONS a)" "b \<noteq> PLAN_APPROVED"
        "validateActiveTransitionGuard s a b None = []"
        using assms n Active False
        by (cases a; auto simp: b_def guard_Nil phase_inv_def phase_def working_states_def)+
      then show ?thesis using transition_goto [OF wf] n Active by blast
    qed
  qed
qed

theorem session_never_stuck_witness:
  "\<exists>t s'. transitionPawSessionState (createInitialPawSessionState ''s1'') t = Ok s'"
  by (rule session_never_stuck, rule phase_inv_init) code_simp

end
