(* ===== verification/Paw_Json.thy ===== *)
theory Paw_Json
  imports Paw_Prelude
begin

text \<open>
  Values of the type \<open>unknown\<close>: what \<open>JSON.parse\<close> returns and what planner and sub-agent
  outputs hold before they are validated. An object is its list of own properties in
  insertion order. Numbers are the finite numbers (exact rationals stand for binary64
  values, so rounding is not modelled), the two infinities and \<open>NaN\<close>.
\<close>

section \<open>Numbers\<close>

datatype js_number = Num rat | Infinity | NegInfinity | NaN

fun js_gt :: "js_number \<Rightarrow> js_number \<Rightarrow> bool" where
  "js_gt NaN y = False"
| "js_gt x NaN = False"
| "js_gt Infinity y = (y \<noteq> Infinity)"
| "js_gt x Infinity = False"
| "js_gt x NegInfinity = (x \<noteq> NegInfinity)"
| "js_gt NegInfinity y = False"
| "js_gt (Num a) (Num b) = (a > b)"

fun js_neg :: "js_number \<Rightarrow> js_number" where
  "js_neg (Num a) = Num (- a)"
| "js_neg Infinity = NegInfinity"
| "js_neg NegInfinity = Infinity"
| "js_neg NaN = NaN"

fun js_add :: "js_number \<Rightarrow> js_number \<Rightarrow> js_number" where
  "js_add NaN y = NaN"
| "js_add x NaN = NaN"
| "js_add Infinity NegInfinity = NaN"
| "js_add NegInfinity Infinity = NaN"
| "js_add Infinity y = Infinity"
| "js_add x Infinity = Infinity"
| "js_add NegInfinity y = NegInfinity"
| "js_add x NegInfinity = NegInfinity"
| "js_add (Num a) (Num b) = Num (a + b)"

definition js_sub :: "js_number \<Rightarrow> js_number \<Rightarrow> js_number" where
  "js_sub x y = js_add x (js_neg y)"

text \<open>Multiplication by a positive finite constant, the only product of unknown numbers used.\<close>

fun js_scale :: "rat \<Rightarrow> js_number \<Rightarrow> js_number" where
  "js_scale k (Num a) = Num (k * a)"
| "js_scale k y = y"

fun js_isFinite :: "js_number \<Rightarrow> bool" where
  "js_isFinite (Num a) = True"
| "js_isFinite Infinity = False"
| "js_isFinite NegInfinity = False"
| "js_isFinite NaN = False"

fun js_isInteger :: "js_number \<Rightarrow> bool" where
  "js_isInteger (Num a) = (a = of_int \<lfloor>a\<rfloor>)"
| "js_isInteger Infinity = False"
| "js_isInteger NegInfinity = False"
| "js_isInteger NaN = False"

text \<open>The integer a number is, when it is one.\<close>

fun js_integer :: "js_number \<Rightarrow> int" where
  "js_integer (Num q) = floor q"
| "js_integer x = 0"

lemma js_isFinite_iff: "js_isFinite x \<longleftrightarrow> (\<exists>a. x = Num a)"
  by (cases x) auto

lemma js_isInteger_iff: "js_isInteger x \<longleftrightarrow> (\<exists>n :: int. x = Num (of_int n))"
  by (cases x) (auto intro: exI [where x = "\<lfloor>_\<rfloor>"])

section \<open>Values\<close>

datatype json =
    JUndefined | JNull | JBool bool | JNumber js_number | JString string
  | JArray "json list" | JObject "(string \<times> json) list"

text \<open>\<open>record[key]\<close>, which is \<open>undefined\<close> for a missing property, and \<open>key in record\<close>.\<close>

definition json_get :: "(string \<times> json) list \<Rightarrow> string \<Rightarrow> json" where
  "json_get rec key = (case map_of rec key of Some v \<Rightarrow> v | None \<Rightarrow> JUndefined)"

definition json_has :: "(string \<times> json) list \<Rightarrow> string \<Rightarrow> bool" where
  "json_has rec key \<longleftrightarrow> map_of rec key \<noteq> None"

fun json_strings :: "json list \<Rightarrow> string list option" where
  "json_strings [] = Some []"
| "json_strings (JString s # vs) = map_option (Cons s) (json_strings vs)"
| "json_strings (v # vs) = None"

lemma json_strings_map [simp]: "json_strings (map JString xs) = Some xs"
  by (induction xs) auto

lemma json_strings_Some: "json_strings vs = Some xs \<longleftrightarrow> vs = map JString xs"
proof
  show "json_strings vs = Some xs \<Longrightarrow> vs = map JString xs"
    by (induction vs arbitrary: xs rule: json_strings.induct) auto
qed simp

section \<open>Readers that collect issues\<close>

text \<open>
  The readers of \<open>session-store.ts\<close>: each returns the value, or a placeholder together with
  the issue it pushes.
\<close>

definition readRecord :: "json \<Rightarrow> string \<Rightarrow> (string \<times> json) list \<times> PawValidationIssue list" where
  "readRecord v path =
     (case v of
        JObject rec \<Rightarrow> (rec, [])
      | _ \<Rightarrow> ([], [Issue (if path = '''' then ''/'' else path) ''Expected object.'']))"

definition readString ::
  "(string \<times> json) list \<Rightarrow> string \<Rightarrow> string \<Rightarrow> string \<times> PawValidationIssue list" where
  "readString rec key prefix =
     (case json_get rec key of
        JString s \<Rightarrow> (s, [])
      | _ \<Rightarrow> ('''', [Issue (prefix @ ''/'' @ key) ''Expected string.'']))"

definition readNullableString ::
  "(string \<times> json) list \<Rightarrow> string \<Rightarrow> string \<Rightarrow> string option \<times> PawValidationIssue list" where
  "readNullableString rec key prefix =
     (case json_get rec key of
        JNull \<Rightarrow> (None, [])
      | JString s \<Rightarrow> (Some s, [])
      | _ \<Rightarrow> (None, [Issue (prefix @ ''/'' @ key) ''Expected string or null.'']))"

definition readStringArray ::
  "(string \<times> json) list \<Rightarrow> string \<Rightarrow> string list \<times> PawValidationIssue list" where
  "readStringArray rec key =
     (case json_get rec key of
        JArray vs \<Rightarrow>
          (case json_strings vs of
             Some xs \<Rightarrow> (xs, [])
           | None \<Rightarrow> ([], [Issue (''/'' @ key) ''Expected string array.'']))
      | _ \<Rightarrow> ([], [Issue (''/'' @ key) ''Expected string array.'']))"

definition readNumber ::
  "(string \<times> json) list \<Rightarrow> string \<Rightarrow> js_number \<times> PawValidationIssue list" where
  "readNumber rec key =
     (case json_get rec key of
        JNumber n \<Rightarrow> (n, [])
      | _ \<Rightarrow> (NaN, [Issue (''/'' @ key) ''Expected number.'']))"

definition formatValidationIssues :: "string \<Rightarrow> PawValidationIssue list \<Rightarrow> string" where
  "formatValidationIssues prefix issues =
     prefix @ '': '' @ join_with ''; '' (map (\<lambda>i. issue_path i @ '' '' @ issue_message i) issues)"

lemmas reader_defs = readRecord_def readString_def readNullableString_def readStringArray_def
  readNumber_def json_get_def

end
