(* ===== verification/Paw_Store.thy ===== *)
theory Paw_Store
  imports Paw_State Paw_Json
begin

text \<open>
  Durable session storage, \<open>paw/session-store.ts\<close> with the file operations it uses of
  \<open>paw/persistence.ts\<close>: session paths, the encoding of session states and locks as JSON
  documents and their checked decoding, reading and writing the state file, and the session
  lock with its staleness rules. Each operation here runs without interference from other
  processes; \<open>Paw_Lock_Race\<close> models the interleaved file operations.

  A file is the JSON value its text parses to, or text that does not parse. Directories,
  permissions and I/O failures other than a missing file are not modelled, and a repository
  root is a path that \<open>path.resolve\<close> has already made absolute.
\<close>

section \<open>Files\<close>

datatype file_text = JsonText json | BrokenText string

type_synonym files = "string \<Rightarrow> file_text option"

definition syntaxErrorMessage :: "string \<Rightarrow> string" where
  "syntaxErrorMessage txt = ''Unexpected token in JSON: '' @ txt"

text \<open>\<open>readPawJson\<close>: \<open>readFile\<close> then \<open>JSON.parse\<close>.\<close>

definition readPawJson :: "files \<Rightarrow> string \<Rightarrow> json throws" where
  "readPawJson fs path =
     (case fs path of
        None \<Rightarrow> Inl (FileSystemError ''ENOENT'')
      | Some (BrokenText txt) \<Rightarrow> Inl (JsError (syntaxErrorMessage txt))
      | Some (JsonText v) \<Rightarrow> Inr v)"

text \<open>
  \<open>writePawJsonAtomic\<close>: the value goes to a fresh temporary file that is then renamed over
  the target, so the target holds either its old or its new content.
\<close>

definition writePawJsonAtomic :: "files \<Rightarrow> string \<Rightarrow> json \<Rightarrow> files" where
  "writePawJsonAtomic fs path v = fs(path \<mapsto> JsonText v)"

definition removeFileIfExists :: "files \<Rightarrow> string \<Rightarrow> bool \<times> files" where
  "removeFileIfExists fs path = (fs path \<noteq> None, fs(path := None))"

text \<open>\<open>join\<close> of a resolved directory and one plain segment.\<close>

definition pathJoin :: "string \<Rightarrow> string \<Rightarrow> string" where
  "pathJoin dir seg = (if ends_with ''/'' dir then dir @ seg else dir @ ''/'' @ seg)"

section \<open>Session paths\<close>

record PawProjectPaths =
  project_root :: string
  pawDir :: string
  configFile :: string
  versionFile :: string
  memoryDir :: string
  memoriesFile :: string
  rulesDir :: string
  decisionsDir :: string
  gitignoreFile :: string

definition resolvePawProjectPaths :: "string \<Rightarrow> PawProjectPaths" where
  "resolvePawProjectPaths repo =
     (let paw = pathJoin repo ''.paw''; mem = pathJoin paw ''memory'' in
      \<lparr>project_root = repo, pawDir = paw, configFile = pathJoin paw ''config.yaml'',
       versionFile = pathJoin paw ''version'', memoryDir = mem,
       memoriesFile = pathJoin mem ''memories.yaml'', rulesDir = pathJoin paw ''rules'',
       decisionsDir = pathJoin paw ''decisions'', gitignoreFile = pathJoin paw ''.gitignore''\<rparr>)"

record PawSessionPaths =
  path_repoRoot :: string
  path_sessionId :: string
  sessionDir :: string
  stateFile :: string
  sliceJournalFile :: string
  summaryFile :: string
  transcriptFile :: string
  reportJsonFile :: string
  lockFile :: string
  verificationEvidenceFile :: string

definition is_alnum :: "char \<Rightarrow> bool" where
  "is_alnum c \<longleftrightarrow> (let n = (of_char c :: nat) in
     65 \<le> n \<and> n \<le> 90 \<or> 97 \<le> n \<and> n \<le> 122 \<or> 48 \<le> n \<and> n \<le> 57)"

text \<open>The pattern of \<open>assertValidSessionId\<close>: alphanumeric at both ends, also \<open>.\<close>, \<open>_\<close>, \<open>-\<close> inside.\<close>

definition validSessionId :: "string \<Rightarrow> bool" where
  "validSessionId s \<longleftrightarrow> s \<noteq> [] \<and> is_alnum (hd s) \<and> is_alnum (last s)
     \<and> list_all (\<lambda>c. is_alnum c \<or> c \<in> set ''._-'') s"

definition assertValidSessionId :: "string \<Rightarrow> unit throws" where
  "assertValidSessionId s =
     (if validSessionId s then Inr ()
      else Inl (JsError (''Paw session id must be non-empty, contain only alphanumeric characters, ''
        @ [CHR 0x27] @ ''-'' @ [CHR 0x27] @ '', '' @ [CHR 0x27] @ ''_'' @ [CHR 0x27] @ '', and ''
        @ [CHR 0x27] @ ''.'' @ [CHR 0x27]
        @ '', and start and end with an alphanumeric character.'')))"

definition sessionPaths :: "string \<Rightarrow> string \<Rightarrow> PawSessionPaths" where
  "sessionPaths repo sid =
     (let pp = resolvePawProjectPaths repo;
          dir = pathJoin (pathJoin (pawDir pp) ''sessions'') sid in
      \<lparr>path_repoRoot = project_root pp, path_sessionId = sid, sessionDir = dir,
       stateFile = pathJoin dir ''state.json'',
       sliceJournalFile = pathJoin dir ''slice-journal.jsonl'',
       summaryFile = pathJoin dir ''summary.md'',
       transcriptFile = pathJoin dir ''transcript.jsonl'',
       reportJsonFile = pathJoin dir ''report.json'',
       lockFile = pathJoin dir ''session.lock'',
       verificationEvidenceFile = pathJoin dir ''verification-evidence.json''\<rparr>)"

definition resolvePawSessionPaths :: "string \<Rightarrow> string \<Rightarrow> PawSessionPaths throws" where
  "resolvePawSessionPaths repo sid =
     (case assertValidSessionId sid of
        Inl e \<Rightarrow> Inl e
      | Inr u \<Rightarrow> Inr (sessionPaths repo sid))"

section \<open>Session states as JSON\<close>

definition json_of_option :: "string option \<Rightarrow> json" where
  "json_of_option v = (case v of None \<Rightarrow> JNull | Some s \<Rightarrow> JString s)"

definition json_of_reason :: "PawBlockedReason \<Rightarrow> json" where
  "json_of_reason br = JObject
     [(''code'', JString (castString blockedCodeString (code br))),
      (''message'', JString (reason_message br)),
      (''suggested_action'', JString (suggested_action br)),
      (''slice_id'', json_of_option (reason_slice_id br)),
      (''resume_state'', JString (castString activeStateString (resume_state br)))]"

definition json_of_state :: "PawSessionState \<Rightarrow> json" where
  "json_of_state s = JObject
     [(''session_id'', JString (session_id s)),
      (''name'', JString (castString stateNameString (state_name s))),
      (''current_slice_id'', json_of_option (current_slice_id s)),
      (''pending_slice_ids'', JArray (map JString (pending_slice_ids s))),
      (''completed_slice_ids'', JArray (map JString (completed_slice_ids s))),
      (''blocked_reason'', case blocked_reason s of None \<Rightarrow> JNull | Some br \<Rightarrow> json_of_reason br)]"

definition readBlockedReason ::
  "(string \<times> json) list \<Rightarrow> PawBlockedReason option \<times> PawValidationIssue list" where
  "readBlockedReason rec =
     (let v = json_get rec ''blocked_reason'' in
      if v = JNull then (None, [])
      else
        let (br, i0) = readRecord v ''/blocked_reason'';
            (c, i1) = readString br ''code'' ''/blocked_reason'';
            (m, i2) = readString br ''message'' ''/blocked_reason'';
            (a, i3) = readString br ''suggested_action'' ''/blocked_reason'';
            (sl, i4) = readNullableString br ''slice_id'' ''/blocked_reason'';
            (r, i5) = readString br ''resume_state'' ''/blocked_reason''
        in (Some \<lparr>code = castOf blockedCodeString PAW_BLOCKED_REASON_CODES c, reason_message = m,
              suggested_action = a, reason_slice_id = sl,
              resume_state = castOf activeStateString PAW_ACTIVE_STATE_NAMES r\<rparr>,
            i0 @ i1 @ i2 @ i3 @ i4 @ i5))"

definition parsePawSessionState :: "json \<Rightarrow> PawSessionState throws" where
  "parsePawSessionState v =
     (let (rec, i0) = readRecord v '''';
          (sid, i1) = readString rec ''session_id'' '''';
          (nm, i2) = readString rec ''name'' '''';
          (cur, i3) = readNullableString rec ''current_slice_id'' '''';
          (pend, i4) = readStringArray rec ''pending_slice_ids'';
          (done, i5) = readStringArray rec ''completed_slice_ids'';
          (br, i6) = readBlockedReason rec;
          issues = i0 @ i1 @ i2 @ i3 @ i4 @ i5 @ i6;
          s = \<lparr>session_id = sid, state_name = castOf stateNameString PAW_SESSION_STATE_NAMES nm,
               current_slice_id = cur, pending_slice_ids = pend, completed_slice_ids = done,
               blocked_reason = br\<rparr>
      in if length issues > 0
         then Inl (JsError (formatValidationIssues ''Invalid Paw session state'' issues))
         else (case assertValidPawSessionState s of
                 Invalid is \<Rightarrow> Inl (JsError (formatValidationIssues ''Invalid Paw session state'' is))
               | Ok s' \<Rightarrow> Inr s'))"

definition writePawSessionState :: "string \<Rightarrow> files \<Rightarrow> PawSessionState \<Rightarrow> files throws" where
  "writePawSessionState repo fs s =
     (case assertValidPawSessionState s of
        Invalid is \<Rightarrow> Inl (JsError (formatValidationIssues ''Invalid Paw session state'' is))
      | Ok v \<Rightarrow>
          (case resolvePawSessionPaths repo (session_id v) of
             Inl e \<Rightarrow> Inl e
           | Inr p \<Rightarrow> Inr (writePawJsonAtomic fs (stateFile p) (json_of_state v))))"

definition readPawSessionState :: "string \<Rightarrow> files \<Rightarrow> string \<Rightarrow> PawSessionState throws" where
  "readPawSessionState repo fs sid =
     (case resolvePawSessionPaths repo sid of
        Inl e \<Rightarrow> Inl e
      | Inr p \<Rightarrow> (case readPawJson fs (stateFile p) of Inl e \<Rightarrow> Inl e | Inr v \<Rightarrow> parsePawSessionState v))"

section \<open>The session lock\<close>

record PawSessionLock =
  pid :: js_number
  host :: string
  heartbeat_ts :: js_number
  ttl :: js_number

datatype PawSessionLockStaleReason = dead_pid | expired_heartbeat

record PawSessionLockOptions =
  nowMs :: "js_number option"
  ttlSec :: "js_number option"
  opt_pid :: "js_number option"
  opt_host :: "string option"

text \<open>
  What the process sees of its environment: its pid, host name and clock, and the error code
  with which \<open>process.kill(pid, 0)\<close> fails, if it fails.
\<close>

record process_env =
  process_pid :: js_number
  hostname :: string
  date_now :: js_number
  kill_probe :: "js_number \<Rightarrow> string option"

datatype PawLockAcquireResult =
    Acquired PawSessionLock "(PawSessionLockStaleReason \<times> PawSessionLock) option"
  | LiveLock PawSessionLock

datatype PawSessionLockStatus =
    Unlocked
  | Locked PawSessionLock
  | Stale PawSessionLockStaleReason PawSessionLock

definition DEFAULT_PAW_SESSION_LOCK_TTL_SEC :: js_number where
  "DEFAULT_PAW_SESSION_LOCK_TTL_SEC = Num 120"

definition or_else :: "'a option \<Rightarrow> 'a \<Rightarrow> 'a" where
  "or_else v d = (case v of Some x \<Rightarrow> x | None \<Rightarrow> d)"

definition sessionLockIssues :: "PawSessionLock \<Rightarrow> PawValidationIssue list" where
  "sessionLockIssues l =
     (if \<not> js_isInteger (pid l) \<or> \<not> js_gt (pid l) (Num 0)
      then [Issue ''/pid'' ''Lock pid must be a positive integer.''] else [])
     @ (if blank (host l) then [Issue ''/host'' ''Lock host is required.''] else [])
     @ (if \<not> js_isFinite (heartbeat_ts l)
        then [Issue ''/heartbeat_ts'' ''Lock heartbeat timestamp must be finite.''] else [])
     @ (if \<not> js_isFinite (ttl l) \<or> js_gt (Num 0) (ttl l)
        then [Issue ''/ttl'' ''Lock ttl must be a non-negative number of seconds.''] else [])"

definition assertValidPawSessionLock :: "PawSessionLock \<Rightarrow> PawSessionLock throws" where
  "assertValidPawSessionLock l =
     (let issues = sessionLockIssues l in
      if length issues > 0
      then Inl (JsError (formatValidationIssues ''Invalid Paw session lock'' issues)) else Inr l)"

definition json_of_lock :: "PawSessionLock \<Rightarrow> json" where
  "json_of_lock l = JObject
     [(''pid'', JNumber (pid l)), (''host'', JString (host l)),
      (''heartbeat_ts'', JNumber (heartbeat_ts l)), (''ttl'', JNumber (ttl l))]"

definition parsePawSessionLock :: "json \<Rightarrow> PawSessionLock throws" where
  "parsePawSessionLock v =
     (let (rec, i0) = readRecord v '''';
          (p, i1) = readNumber rec ''pid'';
          (h, i2) = readString rec ''host'' '''';
          (b, i3) = readNumber rec ''heartbeat_ts'';
          (t, i4) = readNumber rec ''ttl'';
          issues = i0 @ i1 @ i2 @ i3 @ i4
      in if length issues > 0
         then Inl (JsError (formatValidationIssues ''Invalid Paw session lock'' issues))
         else assertValidPawSessionLock \<lparr>pid = p, host = h, heartbeat_ts = b, ttl = t\<rparr>)"

definition nextLock :: "process_env \<Rightarrow> PawSessionLockOptions \<Rightarrow> PawSessionLock" where
  "nextLock env opts =
     \<lparr>pid = or_else (opt_pid opts) (process_pid env),
      host = or_else (opt_host opts) (hostname env),
      heartbeat_ts = or_else (nowMs opts) (date_now env),
      ttl = or_else (ttlSec opts) DEFAULT_PAW_SESSION_LOCK_TTL_SEC\<rparr>"

definition createPawSessionLock ::
  "process_env \<Rightarrow> PawSessionLockOptions \<Rightarrow> PawSessionLock throws" where
  "createPawSessionLock env opts = assertValidPawSessionLock (nextLock env opts)"

definition readPawSessionLockIfExists :: "files \<Rightarrow> string \<Rightarrow> PawSessionLock option throws" where
  "readPawSessionLockIfExists fs path =
     (case readPawJson fs path of
        Inl (FileSystemError c) \<Rightarrow> if c = ''ENOENT'' then Inr None else Inl (FileSystemError c)
      | Inl (JsError m) \<Rightarrow> Inl (JsError m)
      | Inr v \<Rightarrow> (case parsePawSessionLock v of Inl e \<Rightarrow> Inl e | Inr l \<Rightarrow> Inr (Some l)))"

definition isProcessAlive :: "process_env \<Rightarrow> js_number \<Rightarrow> bool" where
  "isProcessAlive env p =
     (case kill_probe env p of
        None \<Rightarrow> True
      | Some c \<Rightarrow> \<not> (c = ''ESRCH'' \<or> c = ''EINVAL''))"

definition getPawSessionLockStaleReason ::
  "process_env \<Rightarrow> PawSessionLock \<Rightarrow> PawSessionLockOptions \<Rightarrow> PawSessionLockStaleReason option" where
  "getPawSessionLockStaleReason env l opts =
     (if host l = or_else (opt_host opts) (hostname env) \<and> \<not> isProcessAlive env (pid l)
      then Some dead_pid
      else if js_gt (js_sub (or_else (nowMs opts) (date_now env)) (heartbeat_ts l))
                    (js_scale 1000 (ttl l))
      then Some expired_heartbeat
      else None)"

definition isCurrentOwner :: "process_env \<Rightarrow> PawSessionLock \<Rightarrow> PawSessionLockOptions \<Rightarrow> bool" where
  "isCurrentOwner env l opts \<longleftrightarrow>
     pid l = or_else (opt_pid opts) (process_pid env)
     \<and> host l = or_else (opt_host opts) (hostname env)"

definition lockStatusAt ::
  "process_env \<Rightarrow> files \<Rightarrow> string \<Rightarrow> PawSessionLockOptions \<Rightarrow> PawSessionLockStatus throws" where
  "lockStatusAt env fs path opts =
     (case readPawSessionLockIfExists fs path of
        Inl e \<Rightarrow> Inl e
      | Inr None \<Rightarrow> Inr Unlocked
      | Inr (Some l) \<Rightarrow>
          (case getPawSessionLockStaleReason env l opts of
             Some r \<Rightarrow> Inr (Stale r l)
           | None \<Rightarrow> Inr (Locked l)))"

definition getPawSessionLockStatus ::
  "process_env \<Rightarrow> string \<Rightarrow> files \<Rightarrow> string \<Rightarrow> PawSessionLockOptions \<Rightarrow>
     PawSessionLockStatus throws" where
  "getPawSessionLockStatus env repo fs sid opts =
     (case resolvePawSessionPaths repo sid of
        Inl e \<Rightarrow> Inl e
      | Inr p \<Rightarrow> lockStatusAt env fs (lockFile p) opts)"

text \<open>\<open>tryCreateLockFile\<close>: the exclusive open fails when the file is there, whatever it holds.\<close>

definition tryCreateLockFile :: "files \<Rightarrow> string \<Rightarrow> PawSessionLock \<Rightarrow> bool \<times> files" where
  "tryCreateLockFile fs path l =
     (if fs path \<noteq> None then (False, fs) else (True, fs(path \<mapsto> JsonText (json_of_lock l))))"

text \<open>The retry loop of \<open>acquirePawSessionLock\<close>; its last call decides after the attempts.\<close>

fun acquireAttempts ::
  "nat \<Rightarrow> process_env \<Rightarrow> files \<Rightarrow> string \<Rightarrow> string \<Rightarrow> PawSessionLock \<Rightarrow> PawSessionLockOptions \<Rightarrow>
     (PawLockAcquireResult \<times> files) throws" where
  "acquireAttempts 0 env fs path sid l opts =
     (case lockStatusAt env fs path opts of
        Inl e \<Rightarrow> Inl e
      | Inr (Locked l') \<Rightarrow> Inr (LiveLock l', fs)
      | Inr _ \<Rightarrow> Inl (JsError (''Unable to acquire Paw session lock for '' @ sid @ ''.'')))"
| "acquireAttempts (Suc n) env fs path sid l opts =
     (case tryCreateLockFile fs path l of
        (True, fs') \<Rightarrow> Inr (Acquired l None, fs')
      | (False, fs') \<Rightarrow>
          (case lockStatusAt env fs' path opts of
             Inl e \<Rightarrow> Inl e
           | Inr Unlocked \<Rightarrow> acquireAttempts n env fs' path sid l opts
           | Inr (Locked l') \<Rightarrow> Inr (LiveLock l', fs')
           | Inr (Stale r l') \<Rightarrow>
               (case tryCreateLockFile (snd (removeFileIfExists fs' path)) path l of
                  (True, fs'') \<Rightarrow> Inr (Acquired l (Some (r, l')), fs'')
                | (False, fs'') \<Rightarrow> acquireAttempts n env fs'' path sid l opts)))"

definition acquirePawSessionLock ::
  "process_env \<Rightarrow> string \<Rightarrow> files \<Rightarrow> string \<Rightarrow> PawSessionLockOptions \<Rightarrow>
     (PawLockAcquireResult \<times> files) throws" where
  "acquirePawSessionLock env repo fs sid opts =
     (case resolvePawSessionPaths repo sid of
        Inl e \<Rightarrow> Inl e
      | Inr p \<Rightarrow>
          (case createPawSessionLock env opts of
             Inl e \<Rightarrow> Inl e
           | Inr l \<Rightarrow> acquireAttempts 5 env fs (lockFile p) sid l opts))"

definition refreshPawSessionLockHeartbeat ::
  "process_env \<Rightarrow> string \<Rightarrow> files \<Rightarrow> string \<Rightarrow> PawSessionLockOptions \<Rightarrow>
     (PawSessionLock option \<times> files) throws" where
  "refreshPawSessionLockHeartbeat env repo fs sid opts =
     (case resolvePawSessionPaths repo sid of
        Inl e \<Rightarrow> Inl e
      | Inr p \<Rightarrow>
          (case getPawSessionLockStatus env repo fs sid opts of
             Inl e \<Rightarrow> Inl e
           | Inr status \<Rightarrow>
               (case (case status of Unlocked \<Rightarrow> None | Locked l \<Rightarrow> Some l | Stale r l \<Rightarrow> Some l) of
                  None \<Rightarrow> Inr (None, fs)
                | Some l \<Rightarrow>
                    if \<not> isCurrentOwner env l opts then Inr (None, fs)
                    else (case assertValidPawSessionLock
                            (l\<lparr>heartbeat_ts := or_else (nowMs opts) (date_now env),
                               ttl := or_else (ttlSec opts) (ttl l)\<rparr>) of
                            Inl e \<Rightarrow> Inl e
                          | Inr l' \<Rightarrow>
                              Inr (Some l', writePawJsonAtomic fs (lockFile p) (json_of_lock l'))))))"

definition releasePawSessionLock ::
  "process_env \<Rightarrow> string \<Rightarrow> files \<Rightarrow> string \<Rightarrow> PawSessionLockOptions \<Rightarrow> (bool \<times> files) throws" where
  "releasePawSessionLock env repo fs sid opts =
     (case resolvePawSessionPaths repo sid of
        Inl e \<Rightarrow> Inl e
      | Inr p \<Rightarrow>
          (case getPawSessionLockStatus env repo fs sid opts of
             Inl e \<Rightarrow> Inl e
           | Inr status \<Rightarrow>
               (case (case status of Unlocked \<Rightarrow> None | Locked l \<Rightarrow> Some l | Stale r l \<Rightarrow> Some l) of
                  None \<Rightarrow> Inr (False, fs)
                | Some l \<Rightarrow>
                    if \<not> isCurrentOwner env l opts then Inr (False, fs)
                    else Inr (removeFileIfExists fs (lockFile p)))))"

section \<open>Casts, paths and codecs\<close>

lemma castString_castOf [simp]: "castString f (castOf f xs s) = s"
  by (auto simp: castOf_def find_Some_iff split: option.splits)

lemma castOf_member:
  assumes "inj_on f (set xs)" "a \<in> set xs"
  shows "castOf f xs (f a) = Member a"
proof -
  have "find (\<lambda>b. f b = f a) xs = Some a"
    using assms by (induction xs) (auto simp: inj_on_def)
  then show ?thesis by (simp add: castOf_def)
qed

lemma active_names_complete: "set PAW_ACTIVE_STATE_NAMES = UNIV"
proof -
  have "a \<in> set PAW_ACTIVE_STATE_NAMES" for a
    by (cases a) (simp_all add: PAW_ACTIVE_STATE_NAMES_def)
  then show ?thesis by blast
qed

lemma blocked_codes_complete: "set PAW_BLOCKED_REASON_CODES = UNIV"
proof -
  have "a \<in> set PAW_BLOCKED_REASON_CODES" for a
    by (cases a) (simp_all add: PAW_BLOCKED_REASON_CODES_def)
  then show ?thesis by blast
qed

lemma state_names_complete: "set PAW_SESSION_STATE_NAMES = UNIV"
proof -
  have "n \<in> set PAW_SESSION_STATE_NAMES" for n
    by (cases n) (simp_all add: PAW_SESSION_STATE_NAMES_def active_names_complete
        blocked_codes_complete)
  then show ?thesis by blast
qed

lemma inj_activeStateString: "inj activeStateString"
proof
  show "a = b" if "activeStateString a = activeStateString b" for a b
    using that by (cases a; cases b; simp)
qed

lemma inj_blockedCodeString: "inj blockedCodeString"
proof
  show "a = b" if "blockedCodeString a = blockedCodeString b" for a b
    using that by (cases a; cases b; simp)
qed

lemma active_not_blocked_string: "activeStateString a \<noteq> ''BLOCKED_'' @ t"
  by (cases a) simp_all

lemma inj_stateNameString: "inj stateNameString"
proof
  show "m = n" if "stateNameString m = stateNameString n" for m n
    using that active_not_blocked_string injD [OF inj_activeStateString]
      injD [OF inj_blockedCodeString]
    by (cases m; cases n) (auto dest: sym)
qed

lemma castOf_names [simp]:
  "castOf stateNameString PAW_SESSION_STATE_NAMES (stateNameString n) = Member n"
  "castOf blockedCodeString PAW_BLOCKED_REASON_CODES (blockedCodeString c) = Member c"
  "castOf activeStateString PAW_ACTIVE_STATE_NAMES (activeStateString a) = Member a"
  by (rule castOf_member; simp add: state_names_complete active_names_complete
      blocked_codes_complete inj_stateNameString inj_activeStateString inj_blockedCodeString)+

text \<open>Decoding accepts only well-formed states, and undoes the encoding of each of them.\<close>

lemma parse_state_wf: "parsePawSessionState v = Inr s \<Longrightarrow> session_wf s"
  by (auto simp: parsePawSessionState_def Let_def split: prod.splits if_splits
      PawValidationResult.splits)

lemma readBlockedReason_json:
  assumes "json_get rec ''blocked_reason'' = (case r of None \<Rightarrow> JNull | Some br \<Rightarrow> json_of_reason br)"
    and "reason_wf n r"
  shows "readBlockedReason rec = (r, [])"
proof (cases r)
  case None
  with assms show ?thesis by (simp add: readBlockedReason_def)
next
  case (Some br)
  with assms(2) obtain c a where "code br = Member c" "resume_state br = Member a"
    by (auto simp: reason_wf_def split: PawSessionStateName.splits)
  with Some assms(1) show ?thesis
    by (cases br) (auto simp: readBlockedReason_def json_of_reason_def reader_defs
        json_of_option_def split: option.splits)
qed

lemma parse_json_of_state:
  assumes wf: "session_wf s"
  shows "parsePawSessionState (json_of_state s) = Inr s"
proof -
  from wf obtain n where n: "state_name s = Member n" "reason_wf n (blocked_reason s)"
    by (auto simp: session_wf_def)
  define rec where "rec = [(''session_id'', JString (session_id s)),
      (''name'', JString (castString stateNameString (state_name s))),
      (''current_slice_id'', json_of_option (current_slice_id s)),
      (''pending_slice_ids'', JArray (map JString (pending_slice_ids s))),
      (''completed_slice_ids'', JArray (map JString (completed_slice_ids s))),
      (''blocked_reason'', case blocked_reason s of None \<Rightarrow> JNull | Some br \<Rightarrow> json_of_reason br)]"
  have br: "readBlockedReason rec = (blocked_reason s, [])"
    using n(2) by (intro readBlockedReason_json) (simp_all add: rec_def json_get_def)
  have fields: "readString rec ''session_id'' '''' = (session_id s, [])"
    "readString rec ''name'' '''' = (stateNameString n, [])"
    "readNullableString rec ''current_slice_id'' '''' = (current_slice_id s, [])"
    "readStringArray rec ''pending_slice_ids'' = (pending_slice_ids s, [])"
    "readStringArray rec ''completed_slice_ids'' = (completed_slice_ids s, [])"
    using n(1) by (auto simp: rec_def reader_defs json_of_option_def split: option.splits)
  have "json_of_state s = JObject rec" by (simp add: json_of_state_def rec_def)
  moreover have "\<lparr>session_id = session_id s, state_name = Member n,
       current_slice_id = current_slice_id s, pending_slice_ids = pending_slice_ids s,
       completed_slice_ids = completed_slice_ids s, blocked_reason = blocked_reason s\<rparr> = s"
    using n(1) by (cases s) simp
  ultimately show ?thesis
    using wf by (simp add: parsePawSessionState_def readRecord_def fields br assertValid_wf)
qed

text \<open>Session ids contain no separator, so the files of different sessions are different.\<close>

lemma validSessionId_no_slash: "validSessionId sid \<Longrightarrow> CHR ''/'' \<notin> set sid"
  by (auto simp: validSessionId_def list_all_iff is_alnum_def)

lemma pathJoin_seg:
  assumes "CHR ''/'' \<notin> set seg" "seg \<noteq> []"
  shows "pathJoin (pathJoin d seg) f = pathJoin d seg @ ''/'' @ f"
proof -
  obtain xs x where x: "seg = xs @ [x]" using assms(2) by (meson rev_exhaust)
  with assms(1) have "\<not> ends_with ''/'' (pathJoin d seg)"
    by (simp add: ends_with_def pathJoin_def)
  then show ?thesis by (simp add: pathJoin_def)
qed

lemma split_at_slash:
  assumes "CHR ''/'' \<notin> set a" "CHR ''/'' \<notin> set b" "a @ ''/'' @ x = b @ ''/'' @ y"
  shows "a = b \<and> x = y"
  using assms
proof (induction a arbitrary: b)
  case Nil
  then show ?case by (cases b) auto
next
  case (Cons c cs)
  then show ?case by (cases b) auto
qed

lemma session_file_inject:
  assumes "validSessionId sid" "validSessionId sid'"
    and "pathJoin (pathJoin d sid) x = pathJoin (pathJoin d sid') y"
  shows "sid = sid' \<and> x = y"
proof -
  have ns: "CHR ''/'' \<notin> set sid" "CHR ''/'' \<notin> set sid'" "sid \<noteq> []" "sid' \<noteq> []"
    using assms validSessionId_no_slash by (auto simp: validSessionId_def)
  then have "pathJoin d sid @ ''/'' @ x = pathJoin d sid' @ ''/'' @ y"
    using assms(3) by (simp add: pathJoin_seg)
  then have "sid @ ''/'' @ x = sid' @ ''/'' @ y" by (simp add: pathJoin_def split: if_splits)
  from split_at_slash [OF ns(1,2) this] show ?thesis .
qed

definition sessionsDir :: "string \<Rightarrow> string" where
  "sessionsDir r = pathJoin (pathJoin r ''.paw'') ''sessions''"

lemma sessionPaths_files:
  "stateFile (sessionPaths r sid) = pathJoin (pathJoin (sessionsDir r) sid) ''state.json''"
  "lockFile (sessionPaths r sid) = pathJoin (pathJoin (sessionsDir r) sid) ''session.lock''"
  "sliceJournalFile (sessionPaths r sid) = pathJoin (pathJoin (sessionsDir r) sid) ''slice-journal.jsonl''"
  "verificationEvidenceFile (sessionPaths r sid) =
     pathJoin (pathJoin (sessionsDir r) sid) ''verification-evidence.json''"
  by (simp_all add: sessionPaths_def Let_def resolvePawProjectPaths_def sessionsDir_def)

lemma session_files_distinct:
  assumes "validSessionId sid" "validSessionId sid'"
  shows "stateFile (sessionPaths r sid) = stateFile (sessionPaths r sid') \<longleftrightarrow> sid = sid'"
    and "lockFile (sessionPaths r sid) = lockFile (sessionPaths r sid') \<longleftrightarrow> sid = sid'"
    and "stateFile (sessionPaths r sid) \<noteq> lockFile (sessionPaths r sid')"
  using assms session_file_inject [OF assms] by (auto simp: sessionPaths_files)

lemma resolve_Inr [simp]:
  "resolvePawSessionPaths r sid = Inr p \<longleftrightarrow> validSessionId sid \<and> p = sessionPaths r sid"
  by (auto simp: resolvePawSessionPaths_def assertValidSessionId_def)

lemma resolve_invalid: "\<not> validSessionId sid \<Longrightarrow> \<exists>e. resolvePawSessionPaths r sid = Inl (JsError e)"
  by (simp add: resolvePawSessionPaths_def assertValidSessionId_def)

lemma resolve_valid: "validSessionId sid \<Longrightarrow> resolvePawSessionPaths r sid = Inr (sessionPaths r sid)"
  by simp

lemma resolve_then:
  "(case resolvePawSessionPaths r sid of Inl e \<Rightarrow> Inl e | Inr p \<Rightarrow> f p) = Inr y \<Longrightarrow> validSessionId sid"
  by (cases "resolvePawSessionPaths r sid") auto

section \<open>The store contract\<close>

lemma write_Inr:
  "writePawSessionState r fs s = Inr fs' \<longleftrightarrow> session_wf s \<and> validSessionId (session_id s)
     \<and> fs' = fs(stateFile (sessionPaths r (session_id s)) \<mapsto> JsonText (json_of_state s))"
  by (cases "session_wf s"; cases "validSessionId (session_id s)")
    (auto simp: writePawSessionState_def writePawJsonAtomic_def assertValid_wf assertValid_not_wf
      resolve_valid dest: resolve_invalid [of _ r])

lemma read_after_write:
  assumes "writePawSessionState r fs s = Inr fs'"
  shows "readPawSessionState r fs' (session_id s) = Inr s"
  using assms
  by (auto simp: write_Inr readPawSessionState_def readPawJson_def resolve_valid parse_json_of_state)

lemma read_other_after_write:
  assumes "writePawSessionState r fs s = Inr fs'" "sid \<noteq> session_id s"
  shows "readPawSessionState r fs' sid = readPawSessionState r fs sid"
proof (cases "validSessionId sid")
  case True
  with assms have "stateFile (sessionPaths r sid) \<noteq> stateFile (sessionPaths r (session_id s))"
    by (auto simp: write_Inr session_files_distinct)
  with True assms show ?thesis
    by (auto simp: write_Inr readPawSessionState_def readPawJson_def resolve_valid)
next
  case False
  then show ?thesis
    by (simp add: readPawSessionState_def resolvePawSessionPaths_def assertValidSessionId_def)
qed

interpretation state_store: document_store "readPawSessionState r" "writePawSessionState r" session_id
  for r
  by unfold_locales (auto intro: read_after_write read_other_after_write)

section \<open>The lock contract\<close>

definition lock_wf :: "PawSessionLock \<Rightarrow> bool" where
  "lock_wf l \<longleftrightarrow> (\<exists>p :: int. p > 0 \<and> pid l = Num (of_int p)) \<and> \<not> blank (host l)
     \<and> (\<exists>b. heartbeat_ts l = Num b) \<and> (\<exists>t \<ge> 0. ttl l = Num t)"

lemma sessionLockIssues_Nil: "sessionLockIssues l = [] \<longleftrightarrow> lock_wf l"
proof -
  have "js_isInteger p \<and> js_gt p (Num 0) \<longleftrightarrow> (\<exists>n :: int. n > 0 \<and> p = Num (of_int n))" for p
    by (auto simp: js_isInteger_iff)
  moreover have "js_isFinite t \<and> \<not> js_gt (Num 0) t \<longleftrightarrow> (\<exists>r \<ge> 0. t = Num r)" for t
    by (cases t) auto
  ultimately show ?thesis by (auto simp: sessionLockIssues_def lock_wf_def js_isFinite_iff)
qed

lemma assertLock_Inr [simp]: "assertValidPawSessionLock l = Inr l' \<longleftrightarrow> lock_wf l \<and> l' = l"
  by (auto simp: assertValidPawSessionLock_def Let_def sessionLockIssues_Nil)

lemma assertLock_wf: "lock_wf l \<Longrightarrow> assertValidPawSessionLock l = Inr l"
  by simp

lemma parse_json_of_lock: "lock_wf l \<Longrightarrow> parsePawSessionLock (json_of_lock l) = Inr l"
  by (cases l) (simp add: parsePawSessionLock_def json_of_lock_def reader_defs assertLock_wf)

lemma parse_lock_wf: "parsePawSessionLock v = Inr l \<Longrightarrow> lock_wf l"
  by (auto simp: parsePawSessionLock_def Let_def split: prod.splits if_splits)

lemma readLock_None: "readPawSessionLockIfExists fs path = Inr None \<longleftrightarrow> fs path = None"
  by (auto simp: readPawSessionLockIfExists_def readPawJson_def
      split: option.splits file_text.splits sum.splits)

lemma readLock_written:
  "lock_wf l \<Longrightarrow> readPawSessionLockIfExists (fs(path \<mapsto> JsonText (json_of_lock l))) path = Inr (Some l)"
  by (simp add: readPawSessionLockIfExists_def readPawJson_def parse_json_of_lock)

lemma readLock_wf: "readPawSessionLockIfExists fs path = Inr (Some l) \<Longrightarrow> lock_wf l"
  by (auto simp: readPawSessionLockIfExists_def split: sum.splits js_error.splits if_splits
      dest: parse_lock_wf)

lemma readLock_present:
  "readPawSessionLockIfExists fs path = Inr (Some l) \<Longrightarrow> fs path \<noteq> None"
  using readLock_None [of fs path] by auto

text \<open>The retry loop decides in its first attempt when nobody else touches the file.\<close>

lemma acquireAttempts_eq:
  "acquireAttempts (Suc n) env fs path sid l opts =
     (case readPawSessionLockIfExists fs path of
        Inl e \<Rightarrow> Inl e
      | Inr None \<Rightarrow> Inr (Acquired l None, fs(path \<mapsto> JsonText (json_of_lock l)))
      | Inr (Some l') \<Rightarrow>
          (case getPawSessionLockStaleReason env l' opts of
             None \<Rightarrow> Inr (LiveLock l', fs)
           | Some r \<Rightarrow> Inr (Acquired l (Some (r, l')), fs(path \<mapsto> JsonText (json_of_lock l)))))"
proof (cases "fs path")
  case None
  then have "readPawSessionLockIfExists fs path = Inr None" by (simp add: readLock_None)
  with None show ?thesis by (simp add: tryCreateLockFile_def)
next
  case (Some f)
  then have "readPawSessionLockIfExists fs path \<noteq> Inr None" by (simp add: readLock_None)
  with Some show ?thesis
    by (auto simp: tryCreateLockFile_def lockStatusAt_def removeFileIfExists_def
        split: sum.splits option.splits)
qed

type_synonym actor = "process_env \<times> PawSessionLockOptions"

definition lockHolder :: "string \<Rightarrow> string \<Rightarrow> files \<Rightarrow> PawSessionLock option" where
  "lockHolder r sid fs =
     (case readPawSessionLockIfExists fs (lockFile (sessionPaths r sid)) of
        Inr l \<Rightarrow> l | Inl e \<Rightarrow> None)"

definition lockReadable :: "string \<Rightarrow> string \<Rightarrow> files \<Rightarrow> bool" where
  "lockReadable r sid fs \<longleftrightarrow>
     \<not> (\<exists>e. readPawSessionLockIfExists fs (lockFile (sessionPaths r sid)) = Inl e)"

definition canLock :: "string \<Rightarrow> actor \<Rightarrow> bool" where
  "canLock sid a \<longleftrightarrow> validSessionId sid \<and> lock_wf (nextLock (fst a) (snd a))"

definition seesLive :: "actor \<Rightarrow> PawSessionLock \<Rightarrow> bool" where
  "seesLive a l \<longleftrightarrow> getPawSessionLockStaleReason (fst a) l (snd a) = None"

text \<open>Whether an actor's \<open>acquirePawSessionLock\<close> succeeds, with the files it leaves.\<close>

definition tryLock :: "string \<Rightarrow> string \<Rightarrow> actor \<Rightarrow> files \<Rightarrow> bool \<times> files" where
  "tryLock r sid a fs =
     (case acquirePawSessionLock (fst a) r fs sid (snd a) of
        Inr (Acquired l prev, fs') \<Rightarrow> (True, fs')
      | Inr (LiveLock l, fs') \<Rightarrow> (False, fs')
      | Inl e \<Rightarrow> (False, fs))"

lemma acquire_eq:
  assumes "validSessionId sid" "lock_wf (nextLock env opts)"
  shows "acquirePawSessionLock env r fs sid opts =
     (case readPawSessionLockIfExists fs (lockFile (sessionPaths r sid)) of
        Inl e \<Rightarrow> Inl e
      | Inr None \<Rightarrow> Inr (Acquired (nextLock env opts) None,
          fs(lockFile (sessionPaths r sid) \<mapsto> JsonText (json_of_lock (nextLock env opts))))
      | Inr (Some l') \<Rightarrow>
          (case getPawSessionLockStaleReason env l' opts of
             None \<Rightarrow> Inr (LiveLock l', fs)
           | Some x \<Rightarrow> Inr (Acquired (nextLock env opts) (Some (x, l')),
               fs(lockFile (sessionPaths r sid) \<mapsto> JsonText (json_of_lock (nextLock env opts))))))"
proof -
  have five: "(5 :: nat) = Suc 4" by simp
  show ?thesis
    using assms acquireAttempts_eq [where n = 4, folded five]
    by (simp add: acquirePawSessionLock_def createPawSessionLock_def resolve_valid assertLock_wf)
qed

interpretation session_lock: exclusive_lock "lockHolder r sid" "lockReadable r sid" "canLock sid"
  seesLive "\<lambda>a. nextLock (fst a) (snd a)" "tryLock r sid" for r sid
proof
  fix fs a l
  assume "lockReadable r sid fs" "canLock sid a" "lockHolder r sid fs = Some l" "seesLive a l"
  then show "tryLock r sid a fs = (False, fs)"
    by (auto simp: tryLock_def canLock_def acquire_eq lockHolder_def seesLive_def
        split: sum.splits)
next
  fix fs a
  assume h: "lockReadable r sid fs" "canLock sid a"
    "\<forall>l. lockHolder r sid fs = Some l \<longrightarrow> \<not> seesLive a l"
  let ?l = "nextLock (fst a) (snd a)"
  let ?fs = "fs(lockFile (sessionPaths r sid) \<mapsto> JsonText (json_of_lock ?l))"
  have "tryLock r sid a fs = (True, ?fs)"
    using h by (auto simp: tryLock_def canLock_def acquire_eq lockHolder_def seesLive_def
        lockReadable_def split: sum.splits option.splits)
  moreover have "lockHolder r sid ?fs = Some ?l" "lockReadable r sid ?fs"
    using h(2) readLock_written [of ?l fs] by (simp_all add: canLock_def lockHolder_def lockReadable_def)
  ultimately show "\<exists>fs'. tryLock r sid a fs = (True, fs') \<and> lockHolder r sid fs' = Some ?l
      \<and> lockReadable r sid fs'" by blast
qed

text \<open>The lock a status refers to, and the two operations reserved to its owner.\<close>

lemma lockStatus_lock:
  assumes "validSessionId sid"
  shows "getPawSessionLockStatus env r fs sid opts =
    (case readPawSessionLockIfExists fs (lockFile (sessionPaths r sid)) of
       Inl e \<Rightarrow> Inl e
     | Inr None \<Rightarrow> Inr Unlocked
     | Inr (Some l) \<Rightarrow> (case getPawSessionLockStaleReason env l opts of
          Some x \<Rightarrow> Inr (Stale x l) | None \<Rightarrow> Inr (Locked l)))"
  using assms by (simp add: getPawSessionLockStatus_def resolve_valid lockStatusAt_def)

lemma release_eq:
  assumes "validSessionId sid"
  shows "releasePawSessionLock env r fs sid opts =
    (case readPawSessionLockIfExists fs (lockFile (sessionPaths r sid)) of
       Inl e \<Rightarrow> Inl e
     | Inr None \<Rightarrow> Inr (False, fs)
     | Inr (Some l) \<Rightarrow> if isCurrentOwner env l opts
         then Inr (True, fs(lockFile (sessionPaths r sid) := None)) else Inr (False, fs))"
  using assms readLock_present [of fs "lockFile (sessionPaths r sid)"]
  by (auto simp: releasePawSessionLock_def resolve_valid lockStatus_lock removeFileIfExists_def
      split: sum.splits option.splits)

section \<open>Properties of the session store\<close>

definition sample_env :: "int \<Rightarrow> process_env" where
  "sample_env p = \<lparr>process_pid = Num (of_int p), hostname = ''h'', date_now = Num 1000,
     kill_probe = (\<lambda>_. None)\<rparr>"

definition no_options :: PawSessionLockOptions where
  "no_options = \<lparr>nowMs = None, ttlSec = None, opt_pid = None, opt_host = None\<rparr>"

definition sample_state :: PawSessionState where
  "sample_state = sample_session (Active IMPLEMENTING) (Some ''b'') [''c''] [''a'']"

lemma sample_state_wf: "session_wf sample_state"
  unfolding sessionStateIssues_Nil [symmetric] by code_simp

lemma sample_id_valid: "validSessionId ''s1''"
  by code_simp

lemma sample_lock_wf: "0 < p \<Longrightarrow> lock_wf (nextLock (sample_env p) no_options)"
  by (auto simp: lock_wf_def nextLock_def sample_env_def no_options_def or_else_def
      DEFAULT_PAW_SESSION_LOCK_TTL_SEC_def blank_iff_all_space js_space_def)

text \<open>
  (C37) The JSON codec of session states is exact: decoding the document of a session gives
  the session back iff it is well-formed, and whatever document decodes at all decodes to a
  well-formed session, so a corrupted or hand-edited state file never enters the machine.
\<close>

theorem state_codec_exact:
  "(parsePawSessionState (json_of_state s) = Inr s \<longleftrightarrow> session_wf s)
   \<and> (\<forall>v. parsePawSessionState v = Inr s \<longrightarrow> session_wf s)"
  using parse_json_of_state parse_state_wf by blast

theorem state_codec_exact_witness:
  "parsePawSessionState (json_of_state sample_state) = Inr sample_state"
  using state_codec_exact [of sample_state] sample_state_wf by blast

text \<open>
  After any sequence of successful state writes, reading a session returns the state that
  was last written for it, and a session that was not written reads as before: sessions do
  not interfere through the file system.
\<close>

theorem last_state_write_wins:
  assumes "save_all (writePawSessionState r) fs ss = Inr fs'"
  shows "readPawSessionState r fs' sid =
     (case find (\<lambda>s. session_id s = sid) (rev ss) of
        Some s \<Rightarrow> Inr s | None \<Rightarrow> readPawSessionState r fs sid)"
  using assms by (rule state_store.last_save_wins)

lemma sample_write:
  "save_all (writePawSessionState ''/repo'') Map.empty [sample_state]
     = Inr [stateFile (sessionPaths ''/repo'' ''s1'') \<mapsto> JsonText (json_of_state sample_state)]"
proof -
  have "session_id sample_state = ''s1''" by (simp add: sample_state_def sample_session_def)
  then have "writePawSessionState ''/repo'' Map.empty sample_state
     = Inr [stateFile (sessionPaths ''/repo'' ''s1'') \<mapsto> JsonText (json_of_state sample_state)]"
    using sample_state_wf sample_id_valid by (simp add: write_Inr)
  then show ?thesis by simp
qed

theorem last_state_write_wins_witness:
  "readPawSessionState ''/repo''
     [stateFile (sessionPaths ''/repo'' ''s1'') \<mapsto> JsonText (json_of_state sample_state)] ''s1''
   = Inr sample_state"
  using last_state_write_wins [OF sample_write, of "''s1''"]
  by (simp add: sample_state_def sample_session_def)

text \<open>
  What acquiring the session lock does when no other process interferes: an unreadable
  lock file raises, a free lock is taken, a live lock is reported and left alone, a stale one
  is replaced and reported as reclaimed. The retry loop never runs out of attempts.
\<close>

theorem acquire_lock_outcome:
  assumes "validSessionId sid" and "lock_wf (nextLock env opts)"
  shows "acquirePawSessionLock env r fs sid opts =
     (let path = lockFile (sessionPaths r sid);
          taken = fs(path \<mapsto> JsonText (json_of_lock (nextLock env opts)))
      in case readPawSessionLockIfExists fs path of
           Inl e \<Rightarrow> Inl e
         | Inr None \<Rightarrow> Inr (Acquired (nextLock env opts) None, taken)
         | Inr (Some l) \<Rightarrow>
             (case getPawSessionLockStaleReason env l opts of
                None \<Rightarrow> Inr (LiveLock l, fs)
              | Some x \<Rightarrow> Inr (Acquired (nextLock env opts) (Some (x, l)), taken)))"
  using acquire_eq [OF assms] by (simp add: Let_def)

theorem acquire_lock_outcome_witness:
  "\<exists>fs'. acquirePawSessionLock (sample_env 7) ''/repo'' Map.empty ''s1'' no_options
     = Inr (Acquired (nextLock (sample_env 7) no_options) None, fs')"
  using acquire_lock_outcome [OF sample_id_valid sample_lock_wf, of 7 "''/repo''" Map.empty]
    readLock_None [of Map.empty "lockFile (sessionPaths ''/repo'' ''s1'')"]
  by (simp add: Let_def)

text \<open>
  Of several processes that try to lock a session one after the other, exactly the first
  gets the lock, as long as the others see its lock as live (its process runs and its
  heartbeat is within its time to live).
\<close>

theorem first_process_wins_lock:
  assumes "lockReadable r sid fs" and "canLock sid a"
    and "\<forall>l. lockHolder r sid fs = Some l \<longrightarrow> \<not> seesLive a l"
    and "\<forall>b \<in> set bs. canLock sid b \<and> seesLive b (nextLock (fst a) (snd a))"
  shows "lock_winners (tryLock r sid) fs (a # bs) = [a]"
  using assms by (rule session_lock.first_acquirer_wins)

theorem first_process_wins_lock_witness:
  "lock_winners (tryLock ''/repo'' ''s1'') Map.empty
     [(sample_env 7, no_options), (sample_env 8, no_options)] = [(sample_env 7, no_options)]"
proof -
  have r: "lockReadable ''/repo'' ''s1'' Map.empty" "lockHolder ''/repo'' ''s1'' Map.empty = None"
    using readLock_None [of Map.empty "lockFile (sessionPaths ''/repo'' ''s1'')"]
    by (simp_all add: lockReadable_def lockHolder_def)
  have c: "canLock ''s1'' (sample_env p, no_options)" if "0 < p" for p
    using sample_id_valid sample_lock_wf [OF that] by (simp add: canLock_def)
  have "seesLive (sample_env 8, no_options) (nextLock (sample_env 7) no_options)"
    by (simp add: seesLive_def getPawSessionLockStaleReason_def isProcessAlive_def sample_env_def
        nextLock_def no_options_def or_else_def DEFAULT_PAW_SESSION_LOCK_TTL_SEC_def js_sub_def)
  then show ?thesis
    using first_process_wins_lock [OF r(1) c [of 7], of "[(sample_env 8, no_options)]"] r(2) c [of 8]
    by simp
qed

text \<open>
  Only the owner recorded in the lock file, by pid and host, can release a lock; every
  other caller gets \<open>false\<close> and changes nothing. Releasing empties the lock file and leaves
  every other file alone.
\<close>

theorem release_only_by_owner:
  assumes "releasePawSessionLock env r fs sid opts = Inr (released, fs')"
  shows "if released
    then \<exists>l. lockHolder r sid fs = Some l \<and> isCurrentOwner env l opts
           \<and> fs' = fs(lockFile (sessionPaths r sid) := None)
    else fs' = fs \<and> \<not> (\<exists>l. lockHolder r sid fs = Some l \<and> isCurrentOwner env l opts)"
proof -
  have "validSessionId sid"
    using assms unfolding releasePawSessionLock_def by (rule resolve_then)
  with assms show ?thesis
    by (auto simp: release_eq lockHolder_def split: sum.splits option.splits if_splits)
qed

theorem release_only_by_owner_witness:
  "\<not> (\<exists>l. lockHolder ''/repo'' ''s1'' Map.empty = Some l \<and> isCurrentOwner (sample_env 7) l no_options)"
proof -
  have "releasePawSessionLock (sample_env 7) ''/repo'' Map.empty ''s1'' no_options
      = Inr (False, Map.empty)"
    using sample_id_valid readLock_None [of Map.empty "lockFile (sessionPaths ''/repo'' ''s1'')"]
    by (simp add: release_eq)
  from release_only_by_owner [OF this] show ?thesis by simp
qed

text \<open>
  A refreshed heartbeat keeps the lock: until the refreshed time to live has passed,
  every process that does not see the owner as dead finds the session locked by the owner.
\<close>

theorem refresh_keeps_lock_live:
  assumes "refreshPawSessionLockHeartbeat env r fs sid opts = Inr (Some l, fs')"
    and "or_else (nowMs opts) (date_now env) = Num t0" and "ttl l = Num d"
    and "or_else (nowMs opts') (date_now env') = Num t1" and "t1 \<le> t0 + 1000 * d"
    and "isProcessAlive env' (pid l)"
  shows "getPawSessionLockStatus env' r fs' sid opts' = Inr (Locked l)"
proof -
  have sid: "validSessionId sid"
    using assms(1) unfolding refreshPawSessionLockHeartbeat_def by (rule resolve_then)
  with assms(1,2) have l: "lock_wf l" "heartbeat_ts l = Num t0"
    and fs': "fs' = fs(lockFile (sessionPaths r sid) \<mapsto> JsonText (json_of_lock l))"
    by (auto simp: refreshPawSessionLockHeartbeat_def resolve_valid writePawJsonAtomic_def
        split: sum.splits option.splits if_splits)
  have "getPawSessionLockStaleReason env' l opts' = None"
    using assms l by (simp add: getPawSessionLockStaleReason_def js_sub_def)
  with sid l fs' show ?thesis by (simp add: lockStatus_lock readLock_written)
qed

theorem refresh_keeps_lock_live_witness:
  "\<exists>fs'. getPawSessionLockStatus (sample_env 8) ''/repo'' fs' ''s1'' no_options
     = Inr (Locked (nextLock (sample_env 7) no_options))"
proof -
  let ?l = "nextLock (sample_env 7) no_options"
  let ?fs = "[lockFile (sessionPaths ''/repo'' ''s1'') \<mapsto> JsonText (json_of_lock ?l)]"
  have live: "getPawSessionLockStaleReason (sample_env 7) ?l no_options = None"
    by (simp add: getPawSessionLockStaleReason_def isProcessAlive_def sample_env_def
        nextLock_def no_options_def or_else_def DEFAULT_PAW_SESSION_LOCK_TTL_SEC_def js_sub_def)
  have own: "isCurrentOwner (sample_env 7) ?l no_options"
    and same: "?l\<lparr>heartbeat_ts := or_else (nowMs no_options) (date_now (sample_env 7)),
        ttl := or_else (ttlSec no_options) (ttl ?l)\<rparr> = ?l"
    by (simp_all add: isCurrentOwner_def nextLock_def no_options_def or_else_def sample_env_def)
  have st: "getPawSessionLockStatus (sample_env 7) ''/repo'' ?fs ''s1'' no_options = Inr (Locked ?l)"
    using readLock_written [OF sample_lock_wf, of 7 Map.empty] live
    by (simp add: lockStatus_lock [OF sample_id_valid])
  have "refreshPawSessionLockHeartbeat (sample_env 7) ''/repo'' ?fs ''s1'' no_options
      = Inr (Some ?l, ?fs)"
    using st own same sample_lock_wf [of 7]
    by (simp add: refreshPawSessionLockHeartbeat_def resolve_valid [OF sample_id_valid]
        assertLock_wf writePawJsonAtomic_def)
  from refresh_keeps_lock_live [OF this, of 1000 120 no_options "sample_env 8" 1000] show ?thesis
    by (auto simp: nextLock_def no_options_def or_else_def sample_env_def isProcessAlive_def
        DEFAULT_PAW_SESSION_LOCK_TTL_SEC_def)
qed

end
