(* ===== verification/Paw_Risk.thy ===== *)
theory Paw_Risk
  imports Paw_Prelude
begin

text \<open>
  Risk levels and the decisions taken on them: the approval policy of
  \<open>paw/approval-policy.ts\<close> (which tool calls run, ask, or are blocked in which mode) and
  the task classifier of \<open>paw/risk-classifier.ts\<close>. Risk levels are a linear order by their
  rank, as \<open>comparePawRiskLevels\<close> compares them.
\<close>

section \<open>Levels\<close>

datatype PawRiskLevel = R0 | R1 | R2 | R3 | R4 | R5 | R6 | R7

fun PAW_RISK_LEVEL_RANKS :: "PawRiskLevel \<Rightarrow> int" where
  "PAW_RISK_LEVEL_RANKS R0 = 0"
| "PAW_RISK_LEVEL_RANKS R1 = 1"
| "PAW_RISK_LEVEL_RANKS R2 = 2"
| "PAW_RISK_LEVEL_RANKS R3 = 3"
| "PAW_RISK_LEVEL_RANKS R4 = 4"
| "PAW_RISK_LEVEL_RANKS R5 = 5"
| "PAW_RISK_LEVEL_RANKS R6 = 6"
| "PAW_RISK_LEVEL_RANKS R7 = 7"

definition riskLevelString :: "PawRiskLevel \<Rightarrow> string" where
  "riskLevelString l = ''R'' @ show_int (PAW_RISK_LEVEL_RANKS l)"

fun PAW_RISK_LEVEL_LABELS :: "PawRiskLevel \<Rightarrow> string" where
  "PAW_RISK_LEVEL_LABELS R0 = ''read''"
| "PAW_RISK_LEVEL_LABELS R1 = ''safe write''"
| "PAW_RISK_LEVEL_LABELS R2 = ''build/test''"
| "PAW_RISK_LEVEL_LABELS R3 = ''dependency install''"
| "PAW_RISK_LEVEL_LABELS R4 = ''migration''"
| "PAW_RISK_LEVEL_LABELS R5 = ''deploy''"
| "PAW_RISK_LEVEL_LABELS R6 = ''destructive filesystem''"
| "PAW_RISK_LEVEL_LABELS R7 = ''secrets/auth/payment''"

definition comparePawRiskLevels :: "PawRiskLevel \<Rightarrow> PawRiskLevel \<Rightarrow> int" where
  "comparePawRiskLevels l r = PAW_RISK_LEVEL_RANKS l - PAW_RISK_LEVEL_RANKS r"

definition isPawRiskAtLeast :: "PawRiskLevel \<Rightarrow> PawRiskLevel \<Rightarrow> bool" where
  "isPawRiskAtLeast l m \<longleftrightarrow> comparePawRiskLevels l m \<ge> 0"

lemma risk_rank_inject: "PAW_RISK_LEVEL_RANKS a = PAW_RISK_LEVEL_RANKS b \<longleftrightarrow> a = b"
  by (cases a; cases b) simp_all

instantiation PawRiskLevel :: linorder
begin

definition less_eq_PawRiskLevel :: "PawRiskLevel \<Rightarrow> PawRiskLevel \<Rightarrow> bool" where
  "less_eq_PawRiskLevel a b \<longleftrightarrow> PAW_RISK_LEVEL_RANKS a \<le> PAW_RISK_LEVEL_RANKS b"

definition less_PawRiskLevel :: "PawRiskLevel \<Rightarrow> PawRiskLevel \<Rightarrow> bool" where
  "less_PawRiskLevel a b \<longleftrightarrow> PAW_RISK_LEVEL_RANKS a < PAW_RISK_LEVEL_RANKS b"

instance
  by standard (auto simp: less_eq_PawRiskLevel_def less_PawRiskLevel_def risk_rank_inject)

end

lemma isPawRiskAtLeast_le [simp]: "isPawRiskAtLeast l m \<longleftrightarrow> m \<le> l"
  by (simp add: isPawRiskAtLeast_def comparePawRiskLevels_def less_eq_PawRiskLevel_def)

lemma comparePawRiskLevels_gt [simp]: "comparePawRiskLevels l m > 0 \<longleftrightarrow> m < l"
  by (simp add: comparePawRiskLevels_def less_PawRiskLevel_def)

lemma R0_least [simp]: "R0 \<le> l"
  by (cases l) (simp_all add: less_eq_PawRiskLevel_def)

lemma R7_greatest: "l \<le> R7"
  by (cases l) (simp_all add: less_eq_PawRiskLevel_def)

section \<open>Approval policy\<close>

datatype PawRunMode = interactive | print | json | ci

fun runModeString :: "PawRunMode \<Rightarrow> string" where
  "runModeString interactive = ''interactive''"
| "runModeString print = ''print''"
| "runModeString json = ''json''"
| "runModeString ci = ''ci''"

datatype PawApprovalBlockCode = TOOL_PERMISSION_BLOCK | NEEDS_USER_DECISION_BLOCK

datatype PawApprovalDecision =
    Allow
  | NeedsApproval string string "PawRiskLevel option"
  | BlockedBy PawApprovalBlockCode string string "PawRiskLevel option"

text \<open>The fields of the approval configuration the policy reads.\<close>

record PawApprovalPolicyConfig =
  risk_levels :: "PawRiskLevel \<Rightarrow> string"
  matrix_auto :: "PawRiskLevel list"
  matrix_require_approval :: "PawRiskLevel list"
  matrix_always_human_never_auto :: "PawRiskLevel list"

record PawToolApprovalInput =
  riskLevel :: PawRiskLevel
  runMode :: PawRunMode
  approval_config :: "PawApprovalPolicyConfig option"
  readOnly :: bool
  allowedRiskLevels :: "PawRiskLevel list"

definition DEFAULT_AUTO_RISK_LEVELS :: "PawRiskLevel list" where
  "DEFAULT_AUTO_RISK_LEVELS = [R0, R1, R2]"

definition DEFAULT_APPROVAL_RISK_LEVELS :: "PawRiskLevel list" where
  "DEFAULT_APPROVAL_RISK_LEVELS = [R3, R4, R5, R6]"

definition DEFAULT_ALWAYS_HUMAN_RISK_LEVELS :: "PawRiskLevel list" where
  "DEFAULT_ALWAYS_HUMAN_RISK_LEVELS = [R7]"

definition formatPawRiskLabel :: "PawApprovalPolicyConfig option \<Rightarrow> PawRiskLevel \<Rightarrow> string" where
  "formatPawRiskLabel cfg l = replace_char CHR ''_'' CHR '' ''
     (case cfg of Some c \<Rightarrow> risk_levels c l | None \<Rightarrow> PAW_RISK_LEVEL_LABELS l)"

definition autoRiskLevels :: "PawToolApprovalInput \<Rightarrow> PawRiskLevel list" where
  "autoRiskLevels i = (case approval_config i of Some c \<Rightarrow> matrix_auto c
     | None \<Rightarrow> DEFAULT_AUTO_RISK_LEVELS)"

definition approvalRiskLevels :: "PawToolApprovalInput \<Rightarrow> PawRiskLevel list" where
  "approvalRiskLevels i = (case approval_config i of Some c \<Rightarrow> matrix_require_approval c
     | None \<Rightarrow> DEFAULT_APPROVAL_RISK_LEVELS)"

definition alwaysHumanRiskLevels :: "PawToolApprovalInput \<Rightarrow> PawRiskLevel list" where
  "alwaysHumanRiskLevels i = (case approval_config i of Some c \<Rightarrow> matrix_always_human_never_auto c
     | None \<Rightarrow> DEFAULT_ALWAYS_HUMAN_RISK_LEVELS)"

definition evaluatePawToolApproval :: "PawToolApprovalInput \<Rightarrow> PawApprovalDecision" where
  "evaluatePawToolApproval i =
     (let l = riskLevel i; rs = riskLevelString l;
          label = formatPawRiskLabel (approval_config i) l in
      if readOnly i \<and> isPawRiskAtLeast l R1 then
        BlockedBy TOOL_PERMISSION_BLOCK
          (''Read-only mode blocks '' @ rs @ '' '' @ label @ '' tools.'')
          ''Run in a writable mode or choose an R0 read-only tool.'' (Some l)
      else if l \<in> set (alwaysHumanRiskLevels i) then
        (if runMode i = interactive then
           NeedsApproval (rs @ '' '' @ label @ '' tools require explicit human approval.'')
             ''Review the sensitive operation before allowing it to run.'' (Some l)
         else
           BlockedBy TOOL_PERMISSION_BLOCK
             (rs @ '' '' @ label @ '' tools cannot be pre-authorized in non-interactive modes.'')
             ''Run interactively and approve the sensitive operation manually.'' (Some l))
      else if l \<in> set (autoRiskLevels i) then Allow
      else if l \<notin> set (approvalRiskLevels i) then
        BlockedBy TOOL_PERMISSION_BLOCK
          (rs @ '' '' @ label @ '' tools are not covered by the Paw approval policy.'')
          ''Update the Paw approval matrix or run interactively after reviewing the operation.''
          (Some l)
      else if runMode i = interactive then
        NeedsApproval (rs @ '' '' @ label @ '' tools require approval.'')
          ''Approve the engineering operation before it runs.'' (Some l)
      else if l \<in> set (allowedRiskLevels i) then Allow
      else
        BlockedBy TOOL_PERMISSION_BLOCK
          (runModeString (runMode i) @ '' mode blocks '' @ rs @ '' '' @ label
            @ '' tools without an exact explicit allow.'')
          (''Pass --allow '' @ rs @ '' or run interactively to approve the operation.'') (Some l))"

definition evaluatePawProductApproval :: "PawRunMode \<Rightarrow> PawApprovalDecision" where
  "evaluatePawProductApproval mode =
     (if mode = interactive then
        NeedsApproval ''Product approval requires a user decision.''
          ''Review the SPEC and approve or reject it interactively.'' None
      else
        BlockedBy NEEDS_USER_DECISION_BLOCK
          ''Product approval cannot be completed in non-interactive mode.''
          ''Emit the SPEC for review and rerun interactively after approval.'' None)"

section \<open>Risk classification\<close>

datatype PawTaskClass = trivial | standard | high_risk

record PawRiskClassifierConfig =
  max_files :: int
  cross_layer :: bool
  max_risk_level :: PawRiskLevel
  security_path :: bool

record PawRiskScoringInput =
  changedFileCount :: int
  crossLayer :: bool
  writesRequested :: bool
  buildOrTest :: bool
  securityPath :: bool
  newDependency :: bool
  schemaOrDbChange :: bool
  destructiveCommand :: bool
  infraOrDeploy :: bool

record PawRiskScore =
  score_riskLevel :: PawRiskLevel
  score_reasons :: "string list"

record PawTaskClassification =
  taskClass :: PawTaskClass
  class_risk :: PawRiskScore
  class_reasons :: "string list"

definition RISK_SIGNALS ::
  "((PawRiskScoringInput \<Rightarrow> bool) \<times> PawRiskLevel \<times> string) list" where
  "RISK_SIGNALS =
     [(buildOrTest, R2, ''build/test operation requested''),
      (newDependency, R3, ''new dependency requested''),
      (schemaOrDbChange, R4, ''schema or database change requested''),
      (infraOrDeploy, R5, ''infra or deploy operation requested''),
      (destructiveCommand, R6, ''destructive command requested''),
      (securityPath, R7, ''security/auth/payment/secrets path requested'')]"

definition maxPawRiskLevel :: "PawRiskLevel list \<Rightarrow> PawRiskLevel" where
  "maxPawRiskLevel ls =
     foldl (\<lambda>m l. if comparePawRiskLevels l m > 0 then l else m) R0 ls"

definition scorePawTaskRisk :: "PawRiskScoringInput \<Rightarrow> PawRiskScore" where
  "scorePawTaskRisk i =
     (let raised = filter (\<lambda>(flag, l, r). flag i) RISK_SIGNALS in
      \<lparr>score_riskLevel = maxPawRiskLevel
         ((if writesRequested i then R1 else R0) # map (\<lambda>(flag, l, r). l) raised),
       score_reasons =
         [if writesRequested i then ''writes requested'' else ''no writes requested'',
          ''changed file count: '' @ show_int (changedFileCount i)]
         @ (if crossLayer i then [''cross-layer work requested''] else [])
         @ map (\<lambda>(flag, l, r). r) raised\<rparr>)"

definition getTrivialRequirementFailures ::
  "PawRiskScoringInput \<Rightarrow> PawRiskLevel \<Rightarrow> PawRiskClassifierConfig \<Rightarrow> string list" where
  "getTrivialRequirementFailures i l cfg =
     (if changedFileCount i > max_files cfg
      then [''changed file count exceeds trivial max_files='' @ show_int (max_files cfg)] else [])
     @ (if crossLayer i \<and> \<not> cross_layer cfg
        then [''cross-layer work violates trivial cross_layer=false''] else [])
     @ (if comparePawRiskLevels l (max_risk_level cfg) > 0
        then [''risk level exceeds trivial max_risk_level='' @ riskLevelString (max_risk_level cfg)]
        else [])
     @ (if securityPath i \<and> \<not> security_path cfg
        then [''security path violates trivial security_path=false''] else [])"

definition classifyPawTask ::
  "PawRiskScoringInput \<Rightarrow> PawRiskClassifierConfig \<Rightarrow> PawTaskClassification" where
  "classifyPawTask i cfg =
     (let risk = scorePawTaskRisk i;
          trivialFailures = getTrivialRequirementFailures i (score_riskLevel risk) cfg;
          reasons = score_reasons risk @ trivialFailures in
      if isPawRiskAtLeast (score_riskLevel risk) R3 \<or> securityPath i then
        \<lparr>taskClass = high_risk, class_risk = risk,
         class_reasons = reasons @ [riskLevelString (score_riskLevel risk)
           @ '' risk requires high-risk routing'']\<rparr>
      else if length trivialFailures = 0 then
        \<lparr>taskClass = trivial, class_risk = risk, class_reasons = reasons\<rparr>
      else \<lparr>taskClass = standard, class_risk = risk, class_reasons = reasons\<rparr>)"

section \<open>Lemmas\<close>

lemma larger_is_max: "(if comparePawRiskLevels x a > 0 then x else a) = max a x"
  by (auto simp: max_def not_le)

lemma foldl_max_upper: "foldl max a ls = Max (insert a (set ls))" for a :: "'a::linorder"
proof (induction ls arbitrary: a)
  case Nil
  then show ?case by simp
next
  case (Cons x xs)
  have "Max (insert (max a x) (set xs)) = Max (insert a (insert x (set xs)))"
    by (cases "xs = []") (simp_all add: max.assoc)
  with Cons.IH [of "max a x"] show ?case by simp
qed

lemma maxPawRiskLevel_Max: "maxPawRiskLevel ls = Max (insert R0 (set ls))"
  unfolding maxPawRiskLevel_def larger_is_max by (rule foldl_max_upper)

lemma maxPawRiskLevel_ge: "l \<le> maxPawRiskLevel ls \<longleftrightarrow> l = R0 \<or> (\<exists>x \<in> set ls. l \<le> x)"
  by (auto simp: maxPawRiskLevel_Max Max_ge_iff intro: antisym)

text \<open>The score as the least level above everything the task asks for.\<close>

definition demanded :: "PawRiskScoringInput \<Rightarrow> PawRiskLevel set" where
  "demanded i = {R0} \<union> (if writesRequested i then {R1} else {}) \<union> (if buildOrTest i then {R2} else {})
     \<union> (if newDependency i then {R3} else {}) \<union> (if schemaOrDbChange i then {R4} else {})
     \<union> (if infraOrDeploy i then {R5} else {}) \<union> (if destructiveCommand i then {R6} else {})
     \<union> (if securityPath i then {R7} else {})"

lemma score_is_Max: "score_riskLevel (scorePawTaskRisk i) = Max (demanded i)"
proof -
  have "insert R0 (set ((if writesRequested i then R1 else R0)
      # map (\<lambda>(flag, l, r). l) (filter (\<lambda>(flag, l, r). flag i) RISK_SIGNALS))) = demanded i"
    by (auto simp: RISK_SIGNALS_def demanded_def)
  then show ?thesis by (simp only: scorePawTaskRisk_def Let_def PawRiskScore.simps maxPawRiskLevel_Max)
qed

lemma finite_demanded [simp]: "finite (demanded i)" "demanded i \<noteq> {}"
  by (auto simp: demanded_def)

lemma security_scores_R7: "securityPath i \<Longrightarrow> score_riskLevel (scorePawTaskRisk i) = R7"
proof -
  assume "securityPath i"
  then have "R7 \<in> demanded i" by (simp add: demanded_def)
  then show ?thesis unfolding score_is_Max
    by (intro Max_eqI) (auto intro: R7_greatest)
qed

text \<open>A task asks for at least as much as another.\<close>

definition asks_more :: "PawRiskScoringInput \<Rightarrow> PawRiskScoringInput \<Rightarrow> bool" where
  "asks_more i j \<longleftrightarrow> changedFileCount i \<le> changedFileCount j \<and> (crossLayer i \<longrightarrow> crossLayer j)
     \<and> (writesRequested i \<longrightarrow> writesRequested j) \<and> (buildOrTest i \<longrightarrow> buildOrTest j)
     \<and> (securityPath i \<longrightarrow> securityPath j) \<and> (newDependency i \<longrightarrow> newDependency j)
     \<and> (schemaOrDbChange i \<longrightarrow> schemaOrDbChange j)
     \<and> (destructiveCommand i \<longrightarrow> destructiveCommand j) \<and> (infraOrDeploy i \<longrightarrow> infraOrDeploy j)"

lemma score_mono:
  assumes "asks_more i j"
  shows "score_riskLevel (scorePawTaskRisk i) \<le> score_riskLevel (scorePawTaskRisk j)"
proof -
  have "demanded i \<subseteq> demanded j" using assms by (auto simp: asks_more_def demanded_def)
  then show ?thesis unfolding score_is_Max by (intro Max_mono) auto
qed

fun class_rank :: "PawTaskClass \<Rightarrow> nat" where
  "class_rank trivial = 0"
| "class_rank standard = 1"
| "class_rank high_risk = 2"

lemma classify_class:
  "taskClass (classifyPawTask i cfg) =
     (let l = score_riskLevel (scorePawTaskRisk i) in
      if R3 \<le> l then high_risk
      else if changedFileCount i \<le> max_files cfg \<and> (crossLayer i \<longrightarrow> cross_layer cfg)
              \<and> l \<le> max_risk_level cfg then trivial else standard)"
proof (cases "securityPath i")
  case True
  have "R3 \<le> R7" by (simp add: less_eq_PawRiskLevel_def)
  with True security_scores_R7 [OF True] show ?thesis by (simp add: classifyPawTask_def Let_def)
next
  case False
  then show ?thesis
    by (auto simp: classifyPawTask_def Let_def getTrivialRequirementFailures_def not_less)
qed

section \<open>Properties\<close>

text \<open>
  A tool call runs without asking exactly when it is not held back by read-only mode,
  its level is not reserved for humans, and it is either an automatic level or, outside
  interactive mode, a level that needs approval and was explicitly allowed. Outside
  interactive mode the policy never asks: it allows or fails closed.
\<close>

theorem tool_approval_exact:
  "(evaluatePawToolApproval i = Allow \<longleftrightarrow>
      \<not> (readOnly i \<and> R1 \<le> riskLevel i) \<and> riskLevel i \<notin> set (alwaysHumanRiskLevels i)
      \<and> (riskLevel i \<in> set (autoRiskLevels i)
         \<or> riskLevel i \<in> set (approvalRiskLevels i) \<and> runMode i \<noteq> interactive
           \<and> riskLevel i \<in> set (allowedRiskLevels i)))
   \<and> ((\<exists>m a r. evaluatePawToolApproval i = NeedsApproval m a r) \<longleftrightarrow>
      runMode i = interactive \<and> \<not> (readOnly i \<and> R1 \<le> riskLevel i)
      \<and> (riskLevel i \<in> set (alwaysHumanRiskLevels i)
         \<or> riskLevel i \<notin> set (autoRiskLevels i) \<and> riskLevel i \<in> set (approvalRiskLevels i)))"
  by (simp add: evaluatePawToolApproval_def Let_def)

text \<open>
  With the built-in approval matrix, secrets, auth and payment tools (R7) are never
  allowed automatically: not in any mode and not with any list of explicitly allowed levels.
\<close>

theorem default_R7_never_auto:
  assumes "approval_config i = None" and "riskLevel i = R7"
  shows "evaluatePawToolApproval i \<noteq> Allow"
  using assms
  by (simp add: evaluatePawToolApproval_def Let_def alwaysHumanRiskLevels_def
      DEFAULT_ALWAYS_HUMAN_RISK_LEVELS_def)

definition r7_request :: "PawApprovalPolicyConfig option \<Rightarrow> PawToolApprovalInput" where
  "r7_request cfg = \<lparr>riskLevel = R7, runMode = ci, approval_config = cfg, readOnly = False,
     allowedRiskLevels = [R7]\<rparr>"

theorem default_R7_never_auto_witness: "evaluatePawToolApproval (r7_request None) \<noteq> Allow"
  by (rule default_R7_never_auto) (simp_all add: r7_request_def)

text \<open>
  The matrix of the runtime configuration decides about R7 too: a configuration that lists
  R7 as automatic and leaves it out of \<open>always_human_never_auto\<close> lets R7 tools run without
  a human, in a non-interactive mode.
\<close>

theorem configured_R7_can_be_auto:
  "\<exists>cfg. evaluatePawToolApproval (r7_request (Some cfg)) = Allow"
  by (rule exI [of _ "\<lparr>risk_levels = (\<lambda>_. ''x''), matrix_auto = [R7], matrix_require_approval = [],
        matrix_always_human_never_auto = []\<rparr>"])
    (simp add: evaluatePawToolApproval_def r7_request_def Let_def alwaysHumanRiskLevels_def
      autoRiskLevels_def)

text \<open>
  What the classifier decides: the risk score is the highest level any signal of the task
  demands; the task is high-risk exactly from R3 on (every security task is R7), and trivial
  only when file count, layering and risk all stay within the configured limits.
\<close>

theorem classification_exact:
  "score_riskLevel (class_risk (classifyPawTask i cfg)) = Max (demanded i)
   \<and> (taskClass (classifyPawTask i cfg) = high_risk \<longleftrightarrow> R3 \<le> Max (demanded i))
   \<and> (taskClass (classifyPawTask i cfg) = trivial \<longleftrightarrow>
        Max (demanded i) < R3 \<and> Max (demanded i) \<le> max_risk_level cfg
        \<and> changedFileCount i \<le> max_files cfg \<and> \<not> (crossLayer i \<and> \<not> cross_layer cfg))"
proof -
  have "class_risk (classifyPawTask i cfg) = scorePawTaskRisk i"
    by (simp add: classifyPawTask_def Let_def)
  moreover define m where "m = Max (demanded i)"
  ultimately show ?thesis
    unfolding score_is_Max classify_class Let_def m_def [symmetric]
    by (auto simp: score_is_Max m_def [symmetric] not_le)
qed

text \<open>
  The classifier errs on the safe side: adding files, layers or any risk signal to a task
  never lowers its risk score and never moves it to a less careful class.
\<close>

theorem classification_monotone:
  assumes "asks_more i j"
  shows "score_riskLevel (scorePawTaskRisk i) \<le> score_riskLevel (scorePawTaskRisk j)
    \<and> class_rank (taskClass (classifyPawTask i cfg)) \<le> class_rank (taskClass (classifyPawTask j cfg))"
proof -
  define li where "li = score_riskLevel (scorePawTaskRisk i)"
  define lj where "lj = score_riskLevel (scorePawTaskRisk j)"
  have le: "li \<le> lj" unfolding li_def lj_def by (rule score_mono [OF assms])
  moreover have "class_rank (taskClass (classifyPawTask i cfg))
      \<le> class_rank (taskClass (classifyPawTask j cfg))"
    using le order.trans [OF _ le, of R3] order.trans [OF le, of "max_risk_level cfg"] assms
    unfolding classify_class Let_def li_def [symmetric] lj_def [symmetric] asks_more_def
    by simp
  ultimately show ?thesis unfolding li_def lj_def by simp
qed

definition sample_task :: "bool \<Rightarrow> PawRiskScoringInput" where
  "sample_task dep = \<lparr>changedFileCount = 1, crossLayer = False, writesRequested = True,
     buildOrTest = False, securityPath = False, newDependency = dep, schemaOrDbChange = False,
     destructiveCommand = False, infraOrDeploy = False\<rparr>"

definition sample_classifier :: PawRiskClassifierConfig where
  "sample_classifier = \<lparr>max_files = 1, cross_layer = False, max_risk_level = R2,
     security_path = False\<rparr>"

theorem classification_monotone_witness:
  "class_rank (taskClass (classifyPawTask (sample_task False) sample_classifier))
     \<le> class_rank (taskClass (classifyPawTask (sample_task True) sample_classifier))"
proof -
  have "asks_more (sample_task False) (sample_task True)"
    by (simp add: asks_more_def sample_task_def)
  from classification_monotone [OF this] show ?thesis by blast
qed

end
