(* ===== verification/Paw_Plan_Slices.thy ===== *)
theory Paw_Plan_Slices
  imports Paw_Json Paw_Risk
begin

text \<open>
  The planner's slice queue, \<open>paw/plan-slices.ts\<close>: the untrusted planner output is checked
  entry by entry, with one issue list and the sets of ids and orders seen so far threaded
  through the loop, and sorted by \<open>order\<close> when nothing was objected to. A slice order is an
  integer number, so it is an \<open>int\<close> here (negative zero is zero).
\<close>

section \<open>Model\<close>

record PawPlannerSlice =
  slice_id :: string
  title :: string
  order_of :: int
  target_files :: "string list option"
  slice_max_risk_level :: "PawRiskLevel option"
  acceptance :: "string option"

record PawPlanSliceQueue =
  slices :: "PawPlannerSlice list"
  queue_slice_ids :: "string list"

text \<open>What the loop of \<open>createPawPlanSliceQueue\<close> keeps while it reads the entries.\<close>

record slice_scan =
  scan_issues :: "PawValidationIssue list"
  seenSliceIds :: "string set"
  seenOrders :: "int set"

definition PAW_RISK_LEVELS :: "PawRiskLevel list" where
  "PAW_RISK_LEVELS = [R0, R1, R2, R3, R4, R5, R6, R7]"

definition ALLOWED_SLICE_PROPERTIES :: "string list" where
  "ALLOWED_SLICE_PROPERTIES =
     [''slice_id'', ''title'', ''order'', ''target_files'', ''max_risk_level'', ''acceptance'']"

definition readRiskLevel :: "string \<Rightarrow> PawRiskLevel option" where
  "readRiskLevel s = find (\<lambda>l. riskLevelString l = s) PAW_RISK_LEVELS"

definition validatePawPlannerSliceAllowedProperties ::
  "(string \<times> json) list \<Rightarrow> nat \<Rightarrow> PawValidationIssue list" where
  "validatePawPlannerSliceAllowedProperties rec i =
     map (\<lambda>p. Issue (''/'' @ show_nat i @ ''/'' @ p) (''Unexpected planner slice property '' @ p @ ''.''))
       (filter (\<lambda>p. p \<notin> set ALLOWED_SLICE_PROPERTIES) (map fst rec))"

definition validateRequiredString ::
  "(string \<times> json) list \<Rightarrow> string \<Rightarrow> string \<Rightarrow> string \<Rightarrow> string option \<times> PawValidationIssue list" where
  "validateRequiredString rec key path msg =
     (case json_get rec key of
        JString s \<Rightarrow> if blank s then (None, [Issue path msg]) else (Some s, [])
      | _ \<Rightarrow> (None, [Issue path msg]))"

definition validateOrder ::
  "(string \<times> json) list \<Rightarrow> nat \<Rightarrow> int option \<times> PawValidationIssue list" where
  "validateOrder rec i =
     (let bad = (None, [Issue (''/'' @ show_nat i @ ''/order'')
                   ''Slice order must be an integer greater than or equal to 0.'']) in
      case json_get rec ''order'' of
        JNumber (Num a) \<Rightarrow>
          if \<not> js_isInteger (Num a) \<or> a < 0 then bad else (Some \<lfloor>a\<rfloor>, [])
      | _ \<Rightarrow> bad)"

text \<open>The three readers of optional fields return \<open>None\<close> for \<open>valid: false\<close>.\<close>

fun targetFileEntries ::
  "nat \<Rightarrow> nat \<Rightarrow> json list \<Rightarrow> string list \<times> bool \<times> PawValidationIssue list" where
  "targetFileEntries i t [] = ([], True, [])"
| "targetFileEntries i t (v # vs) =
     (case targetFileEntries i (Suc t) vs of (fs, valid, is) \<Rightarrow>
        let bad = (fs, False, Issue (''/'' @ show_nat i @ ''/target_files/'' @ show_nat t)
                     ''Target file must be a non-empty string.'' # is) in
        case v of
          JString s \<Rightarrow> if blank s then bad else (s # fs, valid, is)
        | _ \<Rightarrow> bad)"

definition validateTargetFiles ::
  "(string \<times> json) list \<Rightarrow> nat \<Rightarrow> string list option option \<times> PawValidationIssue list" where
  "validateTargetFiles rec i =
     (if \<not> json_has rec ''target_files'' then (Some None, [])
      else case json_get rec ''target_files'' of
        JArray vs \<Rightarrow>
          (case targetFileEntries i 0 vs of (fs, valid, is) \<Rightarrow>
             (if valid then Some (Some fs) else None, is))
      | _ \<Rightarrow> (None, [Issue (''/'' @ show_nat i @ ''/target_files'')
                 ''Target files must be an array of non-empty strings.'']))"

definition validateMaxRiskLevel ::
  "(string \<times> json) list \<Rightarrow> nat \<Rightarrow> PawRiskLevel option option \<times> PawValidationIssue list" where
  "validateMaxRiskLevel rec i =
     (if \<not> json_has rec ''max_risk_level'' then (Some None, [])
      else let bad = (None, [Issue (''/'' @ show_nat i @ ''/max_risk_level'')
                        ''Max risk level must be one of R0 through R7.'']) in
        case json_get rec ''max_risk_level'' of
          JString s \<Rightarrow> (case readRiskLevel s of Some l \<Rightarrow> (Some (Some l), []) | None \<Rightarrow> bad)
        | _ \<Rightarrow> bad)"

definition validateAcceptance ::
  "(string \<times> json) list \<Rightarrow> nat \<Rightarrow> string option option \<times> PawValidationIssue list" where
  "validateAcceptance rec i =
     (if \<not> json_has rec ''acceptance'' then (Some None, [])
      else let bad = (None, [Issue (''/'' @ show_nat i @ ''/acceptance'')
                        ''Acceptance must be a non-empty string.'']) in
        case json_get rec ''acceptance'' of
          JString s \<Rightarrow> if blank s then bad else (Some (Some s), [])
        | _ \<Rightarrow> bad)"

definition recordPawPlannerSliceDuplicateIds ::
  "string option \<Rightarrow> int option \<Rightarrow> nat \<Rightarrow> slice_scan \<Rightarrow> slice_scan" where
  "recordPawPlannerSliceDuplicateIds sid ord i sc =
     (let sc1 = (case sid of
          None \<Rightarrow> sc
        | Some s \<Rightarrow> sc\<lparr>scan_issues := scan_issues sc @
              (if s \<in> seenSliceIds sc
               then [Issue (''/'' @ show_nat i @ ''/slice_id'') (''Duplicate slice id '' @ s @ ''.'')]
               else []),
            seenSliceIds := insert s (seenSliceIds sc)\<rparr>)
      in case ord of
          None \<Rightarrow> sc1
        | Some n \<Rightarrow> sc1\<lparr>scan_issues := scan_issues sc1 @
              (if n \<in> seenOrders sc1
               then [Issue (''/'' @ show_nat i @ ''/order'') (''Duplicate slice order '' @ show_int n @ ''.'')]
               else []),
            seenOrders := insert n (seenOrders sc1)\<rparr>)"

definition buildPawPlannerSlice ::
  "string \<Rightarrow> string \<Rightarrow> int \<Rightarrow> string list option \<Rightarrow> PawRiskLevel option \<Rightarrow> string option \<Rightarrow>
    PawPlannerSlice" where
  "buildPawPlannerSlice sid t n fs l acc =
     \<lparr>slice_id = sid, title = t, order_of = n, target_files = fs, slice_max_risk_level = l,
      acceptance = acc\<rparr>"

definition parsePawPlannerSliceEntry ::
  "json \<Rightarrow> nat \<Rightarrow> slice_scan \<Rightarrow> PawPlannerSlice option \<times> slice_scan" where
  "parsePawPlannerSliceEntry item i sc =
     (case item of
        JObject rec \<Rightarrow>
          let (sid, is1) = validateRequiredString rec ''slice_id''
                 (''/'' @ show_nat i @ ''/slice_id'') ''Slice id is required.'';
              (t, is2) = validateRequiredString rec ''title''
                 (''/'' @ show_nat i @ ''/title'') ''Slice title is required.'';
              (ord, is3) = validateOrder rec i;
              (targets, is4) = validateTargetFiles rec i;
              (risk, is5) = validateMaxRiskLevel rec i;
              (acc, is6) = validateAcceptance rec i;
              sc1 = recordPawPlannerSliceDuplicateIds sid ord i
                (sc\<lparr>scan_issues := scan_issues sc @ validatePawPlannerSliceAllowedProperties rec i
                    @ is1 @ is2 @ is3 @ is4 @ is5 @ is6\<rparr>)
          in (case (sid, t, ord, targets, risk, acc) of
                (Some sid', Some t', Some n, Some fs, Some l, Some a) \<Rightarrow>
                  (Some (buildPawPlannerSlice sid' t' n fs l a), sc1)
              | _ \<Rightarrow> (None, sc1))
      | _ \<Rightarrow> (None, sc\<lparr>scan_issues := scan_issues sc
                @ [Issue (''/'' @ show_nat i) ''Planner slice must be an object.'']\<rparr>))"

fun parseSliceEntries ::
  "nat \<Rightarrow> json list \<Rightarrow> slice_scan \<Rightarrow> PawPlannerSlice list \<times> slice_scan" where
  "parseSliceEntries i [] sc = ([], sc)"
| "parseSliceEntries i (v # vs) sc =
     (let (parsed, sc1) = parsePawPlannerSliceEntry v i sc;
          (rest, sc2) = parseSliceEntries (Suc i) vs sc1
      in (case parsed of Some s \<Rightarrow> s # rest | None \<Rightarrow> rest, sc2))"

definition compareSliceOrder :: "PawPlannerSlice \<Rightarrow> PawPlannerSlice \<Rightarrow> int" where
  "compareSliceOrder a b = order_of a - order_of b"

definition createPawPlanSliceQueue :: "json \<Rightarrow> PawPlanSliceQueue PawValidationResult" where
  "createPawPlanSliceQueue v =
     (case v of
        JArray (e # es) \<Rightarrow>
          let (parsed, sc) = parseSliceEntries 0 (e # es)
                 \<lparr>scan_issues = [], seenSliceIds = {}, seenOrders = {}\<rparr> in
          if length (scan_issues sc) > 0 then Invalid (scan_issues sc)
          else let sortedSlices = sort_by compareSliceOrder parsed in
            Ok \<lparr>slices = sortedSlices, queue_slice_ids = map slice_id sortedSlices\<rparr>
      | _ \<Rightarrow> Invalid [Issue ''/'' ''Planner slice input must be a non-empty array.''])"

section \<open>Specification\<close>

text \<open>What the optional fields of an entry hold, and when an entry describes a slice.\<close>

definition targets_field :: "(string \<times> json) list \<Rightarrow> string list option \<Rightarrow> bool" where
  "targets_field rec fs \<longleftrightarrow> (case fs of
       None \<Rightarrow> \<not> json_has rec ''target_files''
     | Some xs \<Rightarrow> json_get rec ''target_files'' = JArray (map JString xs) \<and> (\<forall>f \<in> set xs. \<not> blank f))"

definition risk_field :: "(string \<times> json) list \<Rightarrow> PawRiskLevel option \<Rightarrow> bool" where
  "risk_field rec l \<longleftrightarrow> (case l of
       None \<Rightarrow> \<not> json_has rec ''max_risk_level''
     | Some x \<Rightarrow> json_get rec ''max_risk_level'' = JString (riskLevelString x))"

definition acceptance_field :: "(string \<times> json) list \<Rightarrow> string option \<Rightarrow> bool" where
  "acceptance_field rec acc \<longleftrightarrow> (case acc of
       None \<Rightarrow> \<not> json_has rec ''acceptance''
     | Some a \<Rightarrow> json_get rec ''acceptance'' = JString a \<and> \<not> blank a)"

definition describes :: "json \<Rightarrow> PawPlannerSlice \<Rightarrow> bool" where
  "describes v s \<longleftrightarrow> (\<exists>rec. v = JObject rec
     \<and> fst ` set rec \<subseteq> set ALLOWED_SLICE_PROPERTIES
     \<and> json_get rec ''slice_id'' = JString (slice_id s) \<and> \<not> blank (slice_id s)
     \<and> json_get rec ''title'' = JString (title s) \<and> \<not> blank (title s)
     \<and> json_get rec ''order'' = JNumber (Num (of_int (order_of s))) \<and> 0 \<le> order_of s
     \<and> targets_field rec (target_files s) \<and> risk_field rec (slice_max_risk_level s)
     \<and> acceptance_field rec (acceptance s))"

interpretation slice_order: comparator compareSliceOrder
  by unfold_locales (auto simp: compareSliceOrder_def)

section \<open>Lemmas\<close>

lemma readRiskLevel_iff: "readRiskLevel s = Some l \<longleftrightarrow> riskLevelString l = s"
proof
  show "readRiskLevel s = Some l \<Longrightarrow> riskLevelString l = s"
    by (auto simp: readRiskLevel_def find_Some_iff)
  show "riskLevelString l = s \<Longrightarrow> readRiskLevel s = Some l"
    by (cases l) (auto simp: readRiskLevel_def PAW_RISK_LEVELS_def riskLevelString_def show_int_def)
qed

text \<open>Each reader is silent exactly when it returns a value, and returns what the field holds.\<close>

lemma requiredString_value:
  "json_get rec key = JString s \<Longrightarrow> \<not> blank s \<Longrightarrow> validateRequiredString rec key path msg = (Some s, [])"
  by (simp add: validateRequiredString_def)

lemma requiredString_silent:
  "snd (validateRequiredString rec key path msg) = [] \<Longrightarrow>
     \<exists>s. json_get rec key = JString s \<and> \<not> blank s"
  by (auto simp: validateRequiredString_def split: json.splits if_splits)

lemma order_value:
  "json_get rec ''order'' = JNumber (Num (of_int n)) \<Longrightarrow> 0 \<le> n \<Longrightarrow> validateOrder rec i = (Some n, [])"
  by (simp add: validateOrder_def)

lemma order_silent:
  "snd (validateOrder rec i) = [] \<Longrightarrow>
     \<exists>n. json_get rec ''order'' = JNumber (Num (of_int n)) \<and> 0 \<le> n"
proof -
  assume "snd (validateOrder rec i) = []"
  then obtain a where a: "json_get rec ''order'' = JNumber (Num a)" "a = of_int \<lfloor>a\<rfloor>" "0 \<le> a"
    by (auto simp: validateOrder_def Let_def not_less split: json.splits js_number.splits if_splits)
  then show ?thesis by (intro exI [of _ "\<lfloor>a\<rfloor>"]) auto
qed

lemma targetFileEntries_value:
  "\<forall>f \<in> set fs. \<not> blank f \<Longrightarrow> targetFileEntries i t (map JString fs) = (fs, True, [])"
  by (induction fs arbitrary: t) (auto simp: Let_def)

lemma targetFileEntries_silent:
  "targetFileEntries i t vs = (fs, valid, []) \<Longrightarrow>
     valid \<and> vs = map JString fs \<and> (\<forall>f \<in> set fs. \<not> blank f)"
  by (induction vs arbitrary: t fs valid)
    (auto simp: Let_def split: prod.splits json.splits if_splits, (metis+)?)

lemma targetFiles_value:
  assumes "targets_field rec fs"
  shows "validateTargetFiles rec i = (Some fs, [])"
  using assms
  by (cases fs) (auto simp: targets_field_def validateTargetFiles_def targetFileEntries_value json_has_def json_get_def
      split: option.splits)

lemma targetFiles_silent:
  assumes "snd (validateTargetFiles rec i) = []"
  shows "\<exists>fs. targets_field rec fs"
proof (cases "json_has rec ''target_files''")
  case True
  with assms obtain vs fs valid where
    "json_get rec ''target_files'' = JArray vs" "targetFileEntries i 0 vs = (fs, valid, [])"
    by (auto simp: validateTargetFiles_def split: json.splits prod.splits if_splits)
  with targetFileEntries_silent [of i 0 vs fs valid] show ?thesis
    by (intro exI [of _ "Some fs"]) (simp add: targets_field_def)
next
  case False
  then show ?thesis by (intro exI [of _ None]) (simp add: targets_field_def)
qed

lemma maxRiskLevel_value:
  assumes "risk_field rec l"
  shows "validateMaxRiskLevel rec i = (Some l, [])"
  using assms readRiskLevel_iff [of "riskLevelString (the l)" "the l"]
  by (cases l) (auto simp: risk_field_def validateMaxRiskLevel_def json_has_def json_get_def split: option.splits)

lemma maxRiskLevel_silent:
  assumes "snd (validateMaxRiskLevel rec i) = []"
  shows "\<exists>l. risk_field rec l"
proof (cases "json_has rec ''max_risk_level''")
  case True
  with assms obtain s l where "json_get rec ''max_risk_level'' = JString s" "readRiskLevel s = Some l"
    by (auto simp: validateMaxRiskLevel_def Let_def split: json.splits option.splits)
  then show ?thesis by (intro exI [of _ "Some l"]) (simp add: risk_field_def readRiskLevel_iff)
next
  case False
  then show ?thesis by (intro exI [of _ None]) (simp add: risk_field_def)
qed

lemma acceptance_value:
  assumes "acceptance_field rec acc"
  shows "validateAcceptance rec i = (Some acc, [])"
  using assms
  by (cases acc) (auto simp: acceptance_field_def validateAcceptance_def json_has_def json_get_def split: option.splits)

lemma acceptance_silent:
  assumes "snd (validateAcceptance rec i) = []"
  shows "\<exists>acc. acceptance_field rec acc"
proof (cases "json_has rec ''acceptance''")
  case True
  with assms obtain a where "json_get rec ''acceptance'' = JString a" "\<not> blank a"
    by (auto simp: validateAcceptance_def Let_def split: json.splits if_splits)
  then show ?thesis by (intro exI [of _ "Some a"]) (simp add: acceptance_field_def)
next
  case False
  then show ?thesis by (intro exI [of _ None]) (simp add: acceptance_field_def)
qed

lemma allowedProperties_silent:
  "validatePawPlannerSliceAllowedProperties rec i = [] \<longleftrightarrow> fst ` set rec \<subseteq> set ALLOWED_SLICE_PROPERTIES"
  by (auto simp: validatePawPlannerSliceAllowedProperties_def filter_empty_conv)

lemma duplicates_silent:
  "scan_issues (recordPawPlannerSliceDuplicateIds (Some s) (Some n) i sc) = [] \<longleftrightarrow>
     scan_issues sc = [] \<and> s \<notin> seenSliceIds sc \<and> n \<notin> seenOrders sc"
  "seenSliceIds (recordPawPlannerSliceDuplicateIds (Some s) (Some n) i sc) = insert s (seenSliceIds sc)"
  "seenOrders (recordPawPlannerSliceDuplicateIds (Some s) (Some n) i sc) = insert n (seenOrders sc)"
  by (auto simp: recordPawPlannerSliceDuplicateIds_def Let_def)

lemma duplicates_grow:
  "scan_issues (recordPawPlannerSliceDuplicateIds sid ord i sc) = [] \<Longrightarrow> scan_issues sc = []"
  by (auto simp: recordPawPlannerSliceDuplicateIds_def Let_def split: option.splits if_splits)

text \<open>An entry that describes a slice is read as that slice, and only then is nothing reported.\<close>

lemma parse_described:
  assumes "describes v s"
  shows "parsePawPlannerSliceEntry v i sc =
    (Some s, recordPawPlannerSliceDuplicateIds (Some (slice_id s)) (Some (order_of s)) i sc)"
proof -
  from assms obtain rec where "v = JObject rec"
    and "validatePawPlannerSliceAllowedProperties rec i = []"
    and "json_get rec ''slice_id'' = JString (slice_id s)" "\<not> blank (slice_id s)"
    and "json_get rec ''title'' = JString (title s)" "\<not> blank (title s)"
    and "json_get rec ''order'' = JNumber (Num (of_int (order_of s)))" "0 \<le> order_of s"
    and "targets_field rec (target_files s)" "risk_field rec (slice_max_risk_level s)"
      "acceptance_field rec (acceptance s)"
    unfolding describes_def allowedProperties_silent by blast
  then show ?thesis
    by (simp add: parsePawPlannerSliceEntry_def buildPawPlannerSlice_def requiredString_value
        order_value targetFiles_value maxRiskLevel_value acceptance_value)
qed

lemma parse_issues:
  "scan_issues (snd (parsePawPlannerSliceEntry (JObject rec) i sc)) = [] \<Longrightarrow>
     scan_issues sc @ validatePawPlannerSliceAllowedProperties rec i
     @ snd (validateRequiredString rec ''slice_id'' (''/'' @ show_nat i @ ''/slice_id'')
        ''Slice id is required.'')
     @ snd (validateRequiredString rec ''title'' (''/'' @ show_nat i @ ''/title'')
        ''Slice title is required.'')
     @ snd (validateOrder rec i) @ snd (validateTargetFiles rec i)
     @ snd (validateMaxRiskLevel rec i) @ snd (validateAcceptance rec i) = []"
proof -
  have scan: "snd (parsePawPlannerSliceEntry (JObject rec) i sc) =
    (let (sid, is1) = validateRequiredString rec ''slice_id''
           (''/'' @ show_nat i @ ''/slice_id'') ''Slice id is required.'';
         (t, is2) = validateRequiredString rec ''title''
           (''/'' @ show_nat i @ ''/title'') ''Slice title is required.'';
         (ord, is3) = validateOrder rec i; (targets, is4) = validateTargetFiles rec i;
         (risk, is5) = validateMaxRiskLevel rec i; (acc, is6) = validateAcceptance rec i
     in recordPawPlannerSliceDuplicateIds sid ord i
          (sc\<lparr>scan_issues := scan_issues sc @ validatePawPlannerSliceAllowedProperties rec i
              @ is1 @ is2 @ is3 @ is4 @ is5 @ is6\<rparr>))"
    unfolding parsePawPlannerSliceEntry_def json.case Let_def
    by (simp add: case_prod_beta option.case_distrib [of snd] cong: option.case_cong)
      (simp split: option.splits)
  assume "scan_issues (snd (parsePawPlannerSliceEntry (JObject rec) i sc)) = []"
  then show ?thesis
    unfolding scan Let_def case_prod_beta by (auto dest!: duplicates_grow)
qed

lemma parse_silent:
  assumes "scan_issues (snd (parsePawPlannerSliceEntry v i sc)) = []"
  shows "scan_issues sc = [] \<and> (\<exists>s. describes v s)"
proof -
  from assms obtain rec where v: "v = JObject rec"
    by (cases v) (auto simp: parsePawPlannerSliceEntry_def)
  have all: "scan_issues sc = [] \<and> validatePawPlannerSliceAllowedProperties rec i = []
    \<and> snd (validateRequiredString rec ''slice_id'' (''/'' @ show_nat i @ ''/slice_id'')
        ''Slice id is required.'') = []
    \<and> snd (validateRequiredString rec ''title'' (''/'' @ show_nat i @ ''/title'')
        ''Slice title is required.'') = []
    \<and> snd (validateOrder rec i) = [] \<and> snd (validateTargetFiles rec i) = []
    \<and> snd (validateMaxRiskLevel rec i) = [] \<and> snd (validateAcceptance rec i) = []"
    using parse_issues [of rec i sc] assms by (simp add: v)
  then obtain sid t n fs l acc where
    "fst ` set rec \<subseteq> set ALLOWED_SLICE_PROPERTIES"
    "json_get rec ''slice_id'' = JString sid" "\<not> blank sid"
    "json_get rec ''title'' = JString t" "\<not> blank t"
    "json_get rec ''order'' = JNumber (Num (of_int n))" "0 \<le> n"
    "targets_field rec fs" "risk_field rec l" "acceptance_field rec acc"
    unfolding allowedProperties_silent
    by (elim conjE) (drule requiredString_silent order_silent targetFiles_silent maxRiskLevel_silent
        acceptance_silent | (erule exE conjE)+)+
  then have "describes v \<lparr>slice_id = sid, title = t, order_of = n, target_files = fs,
      slice_max_risk_level = l, acceptance = acc\<rparr>"
    by (simp add: describes_def v)
  with all show ?thesis by blast
qed

lemma parse_entries_grow:
  "scan_issues (snd (parseSliceEntries i vs sc)) = [] \<Longrightarrow> scan_issues sc = []"
proof (induction vs arbitrary: i sc)
  case Nil
  then show ?case by simp
next
  case (Cons v vs)
  then show ?case using parse_silent [of v i sc] by (simp add: Let_def case_prod_beta)
qed

lemma parse_entries_described:
  assumes "list_all2 describes vs ss"
  shows "fst (parseSliceEntries i vs sc) = ss
    \<and> (scan_issues (snd (parseSliceEntries i vs sc)) = [] \<longleftrightarrow>
        scan_issues sc = [] \<and> distinct (map slice_id ss) \<and> distinct (map order_of ss)
        \<and> set (map slice_id ss) \<inter> seenSliceIds sc = {} \<and> set (map order_of ss) \<inter> seenOrders sc = {})"
  using assms
proof (induction vs ss arbitrary: i sc rule: list_all2_induct)
  case Nil
  then show ?case by simp
next
  case (Cons v vs s ss)
  show ?case
    using Cons.IH [of "Suc i" "recordPawPlannerSliceDuplicateIds (Some (slice_id s)) (Some (order_of s)) i sc"]
      parse_described [OF Cons.hyps(1), of i sc]
    by (auto simp: Let_def case_prod_beta duplicates_silent)
qed

lemma parse_entries_silent:
  "scan_issues (snd (parseSliceEntries i vs sc)) = [] \<Longrightarrow> \<exists>ss. list_all2 describes vs ss"
proof (induction vs arbitrary: i sc)
  case Nil
  then show ?case by simp
next
  case (Cons v vs)
  let ?sc1 = "snd (parsePawPlannerSliceEntry v i sc)"
  from Cons.prems have rest: "scan_issues (snd (parseSliceEntries (Suc i) vs ?sc1)) = []"
    by (simp add: Let_def case_prod_beta)
  then obtain ss where "list_all2 describes vs ss" using Cons.IH by blast
  moreover obtain s where "describes v s" using parse_silent parse_entries_grow [OF rest] by blast
  ultimately show ?case by (intro exI [of _ "s # ss"]) simp
qed

text \<open>A strictly ordered queue is determined by the slices in it.\<close>

lemma strict_order_unique:
  fixes f :: "'a \<Rightarrow> 'b::linorder"
  assumes "sorted_wrt (\<lambda>a b. f a < f b) xs" "sorted_wrt (\<lambda>a b. f a < f b) ys" "set xs = set ys"
  shows "xs = ys"
proof -
  have "map f xs = map f ys"
    using assms by (intro strict_sorted_equal) (simp_all add: sorted_wrt_map)
  moreover have "inj_on f (set xs \<union> set ys)"
  proof -
    have "sorted_wrt (<) (map f xs)" using assms(1) by (simp add: sorted_wrt_map)
    then have "distinct (map f xs)" by (simp add: strict_sorted_iff)
    then show ?thesis using assms(3) by (simp add: distinct_map)
  qed
  ultimately show ?thesis by (rule map_inj_on)
qed

lemma sort_slices_strict:
  assumes "distinct (map order_of ss)"
  shows "sorted_wrt (\<lambda>a b. order_of a < order_of b) (sort_by compareSliceOrder ss)"
proof -
  let ?q = "sort_by compareSliceOrder ss"
  have "sorted (map order_of ?q)"
    using slice_order.sorted_sort [of ss] by (simp add: compareSliceOrder_def sorted_wrt_map)
  moreover have "distinct (map order_of ?q)" using assms by simp
  ultimately have "sorted_wrt (<) (map order_of ?q)" by (simp add: strict_sorted_iff)
  then show ?thesis by (simp add: sorted_wrt_map)
qed

text \<open>What an accepted planner output and its queue have to do with each other.\<close>

definition queue_for :: "json \<Rightarrow> PawPlanSliceQueue \<Rightarrow> bool" where
  "queue_for v q \<longleftrightarrow> (\<exists>vs ss. v = JArray vs \<and> vs \<noteq> [] \<and> list_all2 describes vs ss
     \<and> distinct (map slice_id ss) \<and> distinct (map order_of ss) \<and> mset (slices q) = mset ss
     \<and> sorted_wrt (\<lambda>a b. order_of a < order_of b) (slices q)
     \<and> queue_slice_ids q = map slice_id (slices q))"

definition empty_scan :: slice_scan where
  "empty_scan = \<lparr>scan_issues = [], seenSliceIds = {}, seenOrders = {}\<rparr>"

lemma queue_accepted:
  assumes ok: "createPawPlanSliceQueue v = Ok q"
  shows "queue_for v q"
proof -
  from ok obtain e es where v: "v = JArray (e # es)"
    by (auto simp: createPawPlanSliceQueue_def split: json.splits list.splits)
  let ?r = "parseSliceEntries 0 (e # es) empty_scan"
  have silent: "scan_issues (snd ?r) = []"
    and q: "q = \<lparr>slices = sort_by compareSliceOrder (fst ?r),
      queue_slice_ids = map slice_id (sort_by compareSliceOrder (fst ?r))\<rparr>"
    using ok by (auto simp: v createPawPlanSliceQueue_def empty_scan_def Let_def case_prod_beta
        split: if_splits)
  obtain ss where ss: "list_all2 describes (e # es) ss" using parse_entries_silent [OF silent] by blast
  have "distinct (map slice_id ss)" "distinct (map order_of ss)" "fst ?r = ss"
    using parse_entries_described [OF ss, of 0 empty_scan] silent by auto
  then show ?thesis
    unfolding queue_for_def using ss sort_slices_strict
    by (intro exI [of _ "e # es"] exI [of _ ss]) (simp add: v q)
qed

lemma queue_accepts:
  assumes "queue_for v q"
  shows "createPawPlanSliceQueue v = Ok q"
proof -
  from assms obtain vs ss where *: "v = JArray vs" "vs \<noteq> []" "list_all2 describes vs ss"
    "distinct (map slice_id ss)" "distinct (map order_of ss)" "mset (slices q) = mset ss"
    "sorted_wrt (\<lambda>a b. order_of a < order_of b) (slices q)" "queue_slice_ids q = map slice_id (slices q)"
    unfolding queue_for_def by blast
  have "slices q = sort_by compareSliceOrder ss"
    using strict_order_unique [OF *(7) sort_slices_strict [OF *(5)]] *(6)
    by (metis set_mset_mset set_sort_by)
  moreover obtain e es where "vs = e # es" using *(2) by (cases vs) auto
  ultimately show ?thesis
    using parse_entries_described [OF *(3), of 0 empty_scan] *
    by (simp add: createPawPlanSliceQueue_def empty_scan_def Let_def case_prod_beta
        del: parseSliceEntries.simps)
qed

lemma queue_slices_described:
  assumes "queue_for v q" "s \<in> set (slices q)"
  shows "\<not> blank (slice_id s)"
proof -
  from assms obtain vs ss where ss: "list_all2 describes vs ss" "mset (slices q) = mset ss"
    by (auto simp: queue_for_def)
  with assms(2) have "s \<in> set ss" by (metis set_mset_mset)
  then show ?thesis using ss(1) by (auto simp: list_all2_conv_all_nth in_set_conv_nth describes_def)
qed

lemma queue_ids:
  assumes "createPawPlanSliceQueue v = Ok q"
  shows "queue_slice_ids q \<noteq> []" "distinct (queue_slice_ids q)"
    "\<forall>x \<in> set (queue_slice_ids q). \<not> blank x" "queue_slice_ids q = map slice_id (slices q)"
    "sorted_wrt (\<lambda>a b. order_of a < order_of b) (slices q)"
proof -
  from queue_accepted [OF assms] obtain vs ss where *: "vs \<noteq> []" "list_all2 describes vs ss"
    "distinct (map slice_id ss)" "mset (slices q) = mset ss"
    "queue_slice_ids q = map slice_id (slices q)"
    "sorted_wrt (\<lambda>a b. order_of a < order_of b) (slices q)"
    by (auto simp: queue_for_def)
  show "queue_slice_ids q = map slice_id (slices q)"
    "sorted_wrt (\<lambda>a b. order_of a < order_of b) (slices q)" using * by simp_all
  show "distinct (queue_slice_ids q)"
    using * by (metis mset_map mset_eq_imp_distinct_iff)
  show "queue_slice_ids q \<noteq> []"
    using * by (metis list_all2_Nil2 map_is_Nil_conv mset_zero_iff)
  show "\<forall>x \<in> set (queue_slice_ids q). \<not> blank x"
    using queue_slices_described [OF queue_accepted [OF assms]] *(5) by auto
qed

section \<open>Properties\<close>

text \<open>
  (C35) The queue builder accepts a planner output exactly when it is a non-empty array whose
  entries each describe a slice, with no id and no order used twice; the queue is then those
  slices, each once, in strictly increasing order, together with their ids in the same order.
\<close>

theorem slice_queue_exact:
  "createPawPlanSliceQueue v = Ok q \<longleftrightarrow>
     (\<exists>vs ss. v = JArray vs \<and> vs \<noteq> [] \<and> list_all2 describes vs ss
        \<and> distinct (map slice_id ss) \<and> distinct (map order_of ss)
        \<and> mset (slices q) = mset ss
        \<and> sorted_wrt (\<lambda>a b. order_of a < order_of b) (slices q)
        \<and> queue_slice_ids q = map slice_id (slices q))"
  unfolding queue_for_def [symmetric] by (blast intro: queue_accepted queue_accepts)

end
