(* ===== verification/Paw_Task.thy ===== *)
theory Paw_Task
  imports Paw_Store Paw_Plan_Slices
begin

text \<open>
  The session commands that join the state machine, the state file and the session lock:
  starting and advancing a task session (\<open>paw/task-session.ts\<close>), approving a plan
  (\<open>paw/plan-approval.ts\<close>), selecting a slice (\<open>paw/slice-selection.ts\<close>) and starting its
  implementation (\<open>paw/slice-implementation.ts\<close>), with the mapping of lock results for the
  command line (\<open>paw/lock-result-mapping.ts\<close>).

  A command that throws may already have changed files, so starting a session returns the
  files beside its outcome; advancing throws only before its single write.
\<close>

section \<open>Project initialisation\<close>

text \<open>
  The contents of the four files \<open>initializePawProject\<close> creates; the YAML of the configuration
  is rendered by a library. Its directories are not modelled.
\<close>

record init_contents =
  config_text :: file_text
  version_text :: file_text
  memories_text :: file_text
  gitignore_text :: file_text

record PawInitResult =
  created :: "string list"
  existing :: "string list"

definition writeMissingFile ::
  "string \<Rightarrow> file_text \<Rightarrow> PawInitResult \<times> files \<Rightarrow> PawInitResult \<times> files" where
  "writeMissingFile path txt a = (case a of (res, fs) \<Rightarrow>
     if fs path = None
     then (res\<lparr>created := created res @ [path]\<rparr>, fs(path \<mapsto> txt))
     else (res\<lparr>existing := existing res @ [path]\<rparr>, fs))"

definition initializePawProject ::
  "string \<Rightarrow> init_contents \<Rightarrow> files \<Rightarrow> PawInitResult \<times> files" where
  "initializePawProject repo c fs =
     (let p = resolvePawProjectPaths repo in
      writeMissingFile (gitignoreFile p) (gitignore_text c)
        (writeMissingFile (memoriesFile p) (memories_text c)
          (writeMissingFile (versionFile p) (version_text c)
            (writeMissingFile (configFile p) (config_text c)
              (\<lparr>created = [], existing = []\<rparr>, fs)))))"

section \<open>Starting a session\<close>

datatype PawTaskSessionStartResult =
    Started PawInitResult PawSessionLock "(PawSessionLockStaleReason \<times> PawSessionLock) option"
      PawSessionState
  | Existing PawInitResult PawSessionLock "(PawSessionLockStaleReason \<times> PawSessionLock) option"
      PawSessionState
  | StartLocked PawInitResult PawSessionLock

definition readExistingPawTaskSessionState ::
  "string \<Rightarrow> files \<Rightarrow> string \<Rightarrow> PawSessionState option throws" where
  "readExistingPawTaskSessionState repo fs sid =
     (case readPawSessionState repo fs sid of
        Inr s \<Rightarrow> Inr (Some s)
      | Inl (FileSystemError c) \<Rightarrow>
          if c = ''ENOENT'' then Inr None
          else Inl (JsError (''Invalid existing Paw session state at ''
                 @ stateFile (sessionPaths repo sid) @ '': '' @ c))
      | Inl (JsError m) \<Rightarrow>
          (case resolvePawSessionPaths repo sid of
             Inl e \<Rightarrow> Inl e
           | Inr p \<Rightarrow> Inl (JsError (''Invalid existing Paw session state at ''
                         @ stateFile p @ '': '' @ m))))"

definition createStartedPawTaskSessionState :: "string \<Rightarrow> PawSessionState throws" where
  "createStartedPawTaskSessionState sid =
     (case transitionPawSessionState (createInitialPawSessionState sid) (goto INTAKE) of
        Ok s \<Rightarrow> Inr s
      | Invalid is \<Rightarrow> Inl (JsError (''Unable to start Paw task session '' @ sid @ '': ''
          @ join_with ''; '' (map (\<lambda>i. issue_path i @ '' '' @ issue_message i) is))))"

definition startPawTaskSession ::
  "process_env \<Rightarrow> string \<Rightarrow> init_contents \<Rightarrow> files \<Rightarrow> string \<Rightarrow> PawSessionLockOptions \<Rightarrow>
     PawTaskSessionStartResult throws \<times> files" where
  "startPawTaskSession env repo c fs sid opts =
     (let (init, fs1) = initializePawProject repo c fs in
      case acquirePawSessionLock env repo fs1 sid opts of
        Inl e \<Rightarrow> (Inl e, fs1)
      | Inr (LiveLock l, fs2) \<Rightarrow> (Inr (StartLocked init l), fs2)
      | Inr (Acquired l reclaimed, fs2) \<Rightarrow>
          (case readExistingPawTaskSessionState repo fs2 sid of
             Inl e \<Rightarrow> (Inl e, fs2)
           | Inr (Some s) \<Rightarrow> (Inr (Existing init l reclaimed s), fs2)
           | Inr None \<Rightarrow>
               (case createStartedPawTaskSessionState sid of
                  Inl e \<Rightarrow> (Inl e, fs2)
                | Inr s \<Rightarrow>
                    (case writePawSessionState repo fs2 s of
                       Inl e \<Rightarrow> (Inl e, fs2)
                     | Inr fs3 \<Rightarrow> (Inr (Started init l reclaimed s), fs3)))))"

section \<open>Advancing a session\<close>

record PawTaskSessionLockOwner =
  owner_pid :: js_number
  owner_host :: string

datatype not_locked_reason = NotLockedUnlocked | NotLockedStale PawSessionLockStaleReason PawSessionLock

datatype PawTaskSessionAdvanceResult =
    Advanced PawSessionLock PawSessionState PawSessionState
  | InvalidTransition PawSessionState "PawValidationIssue list"
  | NotLocked not_locked_reason
  | LockedByOther PawSessionLock PawTaskSessionLockOwner

definition getPawTaskSessionLockOwner ::
  "process_env \<Rightarrow> PawSessionLockOptions \<Rightarrow> PawTaskSessionLockOwner" where
  "getPawTaskSessionLockOwner env opts =
     \<lparr>owner_pid = or_else (opt_pid opts) (process_pid env),
      owner_host = or_else (opt_host opts) (hostname env)\<rparr>"

definition isPawTaskSessionLockOwner :: "PawSessionLock \<Rightarrow> PawTaskSessionLockOwner \<Rightarrow> bool" where
  "isPawTaskSessionLockOwner l w \<longleftrightarrow> pid l = owner_pid w \<and> host l = owner_host w"

definition advancePawTaskSession ::
  "process_env \<Rightarrow> string \<Rightarrow> files \<Rightarrow> string \<Rightarrow> PawStateTransition \<Rightarrow> PawSessionLockOptions \<Rightarrow>
     (PawTaskSessionAdvanceResult \<times> files) throws" where
  "advancePawTaskSession env repo fs sid t opts =
     (case getPawSessionLockStatus env repo fs sid opts of
        Inl e \<Rightarrow> Inl e
      | Inr Unlocked \<Rightarrow> Inr (NotLocked NotLockedUnlocked, fs)
      | Inr (Stale r l) \<Rightarrow> Inr (NotLocked (NotLockedStale r l), fs)
      | Inr (Locked l) \<Rightarrow>
          let expectedOwner = getPawTaskSessionLockOwner env opts in
          if \<not> isPawTaskSessionLockOwner l expectedOwner
          then Inr (LockedByOther l expectedOwner, fs)
          else (case readPawSessionState repo fs sid of
                  Inl e \<Rightarrow> Inl e
                | Inr previousState \<Rightarrow>
                    (case transitionPawSessionState previousState t of
                       Invalid is \<Rightarrow> Inr (InvalidTransition previousState is, fs)
                     | Ok s \<Rightarrow>
                         (case writePawSessionState repo fs s of
                            Inl e \<Rightarrow> Inl e
                          | Inr fs' \<Rightarrow> Inr (Advanced l previousState s, fs')))))"

section \<open>Plan approval, slice selection, slice implementation\<close>

text \<open>The four transition results of a plan approval carry the queue and the advance result.\<close>

datatype PawPlanApprovalResult =
    InvalidPlan "PawValidationIssue list"
  | PlanTransition PawPlanSliceQueue PawTaskSessionAdvanceResult

definition approvePawPlanSlices ::
  "process_env \<Rightarrow> string \<Rightarrow> files \<Rightarrow> string \<Rightarrow> Paw_Json.json \<Rightarrow> PawSessionLockOptions \<Rightarrow>
     (PawPlanApprovalResult \<times> files) throws" where
  "approvePawPlanSlices env repo fs sid plannerSlices opts =
     (case createPawPlanSliceQueue plannerSlices of
        Invalid is \<Rightarrow> Inr (InvalidPlan is, fs)
      | Ok q \<Rightarrow>
          (case advancePawTaskSession env repo fs sid
                  \<lparr>to_state = Active PLAN_APPROVED, slice_ids = Some (queue_slice_ids q),
                   transition_reason = None\<rparr> opts of
             Inl e \<Rightarrow> Inl e
           | Inr (adv, fs') \<Rightarrow> Inr (PlanTransition q adv, fs')))"

datatype PawSliceSelectionResult =
    SliceSelected string PawTaskSessionAdvanceResult
  | NoPendingSlices PawSessionState
  | SelectionRefused PawTaskSessionAdvanceResult

definition isNoPendingSliceSelection :: "PawSessionState \<Rightarrow> PawValidationIssue list \<Rightarrow> bool" where
  "isNoPendingSliceSelection s is \<longleftrightarrow>
     (state_name s = Member (Active PLAN_APPROVED) \<or> state_name s = Member (Active SLICE_DONE))
     \<and> length (pending_slice_ids s) = 0
     \<and> list_ex (\<lambda>i. issue_path i = ''/pending_slice_ids'') is"

definition createPawSliceSelectionResult ::
  "PawTaskSessionAdvanceResult \<Rightarrow> PawSliceSelectionResult throws" where
  "createPawSliceSelectionResult adv =
     (case adv of
        Advanced l s s' \<Rightarrow>
          (case current_slice_id s' of
             None \<Rightarrow> Inl (JsError ''SLICE_SELECT advanced without a selected slice id.'')
           | Some c \<Rightarrow> Inr (SliceSelected c adv))
      | InvalidTransition s is \<Rightarrow>
          if isNoPendingSliceSelection s is then Inr (NoPendingSlices s)
          else Inr (SelectionRefused adv)
      | NotLocked why \<Rightarrow> Inr (SelectionRefused adv)
      | LockedByOther l w \<Rightarrow> Inr (SelectionRefused adv))"

definition selectNextPawPlanSlice ::
  "process_env \<Rightarrow> string \<Rightarrow> files \<Rightarrow> string \<Rightarrow> PawSessionLockOptions \<Rightarrow>
     PawSliceSelectionResult throws \<times> files" where
  "selectNextPawPlanSlice env repo fs sid opts =
     (case advancePawTaskSession env repo fs sid (goto SLICE_SELECT) opts of
        Inl e \<Rightarrow> (Inl e, fs)
      | Inr (adv, fs') \<Rightarrow> (createPawSliceSelectionResult adv, fs'))"

datatype PawSliceImplementationResult =
    ImplementationBegun string PawTaskSessionAdvanceResult
  | NoSelectedSlice PawSessionState PawTaskSessionAdvanceResult
  | ImplementationRefused PawTaskSessionAdvanceResult

definition isNoSelectedSliceImplementationStart ::
  "PawSessionState \<Rightarrow> PawValidationIssue list \<Rightarrow> bool" where
  "isNoSelectedSliceImplementationStart s is \<longleftrightarrow>
     state_name s = Member (Active SLICE_SELECT) \<and> current_slice_id s = None
     \<and> list_ex (\<lambda>i. issue_path i = ''/current_slice_id'') is"

definition createPawSliceImplementationResult ::
  "PawTaskSessionAdvanceResult \<Rightarrow> PawSliceImplementationResult throws" where
  "createPawSliceImplementationResult adv =
     (case adv of
        Advanced l s s' \<Rightarrow>
          (case current_slice_id s' of
             None \<Rightarrow> Inl (JsError ''IMPLEMENTING advanced without a selected slice id.'')
           | Some c \<Rightarrow> Inr (ImplementationBegun c adv))
      | InvalidTransition s is \<Rightarrow>
          if isNoSelectedSliceImplementationStart s is then Inr (NoSelectedSlice s adv)
          else Inr (ImplementationRefused adv)
      | NotLocked why \<Rightarrow> Inr (ImplementationRefused adv)
      | LockedByOther l w \<Rightarrow> Inr (ImplementationRefused adv))"

definition beginPawSliceImplementation ::
  "process_env \<Rightarrow> string \<Rightarrow> files \<Rightarrow> string \<Rightarrow> PawSessionLockOptions \<Rightarrow>
     PawSliceImplementationResult throws \<times> files" where
  "beginPawSliceImplementation env repo fs sid opts =
     (case advancePawTaskSession env repo fs sid (goto IMPLEMENTING) opts of
        Inl e \<Rightarrow> (Inl e, fs)
      | Inr (adv, fs') \<Rightarrow> (createPawSliceImplementationResult adv, fs'))"

section \<open>Lock results of commands\<close>

record PawNotLockedCommandFields =
  fields_sessionId :: string
  fields_stale :: bool
  fields_staleReason :: "PawSessionLockStaleReason option"
  fields_lockReleased :: bool

definition mapPawNotLockedCommandFields ::
  "string \<Rightarrow> bool \<Rightarrow> bool \<Rightarrow> PawSessionLockStaleReason option \<Rightarrow> PawNotLockedCommandFields" where
  "mapPawNotLockedCommandFields sid stale released r =
     (if stale
      then \<lparr>fields_sessionId = sid, fields_stale = True, fields_staleReason = r,
            fields_lockReleased = released\<rparr>
      else \<lparr>fields_sessionId = sid, fields_stale = False, fields_staleReason = None,
            fields_lockReleased = released\<rparr>)"

section \<open>What the commands leave alone\<close>

lemma transition_session_id: "transitionPawSessionState s t = Ok s' \<Longrightarrow> session_id s' = session_id s"
proof -
  assume "transitionPawSessionState s t = Ok s'"
  from transition_is_step [OF this] show ?thesis by (induction rule: paw_step.induct) auto
qed

lemma read_depends:
  "fs (stateFile (sessionPaths r sid)) = fs' (stateFile (sessionPaths r sid)) \<Longrightarrow>
     readPawSessionState r fs sid = readPawSessionState r fs' sid"
  by (cases "validSessionId sid")
    (simp_all add: readPawSessionState_def readPawJson_def resolve_valid resolvePawSessionPaths_def
      assertValidSessionId_def)

lemma read_valid: "readPawSessionState r fs sid = Inr s \<Longrightarrow> validSessionId sid"
  unfolding readPawSessionState_def by (rule resolve_then)

lemma read_wf: "readPawSessionState r fs sid = Inr s \<Longrightarrow> session_wf s"
  by (auto simp: readPawSessionState_def split: sum.splits intro: parse_state_wf)

text \<open>The lock operations touch the lock file of their session only.\<close>

lemma acquire_frame:
  assumes "acquirePawSessionLock env r fs sid opts = Inr (res, fs')"
  shows "validSessionId sid \<and> (\<exists>f. fs' = fs(lockFile (sessionPaths r sid) := f))"
proof -
  have v: "validSessionId sid"
    using assms unfolding acquirePawSessionLock_def by (rule resolve_then)
  have "lock_wf (nextLock env opts)"
    using assms v by (auto simp: acquirePawSessionLock_def createPawSessionLock_def split: sum.splits)
  from assms [unfolded acquire_eq [OF v this]]
  have "fs' = fs \<or> (\<exists>f. fs' = fs(lockFile (sessionPaths r sid) := f))"
    by (auto split: sum.splits option.splits)
  then show ?thesis using v by (metis fun_upd_triv)
qed

lemma refresh_frame:
  assumes "refreshPawSessionLockHeartbeat env r fs sid opts = Inr (res, fs')"
  shows "validSessionId sid \<and> (\<exists>f. fs' = fs(lockFile (sessionPaths r sid) := f))"
proof -
  have v: "validSessionId sid"
    using assms unfolding refreshPawSessionLockHeartbeat_def by (rule resolve_then)
  with assms have "fs' = fs \<or> (\<exists>f. fs' = fs(lockFile (sessionPaths r sid) := f))"
    by (auto simp: refreshPawSessionLockHeartbeat_def resolve_valid writePawJsonAtomic_def
        split: sum.splits option.splits if_splits PawSessionLockStatus.splits)
  then show ?thesis using v by (metis fun_upd_triv)
qed

lemma release_frame:
  assumes "releasePawSessionLock env r fs sid opts = Inr (res, fs')"
  shows "validSessionId sid \<and> (\<exists>f. fs' = fs(lockFile (sessionPaths r sid) := f))"
proof -
  have v: "validSessionId sid"
    using assms unfolding releasePawSessionLock_def by (rule resolve_then)
  with assms have "fs' = fs \<or> (\<exists>f. fs' = fs(lockFile (sessionPaths r sid) := f))"
    by (auto simp: release_eq split: sum.splits option.splits if_splits)
  then show ?thesis using v by (metis fun_upd_triv)
qed

lemma read_after_lock_change:
  assumes "validSessionId sid"
  shows "readPawSessionState r (fs(lockFile (sessionPaths r sid) := f)) k = readPawSessionState r fs k"
proof (cases "validSessionId k")
  case True
  with assms show ?thesis by (intro read_depends) (simp add: session_files_distinct)
next
  case False
  then show ?thesis
    by (simp add: readPawSessionState_def resolvePawSessionPaths_def assertValidSessionId_def)
qed

lemmas read_after_lock_op =
  acquire_frame [THEN conjunct1, THEN read_after_lock_change]
  refresh_frame [THEN conjunct1, THEN read_after_lock_change]
  release_frame [THEN conjunct1, THEN read_after_lock_change]

lemma paw_dir_file: "pathJoin (pathJoin r ''.paw'') f = pathJoin r ''.paw'' @ ''/'' @ f"
  by (rule pathJoin_seg) simp_all

lemma state_file_text:
  assumes "validSessionId sid"
  shows "stateFile (sessionPaths r sid) = pathJoin r ''.paw'' @ ''/sessions/'' @ sid @ ''/state.json''"
proof -
  have "CHR ''/'' \<notin> set sid" "sid \<noteq> []"
    using assms validSessionId_no_slash by (auto simp: validSessionId_def)
  then show ?thesis
    unfolding sessionPaths_files sessionsDir_def
    by (subst pathJoin_seg, simp, simp)+ (simp add: pathJoin_seg)
qed

lemma writeMissing_frame: "q \<noteq> path \<Longrightarrow> snd (writeMissingFile path txt a) q = snd a q"
  by (cases a) (simp add: writeMissingFile_def)

lemma init_keeps_states:
  assumes "validSessionId sid"
  shows "snd (initializePawProject r c fs) (stateFile (sessionPaths r sid)) = fs (stateFile (sessionPaths r sid))"
proof -
  have "stateFile (sessionPaths r sid) \<notin> {configFile (resolvePawProjectPaths r),
      versionFile (resolvePawProjectPaths r), memoriesFile (resolvePawProjectPaths r),
      gitignoreFile (resolvePawProjectPaths r)}"
    by (simp add: state_file_text [OF assms] resolvePawProjectPaths_def Let_def paw_dir_file pathJoin_seg)
  then show ?thesis
    by (simp add: initializePawProject_def Let_def writeMissing_frame)
qed

lemma read_after_init:
  "readPawSessionState r (snd (initializePawProject r c fs)) k = readPawSessionState r fs k"
proof (cases "validSessionId k")
  case True
  then show ?thesis by (intro read_depends init_keeps_states)
next
  case False
  then show ?thesis
    by (simp add: readPawSessionState_def resolvePawSessionPaths_def assertValidSessionId_def)
qed

section \<open>The outcome of advancing\<close>

lemma owner_current: "isPawTaskSessionLockOwner l (getPawTaskSessionLockOwner env opts) \<longleftrightarrow> isCurrentOwner env l opts"
  by (simp add: isPawTaskSessionLockOwner_def getPawTaskSessionLockOwner_def isCurrentOwner_def)

text \<open>The caller holds the session's lock and the lock is live.\<close>

definition holds_live_lock ::
  "process_env \<Rightarrow> string \<Rightarrow> files \<Rightarrow> string \<Rightarrow> PawSessionLockOptions \<Rightarrow> PawSessionLock \<Rightarrow> bool" where
  "holds_live_lock env r fs sid opts l \<longleftrightarrow> validSessionId sid \<and> lockHolder r sid fs = Some l
     \<and> getPawSessionLockStaleReason env l opts = None \<and> isCurrentOwner env l opts"

lemma advance_locked:
  assumes "holds_live_lock env r fs sid opts l"
  shows "advancePawTaskSession env r fs sid t opts =
    (case readPawSessionState r fs sid of
       Inl e \<Rightarrow> Inl e
     | Inr s \<Rightarrow> (case transitionPawSessionState s t of
           Invalid is \<Rightarrow> Inr (InvalidTransition s is, fs)
         | Ok s' \<Rightarrow> (case writePawSessionState r fs s' of
               Inl e \<Rightarrow> Inl e | Inr fs' \<Rightarrow> Inr (Advanced l s s', fs'))))"
  using assms
  by (auto simp: holds_live_lock_def advancePawTaskSession_def lockStatus_lock lockHolder_def
      owner_current Let_def split: sum.splits)

lemma advance_cases:
  assumes "advancePawTaskSession env r fs sid t opts = Inr (res, fs')"
  shows "(\<exists>l s s'. res = Advanced l s s' \<and> holds_live_lock env r fs sid opts l
            \<and> readPawSessionState r fs sid = Inr s \<and> transitionPawSessionState s t = Ok s'
            \<and> writePawSessionState r fs s' = Inr fs')
       \<or> (\<exists>l s is. res = InvalidTransition s is \<and> holds_live_lock env r fs sid opts l
            \<and> readPawSessionState r fs sid = Inr s \<and> transitionPawSessionState s t = Invalid is \<and> fs' = fs)
       \<or> ((\<exists>why. res = NotLocked why) \<or> (\<exists>l w. res = LockedByOther l w))
            \<and> (\<nexists>l. holds_live_lock env r fs sid opts l) \<and> fs' = fs"
proof -
  have v: "validSessionId sid"
    using assms unfolding advancePawTaskSession_def getPawSessionLockStatus_def
    by (cases "resolvePawSessionPaths r sid") auto
  show ?thesis
  proof (cases "\<exists>l. holds_live_lock env r fs sid opts l")
    case True
    then obtain l where l: "holds_live_lock env r fs sid opts l" by blast
    with assms show ?thesis
      by (auto simp: advance_locked [OF l] split: sum.splits PawValidationResult.splits)
  next
    case False
    with assms v show ?thesis
      by (auto simp: holds_live_lock_def advancePawTaskSession_def lockStatus_lock lockHolder_def
          owner_current Let_def split: sum.splits option.splits if_splits)
  qed
qed

section \<open>Commands of many processes on one store\<close>

text \<open>
  The commands any process may run on a repository, in any order and on any session; a
  command runs to completion before the next one starts.
\<close>

datatype session_command =
    Start actor string init_contents
  | Advance actor string PawStateTransition
  | Refresh actor string
  | Release actor string

fun exec_command :: "string \<Rightarrow> files \<Rightarrow> session_command \<Rightarrow> files" where
  "exec_command r fs (Start a sid c) = snd (startPawTaskSession (fst a) r c fs sid (snd a))"
| "exec_command r fs (Advance a sid t) =
     (case advancePawTaskSession (fst a) r fs sid t (snd a) of Inl e \<Rightarrow> fs | Inr (res, fs') \<Rightarrow> fs')"
| "exec_command r fs (Refresh a sid) =
     (case refreshPawSessionLockHeartbeat (fst a) r fs sid (snd a) of Inl e \<Rightarrow> fs | Inr (res, fs') \<Rightarrow> fs')"
| "exec_command r fs (Release a sid) =
     (case releasePawSessionLock (fst a) r fs sid (snd a) of Inl e \<Rightarrow> fs | Inr (res, fs') \<Rightarrow> fs')"

text \<open>Every stored session is filed under its own id and was reached by accepted transitions.\<close>

definition reached :: "string \<Rightarrow> PawSessionState \<Rightarrow> bool" where
  "reached sid s \<longleftrightarrow> (\<exists>ts. run_steps transitionPawSessionState (createInitialPawSessionState sid) ts = Ok s)"

definition store_inv :: "string \<Rightarrow> files \<Rightarrow> bool" where
  "store_inv r fs \<longleftrightarrow> (\<forall>sid s. readPawSessionState r fs sid = Inr s \<longrightarrow> session_id s = sid \<and> reached sid s)"

lemma reached_step:
  assumes "reached sid s" "transitionPawSessionState s t = Ok s'"
  shows "reached sid s'"
proof -
  from assms(1) obtain ts where
    "run_steps transitionPawSessionState (createInitialPawSessionState sid) ts = Ok s"
    by (auto simp: reached_def)
  with assms(2) have
    "run_steps transitionPawSessionState (createInitialPawSessionState sid) (ts @ [t]) = Ok s'"
    by (simp add: run_steps_append)
  then show ?thesis unfolding reached_def by blast
qed

lemma store_inv_write:
  assumes "store_inv r fs" "writePawSessionState r fs s = Inr fs'" "reached (session_id s) s"
  shows "store_inv r fs'"
  unfolding store_inv_def
proof (intro allI impI)
  fix sid u
  assume u: "readPawSessionState r fs' sid = Inr u"
  show "session_id u = sid \<and> reached sid u"
  proof (cases "sid = session_id s")
    case True
    with u read_after_write [OF assms(2)] assms(3) show ?thesis by simp
  next
    case False
    with u read_other_after_write [OF assms(2)] assms(1) show ?thesis by (simp add: store_inv_def)
  qed
qed

lemma store_inv_same_reads:
  "store_inv r fs \<Longrightarrow> (\<And>k. readPawSessionState r fs' k = readPawSessionState r fs k) \<Longrightarrow> store_inv r fs'"
  by (simp add: store_inv_def)

lemma store_inv_advance:
  assumes "store_inv r fs" "advancePawTaskSession env r fs sid t opts = Inr (res, fs')"
  shows "store_inv r fs'"
  using advance_cases [OF assms(2)]
proof (elim disjE exE conjE)
  fix l s s'
  assume "readPawSessionState r fs sid = Inr s" and t: "transitionPawSessionState s t = Ok s'"
    and w: "writePawSessionState r fs s' = Inr fs'"
  with assms(1) have "session_id s = sid" "reached sid s" by (auto simp: store_inv_def)
  with t have "reached (session_id s') s'" by (simp add: transition_session_id reached_step)
  with store_inv_write [OF assms(1) w] show ?thesis .
qed (use assms(1) in simp_all)

lemma started_state:
  assumes "createStartedPawTaskSessionState sid = Inr s"
  shows "session_id s = sid \<and> reached sid s"
proof -
  from assms have t: "transitionPawSessionState (createInitialPawSessionState sid) (goto INTAKE) = Ok s"
    by (simp add: createStartedPawTaskSessionState_def split: PawValidationResult.splits)
  then have "run_steps transitionPawSessionState (createInitialPawSessionState sid) [goto INTAKE] = Ok s"
    by simp
  then have "reached sid s" unfolding reached_def by blast
  moreover have "session_id s = sid"
    using transition_session_id [OF t] by (simp add: createInitialPawSessionState_def)
  ultimately show ?thesis by blast
qed

section \<open>The outcome of starting\<close>

lemma readExisting_None:
  "readExistingPawTaskSessionState r fs sid = Inr None \<longleftrightarrow>
     readPawSessionState r fs sid = Inl (FileSystemError ''ENOENT'')"
  by (auto simp: readExistingPawTaskSessionState_def split: sum.splits js_error.splits if_splits)

lemma readExisting_Some:
  "readExistingPawTaskSessionState r fs sid = Inr (Some s) \<longleftrightarrow> readPawSessionState r fs sid = Inr s"
  by (auto simp: readExistingPawTaskSessionState_def split: sum.splits js_error.splits if_splits)

lemma acquire_holder:
  assumes "acquirePawSessionLock env r fs sid opts = Inr (Acquired l prev, fs')"
  shows "lockHolder r sid fs' = Some l \<and> isCurrentOwner env l opts"
proof -
  have v: "validSessionId sid" using acquire_frame [OF assms] by blast
  have wf: "lock_wf (nextLock env opts)"
    using assms v by (auto simp: acquirePawSessionLock_def createPawSessionLock_def split: sum.splits)
  from assms [unfolded acquire_eq [OF v wf]] have "l = nextLock env opts"
    "fs' = fs(lockFile (sessionPaths r sid) \<mapsto> JsonText (json_of_lock l))"
    by (auto split: sum.splits option.splits)
  with wf show ?thesis
    by (simp add: lockHolder_def readLock_written isCurrentOwner_def nextLock_def)
qed

lemma acquire_live_holder:
  assumes "acquirePawSessionLock env r fs sid opts = Inr (LiveLock l, fs')"
  shows "lockHolder r sid fs' = Some l \<and> getPawSessionLockStaleReason env l opts = None"
proof -
  have v: "validSessionId sid" using acquire_frame [OF assms] by blast
  have wf: "lock_wf (nextLock env opts)"
    using assms v by (auto simp: acquirePawSessionLock_def createPawSessionLock_def split: sum.splits)
  from assms [unfolded acquire_eq [OF v wf]] show ?thesis
    by (auto simp: lockHolder_def split: sum.splits option.splits)
qed

lemma lockHolder_after_write:
  assumes "writePawSessionState r fs s = Inr fs'"
  shows "lockHolder r (session_id s) fs' = lockHolder r (session_id s) fs"
  using assms session_files_distinct(3) [of "session_id s" "session_id s" r]
  by (simp add: write_Inr lockHolder_def readPawSessionLockIfExists_def readPawJson_def)

lemma started_value:
  assumes "createStartedPawTaskSessionState sid = Inr s"
  shows "s = (createInitialPawSessionState sid)\<lparr>state_name := Member (Active INTAKE)\<rparr>"
proof -
  let ?i = "createInitialPawSessionState sid"
  from assms have t: "transitionPawSessionState ?i (goto INTAKE) = Ok s"
    by (simp add: createStartedPawTaskSessionState_def split: PawValidationResult.splits)
  have n: "state_name ?i = Member (Active IDLE)" "to_state (goto INTAKE) = Active INTAKE"
    by (simp_all add: createInitialPawSessionState_def goto_def)
  from t transition_active [OF transition_wf [OF t] n, of s]
  have "s = applyActiveTransition ?i INTAKE (slice_ids (goto INTAKE))" by simp
  then show ?thesis by (simp add: applyActiveTransition_def createInitialPawSessionState_def)
qed

text \<open>The three ways a start can succeed, and what it reads and leaves.\<close>

lemma start_cases:
  assumes "startPawTaskSession env r c fs sid opts = (res, fs')"
  defines "fs1 \<equiv> snd (initializePawProject r c fs)"
  shows "(\<exists>e. res = Inl e) \<and> (\<forall>k. readPawSessionState r fs' k = readPawSessionState r fs k)
    \<or> (\<exists>i l. res = Inr (StartLocked i l) \<and> acquirePawSessionLock env r fs1 sid opts = Inr (LiveLock l, fs')
         \<and> (\<forall>k. readPawSessionState r fs' k = readPawSessionState r fs k))
    \<or> (\<exists>i l p s. res = Inr (Existing i l p s)
         \<and> acquirePawSessionLock env r fs1 sid opts = Inr (Acquired l p, fs')
         \<and> readPawSessionState r fs sid = Inr s
         \<and> (\<forall>k. readPawSessionState r fs' k = readPawSessionState r fs k))
    \<or> (\<exists>i l p s fs2. res = Inr (Started i l p s)
         \<and> acquirePawSessionLock env r fs1 sid opts = Inr (Acquired l p, fs2)
         \<and> readPawSessionState r fs sid = Inl (FileSystemError ''ENOENT'')
         \<and> createStartedPawTaskSessionState sid = Inr s
         \<and> (\<forall>k. readPawSessionState r fs2 k = readPawSessionState r fs k)
         \<and> writePawSessionState r fs2 s = Inr fs')"
proof -
  obtain i where fs1: "initializePawProject r c fs = (i, fs1)"
    by (cases "initializePawProject r c fs") (simp add: fs1_def)
  have r1: "readPawSessionState r fs1 k = readPawSessionState r fs k" for k
    unfolding fs1_def by (rule read_after_init)
  show ?thesis
  proof (cases "acquirePawSessionLock env r fs1 sid opts")
    case (Inl e)
    with assms(1) r1 show ?thesis by (subst (asm) startPawTaskSession_def) (auto simp: fs1)
  next
    case (Inr b)
    obtain a fs2 where b: "b = (a, fs2)" by (cases b)
    have r2: "readPawSessionState r fs2 k = readPawSessionState r fs k" for k
      using acquire_frame [OF Inr [unfolded b]] read_after_lock_change r1 by metis
    show ?thesis
    proof (cases a)
      case (LiveLock l)
      with assms(1) Inr b r2 show ?thesis by (subst (asm) startPawTaskSession_def) (auto simp: fs1)
    next
      case (Acquired l p)
      have acq: "acquirePawSessionLock env r fs1 sid opts = Inr (Acquired l p, fs2)"
        using Inr b Acquired by simp
      note found = assms(1) [unfolded startPawTaskSession_def fs1 Let_def prod.case Inr b sum.case
          Acquired PawLockAcquireResult.case]
      show ?thesis
      proof (cases "readExistingPawTaskSessionState r fs2 sid")
        case (Inl e)
        with found r2 show ?thesis by auto
      next
        case (Inr ex)
        show ?thesis
        proof (cases ex)
          case None
          with found Inr have "(case createStartedPawTaskSessionState sid of
                Inl e \<Rightarrow> (Inl e, fs2)
              | Inr s \<Rightarrow> (case writePawSessionState r fs2 s of
                   Inl e \<Rightarrow> (Inl e, fs2)
                 | Inr fs3 \<Rightarrow> (Inr (Started i l p s), fs3))) = (res, fs')"
            by simp
          moreover have "readPawSessionState r fs sid = Inl (FileSystemError ''ENOENT'')"
            using Inr None r2 [of sid] by (simp add: readExisting_None)
          ultimately show ?thesis
            using acq r2 by (cases "createStartedPawTaskSessionState sid")
              (auto split: sum.splits)
        next
          case (Some s)
          with found Inr acq r2 [of sid] r2 show ?thesis by (auto simp: readExisting_Some)
        qed
      qed
    qed
  qed
qed

lemma store_inv_start:
  assumes inv: "store_inv r fs" and "startPawTaskSession env r c fs sid opts = (res, fs')"
  shows "store_inv r fs'"
proof -
  from start_cases [OF assms(2)] consider
    "\<forall>k. readPawSessionState r fs' k = readPawSessionState r fs k"
    | s fs2 where "createStartedPawTaskSessionState sid = Inr s"
        "\<forall>k. readPawSessionState r fs2 k = readPawSessionState r fs k"
        "writePawSessionState r fs2 s = Inr fs'"
    by blast
  then show ?thesis
  proof cases
    case 1
    with inv show ?thesis by (auto intro: store_inv_same_reads)
  next
    case 2
    then have "store_inv r fs2" using inv by (auto intro: store_inv_same_reads)
    moreover have "reached (session_id s) s" using started_state [OF 2(1)] by simp
    ultimately show ?thesis using store_inv_write 2(3) by blast
  qed
qed

lemma store_inv_command: "store_inv r fs \<Longrightarrow> store_inv r (exec_command r fs cmd)"
proof (cases cmd)
  case (Start a sid c)
  then show "store_inv r fs \<Longrightarrow> ?thesis" by (metis exec_command.simps(1) store_inv_start surjective_pairing)
next
  case (Advance a sid t)
  then show "store_inv r fs \<Longrightarrow> ?thesis" by (auto split: sum.splits dest: store_inv_advance)
next
  case (Refresh a sid)
  then show "store_inv r fs \<Longrightarrow> ?thesis"
    by (auto split: sum.splits dest!: refresh_frame intro: store_inv_same_reads read_after_lock_change)
next
  case (Release a sid)
  then show "store_inv r fs \<Longrightarrow> ?thesis"
    by (auto split: sum.splits dest!: release_frame intro: store_inv_same_reads read_after_lock_change)
qed

lemma store_inv_commands: "store_inv r fs \<Longrightarrow> store_inv r (foldl (exec_command r) fs cmds)"
  by (induction cmds arbitrary: fs) (auto intro: store_inv_command)

lemma store_inv_empty: "store_inv r Map.empty"
  by (simp add: store_inv_def readPawSessionState_def readPawJson_def split: sum.splits)

section \<open>Selection and approval\<close>

lemma allowed_select: "SLICE_SELECT \<in> set (PAW_ALLOWED_ACTIVE_TRANSITIONS a) \<longleftrightarrow> a \<in> {PLAN_APPROVED, SLICE_DONE}"
  by (cases a) simp_all

lemma transition_select:
  assumes wf: "session_wf s" and n: "state_name s = Member (Active a)"
  shows "transitionPawSessionState s (goto SLICE_SELECT) =
    (if a \<in> {PLAN_APPROVED, SLICE_DONE}
     then (case pending_slice_ids s of
         [] \<Rightarrow> Invalid [Issue ''/pending_slice_ids'' ''SLICE_SELECT requires at least one pending slice.'']
       | x # xs \<Rightarrow> Ok (s\<lparr>state_name := Member (Active SLICE_SELECT), current_slice_id := Some x,
           pending_slice_ids := xs\<rparr>))
     else invalidTransition (Active a) (Active SLICE_SELECT))"
proof (cases "a \<in> {PLAN_APPROVED, SLICE_DONE} \<and> pending_slice_ids s \<noteq> []")
  case True
  then obtain x xs where p: "pending_slice_ids s = x # xs" by (meson neq_Nil_conv)
  have g: "validateActiveTransitionGuard s a SLICE_SELECT None = []" using p by (simp add: guard_Nil)
  from transition_goto [OF wf n _ _ g] True p show ?thesis
    by (auto simp: allowed_select applyActiveTransition_def)
next
  case False
  then show ?thesis
    using wf n by (auto simp: transitionPawSessionState_def assertValid_wf goto_def allowed_select
        validateActiveTransitionGuard_def split: list.splits)
qed

lemma validSessionId_trimmed:
  assumes "validSessionId sid"
  shows "js_trim sid = sid" and "\<not> blank sid"
proof -
  have nospace: "\<not> js_space c" if "is_alnum c" for c
    using that by (auto simp: js_space_def is_alnum_def Let_def)
  from assms have ends: "sid \<noteq> []" "\<not> js_space (hd sid)" "\<not> js_space (hd (rev sid))"
    by (auto simp: validSessionId_def hd_rev nospace)
  have "dropWhile js_space xs = xs" if "\<not> js_space (hd xs)" for xs
    using that by (cases xs) auto
  with ends show "js_trim sid = sid" by (simp add: js_trim_def)
  with ends show "\<not> blank sid" by (simp add: blank_def)
qed

lemma reached_phase_inv: "validSessionId sid \<Longrightarrow> reached sid s \<Longrightarrow> phase_inv s"
  unfolding reached_def
  using session_machine.run_inv [OF phase_inv_init] validSessionId_trimmed(2) by blast

lemma store_inv_phase:
  "store_inv r fs \<Longrightarrow> readPawSessionState r fs sid = Inr s \<Longrightarrow> phase_inv s"
  unfolding store_inv_def using read_valid reached_phase_inv by blast

lemma write_transitioned:
  assumes "store_inv r fs" "readPawSessionState r fs sid = Inr s" "transitionPawSessionState s t = Ok s'"
  shows "writePawSessionState r fs s' =
      Inr (fs(stateFile (sessionPaths r sid) \<mapsto> JsonText (json_of_state s')))"
proof -
  have "session_id s' = sid"
    using assms by (auto simp: store_inv_def transition_session_id)
  moreover have "session_wf s'" using assms(3) by (rule transition_keeps_wf)
  ultimately show ?thesis using read_valid [OF assms(2)] by (simp add: write_Inr)
qed

text \<open>On a consistent store the owner of a live lock gets what the machine answers.\<close>

lemma advance_consistent:
  assumes "store_inv r fs" "holds_live_lock env r fs sid opts l" "readPawSessionState r fs sid = Inr s"
  shows "advancePawTaskSession env r fs sid t opts =
    (case transitionPawSessionState s t of
       Invalid is \<Rightarrow> Inr (InvalidTransition s is, fs)
     | Ok s' \<Rightarrow> Inr (Advanced l s s', fs(stateFile (sessionPaths r sid) \<mapsto> JsonText (json_of_state s'))))"
  using write_transitioned [OF assms(1,3)]
  by (auto simp: advance_locked [OF assms(2)] assms(3) split: PawValidationResult.splits)

lemma read_stored:
  assumes "validSessionId sid" "session_wf s"
  shows "readPawSessionState r (fs(stateFile (sessionPaths r sid) \<mapsto> JsonText (json_of_state s))) sid = Inr s"
  using assms by (simp add: readPawSessionState_def readPawJson_def resolve_valid parse_json_of_state)

section \<open>Properties\<close>

definition sample_contents :: init_contents where
  "sample_contents = \<lparr>config_text = BrokenText ''c'', version_text = BrokenText ''v'',
     memories_text = BrokenText ''m'', gitignore_text = BrokenText ''g''\<rparr>"

definition sample_actor :: "int \<Rightarrow> actor" where
  "sample_actor p = (sample_env p, no_options)"

text \<open>A store in which process 7 holds the live lock of a session, with its state.\<close>

definition sample_store :: "PawSessionState \<Rightarrow> files" where
  "sample_store s = [lockFile (sessionPaths ''/repo'' ''s1'') \<mapsto>
       JsonText (json_of_lock (nextLock (sample_env 7) no_options)),
     stateFile (sessionPaths ''/repo'' ''s1'') \<mapsto> JsonText (json_of_state s)]"

lemma sample_store_locked: "holds_live_lock (sample_env 7) ''/repo'' (sample_store s) ''s1'' no_options
    (nextLock (sample_env 7) no_options)"
proof -
  have "lockHolder ''/repo'' ''s1'' (sample_store s) = Some (nextLock (sample_env 7) no_options)"
    using readLock_written [OF sample_lock_wf, of 7
        "[stateFile (sessionPaths ''/repo'' ''s1'') \<mapsto> JsonText (json_of_state s)]"]
      session_files_distinct(3) [OF sample_id_valid sample_id_valid, of "''/repo''"]
    by (simp add: lockHolder_def sample_store_def fun_upd_twist)
  then show ?thesis
    by (simp add: holds_live_lock_def sample_id_valid getPawSessionLockStaleReason_def
        isProcessAlive_def sample_env_def nextLock_def no_options_def or_else_def
        DEFAULT_PAW_SESSION_LOCK_TTL_SEC_def js_sub_def isCurrentOwner_def)
qed

lemma sample_store_read: "session_wf s \<Longrightarrow> readPawSessionState ''/repo'' (sample_store s) ''s1'' = Inr s"
  unfolding sample_store_def by (rule read_stored [OF sample_id_valid])

lemma sample_store_inv:
  assumes "run_steps transitionPawSessionState (createInitialPawSessionState ''s1'') ts = Ok s"
  shows "store_inv ''/repo'' (sample_store s)"
proof -
  have wf: "session_wf s"
    using assms session_machine.run_inv [OF phase_inv_init, of "''s1''"]
    by (auto simp: phase_inv_def blank_iff_all_space js_space_def)
  have "reached ''s1'' s" using assms unfolding reached_def by blast
  moreover have id: "session_id s = ''s1''"
  proof -
    have "session_id u = session_id w" if "run_steps transitionPawSessionState w us = Ok u" for us u w
      using that by (induction us arbitrary: w)
        (auto split: PawValidationResult.splits dest: transition_session_id)
    from this [OF assms] show ?thesis by (simp add: createInitialPawSessionState_def)
  qed
  moreover have "writePawSessionState ''/repo''
      [lockFile (sessionPaths ''/repo'' ''s1'') \<mapsto>
        JsonText (json_of_lock (nextLock (sample_env 7) no_options))] s = Inr (sample_store s)"
    using wf id sample_id_valid by (simp add: write_Inr sample_store_def)
  moreover have "store_inv ''/repo'' [lockFile (sessionPaths ''/repo'' ''s1'') \<mapsto>
        JsonText (json_of_lock (nextLock (sample_env 7) no_options))]"
    by (rule store_inv_same_reads [OF store_inv_empty read_after_lock_change [OF sample_id_valid]])
  ultimately show ?thesis using store_inv_write by metis
qed

text \<open>
  (C25) A session only advances under its lock. If the caller holds the session's live lock,
  the state machine decides: an accepted transition is written to the state file, where the
  next read finds it, and nothing else changes; a rejected one changes nothing. Without the
  live lock of the caller no file changes, whatever the transition.
\<close>

theorem advance_guarded_by_lock:
  assumes "advancePawTaskSession env r fs sid t opts = Inr (res, fs')"
  shows "if \<exists>l. holds_live_lock env r fs sid opts l
    then \<exists>s. readPawSessionState r fs sid = Inr s
           \<and> (case transitionPawSessionState s t of
                Invalid is \<Rightarrow> res = InvalidTransition s is \<and> fs' = fs
              | Ok s' \<Rightarrow> (\<exists>l. res = Advanced l s s')
                  \<and> readPawSessionState r fs' (session_id s') = Inr s'
                  \<and> (\<forall>p. p \<noteq> stateFile (sessionPaths r (session_id s')) \<longrightarrow> fs' p = fs p))
    else fs' = fs \<and> \<not> (\<exists>l s s'. res = Advanced l s s')"
proof (cases "\<exists>l. holds_live_lock env r fs sid opts l")
  case True
  then obtain l where l: "holds_live_lock env r fs sid opts l" by blast
  from assms obtain s where s: "readPawSessionState r fs sid = Inr s"
    by (auto simp: advance_locked [OF l] split: sum.splits)
  with assms True show ?thesis
    by (auto simp: advance_locked [OF l] write_Inr split: sum.splits PawValidationResult.splits
        intro!: read_stored)
next
  case False
  with advance_cases [OF assms] show ?thesis by auto
qed

lemma sample_slice_done: "session_wf (sample_session (Active SLICE_DONE) None [''b''] [''a''])"
  unfolding sessionStateIssues_Nil [symmetric] by code_simp

theorem advance_guarded_by_lock_witness:
  "\<exists>fs'. readPawSessionState ''/repo'' fs' ''s1''
     = Inr (sample_session (Active SLICE_SELECT) (Some ''b'') [] [''a''])"
proof -
  let ?s = "sample_session (Active SLICE_DONE) None [''b''] [''a'']"
  have rd: "readPawSessionState ''/repo'' (sample_store ?s) ''s1'' = Inr ?s"
    by (rule sample_store_read [OF sample_slice_done])
  have t: "transitionPawSessionState ?s (goto SLICE_SELECT)
      = Ok (sample_session (Active SLICE_SELECT) (Some ''b'') [] [''a''])"
    by code_simp
  have w: "\<exists>fs'. writePawSessionState ''/repo'' (sample_store ?s)
      (sample_session (Active SLICE_SELECT) (Some ''b'') [] [''a'']) = Inr fs'"
    using transition_keeps_wf [OF t] sample_id_valid unfolding write_Inr
    by (simp add: sample_session_def)
  then obtain fs' where adv: "advancePawTaskSession (sample_env 7) ''/repo'' (sample_store ?s) ''s1''
      (goto SLICE_SELECT) no_options
      = Inr (Advanced (nextLock (sample_env 7) no_options) ?s
          (sample_session (Active SLICE_SELECT) (Some ''b'') [] [''a'']), fs')"
    by (auto simp: advance_locked [OF sample_store_locked] rd t)
  have "\<exists>l. holds_live_lock (sample_env 7) ''/repo'' (sample_store ?s) ''s1'' no_options l"
    using sample_store_locked by blast
  with advance_guarded_by_lock [OF adv] rd t show ?thesis
    by (auto simp: sample_session_def)
qed

text \<open>
  Starting a session never destroys one: no state file of another session changes, and
  the session's own state changes only when it had none, in which case it becomes the
  \<open>INTAKE\<close> state. A successful start holds the lock; it is refused exactly because another
  live lock was found, which stays in place.
\<close>

theorem start_preserves_sessions:
  assumes "startPawTaskSession env r c fs sid opts = (res, fs')"
  shows "(\<forall>k. k \<noteq> sid \<or> readPawSessionState r fs sid \<noteq> Inl (FileSystemError ''ENOENT'') \<longrightarrow>
           readPawSessionState r fs' k = readPawSessionState r fs k)
    \<and> (\<forall>i l p s. res = Inr (Started i l p s) \<longrightarrow>
           readPawSessionState r fs sid = Inl (FileSystemError ''ENOENT'')
           \<and> s = (createInitialPawSessionState sid)\<lparr>state_name := Member (Active INTAKE)\<rparr>
           \<and> readPawSessionState r fs' sid = Inr s \<and> lockHolder r sid fs' = Some l \<and> isCurrentOwner env l opts)
    \<and> (\<forall>i l p s. res = Inr (Existing i l p s) \<longrightarrow>
           readPawSessionState r fs sid = Inr s \<and> lockHolder r sid fs' = Some l \<and> isCurrentOwner env l opts)
    \<and> (\<forall>i l. res = Inr (StartLocked i l) \<longrightarrow>
           lockHolder r sid fs' = Some l \<and> getPawSessionLockStaleReason env l opts = None)"
  using start_cases [OF assms]
proof (elim disjE exE conjE)
  fix i l
  assume "res = Inr (StartLocked i l)"
    "acquirePawSessionLock env r (snd (initializePawProject r c fs)) sid opts = Inr (LiveLock l, fs')"
    "\<forall>k. readPawSessionState r fs' k = readPawSessionState r fs k"
  then show ?thesis by (auto dest: acquire_live_holder)
next
  fix i l p s
  assume "res = Inr (Existing i l p s)"
    "acquirePawSessionLock env r (snd (initializePawProject r c fs)) sid opts = Inr (Acquired l p, fs')"
    "readPawSessionState r fs sid = Inr s"
    "\<forall>k. readPawSessionState r fs' k = readPawSessionState r fs k"
  then show ?thesis by (auto dest: acquire_holder)
next
  fix i l p s fs2
  assume res: "res = Inr (Started i l p s)"
    and acq: "acquirePawSessionLock env r (snd (initializePawProject r c fs)) sid opts = Inr (Acquired l p, fs2)"
    and absent: "readPawSessionState r fs sid = Inl (FileSystemError ''ENOENT'')"
    and s: "createStartedPawTaskSessionState sid = Inr s"
    and same: "\<forall>k. readPawSessionState r fs2 k = readPawSessionState r fs k"
    and w: "writePawSessionState r fs2 s = Inr fs'"
  have id: "session_id s = sid" using started_state [OF s] by blast
  have "lockHolder r sid fs' = lockHolder r sid fs2" using lockHolder_after_write [OF w] id by simp
  with acquire_holder [OF acq] have "lockHolder r sid fs' = Some l \<and> isCurrentOwner env l opts" by simp
  moreover have "readPawSessionState r fs' sid = Inr s" using read_after_write [OF w] id by simp
  moreover have "\<forall>k. k \<noteq> sid \<longrightarrow> readPawSessionState r fs' k = readPawSessionState r fs k"
    using read_other_after_write [OF w] id same by simp
  ultimately show ?thesis using res absent started_value [OF s] by simp
qed simp

theorem start_preserves_sessions_witness:
  "readPawSessionState ''/repo''
     (snd (startPawTaskSession (sample_env 7) ''/repo'' sample_contents (sample_store sample_state) ''s1''
       no_options)) ''s1'' = Inr sample_state"
proof -
  let ?r = "startPawTaskSession (sample_env 7) ''/repo'' sample_contents (sample_store sample_state) ''s1'' no_options"
  have rd: "readPawSessionState ''/repo'' (sample_store sample_state) ''s1'' = Inr sample_state"
    by (rule sample_store_read [OF sample_state_wf])
  have "?r = (fst ?r, snd ?r)" by simp
  from start_preserves_sessions [OF this] rd show ?thesis by simp
qed

text \<open>
  Approving a plan on a store whose sessions are reachable always works for the owner of
  the live lock of a session in \<open>PLAN_DRAFTED\<close> that brings a valid planner output whose ids
  were not completed before: the stored session is then in \<open>PLAN_APPROVED\<close>, with the slices
  of the plan pending in increasing \<open>order\<close>.
\<close>

theorem plan_approval_queues_in_order:
  assumes "store_inv r fs" and "holds_live_lock env r fs sid opts l"
    and "readPawSessionState r fs sid = Inr s" and "state_name s = Member (Active PLAN_DRAFTED)"
    and "createPawPlanSliceQueue v = Ok q" and "set (queue_slice_ids q) \<inter> set (completed_slice_ids s) = {}"
  shows "\<exists>s' fs'. approvePawPlanSlices env r fs sid v opts = Inr (PlanTransition q (Advanced l s s'), fs')
    \<and> readPawSessionState r fs' sid = Inr s' \<and> state_name s' = Member (Active PLAN_APPROVED)
    \<and> pending_slice_ids s' = map slice_id (slices q)
    \<and> sorted_wrt (\<lambda>a b. order_of a < order_of b) (slices q)
    \<and> completed_slice_ids s' = completed_slice_ids s"
proof -
  let ?t = "\<lparr>to_state = Active PLAN_APPROVED, slice_ids = Some (queue_slice_ids q), transition_reason = None\<rparr>"
  let ?s' = "s\<lparr>state_name := Member (Active PLAN_APPROVED), pending_slice_ids := queue_slice_ids q\<rparr>"
  note inv = store_inv_phase [OF assms(1,3)]
  then have wf: "session_wf s" and cur: "current_slice_id s = None"
    using assms(4) by (auto simp: phase_inv_def phase_def working_states_def)
  have wf': "session_wf ?s'"
    using wf cur assms(4,6) queue_ids [OF assms(5)]
    by (auto simp: session_wf_def plan_order_def reason_wf_def)
  have "transitionPawSessionState s ?t = Ok ?s'"
    using transition_active [OF wf assms(4), of ?t PLAN_APPROVED ?s'] wf' queue_ids(1) [OF assms(5)]
    by (simp add: guard_Nil applyActiveTransition_def)
  with assms(5) read_valid [OF assms(3)] wf' queue_ids(4,5) [OF assms(5)] show ?thesis
    by (auto simp: approvePawPlanSlices_def advance_consistent [OF assms(1,2,3)] intro!: read_stored)
qed

definition sample_plan :: Paw_Json.json where
  "sample_plan = JArray
     [JObject [(''slice_id'', JString ''b''), (''title'', JString ''second''), (''order'', JNumber (Num 2))],
      JObject [(''slice_id'', JString ''a''), (''title'', JString ''first''), (''order'', JNumber (Num 1)),
               (''max_risk_level'', JString ''R2'')]]"

definition sample_queue :: PawPlanSliceQueue where
  "sample_queue =
     (let a = \<lparr>slice_id = ''a'', title = ''first'', order_of = 1, target_files = None,
               slice_max_risk_level = Some R2, acceptance = None\<rparr>;
          b = \<lparr>slice_id = ''b'', title = ''second'', order_of = 2, target_files = None,
               slice_max_risk_level = None, acceptance = None\<rparr>
      in \<lparr>slices = [a, b], queue_slice_ids = [''a'', ''b'']\<rparr>)"

lemma sample_plan_queue: "createPawPlanSliceQueue sample_plan = Ok sample_queue"
  by code_simp

lemma sample_drafted_run:
  "run_steps transitionPawSessionState (createInitialPawSessionState ''s1'')
     (map goto [INTAKE, CLASSIFYING, CLARIFYING, SPEC_DRAFTED, SPEC_APPROVED, SCOUTING, PLAN_DRAFTED])
   = Ok (sample_session (Active PLAN_DRAFTED) None [] [])"
  by code_simp

theorem plan_approval_queues_in_order_witness:
  "\<exists>s' fs'. readPawSessionState ''/repo'' fs' ''s1'' = Inr s' \<and> pending_slice_ids s' = [''a'', ''b'']"
proof -
  let ?s = "sample_session (Active PLAN_DRAFTED) None [] []"
  have "session_wf ?s" unfolding sessionStateIssues_Nil [symmetric] by code_simp
  from plan_approval_queues_in_order [OF sample_store_inv [OF sample_drafted_run] sample_store_locked
      sample_store_read [OF this] _ sample_plan_queue]
  show ?thesis by (auto simp: sample_session_def sample_queue_def Let_def)
qed

text \<open>
  Selecting the next slice on a store whose sessions are reachable, for the owner of the
  live lock: after plan approval or a finished slice the first pending slice becomes the
  stored current slice, or the absence of pending slices is reported; in every other active
  state the selection is refused without a change. It never fails with its internal error of
  an advance without a selected slice, also when it resumes a blocked selection.
\<close>

theorem select_next_slice:
  assumes "store_inv r fs" and "holds_live_lock env r fs sid opts l"
    and "readPawSessionState r fs sid = Inr s"
  shows "case state_name s of
      Member (Active a) \<Rightarrow>
        (if a \<in> {PLAN_APPROVED, SLICE_DONE}
         then (case pending_slice_ids s of
             [] \<Rightarrow> selectNextPawPlanSlice env r fs sid opts = (Inr (NoPendingSlices s), fs)
           | x # xs \<Rightarrow> \<exists>adv s' fs'. selectNextPawPlanSlice env r fs sid opts = (Inr (SliceSelected x adv), fs')
               \<and> readPawSessionState r fs' sid = Inr s' \<and> state_name s' = Member (Active SLICE_SELECT)
               \<and> current_slice_id s' = Some x \<and> pending_slice_ids s' = xs)
         else \<exists>adv. selectNextPawPlanSlice env r fs sid opts = (Inr (SelectionRefused adv), fs))
    | _ \<Rightarrow> \<exists>res fs'. selectNextPawPlanSlice env r fs sid opts = (Inr res, fs')"
proof -
  note inv = store_inv_phase [OF assms(1,3)]
  then have wf: "session_wf s" by (simp add: phase_inv_def)
  note adv = advance_consistent [OF assms, of "goto SLICE_SELECT"]
  show ?thesis
  proof (cases "\<exists>a. state_name s = Member (Active a)")
    case True
    then obtain a where a: "state_name s = Member (Active a)" by blast
    note t = transition_select [OF wf a]
    show ?thesis
    proof (cases "pending_slice_ids s")
      case Nil
      with a show ?thesis
        by (auto simp: selectNextPawPlanSlice_def adv t createPawSliceSelectionResult_def
            isNoPendingSliceSelection_def invalidTransition_def)
    next
      case (Cons x xs)
      let ?s' = "s\<lparr>state_name := Member (Active SLICE_SELECT), current_slice_id := Some x,
          pending_slice_ids := xs\<rparr>"
      have "readPawSessionState r (fs(stateFile (sessionPaths r sid) \<mapsto> JsonText (json_of_state ?s'))) sid
          = Inr ?s'" if "a \<in> {PLAN_APPROVED, SLICE_DONE}"
        using that t Cons read_valid [OF assms(3)] transition_keeps_wf [of s "goto SLICE_SELECT" ?s']
        by (intro read_stored) auto
      with a Cons t show ?thesis
        by (auto simp: selectNextPawPlanSlice_def adv createPawSliceSelectionResult_def
            isNoPendingSliceSelection_def invalidTransition_def)
    qed
  next
    case False
    then obtain c where c: "state_name s = Member (Blocked c)"
      using session_wf_name [OF wf] by (metis PawSessionStateName.exhaust)
    have "current_slice_id s' \<noteq> None" if "transitionPawSessionState s (goto SLICE_SELECT) = Ok s'" for s'
      using that inv c wf by (auto simp: transition_resume resume_Ok phase_inv_def phase_def
          working_states_def goto_def)
    with c show ?thesis
      by (auto simp: selectNextPawPlanSlice_def adv createPawSliceSelectionResult_def
          split: PawValidationResult.splits option.splits)
  qed
qed

theorem select_next_slice_witness:
  "\<exists>adv fs'. selectNextPawPlanSlice (sample_env 7) ''/repo''
     (sample_store (sample_session (Active SLICE_DONE) None [] [''a''])) ''s1'' no_options
     = (Inr (NoPendingSlices (sample_session (Active SLICE_DONE) None [] [''a''])), fs')"
proof -
  let ?s = "sample_session (Active SLICE_DONE) None [] [''a'']"
  have run: "run_steps transitionPawSessionState (createInitialPawSessionState ''s1'')
      (intake_to_plan [''a''] @ slice_cycle) = Ok ?s" by code_simp
  have "session_wf ?s" unfolding sessionStateIssues_Nil [symmetric] by code_simp
  from select_next_slice [OF sample_store_inv [OF run] sample_store_locked sample_store_read [OF this]]
  show ?thesis by (simp add: sample_session_def)
qed

end
