(* ===== verification/Paw_Budget.thy ===== *)
theory Paw_Budget
  imports Paw_Risk Paw_Json
begin

text \<open>
  The budget policy of \<open>paw/budget-policy.ts\<close>: how token and dollar usage of a task or a
  slice turns into a decision (within budget, warn, ask, block). Usage and limits are finite
  numbers, so exact rationals stand for them; a utilisation is a number or infinity.
\<close>

section \<open>Model\<close>

datatype PawBudgetDimension = tokens | usd

fun dimensionString :: "PawBudgetDimension \<Rightarrow> string" where
  "dimensionString tokens = ''tokens''"
| "dimensionString usd = ''usd''"

fun taskClassString :: "PawTaskClass \<Rightarrow> string" where
  "taskClassString trivial = ''trivial''"
| "taskClassString standard = ''standard''"
| "taskClassString high_risk = ''high_risk''"

record PawTaskBudget =
  max_tokens :: rat
  max_usd :: rat
  warn_at_pct :: rat

record PawBudgetPolicyConfig =
  per_task :: "PawTaskClass \<Rightarrow> PawTaskBudget"
  soft_fraction_of_task :: rat

record PawBudgetDetails =
  details_taskClass :: PawTaskClass
  details_tokensUsed :: rat
  details_usdUsed :: rat
  maxTokens :: rat
  maxUsd :: rat
  tokenUtilizationPct :: js_number
  usdUtilizationPct :: js_number
  utilizationPct :: js_number
  warnAtPct :: rat
  exceededDimensions :: "PawBudgetDimension list"
  warningDimensions :: "PawBudgetDimension list"
  softFractionOfTask :: "rat option"
  softTokenLimit :: "rat option"
  softUsdLimit :: "rat option"

datatype PawBudgetDecision =
    WithinBudget PawBudgetDetails
  | BudgetWarn string string PawBudgetDetails
  | BudgetNeedsApproval string string PawBudgetDetails
  | BudgetBlocked string string PawBudgetDetails

definition js_ge :: "js_number \<Rightarrow> js_number \<Rightarrow> bool" where
  "js_ge x y \<longleftrightarrow> js_gt x y \<or> (x = y \<and> x \<noteq> NaN)"

definition js_max :: "js_number \<Rightarrow> js_number \<Rightarrow> js_number" where
  "js_max x y = (if x = NaN \<or> y = NaN then NaN else if js_gt x y then x else y)"

definition computeDimensionUtilizationPct :: "rat \<Rightarrow> rat \<Rightarrow> js_number" where
  "computeDimensionUtilizationPct used limit =
     (if limit = 0 then (if used = 0 then Num 0 else Infinity) else Num (used / limit * 100))"

definition computePawBudgetUtilizationPct :: "rat \<Rightarrow> rat \<Rightarrow> rat \<Rightarrow> rat \<Rightarrow> js_number" where
  "computePawBudgetUtilizationPct tokensUsed maxT usdUsed maxU =
     js_max (computeDimensionUtilizationPct tokensUsed maxT) (computeDimensionUtilizationPct usdUsed maxU)"

definition getExceededDimensions :: "rat \<Rightarrow> rat \<Rightarrow> rat \<Rightarrow> rat \<Rightarrow> PawBudgetDimension list" where
  "getExceededDimensions tokensUsed maxT usdUsed maxU =
     (if tokensUsed > maxT then [tokens] else []) @ (if usdUsed > maxU then [usd] else [])"

definition getWarningDimensions ::
  "js_number \<Rightarrow> js_number \<Rightarrow> rat \<Rightarrow> rat \<Rightarrow> rat \<Rightarrow> rat \<Rightarrow> rat \<Rightarrow> PawBudgetDimension list" where
  "getWarningDimensions tokenPct usdPct warnAt tokensUsed maxT usdUsed maxU =
     (if js_ge tokenPct (Num warnAt) \<and> tokensUsed \<le> maxT then [tokens] else [])
     @ (if js_ge usdPct (Num warnAt) \<and> usdUsed \<le> maxU then [usd] else [])"

definition createTaskBudgetDetails ::
  "PawTaskClass \<Rightarrow> rat \<Rightarrow> rat \<Rightarrow> PawBudgetPolicyConfig \<Rightarrow> PawBudgetDetails" where
  "createTaskBudgetDetails c tokensUsed usdUsed cfg =
     (let b = per_task cfg c;
          tokenPct = computeDimensionUtilizationPct tokensUsed (max_tokens b);
          usdPct = computeDimensionUtilizationPct usdUsed (max_usd b) in
      \<lparr>details_taskClass = c, details_tokensUsed = tokensUsed, details_usdUsed = usdUsed,
       maxTokens = max_tokens b, maxUsd = max_usd b,
       tokenUtilizationPct = tokenPct, usdUtilizationPct = usdPct,
       utilizationPct = js_max tokenPct usdPct, warnAtPct = warn_at_pct b,
       exceededDimensions = getExceededDimensions tokensUsed (max_tokens b) usdUsed (max_usd b),
       warningDimensions = getWarningDimensions tokenPct usdPct (warn_at_pct b)
         tokensUsed (max_tokens b) usdUsed (max_usd b),
       softFractionOfTask = None, softTokenLimit = None, softUsdLimit = None\<rparr>)"

definition formatDimensions :: "PawBudgetDimension list \<Rightarrow> string" where
  "formatDimensions ds = join_with '' and '' (map dimensionString ds)"

text \<open>A number of hundredths as JavaScript prints it: no trailing zeros.\<close>

definition show_hundredths :: "int \<Rightarrow> string" where
  "show_hundredths n =
     (let m = \<bar>n\<bar>; sign = (if n < 0 then ''-'' else ''''); w = show_int (m div 100) in
      if m mod 100 = 0 then sign @ w
      else if m mod 10 = 0 then sign @ w @ ''.'' @ show_int (m mod 100 div 10)
      else sign @ w @ ''.'' @ show_int (m mod 100 div 10) @ show_int (m mod 10))"

definition formatPct :: "js_number \<Rightarrow> string" where
  "formatPct v = (case v of
       Num a \<Rightarrow> show_hundredths \<lfloor>a * 100 + 1 / 2\<rfloor> @ ''%''
     | _ \<Rightarrow> ''infinite utilization'')"

definition evaluatePawTaskBudget ::
  "PawTaskClass \<Rightarrow> PawRunMode \<Rightarrow> rat \<Rightarrow> rat \<Rightarrow> PawBudgetPolicyConfig \<Rightarrow> PawBudgetDecision" where
  "evaluatePawTaskBudget c mode tokensUsed usdUsed cfg =
     (let details = createTaskBudgetDetails c tokensUsed usdUsed cfg;
          task = ''The '' @ taskClassString c @ '' task budget '' in
      if length (exceededDimensions details) > 0 then
        (if mode = interactive then
           BudgetNeedsApproval
             (task @ ''is exceeded for '' @ formatDimensions (exceededDimensions details) @ ''.'')
             ''Confirm whether to continue beyond the configured task budget.'' details
         else
           BudgetBlocked
             (task @ ''is exceeded for '' @ formatDimensions (exceededDimensions details)
               @ '' in '' @ runModeString mode @ '' mode.'')
             ''Reduce scope or raise the configured budget before rerunning non-interactively.'' details)
      else if length (warningDimensions details) > 0 then
        BudgetWarn
          (task @ ''reached '' @ formatPct (utilizationPct details) @ '' of its configured limit.'')
          ''Review remaining scope before continuing.'' details
      else WithinBudget details)"

definition evaluatePawSliceBudget ::
  "PawTaskClass \<Rightarrow> rat \<Rightarrow> rat \<Rightarrow> PawBudgetPolicyConfig \<Rightarrow> PawBudgetDecision" where
  "evaluatePawSliceBudget c tokensUsed usdUsed cfg =
     (let taskDetails = createTaskBudgetDetails c tokensUsed usdUsed cfg;
          slice = ''The '' @ taskClassString c @ '' slice '' in
      if length (exceededDimensions taskDetails) > 0 then
        BudgetBlocked
          (slice @ ''exceeds the total task budget for ''
            @ formatDimensions (exceededDimensions taskDetails) @ ''.'')
          ''Reduce slice scope or raise the configured task budget before continuing.'' taskDetails
      else
        let b = per_task cfg c;
            fraction = soft_fraction_of_task cfg;
            softTokens = max_tokens b * fraction;
            softUsd = max_usd b * fraction;
            softExceeded = getExceededDimensions tokensUsed softTokens usdUsed softUsd;
            details = taskDetails\<lparr>softFractionOfTask := Some fraction,
              softTokenLimit := Some softTokens, softUsdLimit := Some softUsd,
              exceededDimensions := softExceeded\<rparr> in
        if length softExceeded > 0 then
          BudgetWarn
            (slice @ ''exceeded the configured soft slice budget for ''
              @ formatDimensions softExceeded @ ''.'')
            ''Review or split the slice before it consumes more of the task budget.'' details
        else if length (warningDimensions details) > 0 then
          BudgetWarn
            (slice @ ''reached '' @ formatPct (utilizationPct details) @ '' of the total task budget.'')
            ''Review remaining task budget before continuing.'' details
        else WithinBudget details)"

section \<open>Severity\<close>

fun severity :: "PawBudgetDecision \<Rightarrow> nat" where
  "severity (WithinBudget d) = 0"
| "severity (BudgetWarn m a d) = 1"
| "severity (BudgetNeedsApproval m a d) = 2"
| "severity (BudgetBlocked m a d) = 2"

text \<open>Whether a dimension has reached the warning share of its limit, by cross-multiplication.\<close>

definition reaches_warning :: "rat \<Rightarrow> rat \<Rightarrow> rat \<Rightarrow> bool" where
  "reaches_warning used limit warnAt \<longleftrightarrow> (if limit = 0 then warnAt \<le> 0 else warnAt * limit \<le> used * 100)"

lemma utilization_reaches:
  assumes "0 \<le> limit" "used \<le> limit" "0 \<le> used"
  shows "js_ge (computeDimensionUtilizationPct used limit) (Num w) \<longleftrightarrow> reaches_warning used limit w"
proof (cases "limit = 0")
  case True
  with assms show ?thesis
    by (auto simp: computeDimensionUtilizationPct_def reaches_warning_def js_ge_def)
next
  case False
  with assms(1) have pos: "0 < limit" by simp
  have "js_ge (Num a) (Num w) \<longleftrightarrow> w \<le> a" for a by (auto simp: js_ge_def)
  then show ?thesis
    using pos by (simp add: computeDimensionUtilizationPct_def reaches_warning_def field_simps)
qed

lemma reaches_warning_mono:
  "reaches_warning used limit w \<Longrightarrow> used \<le> used' \<Longrightarrow> reaches_warning used' limit w"
  by (auto simp: reaches_warning_def split: if_splits)

text \<open>The severity of both decisions in terms of usage and limits alone.\<close>

definition over_limit :: "rat \<Rightarrow> rat \<Rightarrow> PawTaskBudget \<Rightarrow> bool" where
  "over_limit t u b \<longleftrightarrow> max_tokens b < t \<or> max_usd b < u"

definition near_limit :: "rat \<Rightarrow> rat \<Rightarrow> PawTaskBudget \<Rightarrow> bool" where
  "near_limit t u b \<longleftrightarrow> reaches_warning t (max_tokens b) (warn_at_pct b)
     \<or> reaches_warning u (max_usd b) (warn_at_pct b)"

lemma warning_dimensions:
  assumes "0 \<le> t" "0 \<le> u" "0 \<le> max_tokens (per_task cfg c)" "0 \<le> max_usd (per_task cfg c)"
    and "\<not> over_limit t u (per_task cfg c)"
  shows "warningDimensions (createTaskBudgetDetails c t u cfg) \<noteq> [] \<longleftrightarrow> near_limit t u (per_task cfg c)"
  using assms utilization_reaches
  by (auto simp: createTaskBudgetDetails_def Let_def getWarningDimensions_def near_limit_def over_limit_def not_less)

lemma exceeded_dimensions:
  "exceededDimensions (createTaskBudgetDetails c t u cfg) \<noteq> [] \<longleftrightarrow> over_limit t u (per_task cfg c)"
  by (auto simp: createTaskBudgetDetails_def Let_def getExceededDimensions_def over_limit_def)

lemma task_severity:
  assumes "0 \<le> t" "0 \<le> u" "0 \<le> max_tokens (per_task cfg c)" "0 \<le> max_usd (per_task cfg c)"
  shows "severity (evaluatePawTaskBudget c mode t u cfg) =
    (if over_limit t u (per_task cfg c) then 2 else if near_limit t u (per_task cfg c) then 1 else 0)"
  using warning_dimensions [OF assms] exceeded_dimensions [of c t u cfg]
  by (auto simp: evaluatePawTaskBudget_def Let_def)

lemma slice_severity:
  assumes "0 \<le> t" "0 \<le> u" "0 \<le> max_tokens (per_task cfg c)" "0 \<le> max_usd (per_task cfg c)"
  shows "severity (evaluatePawSliceBudget c t u cfg) =
    (let b = per_task cfg c; f = soft_fraction_of_task cfg in
     if over_limit t u b then 2
     else if max_tokens b * f < t \<or> max_usd b * f < u \<or> near_limit t u b then 1 else 0)"
  using warning_dimensions [OF assms] exceeded_dimensions [of c t u cfg]
  by (auto simp: evaluatePawSliceBudget_def Let_def getExceededDimensions_def)

lemma near_limit_mono: "near_limit t u b \<Longrightarrow> t \<le> t' \<Longrightarrow> u \<le> u' \<Longrightarrow> near_limit t' u' b"
  unfolding near_limit_def using reaches_warning_mono by blast

lemma over_limit_mono: "over_limit t u b \<Longrightarrow> t \<le> t' \<Longrightarrow> u \<le> u' \<Longrightarrow> over_limit t' u' b"
  by (auto simp: over_limit_def)

section \<open>Properties\<close>

text \<open>
  The task budget decision: exceeding the token or the dollar limit asks for approval in
  interactive mode and blocks in every other mode, so no mode continues silently beyond the
  limit; within the limits the policy warns exactly when a dimension has reached the warning
  percentage of its limit.
\<close>

theorem task_budget_exact:
  assumes "0 \<le> t" and "0 \<le> u" and "0 \<le> max_tokens (per_task cfg c)" and "0 \<le> max_usd (per_task cfg c)"
  shows "((\<exists>m a d. evaluatePawTaskBudget c mode t u cfg = BudgetBlocked m a d) \<longleftrightarrow>
           mode \<noteq> interactive \<and> (max_tokens (per_task cfg c) < t \<or> max_usd (per_task cfg c) < u))
    \<and> ((\<exists>m a d. evaluatePawTaskBudget c mode t u cfg = BudgetNeedsApproval m a d) \<longleftrightarrow>
           mode = interactive \<and> (max_tokens (per_task cfg c) < t \<or> max_usd (per_task cfg c) < u))
    \<and> ((\<exists>m a d. evaluatePawTaskBudget c mode t u cfg = BudgetWarn m a d) \<longleftrightarrow>
           t \<le> max_tokens (per_task cfg c) \<and> u \<le> max_usd (per_task cfg c)
           \<and> (reaches_warning t (max_tokens (per_task cfg c)) (warn_at_pct (per_task cfg c))
              \<or> reaches_warning u (max_usd (per_task cfg c)) (warn_at_pct (per_task cfg c))))"
  using warning_dimensions [OF assms] exceeded_dimensions [of c t u cfg]
  by (auto simp: evaluatePawTaskBudget_def Let_def over_limit_def near_limit_def not_less)

definition sample_budget :: PawBudgetPolicyConfig where
  "sample_budget = \<lparr>per_task = (\<lambda>_. \<lparr>max_tokens = 1000, max_usd = 2, warn_at_pct = 80\<rparr>),
     soft_fraction_of_task = 1 / 2\<rparr>"

theorem task_budget_exact_witness:
  "(\<exists>m a d. evaluatePawTaskBudget standard ci 900 1 sample_budget = BudgetWarn m a d)
   \<and> (\<exists>m a d. evaluatePawTaskBudget standard ci 1001 1 sample_budget = BudgetBlocked m a d)"
  using task_budget_exact [of 900 1 sample_budget standard ci]
    task_budget_exact [of 1001 1 sample_budget standard ci]
  by (simp add: sample_budget_def reaches_warning_def)

text \<open>
  Spending more never makes the policy more lenient: as token and dollar usage grow, the
  decisions for the task and for the slice never become less severe. A slice is never judged
  more leniently than the task it belongs to.
\<close>

theorem budget_severity_monotone:
  assumes "0 \<le> t" and "0 \<le> u" and "t \<le> t'" and "u \<le> u'"
    and "0 \<le> max_tokens (per_task cfg c)" and "0 \<le> max_usd (per_task cfg c)"
  shows "severity (evaluatePawTaskBudget c mode t u cfg) \<le> severity (evaluatePawTaskBudget c mode t' u' cfg)
    \<and> severity (evaluatePawSliceBudget c t u cfg) \<le> severity (evaluatePawSliceBudget c t' u' cfg)
    \<and> severity (evaluatePawTaskBudget c mode t u cfg) \<le> severity (evaluatePawSliceBudget c t u cfg)"
proof -
  have nonneg: "0 \<le> t'" "0 \<le> u'" using assms by linarith+
  note sev = task_severity [OF assms(1,2,5,6)] task_severity [OF nonneg assms(5,6)]
    slice_severity [OF assms(1,2,5,6)] slice_severity [OF nonneg assms(5,6)]
  show ?thesis
    using near_limit_mono [of t u _ t' u'] over_limit_mono [of t u _ t' u'] assms(3,4)
    unfolding sev Let_def by auto
qed

theorem budget_severity_monotone_witness:
  "severity (evaluatePawSliceBudget trivial 100 1 sample_budget)
     \<le> severity (evaluatePawSliceBudget trivial 700 1 sample_budget)"
  using budget_severity_monotone [of 100 1 700 1 sample_budget trivial interactive]
  by (simp add: sample_budget_def)

end
