(* ===== verification/Paw_Resilience.thy ===== *)
theory Paw_Resilience
  imports Paw_Budget
begin

text \<open>
  What happens when things fail or grow too large: the resilience policy of
  \<open>paw/resilience-policy.ts\<close> (provider failures, timeouts, the sub-agent loop cap, verification
  gates) and the context budget of \<open>paw/context-budget.ts\<close> (files, tool outputs and hand-offs
  that enter a model's context). Counts are integers.
\<close>

section \<open>Provider failures\<close>

datatype PawLlmFailureKind = timeout | rate_limit | server_error | all_providers_down | other

fun failureKindString :: "PawLlmFailureKind \<Rightarrow> string" where
  "failureKindString timeout = ''timeout''"
| "failureKindString rate_limit = ''rate_limit''"
| "failureKindString server_error = ''server_error''"
| "failureKindString all_providers_down = ''all_providers_down''"
| "failureKindString other = ''other''"

record PawResilienceConfig =
  llm_retries :: int
  llm_timeout_sec :: int
  llm_backoff :: string
  on_5xx_or_429 :: string
  tool_timeout_sec :: int
  kill_on_timeout :: bool
  subagent_wall_clock_sec :: int
  subagent_on_timeout :: string
  max_subagent_iterations :: int

record llm_failure_fields =
  failureKind :: PawLlmFailureKind
  attemptNumber :: int
  maxRetries :: int
  timeoutSec :: int

datatype PawLlmFailureDecision =
    Retry llm_failure_fields string string string
  | Failover llm_failure_fields string string string
  | ProviderBlocked llm_failure_fields string string

definition RETRYABLE_FAILURE_KINDS :: "PawLlmFailureKind list" where
  "RETRYABLE_FAILURE_KINDS = [timeout, rate_limit, server_error]"

definition FAILOVER_FAILURE_KINDS :: "PawLlmFailureKind list" where
  "FAILOVER_FAILURE_KINDS = [rate_limit, server_error]"

definition formatFailureKind :: "PawLlmFailureKind \<Rightarrow> string" where
  "formatFailureKind k = replace_char CHR ''_'' CHR '' '' (failureKindString k)"

definition evaluatePawLlmFailure ::
  "PawLlmFailureKind \<Rightarrow> int \<Rightarrow> PawResilienceConfig \<Rightarrow> PawLlmFailureDecision" where
  "evaluatePawLlmFailure kind attempt cfg =
     (let fields = \<lparr>failureKind = kind, attemptNumber = attempt, maxRetries = llm_retries cfg,
            timeoutSec = llm_timeout_sec cfg\<rparr>;
          llm = ''LLM '' @ formatFailureKind kind in
      if kind = all_providers_down then
        ProviderBlocked fields ''All configured providers are unavailable.''
          ''Check provider credentials, network access, or resume after a provider recovers.''
      else if kind \<in> set RETRYABLE_FAILURE_KINDS \<and> attempt < llm_retries cfg then
        Retry fields (llm_backoff cfg)
          (llm @ '' failed on attempt '' @ show_int attempt @ ''; retrying before ''
            @ show_int (llm_retries cfg) @ '' retries are exhausted.'')
          (''Retry with '' @ llm_backoff cfg @ '' before failover or blocking.'')
      else if kind \<in> set FAILOVER_FAILURE_KINDS \<and> on_5xx_or_429 cfg = ''failover_model'' then
        Failover fields
          (llm @ '' exhausted '' @ show_int (llm_retries cfg)
            @ '' retries; failover marks the step degraded.'')
          (llm @ '' exhausted retries and should fail over to the next configured provider/model.'')
          ''Fail over to the next provider/model and surface degraded=true on the affected step.''
      else
        ProviderBlocked fields
          (llm @ '' cannot advance after '' @ show_int (llm_retries cfg) @ '' retries.'')
          ''Block as provider unavailable or rerun after the provider issue is resolved.'')"

section \<open>Timeouts, loop cap, gates\<close>

record PawToolTimeoutDecision =
  tool_timeoutSec :: int
  killOnTimeout :: bool
  tool_message :: string
  tool_suggestedAction :: string

definition evaluatePawToolTimeout :: "PawResilienceConfig \<Rightarrow> PawToolTimeoutDecision" where
  "evaluatePawToolTimeout cfg =
     \<lparr>tool_timeoutSec = tool_timeout_sec cfg, killOnTimeout = kill_on_timeout cfg,
      tool_message = ''Tool call exceeded '' @ show_int (tool_timeout_sec cfg)
        @ '' seconds and must not keep waiting.'',
      tool_suggestedAction = ''Terminate the hung subprocess when kill_on_timeout=''
        @ show_bool (kill_on_timeout cfg) @ '' and rerun or choose a narrower tool call.''\<rparr>"

record PawSubAgentTimeoutDecision =
  subagent_timeoutSec :: int
  onTimeout :: string
  subagent_message :: string
  subagent_suggestedAction :: string

definition evaluatePawSubAgentTimeout :: "PawResilienceConfig \<Rightarrow> PawSubAgentTimeoutDecision" where
  "evaluatePawSubAgentTimeout cfg =
     \<lparr>subagent_timeoutSec = subagent_wall_clock_sec cfg, onTimeout = subagent_on_timeout cfg,
      subagent_message = ''Sub-agent exceeded '' @ show_int (subagent_wall_clock_sec cfg)
        @ '' seconds of wall clock time.'',
      subagent_suggestedAction = ''Mark the sub-agent step '' @ subagent_on_timeout cfg
        @ '' with SUBAGENT_TIMEOUT and resume with a narrower step.''\<rparr>"

datatype PawLoopCapDecision =
    LoopContinue int int
  | LoopBlocked int int string string string string

definition evaluatePawLoopCap ::
  "int \<Rightarrow> string \<Rightarrow> string \<Rightarrow> PawResilienceConfig \<Rightarrow> PawLoopCapDecision" where
  "evaluatePawLoopCap n planner reviewer cfg =
     (let maxIterations = max_subagent_iterations cfg in
      if n < maxIterations then LoopContinue n maxIterations
      else LoopBlocked n maxIterations planner reviewer
        (''Sub-agent loop reached '' @ show_int maxIterations
          @ '' iterations; escalate planner and reviewer disagreement instead of spinning.'')
        (''Fail closed and present both positions. planner: '' @ planner @ '' reviewer: '' @ reviewer))"

record PawDegradedStep =
  degraded_step :: string
  degraded_reason :: string

definition createPawDegradedStep :: "string \<Rightarrow> string \<Rightarrow> PawDegradedStep" where
  "createPawDegradedStep st why = \<lparr>degraded_step = st, degraded_reason = why\<rparr>"

datatype PawVerifyGateSet = v1 | v2 | unconfigured

record PawVerifyConfig =
  v1_gates :: "string list"
  v2_optin_gates :: "string list"

datatype PawVerifyGateDecision =
    GateVerified string bool PawVerifyGateSet
  | GateUnverified string bool PawVerifyGateSet string

definition findPawVerifyGateSet :: "string \<Rightarrow> PawVerifyConfig \<Rightarrow> PawVerifyGateSet" where
  "findPawVerifyGateSet gate cfg =
     (if gate \<in> set (v1_gates cfg) then v1
      else if gate \<in> set (v2_optin_gates cfg) then v2 else unconfigured)"

definition evaluatePawVerifyGate ::
  "string \<Rightarrow> bool \<Rightarrow> PawVerifyConfig \<Rightarrow> string option \<Rightarrow> PawVerifyGateDecision" where
  "evaluatePawVerifyGate gate available cfg reason =
     (let gateSet = findPawVerifyGateSet gate cfg; applicable = (gateSet \<noteq> unconfigured) in
      if available then GateVerified gate applicable gateSet
      else GateUnverified gate applicable gateSet
        (case reason of Some r \<Rightarrow> r
         | None \<Rightarrow> ''Verification gate '' @ gate
             @ '' is unavailable and must be reported as unverified.''))"

section \<open>Context budget\<close>

datatype PawSubAgentRole = scout | planner | worker | reviewer

fun roleString :: "PawSubAgentRole \<Rightarrow> string" where
  "roleString scout = ''scout''"
| "roleString planner = ''planner''"
| "roleString worker = ''worker''"
| "roleString reviewer = ''reviewer''"

record PawContextBudgetConfig =
  class_cap_tokens :: "PawTaskClass \<Rightarrow> int"
  subagent_handoff_max_tokens :: "PawSubAgentRole \<Rightarrow> int"
  file_read_max_bytes :: int
  tool_output_max_tokens :: int
  drilldown :: string
  required_span_recall_min :: rat
  assembly_order :: "string list"

datatype PawFileContextDecision = FileInline int int | FileMetadataOnly string int int

datatype PawToolOutputContextDecision = OutputInline int int | OutputSummarize int int

datatype PawHandoffContextDecision =
    HandoffFits PawSubAgentRole bool int int
  | HandoffOptionalTruncate PawSubAgentRole int int string
  | HandoffEscalate PawSubAgentRole int int string rat string string

definition getPawTaskContextCap :: "PawContextBudgetConfig \<Rightarrow> PawTaskClass \<Rightarrow> int" where
  "getPawTaskContextCap cfg c = class_cap_tokens cfg c"

definition getPawSubAgentHandoffCap :: "PawContextBudgetConfig \<Rightarrow> PawSubAgentRole \<Rightarrow> int" where
  "getPawSubAgentHandoffCap cfg role = subagent_handoff_max_tokens cfg role"

definition evaluatePawFileContext :: "int \<Rightarrow> bool \<Rightarrow> PawContextBudgetConfig \<Rightarrow> PawFileContextDecision" where
  "evaluatePawFileContext byteLength binary cfg =
     (let maxBytes = file_read_max_bytes cfg in
      if binary then FileMetadataOnly ''binary_file'' byteLength maxBytes
      else if byteLength > maxBytes then FileMetadataOnly ''file_too_large'' byteLength maxBytes
      else FileInline byteLength maxBytes)"

definition evaluatePawToolOutputContext :: "int \<Rightarrow> PawContextBudgetConfig \<Rightarrow> PawToolOutputContextDecision" where
  "evaluatePawToolOutputContext n cfg =
     (let m = tool_output_max_tokens cfg in if n > m then OutputSummarize n m else OutputInline n m)"

definition evaluatePawHandoffContext ::
  "PawSubAgentRole \<Rightarrow> int \<Rightarrow> bool \<Rightarrow> PawContextBudgetConfig \<Rightarrow> PawHandoffContextDecision" where
  "evaluatePawHandoffContext role n required cfg =
     (let m = getPawSubAgentHandoffCap cfg role in
      if n \<le> m then HandoffFits role required n m
      else if \<not> required then
        HandoffOptionalTruncate role n m
          ''Truncate optional handoff content before adding it to context.''
      else
        HandoffEscalate role n m (drilldown cfg) (required_span_recall_min cfg)
          (''The '' @ roleString role @ '' handoff would exceed '' @ show_int m
            @ '' tokens and includes required planner spans.'')
          (''Escalate with '' @ drilldown cfg
            @ '' so required spans can be retrieved without silent truncation.''))"

text \<open>Both branches of \<open>getPawContextAssemblyOrder\<close> return the configured order.\<close>

definition getPawContextAssemblyOrder :: "PawContextBudgetConfig \<Rightarrow> bool \<Rightarrow> string list" where
  "getPawContextAssemblyOrder cfg assemble_most_stable_first =
     (if \<not> assemble_most_stable_first then assembly_order cfg else assembly_order cfg)"

section \<open>Consecutive failures of a call\<close>

text \<open>
  The decisions taken for one call as it keeps failing: after each retry the next failure is
  judged with the next attempt number; any other decision ends the call.
\<close>

fun is_retry :: "PawLlmFailureDecision \<Rightarrow> bool" where
  "is_retry (Retry f b m a) = True"
| "is_retry (Failover f r m a) = False"
| "is_retry (ProviderBlocked f m a) = False"

fun failure_run :: "PawResilienceConfig \<Rightarrow> int \<Rightarrow> PawLlmFailureKind list \<Rightarrow> PawLlmFailureDecision list" where
  "failure_run cfg n [] = []"
| "failure_run cfg n (k # ks) =
     (let d = evaluatePawLlmFailure k n cfg in
      if is_retry d then d # failure_run cfg (n + 1) ks else [d])"

lemma retry_iff:
  "is_retry (evaluatePawLlmFailure k n cfg) \<longleftrightarrow> k \<in> {timeout, rate_limit, server_error} \<and> n < llm_retries cfg"
  by (auto simp: evaluatePawLlmFailure_def Let_def RETRYABLE_FAILURE_KINDS_def)

lemma failure_run_length:
  "int (length (failure_run cfg n ks)) \<le> max 0 (llm_retries cfg - n) + 1"
proof (induction ks arbitrary: n)
  case Nil
  then show ?case by simp
next
  case (Cons k ks)
  show ?case
    using Cons.IH [of "n + 1"] by (auto simp: Let_def retry_iff)
qed

lemma failure_run_ends:
  assumes "max 0 (llm_retries cfg - n) < int (length ks)"
  shows "failure_run cfg n ks \<noteq> [] \<and> \<not> is_retry (last (failure_run cfg n ks))
    \<and> (\<forall>d \<in> set (butlast (failure_run cfg n ks)). is_retry d)"
  using assms
proof (induction ks arbitrary: n)
  case Nil
  then show ?case by simp
next
  case (Cons k ks)
  show ?case
  proof (cases "is_retry (evaluatePawLlmFailure k n cfg)")
    case True
    then have "max 0 (llm_retries cfg - (n + 1)) < int (length ks)"
      using Cons.prems by (auto simp: retry_iff)
    with Cons.IH True show ?thesis by (auto simp: Let_def)
  next
    case False
    then show ?thesis by (simp add: Let_def)
  qed
qed

lemma failure_run_elem:
  "d \<in> set (failure_run cfg n ks) \<Longrightarrow> \<exists>k m. k \<in> set ks \<and> d = evaluatePawLlmFailure k m cfg"
proof (induction ks arbitrary: n)
  case Nil
  then show ?case by simp
next
  case (Cons k ks)
  then show ?case by (simp add: Let_def split: if_splits) metis+
qed

lemma llm_failure_cases:
  defines "F n k cfg \<equiv> \<lparr>failureKind = k, attemptNumber = n, maxRetries = llm_retries cfg,
    timeoutSec = llm_timeout_sec cfg\<rparr>"
  shows "if k \<in> {timeout, rate_limit, server_error} \<and> n < llm_retries cfg
    then \<exists>b m a. evaluatePawLlmFailure k n cfg = Retry (F n k cfg) b m a
    else if k \<in> {rate_limit, server_error} \<and> on_5xx_or_429 cfg = ''failover_model''
    then \<exists>r m a. evaluatePawLlmFailure k n cfg = Failover (F n k cfg) r m a
    else \<exists>m a. evaluatePawLlmFailure k n cfg = ProviderBlocked (F n k cfg) m a"
  by (cases k) (simp_all add: evaluatePawLlmFailure_def Let_def RETRYABLE_FAILURE_KINDS_def
      FAILOVER_FAILURE_KINDS_def F_def)

lemma failover_only:
  assumes "evaluatePawLlmFailure k n cfg = Failover f r m a"
  shows "failureKind f = k \<and> k \<in> {rate_limit, server_error} \<and> on_5xx_or_429 cfg = ''failover_model''
    \<and> llm_retries cfg \<le> attemptNumber f"
proof -
  let ?F = "\<lparr>failureKind = k, attemptNumber = n, maxRetries = llm_retries cfg, timeoutSec = llm_timeout_sec cfg\<rparr>"
  have "k \<in> {rate_limit, server_error} \<and> on_5xx_or_429 cfg = ''failover_model'' \<and> \<not> n < llm_retries cfg"
    and "f = ?F"
    using llm_failure_cases [of k n cfg] assms by (auto split: if_splits)
  then show ?thesis by simp
qed

section \<open>Properties\<close>

text \<open>
  Retrying ends: however a call keeps failing from attempt \<open>n\<close> on, at most the remaining
  retries plus one decision are taken, and once that many failures have happened the last
  decision is not a retry but a block or a failover. A failover only happens for rate limits
  and server errors, when the configuration allows it and the retries are used up.
\<close>

theorem llm_retries_bounded:
  assumes "max 0 (llm_retries cfg - n) < int (length ks)"
  shows "int (length (failure_run cfg n ks)) \<le> max 0 (llm_retries cfg - n) + 1
    \<and> failure_run cfg n ks \<noteq> [] \<and> \<not> is_retry (last (failure_run cfg n ks))
    \<and> (\<forall>d \<in> set (butlast (failure_run cfg n ks)). is_retry d)
    \<and> (\<forall>f r m a. Failover f r m a \<in> set (failure_run cfg n ks) \<longrightarrow>
         failureKind f \<in> {rate_limit, server_error} \<and> on_5xx_or_429 cfg = ''failover_model''
         \<and> llm_retries cfg \<le> attemptNumber f)"
proof -
  have fo: "\<forall>f r m a. Failover f r m a \<in> set (failure_run cfg n ks) \<longrightarrow>
      failureKind f \<in> {rate_limit, server_error} \<and> on_5xx_or_429 cfg = ''failover_model''
      \<and> llm_retries cfg \<le> attemptNumber f"
  proof (intro allI impI)
    fix f r m a
    assume "Failover f r m a \<in> set (failure_run cfg n ks)"
    from failure_run_elem [OF this] obtain k i where "evaluatePawLlmFailure k i cfg = Failover f r m a"
      by metis
    from failover_only [OF this]
    show "failureKind f \<in> {rate_limit, server_error} \<and> on_5xx_or_429 cfg = ''failover_model''
      \<and> llm_retries cfg \<le> attemptNumber f" by simp
  qed
  note ends = failure_run_ends [OF assms]
  from failure_run_length [of cfg n ks] ends fo show ?thesis
    by (elim conjE) (intro conjI; assumption)
qed

definition sample_resilience :: PawResilienceConfig where
  "sample_resilience = \<lparr>llm_retries = 2, llm_timeout_sec = 60, llm_backoff = ''exponential'',
     on_5xx_or_429 = ''failover_model'', tool_timeout_sec = 30, kill_on_timeout = True,
     subagent_wall_clock_sec = 600, subagent_on_timeout = ''blocked'', max_subagent_iterations = 3\<rparr>"

theorem llm_retries_bounded_witness:
  "\<not> is_retry (last (failure_run sample_resilience 0 [timeout, rate_limit, server_error]))"
proof -
  have "max 0 (llm_retries sample_resilience - 0) < int (length [timeout, rate_limit, server_error])"
    by (simp add: sample_resilience_def)
  from llm_retries_bounded [OF this] show ?thesis by (elim conjE)
qed

text \<open>
  What enters a model's context fits the configured caps: a file or a tool output is only
  inlined, and a hand-off only passed on whole, within its limit; a binary file is never
  inlined, and a hand-off with required content is never marked for truncation but escalated.
\<close>

theorem context_within_caps:
  "((\<exists>n m. evaluatePawFileContext b binary cfg = FileInline n m) \<longleftrightarrow> \<not> binary \<and> b \<le> file_read_max_bytes cfg)
   \<and> ((\<exists>n m. evaluatePawToolOutputContext k cfg = OutputInline n m) \<longleftrightarrow> k \<le> tool_output_max_tokens cfg)
   \<and> ((\<exists>q n m. evaluatePawHandoffContext role k required cfg = HandoffFits role q n m)
        \<longleftrightarrow> k \<le> subagent_handoff_max_tokens cfg role)
   \<and> ((\<exists>n m a. evaluatePawHandoffContext role k required cfg = HandoffOptionalTruncate role n m a)
        \<longleftrightarrow> subagent_handoff_max_tokens cfg role < k \<and> \<not> required)"
  by (simp add: evaluatePawFileContext_def evaluatePawToolOutputContext_def evaluatePawHandoffContext_def
      getPawSubAgentHandoffCap_def Let_def not_less)

end
