(* ===== verification/Paw_Edit.thy ===== *)
theory Paw_Edit
  imports Paw_Json
begin

text \<open>
  How worker edits reach the repository: the ladder of edit attempts and the idempotency check
  of \<open>paw/edit-policy.ts\<close>, and the application of a worker's patches by
  \<open>paw/patch-apply.ts\<close> (path containment, symlinked ancestors, hashes, size limits, unified
  diffs).

  An absolute path is its list of segments; the workspace maps paths to text, and which paths
  are symbolic links is fixed. Two functions the code calls are parameters: \<open>sha256\<close>
  (the hexadecimal digest of \<open>node:crypto\<close>) and \<open>applyPatch\<close> of the \<open>diff\<close> package, which
  gives the patched text or fails for a text, a patch and a fuzz factor.
\<close>

section \<open>Edit policy\<close>

datatype PawEditApplyMethod = diff | fuzzy_diff | full_file

fun methodString :: "PawEditApplyMethod \<Rightarrow> string" where
  "methodString diff = ''diff''"
| "methodString fuzzy_diff = ''fuzzy_diff''"
| "methodString full_file = ''full_file''"

record PawEditPolicyConfig =
  edit_strategy :: string
  fuzzy_apply_retries :: int
  full_file_rewrite_max_lines :: int

record PawNextEditAttemptInput =
  edit_config :: PawEditPolicyConfig
  previousMethod :: "PawEditApplyMethod option"
  failedAttempts :: int
  fileLineCount :: int
  failingHunk :: "string option"

datatype PawNextEditAttemptDecision =
    EditApply PawEditApplyMethod string
  | EditBlocked string string int int "string option"

datatype PawEditIdempotencyDecision =
    IdempotentApply string
  | IdempotentNoop string
  | IdempotentRederive string string

definition blockedPatchApplyFailed :: "PawNextEditAttemptInput \<Rightarrow> string \<Rightarrow> PawNextEditAttemptDecision" where
  "blockedPatchApplyFailed i reason =
     (let m = full_file_rewrite_max_lines (edit_config i);
          sizeMessage = (if fileLineCount i > m
            then ''File has '' @ show_int (fileLineCount i) @ '' lines, above the '' @ show_int m
              @ ''-line full-file rewrite limit.''
            else ''No edit fallback remains for a '' @ show_int (fileLineCount i) @ ''-line file.'') in
      EditBlocked (reason @ '' '' @ sizeMessage)
        ''Re-derive the patch against the current file, split the edit, or ask for explicit user direction.''
        (fileLineCount i) m (failingHunk i))"

definition evaluateFullFileOrBlocked :: "PawNextEditAttemptInput \<Rightarrow> string \<Rightarrow> PawNextEditAttemptDecision" where
  "evaluateFullFileOrBlocked i reason =
     (let m = full_file_rewrite_max_lines (edit_config i) in
      if fileLineCount i \<le> m then
        EditApply full_file (reason @ '' File has '' @ show_int (fileLineCount i)
          @ '' lines, within the '' @ show_int m @ ''-line full-file rewrite limit.'')
      else blockedPatchApplyFailed i reason)"

definition evaluatePawNextEditAttempt :: "PawNextEditAttemptInput \<Rightarrow> PawNextEditAttemptDecision" where
  "evaluatePawNextEditAttempt i =
     (let retries = fuzzy_apply_retries (edit_config i) in
      case previousMethod i of
        None \<Rightarrow> EditApply diff (''Apply a diff patch first because edit strategy is ''
                  @ edit_strategy (edit_config i) @ ''.'')
      | Some diff \<Rightarrow>
          if retries > 0 then
            EditApply fuzzy_diff (''Diff patch failed; try fuzzy diff attempt 1 of '' @ show_int retries @ ''.'')
          else evaluateFullFileOrBlocked i ''Diff patch failed and fuzzy retries are disabled.''
      | Some fuzzy_diff \<Rightarrow>
          if failedAttempts i < retries then
            EditApply fuzzy_diff (''Fuzzy diff failed; retry fuzzy diff attempt ''
              @ show_int (failedAttempts i + 1) @ '' of '' @ show_int retries @ ''.'')
          else evaluateFullFileOrBlocked i ''Fuzzy diff retries are exhausted.''
      | Some full_file \<Rightarrow> blockedPatchApplyFailed i ''Full-file rewrite failed.'')"

definition evaluatePawEditIdempotency :: "string \<Rightarrow> string \<Rightarrow> string \<Rightarrow> PawEditIdempotencyDecision" where
  "evaluatePawEditIdempotency currentHash expectedBaseHash expectedResultHash =
     (if currentHash = expectedResultHash then
        IdempotentNoop ''Current file hash already matches the expected result hash; skip the edit.''
      else if currentHash \<noteq> expectedBaseHash then
        IdempotentRederive ''Current file hash differs from the expected base hash.''
          ''Re-derive the patch against the current file or block with PATCH_APPLY_FAILED.''
      else IdempotentApply ''Current file hash matches the expected base hash; apply the edit attempt.'')"

section \<open>Paths\<close>

type_synonym path = "string list"

definition pathString :: "path \<Rightarrow> string" where
  "pathString p = ''/'' @ join_with ''/'' p"

text \<open>\<open>path.resolve\<close> walks the segments of the argument; \<open>path.relative\<close> strips the common prefix.\<close>

fun resolve_segment :: "path \<Rightarrow> string \<Rightarrow> path" where
  "resolve_segment acc s =
     (if s = '''' \<or> s = ''.'' then acc else if s = ''..'' then butlast acc else acc @ [s])"

definition resolvePath :: "path \<Rightarrow> string \<Rightarrow> path" where
  "resolvePath base p =
     foldl resolve_segment (if starts_with ''/'' p then [] else base) (split_on CHR ''/'' p)"

fun relativePath :: "path \<Rightarrow> path \<Rightarrow> path" where
  "relativePath (x # xs) (y # ys) =
     (if x = y then relativePath xs ys else map (\<lambda>_. ''..'') (x # xs) @ y # ys)"
| "relativePath xs ys = map (\<lambda>_. ''..'') xs @ ys"

definition resolveWorkerPatchPath :: "path \<Rightarrow> string \<Rightarrow> path option" where
  "resolveWorkerPatchPath repo p =
     (let target = resolvePath repo p;
          rel = join_with ''/'' (relativePath repo target) in
      if rel = '''' \<or> starts_with ''..'' rel \<or> ''..'' \<in> set (split_on CHR ''/'' rel) then None
      else if rel = ''.env'' \<or> starts_with ''.env/'' rel \<or> includes_str ''/.env'' rel then None
      else Some target)"

text \<open>
  The loop of \<open>hasUnsafeSymlinkAncestor\<close>; the cursor is kept reversed, so that \<open>dirname\<close>
  drops its first element.
\<close>

fun symlinkClimb :: "(path \<Rightarrow> bool) \<Rightarrow> path \<Rightarrow> path \<Rightarrow> bool" where
  "symlinkClimb isLink repo [] = False"
| "symlinkClimb isLink repo (s # up) =
     (let cursor = rev (s # up) in
      if starts_with (pathString repo) (pathString cursor) \<and> cursor \<noteq> repo
      then isLink cursor \<or> symlinkClimb isLink repo up else False)"

definition hasUnsafeSymlinkAncestor :: "(path \<Rightarrow> bool) \<Rightarrow> path \<Rightarrow> path \<Rightarrow> bool" where
  "hasUnsafeSymlinkAncestor isLink repo target = symlinkClimb isLink repo (tl (rev target))"

section \<open>Unified diffs\<close>

definition countLines :: "string \<Rightarrow> nat" where
  "countLines s = (if length s = 0 then 0 else length (split_on CHR 0x0A s))"

definition stripDiffHeaders :: "string \<Rightarrow> string option" where
  "stripDiffHeaders d =
     (let rest = dropWhile (\<lambda>l. \<not> starts_with ''@@'' l) (split_on CHR 0x0A d) in
      if rest = [] then None
      else let body = join_with [CHR 0x0A] rest in if length body = 0 then None else Some body)"

text \<open>Lines are counted as the code counts them; the size of a set of lines is that of \<open>new Set\<close>.\<close>

definition computeLineSimilarity :: "string \<Rightarrow> string \<Rightarrow> rat" where
  "computeLineSimilarity a b =
     (let aLines = split_on CHR 0x0A a; bLines = split_on CHR 0x0A b in
      if length aLines = 0 \<and> length bLines = 0 then 1
      else let total = max (length aLines) (length bLines) in
        if total = 0 then 1
        else let identical = int total - (int (length aLines) + int (length bLines)
                    - 2 * int (length (remdups (aLines @ bLines)))) in
          max 0 (of_int identical / of_nat total))"

definition FUZZY_SIMILARITY_THRESHOLD :: rat where
  "FUZZY_SIMILARITY_THRESHOLD = 85 / 100"

text \<open>\<open>(similarity * 100).toFixed(0)\<close> for a non-negative number.\<close>

definition showPercent :: "rat \<Rightarrow> string" where
  "showPercent r = show_int \<lfloor>r * 100 + 1 / 2\<rfloor>"

datatype ApplyUnifiedDiffResult = DiffApplied string | DiffBlocked string

definition applyUnifiedDiff ::
  "(string \<Rightarrow> string \<Rightarrow> nat \<Rightarrow> string option) \<Rightarrow> string \<Rightarrow> string \<Rightarrow> PawEditApplyMethod \<Rightarrow>
     ApplyUnifiedDiffResult" where
  "applyUnifiedDiff applyPatch base unifiedDiff meth =
     (case stripDiffHeaders unifiedDiff of
        None \<Rightarrow> DiffBlocked ''Unified diff is empty after stripping headers.''
      | Some normalized \<Rightarrow>
          (case applyPatch base normalized (if meth = fuzzy_diff then 2 else 0) of
             None \<Rightarrow> DiffBlocked (methodString meth @ '' patch did not apply cleanly to the current file.'')
           | Some content \<Rightarrow>
               if meth = fuzzy_diff
                  \<and> computeLineSimilarity base content < FUZZY_SIMILARITY_THRESHOLD
               then DiffBlocked (''fuzzy_diff produced ''
                      @ showPercent (computeLineSimilarity base content)
                      @ ''% line similarity, below 85% threshold.'')
               else DiffApplied content))"

section \<open>Applying a worker's changes\<close>

datatype change_type = create | modify | delete | rename

text \<open>Optional fields that may be null are options of options: absent, null, or a value.\<close>

record PawChangedFile =
  changed_path :: string
  changed_type :: change_type
  content_hash :: string
  apply_method :: "PawEditApplyMethod option"
  base_content_hash :: "string option option"
  new_content :: "string option option"
  unified_diff :: "string option"

record PawAppliedPatchChange =
  applied_path :: string
  applied_change_type :: change_type
  applied_content_hash :: string
  applied_method :: PawEditApplyMethod

type_synonym workspace = "path \<Rightarrow> string option"

record patch_state =
  patch_issues :: "PawValidationIssue list"
  appliedChanges :: "PawAppliedPatchChange list"
  ws :: workspace

text \<open>What patching uses of its surroundings.\<close>

record patch_env =
  sha256 :: "string \<Rightarrow> string"
  applyPatch :: "string \<Rightarrow> string \<Rightarrow> nat \<Rightarrow> string option"
  isSymbolicLink :: "path \<Rightarrow> bool"

definition hashContent :: "patch_env \<Rightarrow> string \<Rightarrow> string" where
  "hashContent env content = ''sha256:'' @ sha256 env content"

definition pushIssue :: "PawValidationIssue \<Rightarrow> patch_state \<Rightarrow> patch_state" where
  "pushIssue i st = st\<lparr>patch_issues := patch_issues st @ [i]\<rparr>"

definition pushApplied :: "PawChangedFile \<Rightarrow> PawEditApplyMethod \<Rightarrow> patch_state \<Rightarrow> patch_state" where
  "pushApplied c m st = st\<lparr>appliedChanges := appliedChanges st
     @ [\<lparr>applied_path = changed_path c, applied_change_type = changed_type c,
         applied_content_hash = content_hash c, applied_method = m\<rparr>]\<rparr>"

definition validatePatchContentLimits ::
  "patch_env \<Rightarrow> string \<Rightarrow> string \<Rightarrow> PawEditPolicyConfig \<Rightarrow> string \<Rightarrow> string \<Rightarrow> string \<Rightarrow>
     PawValidationIssue option" where
  "validatePatchContentLimits env content expectedHash cfg prefix hashSuffix linePrefix =
     (let actualHash = hashContent env content in
      if actualHash \<noteq> expectedHash then
        Some (Issue (prefix @ ''/content_hash'') (''content_hash must equal '' @ actualHash @ hashSuffix))
      else let n = int (countLines content); m = full_file_rewrite_max_lines cfg in
        if n > m then
          Some (Issue (prefix @ ''/new_content'')
            (linePrefix @ '' '' @ show_int n @ '' lines, above limit '' @ show_int m @ ''.''))
        else None)"

definition applyDiffWorkerChange ::
  "patch_env \<Rightarrow> path \<Rightarrow> PawChangedFile \<Rightarrow> PawEditApplyMethod \<Rightarrow> PawEditPolicyConfig \<Rightarrow> string \<Rightarrow>
     patch_state \<Rightarrow> patch_state" where
  "applyDiffWorkerChange env target c meth cfg prefix st =
     (case unified_diff c of
        None \<Rightarrow> st
      | Some d \<Rightarrow>
          if length d = 0 then st
          else (case applyUnifiedDiff (applyPatch env)
                       (case ws st target of Some t \<Rightarrow> t | None \<Rightarrow> '''') d meth of
                  DiffBlocked msg \<Rightarrow> pushIssue (Issue (prefix @ ''/unified_diff'') msg) st
                | DiffApplied content \<Rightarrow>
                    (case validatePatchContentLimits env content (content_hash c) cfg prefix
                            ('' for the '' @ methodString meth @ ''-applied content.'')
                            (methodString meth @ '' produced'') of
                       Some i \<Rightarrow> pushIssue i st
                     | None \<Rightarrow> pushApplied c meth (st\<lparr>ws := (ws st)(target \<mapsto> content)\<rparr>))))"

text \<open>The part of \<open>applyFullFileWorkerChange\<close> after the idempotency check.\<close>

definition writeFullFileChange ::
  "patch_env \<Rightarrow> path \<Rightarrow> PawChangedFile \<Rightarrow> PawEditPolicyConfig \<Rightarrow> string \<Rightarrow> patch_state \<Rightarrow> patch_state" where
  "writeFullFileChange env target c cfg prefix st =
     (if changed_type c = delete then
        pushApplied c full_file (st\<lparr>ws := (ws st)(target := None)\<rparr>)
      else case new_content c of
        Some (Some content) \<Rightarrow>
          (case validatePatchContentLimits env content (content_hash c) cfg prefix
                  '' for provided new_content.'' ''Full-file rewrite has'' of
             Some i \<Rightarrow> pushIssue i st
           | None \<Rightarrow> pushApplied c full_file (st\<lparr>ws := (ws st)(target \<mapsto> content)\<rparr>))
      | _ \<Rightarrow> pushIssue (Issue (prefix @ ''/new_content'') ''full_file changes require new_content.'') st)"

definition applyFullFileWorkerChange ::
  "patch_env \<Rightarrow> path \<Rightarrow> PawChangedFile \<Rightarrow> PawEditPolicyConfig \<Rightarrow> string \<Rightarrow> patch_state \<Rightarrow> patch_state" where
  "applyFullFileWorkerChange env target c cfg prefix st =
     (if changed_type c = rename then
        pushIssue (Issue (prefix @ ''/change_type'') ''Rename patch application is not supported yet.'') st
      else if new_content c = Some None \<and> changed_type c \<noteq> delete then
        pushIssue (Issue (prefix @ ''/new_content'') ''new_content can be null only for delete changes.'') st
      else case base_content_hash c of
        None \<Rightarrow> writeFullFileChange env target c cfg prefix st
      | Some baseHash \<Rightarrow>
          (case evaluatePawEditIdempotency
                  (case ws st target of Some t \<Rightarrow> hashContent env t | None \<Rightarrow> '''')
                  (case baseHash of Some h \<Rightarrow> h | None \<Rightarrow> '''') (content_hash c) of
             IdempotentNoop msg \<Rightarrow> pushApplied c full_file st
           | IdempotentRederive msg act \<Rightarrow> pushIssue (Issue (prefix @ ''/base_content_hash'') msg) st
           | IdempotentApply msg \<Rightarrow> writeFullFileChange env target c cfg prefix st))"

text \<open>The schema of worker outputs admits no other \<open>apply_method\<close>, so that check never fires.\<close>

definition applyOneWorkerChangedFile ::
  "patch_env \<Rightarrow> path \<Rightarrow> PawEditPolicyConfig \<Rightarrow> PawChangedFile \<Rightarrow> string \<Rightarrow> patch_state \<Rightarrow> patch_state" where
  "applyOneWorkerChangedFile env repo cfg c prefix st =
     (case resolveWorkerPatchPath repo (changed_path c) of
        None \<Rightarrow> pushIssue (Issue (prefix @ ''/path'') ''Path must stay inside the repository root.'') st
      | Some target \<Rightarrow>
          if hasUnsafeSymlinkAncestor (isSymbolicLink env) repo target then
            pushIssue (Issue (prefix @ ''/path'')
              ''Path has a symlinked ancestor and cannot be edited safely.'') st
          else
            let meth = (case apply_method c of Some m \<Rightarrow> m | None \<Rightarrow> full_file) in
            if meth = diff \<or> meth = fuzzy_diff then applyDiffWorkerChange env target c meth cfg prefix st
            else if new_content c = None then st
            else applyFullFileWorkerChange env target c cfg prefix st)"

fun applyChangedFiles ::
  "patch_env \<Rightarrow> path \<Rightarrow> PawEditPolicyConfig \<Rightarrow> nat \<Rightarrow> PawChangedFile list \<Rightarrow> patch_state \<Rightarrow> patch_state" where
  "applyChangedFiles env repo cfg i [] st = st"
| "applyChangedFiles env repo cfg i (c # cs) st =
     applyChangedFiles env repo cfg (Suc i) cs
       (applyOneWorkerChangedFile env repo cfg c (''/changed_files/'' @ show_nat i) st)"

datatype PawPatchApplyResult =
    PatchApplied "PawAppliedPatchChange list"
  | PatchBlocked "PawValidationIssue list" "PawAppliedPatchChange list"

definition applyPawWorkerOutputPatches ::
  "patch_env \<Rightarrow> path \<Rightarrow> PawEditPolicyConfig \<Rightarrow> PawChangedFile list \<Rightarrow> workspace \<Rightarrow>
     PawPatchApplyResult \<times> workspace" where
  "applyPawWorkerOutputPatches env repo cfg cs w =
     (let st = applyChangedFiles env repo cfg 0 cs \<lparr>patch_issues = [], appliedChanges = [], ws = w\<rparr> in
      (if length (patch_issues st) > 0 then PatchBlocked (patch_issues st) (appliedChanges st)
       else PatchApplied (appliedChanges st), ws st))"

section \<open>Containment of paths\<close>

definition plain_segment :: "string \<Rightarrow> bool" where
  "plain_segment s \<longleftrightarrow> s \<noteq> '''' \<and> s \<noteq> ''.'' \<and> s \<noteq> ''..'' \<and> CHR ''/'' \<notin> set s"

lemma resolve_segment_plain:
  "\<forall>s \<in> set acc. plain_segment s \<Longrightarrow> CHR ''/'' \<notin> set s \<Longrightarrow> \<forall>s \<in> set (resolve_segment acc s). plain_segment s"
  by (auto simp: plain_segment_def dest: in_set_butlastD)

lemma resolve_segments_plain:
  "\<forall>s \<in> set acc. plain_segment s \<Longrightarrow> \<forall>s \<in> set ss. CHR ''/'' \<notin> set s \<Longrightarrow>
     \<forall>s \<in> set (foldl resolve_segment acc ss). plain_segment s"
proof (induction ss arbitrary: acc)
  case Nil
  then show ?case by simp
next
  case (Cons x xs)
  from Cons.prems have "\<forall>s \<in> set (resolve_segment acc x). plain_segment s"
    by (intro resolve_segment_plain) auto
  from Cons.IH [OF this] Cons.prems(2) show ?case by simp
qed

lemma resolvePath_plain:
  assumes "\<forall>s \<in> set repo. plain_segment s"
  shows "\<forall>s \<in> set (resolvePath repo p). plain_segment s"
  unfolding resolvePath_def using assms split_on_no_sep [of _ "CHR ''/''" p]
  by (intro resolve_segments_plain) auto

lemma relativePath_cases:
  "(\<exists>rest. relativePath xs ys = ''..'' # rest) \<or> ys = xs @ relativePath xs ys"
  by (induction xs ys rule: relativePath.induct) (auto simp: neq_Nil_conv split: if_splits)

lemma relativePath_inside: "relativePath xs (xs @ ys) = ys"
  by (induction xs) simp_all

lemma join_starts: "starts_with (join_with sep xs) (join_with sep (xs @ ys))"
  unfolding starts_with_iff
proof (induction sep xs rule: join_with.induct)
  case (1 sep)
  then show ?case by simp
next
  case (2 sep x)
  then show ?case by (cases ys) auto
next
  case (3 sep x y zs)
  then show ?case by auto
qed

lemma split_join:
  "xs \<noteq> [] \<Longrightarrow> \<forall>x \<in> set xs. d \<notin> set x \<Longrightarrow> split_on d (join_with [d] xs) = xs"
proof (induction "[d]" xs rule: join_with.induct)
  case (3 x y ys)
  have "split_on d (x @ d # w) = x # split_on d w" if "d \<notin> set x" for w
    using that by (induction x) auto
  with 3 show ?case by simp
qed (auto simp: split_on_single)

text \<open>The paths a worker may write: below the root, and no environment file by the checks made.\<close>

definition editable :: "path \<Rightarrow> path \<Rightarrow> bool" where
  "editable repo t \<longleftrightarrow> (\<exists>rel. t = repo @ rel \<and> rel \<noteq> [] \<and> (\<forall>s \<in> set rel. plain_segment s)
     \<and> hd rel \<noteq> ''.env'' \<and> (\<forall>s \<in> set (tl rel). \<not> starts_with ''.env'' s))"

lemma env_segment_included:
  assumes "s \<in> set (tl rel)" "starts_with ''.env'' s"
  shows "includes_str ''/.env'' (join_with ''/'' rel)"
proof -
  from assms(2) obtain u where s: "s = ''.env'' @ u" by (auto simp: starts_with_iff)
  have inner: "\<exists>a b. join_with ''/'' (r # rs) = a @ ''/'' @ s @ b" if "s \<in> set rs" for r rs
    using that
  proof (induction rs arbitrary: r)
    case Nil
    then show ?case by simp
  next
    case (Cons x xs)
    show ?case
    proof (cases "s = x")
      case True
      have "\<exists>b. join_with ''/'' (x # xs) = x @ b" by (cases xs) auto
      then obtain b where "join_with ''/'' (x # xs) = x @ b" ..
      then have "join_with ''/'' (r # x # xs) = r @ ''/'' @ s @ b" using True by simp
      then show ?thesis by blast
    next
      case False
      with Cons.prems have "s \<in> set xs" by simp
      from Cons.IH [OF this, of x] obtain a b where "join_with ''/'' (x # xs) = a @ ''/'' @ s @ b" by blast
      then have "join_with ''/'' (r # x # xs) = (r @ ''/'' @ a) @ ''/'' @ s @ b" by simp
      then show ?thesis by blast
    qed
  qed
  obtain r rs where rel: "rel = r # rs" "s \<in> set rs" using assms(1) by (cases rel) auto
  obtain a b where "join_with ''/'' rel = a @ ''/'' @ s @ b" using inner [OF rel(2), of r] rel(1) by blast
  then have "join_with ''/'' rel = a @ ''/.env'' @ (u @ b)" by (simp add: s)
  then show ?thesis unfolding includes_str_iff by blast
qed

lemma resolved_editable:
  assumes "\<forall>s \<in> set repo. plain_segment s" "resolveWorkerPatchPath repo p = Some t"
  shows "editable repo t"
proof -
  define rel where "rel = relativePath repo (resolvePath repo p)"
  have t: "t = resolvePath repo p" and ok: "join_with ''/'' rel \<noteq> ''''"
    "\<not> starts_with ''..'' (join_with ''/'' rel)" "join_with ''/'' rel \<noteq> ''.env''"
    "\<not> starts_with ''.env/'' (join_with ''/'' rel)" "\<not> includes_str ''/.env'' (join_with ''/'' rel)"
    using assms(2) by (auto simp: resolveWorkerPatchPath_def Let_def rel_def split: if_splits)
  have "\<not> (\<exists>rest. rel = ''..'' # rest)"
  proof
    assume "\<exists>rest. rel = ''..'' # rest"
    then obtain rest where "rel = [''..''] @ rest" by auto
    then have "starts_with ''..'' (join_with ''/'' rel)" using join_starts [of "''/''" "[''..'']" rest] by simp
    with ok(2) show False by simp
  qed
  then have split: "t = repo @ rel" using relativePath_cases [of repo t] by (auto simp: rel_def t)
  have plain: "\<forall>s \<in> set rel. plain_segment s"
    using resolvePath_plain [OF assms(1), of p] split t by auto
  have ne: "rel \<noteq> []" using ok(1) by auto
  have "hd rel \<noteq> ''.env''"
  proof
    assume "hd rel = ''.env''"
    with ne obtain rest where r: "rel = ''.env'' # rest" by (metis list.collapse)
    show False
    proof (cases rest)
      case Nil
      with r ok(3) show ?thesis by simp
    next
      case (Cons x xs)
      with r ok(4) show ?thesis by simp
    qed
  qed
  with split plain ne ok(5) env_segment_included show ?thesis unfolding editable_def by blast
qed

lemma pathString_below: "starts_with (pathString repo) (pathString (repo @ xs))"
  by (simp add: pathString_def join_starts)

lemma symlinkClimb_below:
  "symlinkClimb isLink repo (rev (repo @ xs)) \<longleftrightarrow> (\<exists>k. 0 < k \<and> k \<le> length xs \<and> isLink (repo @ take k xs))"
proof (induction xs rule: rev_induct)
  case Nil
  then show ?case by (cases "rev repo") (auto dest: arg_cong [of _ _ rev])
next
  case (snoc x xs)
  have "symlinkClimb isLink repo (rev (repo @ xs @ [x])) \<longleftrightarrow>
      isLink (repo @ xs @ [x]) \<or> symlinkClimb isLink repo (rev (repo @ xs))"
    using pathString_below [of repo "xs @ [x]"] by simp
  also have "\<dots> \<longleftrightarrow> (\<exists>k. 0 < k \<and> k \<le> length (xs @ [x]) \<and> isLink (repo @ take k (xs @ [x])))"
    unfolding snoc.IH
  proof
    assume "isLink (repo @ xs @ [x]) \<or> (\<exists>k. 0 < k \<and> k \<le> length xs \<and> isLink (repo @ take k xs))"
    then show "\<exists>k. 0 < k \<and> k \<le> length (xs @ [x]) \<and> isLink (repo @ take k (xs @ [x]))"
      by (elim disjE exE) (auto intro: exI [of _ "Suc (length xs)"])
  next
    assume "\<exists>k. 0 < k \<and> k \<le> length (xs @ [x]) \<and> isLink (repo @ take k (xs @ [x]))"
    then obtain k where k: "0 < k" "k \<le> Suc (length xs)" "isLink (repo @ take k (xs @ [x]))" by auto
    show "isLink (repo @ xs @ [x]) \<or> (\<exists>k. 0 < k \<and> k \<le> length xs \<and> isLink (repo @ take k xs))"
    proof (cases "k = Suc (length xs)")
      case True
      with k(3) show ?thesis by simp
    next
      case False
      with k have "k \<le> length xs" by simp
      with k show ?thesis by auto
    qed
  qed
  finally show ?case by simp
qed

lemma unsafe_ancestor_iff:
  assumes "rel \<noteq> []"
  shows "hasUnsafeSymlinkAncestor isLink repo (repo @ rel) \<longleftrightarrow>
    (\<exists>k. 0 < k \<and> k < length rel \<and> isLink (repo @ take k rel))"
proof -
  obtain xs x where rel: "rel = xs @ [x]" using assms by (meson rev_exhaust)
  have "hasUnsafeSymlinkAncestor isLink repo (repo @ rel) = symlinkClimb isLink repo (rev (repo @ xs))"
    by (simp add: hasUnsafeSymlinkAncestor_def rel)
  also have "\<dots> \<longleftrightarrow> (\<exists>k. 0 < k \<and> k < length rel \<and> isLink (repo @ take k rel))"
    unfolding symlinkClimb_below rel by (auto simp: less_Suc_eq_le)
  finally show ?thesis .
qed

section \<open>What a change may do to the workspace\<close>

text \<open>A change of a path to a content is justified by a worker change that declares it.\<close>

definition justified ::
  "patch_env \<Rightarrow> path \<Rightarrow> PawEditPolicyConfig \<Rightarrow> PawChangedFile list \<Rightarrow> path \<Rightarrow> string option \<Rightarrow> bool" where
  "justified env repo cfg cs p new \<longleftrightarrow> (\<exists>c \<in> set cs. resolveWorkerPatchPath repo (changed_path c) = Some p
     \<and> \<not> hasUnsafeSymlinkAncestor (isSymbolicLink env) repo p
     \<and> (case new of
          None \<Rightarrow> changed_type c = delete
        | Some t \<Rightarrow> hashContent env t = content_hash c
            \<and> int (countLines t) \<le> full_file_rewrite_max_lines cfg))"

lemma limits_None:
  "validatePatchContentLimits env t h cfg pre a b = None \<longleftrightarrow>
     hashContent env t = h \<and> int (countLines t) \<le> full_file_rewrite_max_lines cfg"
  by (auto simp: validatePatchContentLimits_def Let_def)

lemma push_simps [simp]:
  "ws (pushIssue i st) = ws st" "patch_issues (pushIssue i st) = patch_issues st @ [i]"
  "appliedChanges (pushIssue i st) = appliedChanges st"
  "ws (pushApplied c m st) = ws st" "patch_issues (pushApplied c m st) = patch_issues st"
  "length (appliedChanges (pushApplied c m st)) = Suc (length (appliedChanges st))"
  by (simp_all add: pushIssue_def pushApplied_def)

text \<open>One change either reports exactly one issue and touches nothing, or touches its target only.\<close>

definition one_change_ok :: "patch_env \<Rightarrow> path \<Rightarrow> PawChangedFile \<Rightarrow> PawEditPolicyConfig \<Rightarrow> patch_state \<Rightarrow> patch_state \<Rightarrow> bool" where
  "one_change_ok env target c cfg st st' \<longleftrightarrow>
     (\<exists>i. st' = pushIssue i st)
     \<or> patch_issues st' = patch_issues st
       \<and> (ws st' = ws st
          \<or> changed_type c = delete \<and> ws st' = (ws st)(target := None)
          \<or> (\<exists>t. ws st' = (ws st)(target \<mapsto> t) \<and> hashContent env t = content_hash c
               \<and> int (countLines t) \<le> full_file_rewrite_max_lines cfg))"

lemma diff_change_ok: "one_change_ok env target c cfg st (applyDiffWorkerChange env target c m cfg pre st)"
  unfolding one_change_ok_def
  by (auto simp: applyDiffWorkerChange_def limits_None
      split: option.split ApplyUnifiedDiffResult.split)

lemma write_full_ok: "one_change_ok env target c cfg st (writeFullFileChange env target c cfg pre st)"
  unfolding one_change_ok_def
  by (auto simp: writeFullFileChange_def limits_None split: option.split)

lemma full_change_ok: "one_change_ok env target c cfg st (applyFullFileWorkerChange env target c cfg pre st)"
proof -
  have "one_change_ok env target c cfg st (pushIssue i st)"
    "one_change_ok env target c cfg st (pushApplied c m st)" for i m
    by (auto simp: one_change_ok_def)
  then show ?thesis
    using write_full_ok by (simp add: applyFullFileWorkerChange_def split: option.split PawEditIdempotencyDecision.split)
qed

lemma one_change_justified:
  assumes "one_change_ok env target c cfg st st'" "resolveWorkerPatchPath repo (changed_path c) = Some target"
    and "\<not> hasUnsafeSymlinkAncestor (isSymbolicLink env) repo target"
  shows "ws st' p = ws st p \<or> justified env repo cfg [c] p (ws st' p)"
  using assms by (auto simp: one_change_ok_def justified_def)

lemma applyOne_justified:
  "ws (applyOneWorkerChangedFile env repo cfg c pre st) p = ws st p
   \<or> justified env repo cfg [c] p (ws (applyOneWorkerChangedFile env repo cfg c pre st) p)"
proof (cases "resolveWorkerPatchPath repo (changed_path c)")
  case None
  then show ?thesis by (simp add: applyOneWorkerChangedFile_def)
next
  case (Some target)
  show ?thesis
  proof (cases "hasUnsafeSymlinkAncestor (isSymbolicLink env) repo target")
    case True
    with Some show ?thesis by (simp add: applyOneWorkerChangedFile_def)
  next
    case False
    let ?st' = "applyOneWorkerChangedFile env repo cfg c pre st"
    have "?st' = st \<or> one_change_ok env target c cfg st ?st'"
      using diff_change_ok full_change_ok
      by (simp add: applyOneWorkerChangedFile_def Some False Let_def)
    with one_change_justified [OF _ Some False] show ?thesis by metis
  qed
qed

lemma justified_mono: "justified env repo cfg cs p t \<Longrightarrow> set cs \<subseteq> set ds \<Longrightarrow> justified env repo cfg ds p t"
  by (auto simp: justified_def)

lemma applyChanged_justified:
  "ws (applyChangedFiles env repo cfg i cs st) p = ws st p
   \<or> justified env repo cfg cs p (ws (applyChangedFiles env repo cfg i cs st) p)"
proof (induction cs arbitrary: i st)
  case Nil
  then show ?case by simp
next
  case (Cons c cs)
  let ?st1 = "applyOneWorkerChangedFile env repo cfg c (''/changed_files/'' @ show_nat i) st"
  from Cons.IH [of "Suc i" ?st1] applyOne_justified [of env repo cfg c _ st p] show ?case
    using justified_mono [of env repo cfg _ p _ "c # cs"]
    by (metis applyChangedFiles.simps(2) empty_subsetI insert_mono list.set(1,2) set_subset_Cons)
qed

section \<open>Running the same patches again\<close>

text \<open>A full-file change that carries the hash of the file it was derived from.\<close>

definition rerunnable :: "PawChangedFile \<Rightarrow> bool" where
  "rerunnable c \<longleftrightarrow> apply_method c \<in> {None, Some full_file} \<and> changed_type c \<in> {create, modify}
     \<and> base_content_hash c \<noteq> None \<and> new_content c \<noteq> None"

definition settled :: "patch_env \<Rightarrow> path \<Rightarrow> workspace \<Rightarrow> PawChangedFile \<Rightarrow> bool" where
  "settled env repo w c \<longleftrightarrow> (\<exists>t. resolveWorkerPatchPath repo (changed_path c) = Some t
     \<and> \<not> hasUnsafeSymlinkAncestor (isSymbolicLink env) repo t
     \<and> (case w t of Some x \<Rightarrow> hashContent env x | None \<Rightarrow> '''') = content_hash c)"

lemma rerunnable_apply:
  assumes "rerunnable c" "resolveWorkerPatchPath repo (changed_path c) = Some t"
    and "\<not> hasUnsafeSymlinkAncestor (isSymbolicLink env) repo t"
  shows "applyOneWorkerChangedFile env repo cfg c pre st = applyFullFileWorkerChange env t c cfg pre st"
  using assms by (auto simp: rerunnable_def applyOneWorkerChangedFile_def Let_def)

lemma settled_noop:
  assumes "rerunnable c" "settled env repo (ws st) c" "new_content c \<noteq> Some None"
  shows "applyOneWorkerChangedFile env repo cfg c pre st = pushApplied c full_file st"
proof -
  from assms(2) obtain t where t: "resolveWorkerPatchPath repo (changed_path c) = Some t"
    "\<not> hasUnsafeSymlinkAncestor (isSymbolicLink env) repo t"
    "(case ws st t of Some x \<Rightarrow> hashContent env x | None \<Rightarrow> '''') = content_hash c"
    by (auto simp: settled_def)
  show ?thesis
    using assms(1,3) t(3)
    by (auto simp: rerunnable_apply [OF assms(1) t(1,2)] applyFullFileWorkerChange_def rerunnable_def
        evaluatePawEditIdempotency_def)
qed

lemma rejected_adds_issue: "patch_issues (pushIssue i st) = patch_issues st \<longleftrightarrow> False"
  by simp

lemma accepted_settles:
  assumes "rerunnable c" "patch_issues (applyOneWorkerChangedFile env repo cfg c pre st) = patch_issues st"
  shows "settled env repo (ws (applyOneWorkerChangedFile env repo cfg c pre st)) c
    \<and> new_content c \<noteq> Some None
    \<and> appliedChanges (applyOneWorkerChangedFile env repo cfg c pre st)
        = appliedChanges (pushApplied c full_file st)
    \<and> (\<forall>p. resolveWorkerPatchPath repo (changed_path c) \<noteq> Some p \<longrightarrow>
          ws (applyOneWorkerChangedFile env repo cfg c pre st) p = ws st p)"
proof -
  from assms(2) obtain t where t: "resolveWorkerPatchPath repo (changed_path c) = Some t"
    "\<not> hasUnsafeSymlinkAncestor (isSymbolicLink env) repo t"
    by (auto simp: applyOneWorkerChangedFile_def split: option.splits if_splits)
  from assms(1) obtain b where b: "base_content_hash c = Some b" by (auto simp: rerunnable_def)
  have nc: "new_content c \<noteq> Some None"
    using assms by (auto simp: rerunnable_apply [OF assms(1) t] applyFullFileWorkerChange_def rerunnable_def
        split: if_splits)
  with assms(1) obtain x where x: "new_content c = Some (Some x)" by (auto simp: rerunnable_def)
  have full: "applyOneWorkerChangedFile env repo cfg c pre st =
      (case evaluatePawEditIdempotency (case ws st t of Some y \<Rightarrow> hashContent env y | None \<Rightarrow> '''')
             (case b of Some h \<Rightarrow> h | None \<Rightarrow> '''') (content_hash c) of
         IdempotentNoop msg \<Rightarrow> pushApplied c full_file st
       | IdempotentRederive msg act \<Rightarrow> pushIssue (Issue (pre @ ''/base_content_hash'') msg) st
       | IdempotentApply msg \<Rightarrow> writeFullFileChange env t c cfg pre st)"
    using assms(1) b x by (auto simp: rerunnable_apply [OF assms(1) t] applyFullFileWorkerChange_def rerunnable_def)
  have written: "writeFullFileChange env t c cfg pre st =
      (case validatePatchContentLimits env x (content_hash c) cfg pre '' for provided new_content.''
              ''Full-file rewrite has'' of
         Some i \<Rightarrow> pushIssue i st
       | None \<Rightarrow> pushApplied c full_file (st\<lparr>ws := (ws st)(t \<mapsto> x)\<rparr>))"
    using assms(1) x by (auto simp: writeFullFileChange_def rerunnable_def)
  show ?thesis
    using assms(2) t nc unfolding full written
    by (auto simp: settled_def evaluatePawEditIdempotency_def limits_None pushApplied_def
        split: if_splits option.splits)
qed

definition applied_entry :: "PawChangedFile \<Rightarrow> PawAppliedPatchChange" where
  "applied_entry c = \<lparr>applied_path = changed_path c, applied_change_type = changed_type c,
     applied_content_hash = content_hash c, applied_method = full_file\<rparr>"

lemma pushApplied_entry:
  "pushApplied c full_file st = st\<lparr>appliedChanges := appliedChanges st @ [applied_entry c]\<rparr>"
  by (simp add: pushApplied_def applied_entry_def)

lemma applyOne_issues:
  "\<exists>is. patch_issues (applyOneWorkerChangedFile env repo cfg c pre st) = patch_issues st @ is"
proof (cases "resolveWorkerPatchPath repo (changed_path c)")
  case None
  then show ?thesis by (simp add: applyOneWorkerChangedFile_def)
next
  case (Some target)
  have "\<exists>is. patch_issues (applyDiffWorkerChange env target c m cfg pre st) = patch_issues st @ is" for m
    using diff_change_ok [of env target c cfg st m pre] by (auto simp: one_change_ok_def)
  moreover have "\<exists>is. patch_issues (applyFullFileWorkerChange env target c cfg pre st) = patch_issues st @ is"
    using full_change_ok [of env target c cfg st pre] by (auto simp: one_change_ok_def)
  ultimately show ?thesis by (simp add: applyOneWorkerChangedFile_def Some Let_def)
qed

lemma applyChanged_issues: "\<exists>is. patch_issues (applyChangedFiles env repo cfg i cs st) = patch_issues st @ is"
proof (induction cs arbitrary: i st)
  case Nil
  then show ?case by simp
next
  case (Cons c cs)
  then show ?case using applyOne_issues [of env repo cfg c _ st] by (metis append_assoc applyChangedFiles.simps(2))
qed

lemma run_settles:
  assumes "\<forall>c \<in> set cs. rerunnable c" "distinct (map (\<lambda>c. resolveWorkerPatchPath repo (changed_path c)) cs)"
    and "patch_issues (applyChangedFiles env repo cfg i cs st) = patch_issues st"
  shows "(\<forall>c \<in> set cs. settled env repo (ws (applyChangedFiles env repo cfg i cs st)) c \<and> new_content c \<noteq> Some None)
    \<and> appliedChanges (applyChangedFiles env repo cfg i cs st) = appliedChanges st @ map applied_entry cs
    \<and> (\<forall>p. (\<forall>c \<in> set cs. resolveWorkerPatchPath repo (changed_path c) \<noteq> Some p) \<longrightarrow>
          ws (applyChangedFiles env repo cfg i cs st) p = ws st p)"
  using assms
proof (induction cs arbitrary: i st)
  case Nil
  then show ?case by simp
next
  case (Cons c cs)
  let ?st1 = "applyOneWorkerChangedFile env repo cfg c (''/changed_files/'' @ show_nat i) st"
  let ?st2 = "applyChangedFiles env repo cfg (Suc i) cs ?st1"
  obtain is1 is2 where "patch_issues ?st1 = patch_issues st @ is1" "patch_issues ?st2 = patch_issues ?st1 @ is2"
    using applyOne_issues applyChanged_issues by meson
  with Cons.prems(3) have silent: "patch_issues ?st1 = patch_issues st" "patch_issues ?st2 = patch_issues ?st1"
    by simp_all
  have c: "rerunnable c" using Cons.prems(1) by simp
  note first = accepted_settles [OF c silent(1)]
  have "\<forall>c \<in> set cs. rerunnable c"
    "distinct (map (\<lambda>c. resolveWorkerPatchPath repo (changed_path c)) cs)" using Cons.prems by simp_all
  note rest = Cons.IH [OF this silent(2)]
  obtain t where t: "resolveWorkerPatchPath repo (changed_path c) = Some t" using first by (auto simp: settled_def)
  with Cons.prems(2) have "\<forall>d \<in> set cs. resolveWorkerPatchPath repo (changed_path d) \<noteq> Some t" by (auto simp: image_iff)
  with rest have "ws ?st2 t = ws ?st1 t" by blast
  with first t have "settled env repo (ws ?st2) c" by (auto simp: settled_def)
  with first rest show ?case by (simp add: pushApplied_entry)
qed

lemma rerun_noop:
  assumes "\<forall>c \<in> set cs. rerunnable c \<and> settled env repo (ws st) c \<and> new_content c \<noteq> Some None"
  shows "applyChangedFiles env repo cfg i cs st = st\<lparr>appliedChanges := appliedChanges st @ map applied_entry cs\<rparr>"
  using assms
proof (induction cs arbitrary: i st)
  case Nil
  then show ?case by simp
next
  case (Cons c cs)
  then have "applyOneWorkerChangedFile env repo cfg c pre st = pushApplied c full_file st" for pre
    by (intro settled_noop) simp_all
  with Cons show ?case by (simp add: pushApplied_entry)
qed

section \<open>The ladder of edit attempts\<close>

text \<open>
  The methods tried on one file as every attempt fails. \<open>failedAttempts\<close> counts the failed
  fuzzy attempts, as the message of the policy numbers them. The fuel bounds the number of
  attempts; running out of it is \<open>None\<close>.
\<close>

fun edit_ladder ::
  "nat \<Rightarrow> PawEditPolicyConfig \<Rightarrow> int \<Rightarrow> PawEditApplyMethod option \<Rightarrow> int \<Rightarrow> PawEditApplyMethod list option" where
  "edit_ladder 0 cfg n prev failed = None"
| "edit_ladder (Suc fuel) cfg n prev failed =
     (case evaluatePawNextEditAttempt \<lparr>edit_config = cfg, previousMethod = prev, failedAttempts = failed,
             fileLineCount = n, failingHunk = None\<rparr> of
        EditBlocked m a l x h \<Rightarrow> Some []
      | EditApply meth m \<Rightarrow>
          map_option (Cons meth) (edit_ladder fuel cfg n (Some meth)
            (if meth = fuzzy_diff then failed + 1 else failed)))"

definition last_resort :: "PawEditPolicyConfig \<Rightarrow> int \<Rightarrow> PawEditApplyMethod list" where
  "last_resort cfg n = (if n \<le> full_file_rewrite_max_lines cfg then [full_file] else [])"

lemma ladder_full: "edit_ladder (Suc fuel) cfg n (Some full_file) f = Some []"
  by (simp add: evaluatePawNextEditAttempt_def blockedPatchApplyFailed_def Let_def)

lemma ladder_exhausted:
  "fuzzy_apply_retries cfg \<le> f \<Longrightarrow>
     edit_ladder (Suc (Suc fuel)) cfg n (Some fuzzy_diff) f = Some (last_resort cfg n)"
  using ladder_full [of fuel cfg n f]
  by (simp add: evaluatePawNextEditAttempt_def evaluateFullFileOrBlocked_def blockedPatchApplyFailed_def
      last_resort_def Let_def del: edit_ladder.simps(2) add: edit_ladder.simps(2) [of "Suc fuel"])

lemma ladder_fuzzy:
  assumes "f \<le> fuzzy_apply_retries cfg" "nat (fuzzy_apply_retries cfg - f) + 2 \<le> fuel"
  shows "edit_ladder fuel cfg n (Some fuzzy_diff) f
    = Some (replicate (nat (fuzzy_apply_retries cfg - f)) fuzzy_diff @ last_resort cfg n)"
  using assms
proof (induction "nat (fuzzy_apply_retries cfg - f)" arbitrary: f fuel)
  case 0
  then have "fuzzy_apply_retries cfg \<le> f" by simp
  moreover obtain k where "fuel = Suc (Suc k)" using 0 by (metis add_2_eq_Suc add_0 le_Suc_ex)
  ultimately show ?case using ladder_exhausted 0 by simp
next
  case (Suc k)
  then obtain fu where fu: "fuel = Suc fu" by (cases fuel) auto
  have lt: "f < fuzzy_apply_retries cfg" and k: "k = nat (fuzzy_apply_retries cfg - (f + 1))"
    using Suc.hyps(2) by linarith+
  have "edit_ladder fu cfg n (Some fuzzy_diff) (f + 1)
      = Some (replicate k fuzzy_diff @ last_resort cfg n)"
    using Suc.hyps(1) [OF k] Suc.prems k fu lt by simp
  then show ?case
    using lt Suc.hyps(2) [symmetric]
    by (simp add: fu evaluatePawNextEditAttempt_def Let_def)
qed

section \<open>Properties\<close>


definition sample_patch_env :: patch_env where
  "sample_patch_env = \<lparr>sha256 = (\<lambda>s. s), applyPatch = (\<lambda>b d f. Some b), isSymbolicLink = (\<lambda>p. False)\<rparr>"

definition sample_edit_config :: PawEditPolicyConfig where
  "sample_edit_config = \<lparr>edit_strategy = ''diff_first'', fuzzy_apply_retries = 2,
     full_file_rewrite_max_lines = 400\<rparr>"

definition sample_change :: "string \<Rightarrow> PawChangedFile" where
  "sample_change p = \<lparr>changed_path = p, changed_type = modify, content_hash = ''sha256:new'',
     apply_method = Some full_file, base_content_hash = Some (Some ''sha256:old''),
     new_content = Some (Some ''new''), unified_diff = None\<rparr>"

lemma sample_patch:
  "fst (applyPawWorkerOutputPatches sample_patch_env [''r''] sample_edit_config [sample_change ''src/a.ts'']
     [[''r'', ''src'', ''a.ts''] \<mapsto> ''old'']) = PatchApplied [applied_entry (sample_change ''src/a.ts'')]"
  "snd (applyPawWorkerOutputPatches sample_patch_env [''r''] sample_edit_config [sample_change ''src/a.ts'']
     [[''r'', ''src'', ''a.ts''] \<mapsto> ''old'']) [''r'', ''src'', ''a.ts''] = Some ''new''"
  by code_simp+


text \<open>
  Re-running is safe: when a list of full-file changes that carry their base hash and
  have different targets was applied without an issue, applying it again reports the same
  changes and leaves the workspace as it is.
\<close>

theorem patches_rerun_idempotent:
  assumes "\<forall>c \<in> set cs. rerunnable c"
    and "distinct (map (\<lambda>c. resolveWorkerPatchPath repo (changed_path c)) cs)"
    and "applyPawWorkerOutputPatches env repo cfg cs w = (PatchApplied chs, w')"
  shows "applyPawWorkerOutputPatches env repo cfg cs w' = (PatchApplied chs, w')"
proof -
  let ?st = "\<lparr>patch_issues = [], appliedChanges = [], ws = w\<rparr>"
  let ?st' = "applyChangedFiles env repo cfg 0 cs ?st"
  have silent: "patch_issues ?st' = patch_issues ?st" and chs: "chs = appliedChanges ?st'" and w': "w' = ws ?st'"
    using assms(3) by (auto simp: applyPawWorkerOutputPatches_def Let_def split: if_splits)
  note first = run_settles [OF assms(1,2) silent]
  then have "applyChangedFiles env repo cfg 0 cs \<lparr>patch_issues = [], appliedChanges = [], ws = w'\<rparr>
      = \<lparr>patch_issues = [], appliedChanges = map applied_entry cs, ws = w'\<rparr>"
    using assms(1) rerun_noop [of cs env repo "\<lparr>patch_issues = [], appliedChanges = [], ws = w'\<rparr>"]
    by (simp add: w')
  with first chs show ?thesis by (simp add: applyPawWorkerOutputPatches_def Let_def)
qed

theorem patches_rerun_idempotent_witness:
  "\<exists>w'. applyPawWorkerOutputPatches sample_patch_env [''r''] sample_edit_config [sample_change ''src/a.ts''] w'
     = (PatchApplied [applied_entry (sample_change ''src/a.ts'')], w')"
proof -
  let ?cs = "[sample_change ''src/a.ts'']"
  define w' where "w' = snd (applyPawWorkerOutputPatches sample_patch_env [''r''] sample_edit_config ?cs
      [[''r'', ''src'', ''a.ts''] \<mapsto> ''old''])"
  have ok: "\<forall>c \<in> set ?cs. rerunnable c" by (simp add: rerunnable_def sample_change_def)
  have dist: "distinct (map (\<lambda>c. resolveWorkerPatchPath [''r''] (changed_path c)) ?cs)" by simp
  have "applyPawWorkerOutputPatches sample_patch_env [''r''] sample_edit_config ?cs
      [[''r'', ''src'', ''a.ts''] \<mapsto> ''old''] = (PatchApplied [applied_entry (sample_change ''src/a.ts'')], w')"
    unfolding w'_def using sample_patch(1) by (metis surjective_pairing)
  from patches_rerun_idempotent [OF ok dist this] show ?thesis by (rule exI [where x = w'])
qed

text \<open>
  (C39) The ladder of edit attempts is finite and climbs in a fixed order: one diff, exactly the
  configured number of fuzzy diffs, then one full-file rewrite if the file is small enough,
  then blocked. With fuel for these attempts and the final decision it never runs out.
\<close>

theorem edit_ladder_exact:
  assumes "nat (fuzzy_apply_retries cfg) + 3 \<le> fuel"
  shows "edit_ladder fuel cfg n None 0
    = Some ([diff] @ replicate (nat (fuzzy_apply_retries cfg)) fuzzy_diff @ last_resort cfg n)"
proof -
  obtain k where k: "fuel = Suc (Suc (Suc k))"
    using assms by (metis Suc_le_D add_leD2 numeral_3_eq_3 Suc_le_mono)
  show ?thesis
  proof (cases "fuzzy_apply_retries cfg \<le> 0")
    case True
    then show ?thesis
      using ladder_full [of k cfg n 0]
      by (simp add: k evaluatePawNextEditAttempt_def evaluateFullFileOrBlocked_def
          blockedPatchApplyFailed_def last_resort_def Let_def)
  next
    case False
    then have r: "nat (fuzzy_apply_retries cfg) = Suc (nat (fuzzy_apply_retries cfg - 1))" by linarith
    have "edit_ladder (Suc k) cfg n (Some fuzzy_diff) 1
        = Some (replicate (nat (fuzzy_apply_retries cfg - 1)) fuzzy_diff @ last_resort cfg n)"
      using False assms r by (intro ladder_fuzzy) (simp_all add: k)
    with False r show ?thesis
      by (simp add: k evaluatePawNextEditAttempt_def Let_def del: edit_ladder.simps(2)
          add: edit_ladder.simps(2) [of "Suc (Suc k)"] edit_ladder.simps(2) [of "Suc k"])
  qed
qed

theorem edit_ladder_exact_witness:
  "edit_ladder 5 sample_edit_config 10 None 0 = Some [diff, fuzzy_diff, fuzzy_diff, full_file]"
  using edit_ladder_exact [of sample_edit_config 5 10]
  by (simp add: sample_edit_config_def last_resort_def numeral_eq_Suc del: edit_ladder.simps)

text \<open>
  (C40) The similarity measure of fuzzy diffs does not measure similarity: on texts without
  repeated lines it is at least one, however different they are, so the threshold never
  blocks a fuzzy diff there; and it is zero for an unchanged text of four equal lines, whose
  fuzzy diffs are therefore always refused.
\<close>

theorem line_similarity_inverted:
  "(\<forall>a b. distinct (split_on CHR 0x0A a) \<and> distinct (split_on CHR 0x0A b) \<longrightarrow>
      1 \<le> computeLineSimilarity a b)
   \<and> (let t = join_with [CHR 0x0A] [''x'', ''x'', ''x'', ''x''] in
      computeLineSimilarity t t < FUZZY_SIMILARITY_THRESHOLD)"
proof (intro conjI allI impI)
  fix a b
  assume d: "distinct (split_on CHR 0x0A a) \<and> distinct (split_on CHR 0x0A b)"
  let ?a = "split_on CHR 0x0A a" let ?b = "split_on CHR 0x0A b"
  define m where "m = max (length ?a) (length ?b)"
  define u where "u = length (remdups (?a @ ?b))"
  have "card (set ?a) \<le> card (set ?a \<union> set ?b)" "card (set ?b) \<le> card (set ?a \<union> set ?b)"
    by (auto intro: card_mono)
  with d have "length ?a \<le> u" "length ?b \<le> u"
    by (simp_all add: u_def length_remdups_card_conv distinct_card)
  then have le: "int m \<le> int m - (int (length ?a) + int (length ?b) - 2 * int u)" by linarith
  have pos: "0 < m" by (simp add: m_def less_max_iff_disj)
  have "1 \<le> of_int (int m - (int (length ?a) + int (length ?b) - 2 * int u)) / (of_nat m :: rat)"
    using pos le by (simp add: le_divide_eq_1)
  then show "1 \<le> computeLineSimilarity a b"
    using pos unfolding computeLineSimilarity_def Let_def m_def [symmetric] u_def [symmetric]
    by (simp add: le_max_iff_disj)
next
  show "let t = join_with [CHR 0x0A] [''x'', ''x'', ''x'', ''x''] in
      computeLineSimilarity t t < FUZZY_SIMILARITY_THRESHOLD"
    by (simp add: computeLineSimilarity_def FUZZY_SIMILARITY_THRESHOLD_def Let_def)
qed

theorem line_similarity_inverted_witness:
  "1 \<le> computeLineSimilarity ''abc'' ''xyz''"
  using line_similarity_inverted by (auto simp: split_on_single)

text \<open>
  The guard for environment files misses some at the root: \<open>.env.local\<close> may be written
  there, while the same file below any directory is refused.
\<close>

theorem root_env_variant_editable:
  "resolveWorkerPatchPath repo ''.env.local'' = Some (repo @ [''.env.local''])
   \<and> resolveWorkerPatchPath repo ''config/.env.local'' = None"
  by (simp add: resolveWorkerPatchPath_def resolvePath_def relativePath_inside Let_def)

end
