(* ===== verification/Paw_Journal.thy ===== *)
theory Paw_Journal
  imports Paw_Store Paw_Edit
begin

text \<open>
  The slice journal, \<open>paw/slice-journal.ts\<close>: one JSON line per change a worker applied,
  appended to \<open>slice-journal.jsonl\<close> of the session and read back to tell which changes of an
  interrupted slice are done.

  A journal file is the list of its complete lines, each blank, a JSON value or text that
  does not parse, and whether an unfinished line follows the last newline. Only the journal
  files are modelled here; the other session files are those of \<open>Paw_Store\<close>.
\<close>

section \<open>Files\<close>

datatype journal_line = BlankLine | JsonLine json | BrokenLine string

record journal_text =
  complete_lines :: "journal_line list"
  torn_line :: "string option"

type_synonym journals = "string \<Rightarrow> journal_text option"

text \<open>\<open>content.split("\n")\<close>: what follows the last newline is a line too.\<close>

definition journalLines :: "journal_text \<Rightarrow> journal_line list" where
  "journalLines j = complete_lines j @ [case torn_line j of None \<Rightarrow> BlankLine | Some t \<Rightarrow> BrokenLine t]"

text \<open>
  Appending a serialized entry and a newline to a file that is created if missing; after an
  unfinished line the entry does not start a line of its own, and the joined line does not parse.
\<close>

definition appendLine :: "journals \<Rightarrow> string \<Rightarrow> json \<Rightarrow> journals" where
  "appendLine js path v =
     (let j = (case js path of Some j \<Rightarrow> j | None \<Rightarrow> \<lparr>complete_lines = [], torn_line = None\<rparr>) in
      js(path \<mapsto> \<lparr>complete_lines = complete_lines j
           @ [case torn_line j of None \<Rightarrow> JsonLine v | Some t \<Rightarrow> BrokenLine t],
         torn_line = None\<rparr>))"

section \<open>Entries\<close>

record PawSliceJournalEntry =
  entry_session_id :: string
  entry_slice_id :: string
  entry_path :: string
  entry_change_type :: change_type
  entry_content_hash :: string
  entry_apply_method :: "PawEditApplyMethod option"
  timestamp :: string

fun changeTypeString :: "change_type \<Rightarrow> string" where
  "changeTypeString create = ''create''"
| "changeTypeString modify = ''modify''"
| "changeTypeString delete = ''delete''"
| "changeTypeString rename = ''rename''"

definition CHANGE_TYPES :: "change_type list" where
  "CHANGE_TYPES = [create, modify, delete, rename]"

definition APPLY_METHODS :: "PawEditApplyMethod list" where
  "APPLY_METHODS = [diff, fuzzy_diff, full_file]"

definition ENTRY_KEYS :: "string list" where
  "ENTRY_KEYS = [''session_id'', ''slice_id'', ''path'', ''change_type'', ''content_hash'',
     ''apply_method'', ''timestamp'']"

definition readJournalRecord :: "json \<Rightarrow> (string \<times> json) list \<times> PawValidationIssue list" where
  "readJournalRecord v =
     (case v of
        JObject rec \<Rightarrow> (rec, map (\<lambda>k. Issue ''/'' (''Unexpected property '' @ k @ ''.''))
                          (filter (\<lambda>k. k \<notin> set ENTRY_KEYS) (map fst rec)))
      | _ \<Rightarrow> ([], [Issue ''/'' ''Expected object.'']))"

definition readJournalString :: "(string \<times> json) list \<Rightarrow> string \<Rightarrow> string \<times> PawValidationIssue list" where
  "readJournalString rec key =
     (let bad = ('''', [Issue (''/'' @ key) ''Expected non-empty string.'']) in
      case json_get rec key of
        JString s \<Rightarrow> if length s > 0 then (s, []) else bad
      | _ \<Rightarrow> bad)"

definition expectedOneOf :: "('a \<Rightarrow> string) \<Rightarrow> 'a list \<Rightarrow> string \<Rightarrow> PawValidationIssue" where
  "expectedOneOf f allowed key = Issue (''/'' @ key) (''Expected one of '' @ join_with '', '' (map f allowed) @ ''.'')"

definition readStringUnion ::
  "('a \<Rightarrow> string) \<Rightarrow> 'a list \<Rightarrow> (string \<times> json) list \<Rightarrow> string \<Rightarrow> 'a \<times> PawValidationIssue list" where
  "readStringUnion f allowed rec key =
     (let bad = (hd allowed, [expectedOneOf f allowed key]) in
      case json_get rec key of
        JString s \<Rightarrow> (case find (\<lambda>a. f a = s) allowed of Some a \<Rightarrow> (a, []) | None \<Rightarrow> bad)
      | _ \<Rightarrow> bad)"

definition readOptionalStringUnion ::
  "('a \<Rightarrow> string) \<Rightarrow> 'a list \<Rightarrow> (string \<times> json) list \<Rightarrow> string \<Rightarrow> 'a option \<times> PawValidationIssue list" where
  "readOptionalStringUnion f allowed rec key =
     (let bad = (None, [expectedOneOf f allowed key]) in
      case json_get rec key of
        JUndefined \<Rightarrow> (None, [])
      | JString s \<Rightarrow> (case find (\<lambda>a. f a = s) allowed of Some a \<Rightarrow> (Some a, []) | None \<Rightarrow> bad)
      | _ \<Rightarrow> bad)"

definition formatJournalIssues :: "string \<Rightarrow> PawValidationIssue list \<Rightarrow> nat option \<Rightarrow> string" where
  "formatJournalIssues prefix issues lineNumber =
     prefix @ (case lineNumber of None \<Rightarrow> '''' | Some n \<Rightarrow> '' on line '' @ show_nat n) @ '': ''
     @ join_with ''; '' (map (\<lambda>i. issue_path i @ '' '' @ issue_message i) issues)"

definition assertValidEntrySessionId :: "string \<Rightarrow> nat option \<Rightarrow> unit throws" where
  "assertValidEntrySessionId sid lineNumber =
     (case resolvePawSessionPaths ''.'' sid of
        Inr p \<Rightarrow> Inr ()
      | Inl (JsError m) \<Rightarrow> Inl (JsError (formatJournalIssues ''Invalid Paw slice journal entry''
                              [Issue ''/session_id'' m] lineNumber))
      | Inl (FileSystemError c) \<Rightarrow> Inl (JsError (formatJournalIssues ''Invalid Paw slice journal entry''
                              [Issue ''/session_id'' c] lineNumber)))"

definition parsePawSliceJournalEntry :: "json \<Rightarrow> nat option \<Rightarrow> PawSliceJournalEntry throws" where
  "parsePawSliceJournalEntry v lineNumber =
     (let (rec, i0) = readJournalRecord v;
          (sid, i1) = readJournalString rec ''session_id'';
          (slice, i2) = readJournalString rec ''slice_id'';
          (p, i3) = readJournalString rec ''path'';
          (ct, i4) = readStringUnion changeTypeString CHANGE_TYPES rec ''change_type'';
          (h, i5) = readJournalString rec ''content_hash'';
          (ts, i6) = readJournalString rec ''timestamp'';
          (am, i7) = readOptionalStringUnion methodString APPLY_METHODS rec ''apply_method'';
          issues = i0 @ i1 @ i2 @ i3 @ i4 @ i5 @ i6 @ i7
      in if length issues > 0
         then Inl (JsError (formatJournalIssues ''Invalid Paw slice journal entry'' issues lineNumber))
         else (case assertValidEntrySessionId sid lineNumber of
                 Inl e \<Rightarrow> Inl e
               | Inr u \<Rightarrow> Inr \<lparr>entry_session_id = sid, entry_slice_id = slice, entry_path = p,
                   entry_change_type = ct, entry_content_hash = h, entry_apply_method = am,
                   timestamp = ts\<rparr>))"

text \<open>\<open>JSON.stringify\<close> of a validated entry: \<open>apply_method\<close> is added last, if at all.\<close>

definition json_of_entry :: "PawSliceJournalEntry \<Rightarrow> json" where
  "json_of_entry e = JObject
     ([(''session_id'', JString (entry_session_id e)), (''slice_id'', JString (entry_slice_id e)),
       (''path'', JString (entry_path e)),
       (''change_type'', JString (changeTypeString (entry_change_type e))),
       (''content_hash'', JString (entry_content_hash e)), (''timestamp'', JString (timestamp e))]
      @ (case entry_apply_method e of None \<Rightarrow> [] | Some m \<Rightarrow> [(''apply_method'', JString (methodString m))]))"

section \<open>Appending, reading, looking up\<close>

definition appendPawSliceJournalEntry :: "string \<Rightarrow> journals \<Rightarrow> json \<Rightarrow> journals throws" where
  "appendPawSliceJournalEntry repo js entry =
     (case parsePawSliceJournalEntry entry None of
        Inl e \<Rightarrow> Inl e
      | Inr validated \<Rightarrow>
          (case resolvePawSessionPaths repo (entry_session_id validated) of
             Inl e \<Rightarrow> Inl e
           | Inr p \<Rightarrow> Inr (appendLine js (sliceJournalFile p) (json_of_entry validated))))"

fun readJournalLines :: "string \<Rightarrow> nat \<Rightarrow> journal_line list \<Rightarrow> PawSliceJournalEntry list throws" where
  "readJournalLines sid n [] = Inr []"
| "readJournalLines sid n (BlankLine # ls) = readJournalLines sid (Suc n) ls"
| "readJournalLines sid n (BrokenLine t # ls) =
     Inl (JsError (''Invalid Paw slice journal JSON on line '' @ show_nat n @ '': '' @ syntaxErrorMessage t))"
| "readJournalLines sid n (JsonLine v # ls) =
     (case parsePawSliceJournalEntry v (Some n) of
        Inl e \<Rightarrow> Inl e
      | Inr entry \<Rightarrow>
          if entry_session_id entry \<noteq> sid then
            Inl (JsError (''Invalid Paw slice journal entry on line '' @ show_nat n
              @ '': /session_id Expected '' @ sid @ ''.''))
          else (case readJournalLines sid (Suc n) ls of
                  Inl e \<Rightarrow> Inl e
                | Inr es \<Rightarrow> Inr (entry # es)))"

definition readPawSliceJournal :: "string \<Rightarrow> journals \<Rightarrow> string \<Rightarrow> PawSliceJournalEntry list throws" where
  "readPawSliceJournal repo js sid =
     (case resolvePawSessionPaths repo sid of
        Inl e \<Rightarrow> Inl e
      | Inr p \<Rightarrow> (case js (sliceJournalFile p) of
           None \<Rightarrow> Inr []
         | Some j \<Rightarrow> readJournalLines sid 1 (journalLines j)))"

definition findPawAppliedChange ::
  "PawSliceJournalEntry list \<Rightarrow> string \<Rightarrow> string \<Rightarrow> string \<Rightarrow> PawSliceJournalEntry option" where
  "findPawAppliedChange es sliceId path contentHash =
     find (\<lambda>e. entry_slice_id e = sliceId \<and> entry_path e = path \<and> entry_content_hash e = contentHash) es"

definition hasPawAppliedChange :: "PawSliceJournalEntry list \<Rightarrow> string \<Rightarrow> string \<Rightarrow> string \<Rightarrow> bool" where
  "hasPawAppliedChange es sliceId path contentHash \<longleftrightarrow>
     findPawAppliedChange es sliceId path contentHash \<noteq> None"

section \<open>Lemmas\<close>

definition entry_wf :: "PawSliceJournalEntry \<Rightarrow> bool" where
  "entry_wf e \<longleftrightarrow> validSessionId (entry_session_id e) \<and> entry_slice_id e \<noteq> '''' \<and> entry_path e \<noteq> ''''
     \<and> entry_content_hash e \<noteq> '''' \<and> timestamp e \<noteq> ''''"

lemma entrySessionId_ok: "assertValidEntrySessionId sid n = Inr u \<longleftrightarrow> validSessionId sid"
  by (auto simp: assertValidEntrySessionId_def resolvePawSessionPaths_def assertValidSessionId_def)

lemma parse_entry_wf: "parsePawSliceJournalEntry v n = Inr e \<Longrightarrow> entry_wf e"
  by (auto simp: parsePawSliceJournalEntry_def entry_wf_def Let_def readJournalString_def entrySessionId_ok
      split: prod.splits if_splits sum.splits json.splits)

lemma find_change_type: "find (\<lambda>a. changeTypeString a = changeTypeString c) CHANGE_TYPES = Some c"
  by (cases c) (simp_all add: CHANGE_TYPES_def)

lemma find_method: "find (\<lambda>a. methodString a = methodString m) APPLY_METHODS = Some m"
  by (cases m) (simp_all add: APPLY_METHODS_def)

lemma parse_json_of_entry:
  assumes "entry_wf e"
  shows "parsePawSliceJournalEntry (json_of_entry e) n = Inr e"
proof -
  define rec where "rec = [(''session_id'', JString (entry_session_id e)), (''slice_id'', JString (entry_slice_id e)),
       (''path'', JString (entry_path e)),
       (''change_type'', JString (changeTypeString (entry_change_type e))),
       (''content_hash'', JString (entry_content_hash e)), (''timestamp'', JString (timestamp e))]
      @ (case entry_apply_method e of None \<Rightarrow> [] | Some m \<Rightarrow> [(''apply_method'', JString (methodString m))])"
  have keys: "readJournalRecord (json_of_entry e) = (rec, [])"
    by (auto simp: readJournalRecord_def json_of_entry_def rec_def ENTRY_KEYS_def split: option.splits)
  have ne: "entry_session_id e \<noteq> ''''" using assms by (auto simp: entry_wf_def validSessionId_def)
  have fields: "readJournalString rec ''session_id'' = (entry_session_id e, [])"
    "readJournalString rec ''slice_id'' = (entry_slice_id e, [])"
    "readJournalString rec ''path'' = (entry_path e, [])"
    "readStringUnion changeTypeString CHANGE_TYPES rec ''change_type'' = (entry_change_type e, [])"
    "readJournalString rec ''content_hash'' = (entry_content_hash e, [])"
    "readJournalString rec ''timestamp'' = (timestamp e, [])"
    using assms ne by (simp_all add: rec_def readJournalString_def readStringUnion_def json_get_def
        entry_wf_def find_change_type)
  have meth: "readOptionalStringUnion methodString APPLY_METHODS rec ''apply_method'' = (entry_apply_method e, [])"
    by (cases "entry_apply_method e")
      (simp_all add: rec_def readOptionalStringUnion_def json_get_def find_method)
  have "assertValidEntrySessionId (entry_session_id e) n = Inr ()"
    using assms by (simp add: entrySessionId_ok entry_wf_def)
  then show ?thesis
    by (simp add: parsePawSliceJournalEntry_def keys fields meth)
qed

lemma read_lines_append:
  "readJournalLines sid n (ls @ ms) =
     (case readJournalLines sid n ls of
        Inl e \<Rightarrow> Inl e
      | Inr es \<Rightarrow> (case readJournalLines sid (n + length ls) ms of Inl e \<Rightarrow> Inl e | Inr fs \<Rightarrow> Inr (es @ fs)))"
  by (induction sid n ls rule: readJournalLines.induct) (auto split: sum.splits)

lemma journal_file_inject:
  assumes "validSessionId sid" "validSessionId sid'"
  shows "sliceJournalFile (sessionPaths r sid) = sliceJournalFile (sessionPaths r sid') \<longleftrightarrow> sid = sid'"
  using session_file_inject [OF assms] by (auto simp: sessionPaths_files)

text \<open>A journal without an unfinished line: the state every completed append leaves.\<close>

definition journal_whole :: "string \<Rightarrow> journals \<Rightarrow> string \<Rightarrow> bool" where
  "journal_whole r js sid \<longleftrightarrow> (case js (sliceJournalFile (sessionPaths r sid)) of
     None \<Rightarrow> True | Some j \<Rightarrow> torn_line j = None)"

lemma append_Inr:
  "appendPawSliceJournalEntry r js v = Inr js' \<longleftrightarrow>
     (\<exists>e. parsePawSliceJournalEntry v None = Inr e
        \<and> js' = appendLine js (sliceJournalFile (sessionPaths r (entry_session_id e))) (json_of_entry e))"
  using parse_entry_wf by (auto simp: appendPawSliceJournalEntry_def entry_wf_def resolve_valid split: sum.splits)

lemma read_lines_no_tail:
  "readJournalLines sid n (ls @ [BlankLine]) = readJournalLines sid n ls"
  by (auto simp: read_lines_append split: sum.splits)

lemma read_after_append_same:
  assumes e: "entry_wf e" and whole: "journal_whole r js (entry_session_id e)"
    and js': "js' = appendLine js (sliceJournalFile (sessionPaths r (entry_session_id e))) (json_of_entry e)"
  shows "readPawSliceJournal r js' (entry_session_id e) =
    (case readPawSliceJournal r js (entry_session_id e) of Inl x \<Rightarrow> Inl x | Inr es \<Rightarrow> Inr (es @ [e]))"
proof -
  let ?p = "sliceJournalFile (sessionPaths r (entry_session_id e))"
  define ls where "ls = (case js ?p of Some j \<Rightarrow> complete_lines j | None \<Rightarrow> [])"
  have valid: "validSessionId (entry_session_id e)" using e by (simp add: entry_wf_def)
  have old: "readPawSliceJournal r js (entry_session_id e) = readJournalLines (entry_session_id e) 1 ls"
    using whole by (auto simp: readPawSliceJournal_def resolve_valid [OF valid] ls_def journal_whole_def
        journalLines_def read_lines_no_tail split: option.splits)
  have new: "readPawSliceJournal r js' (entry_session_id e)
      = readJournalLines (entry_session_id e) 1 (ls @ [JsonLine (json_of_entry e)])"
  proof -
    have "js' ?p = Some \<lparr>complete_lines = ls @ [JsonLine (json_of_entry e)], torn_line = None\<rparr>"
      using whole by (auto simp: ls_def journal_whole_def js' appendLine_def Let_def split: option.splits)
    then show ?thesis
      using read_lines_no_tail [of _ _ "ls @ [JsonLine (json_of_entry e)]"]
      by (simp add: readPawSliceJournal_def resolve_valid [OF valid] journalLines_def)
  qed
  show ?thesis
    unfolding old new by (simp add: read_lines_append parse_json_of_entry [OF e] split: sum.splits)
qed

lemma read_after_append_other:
  assumes "entry_wf e" "sid \<noteq> entry_session_id e"
    and "js' = appendLine js (sliceJournalFile (sessionPaths r (entry_session_id e))) (json_of_entry e)"
  shows "readPawSliceJournal r js' sid = readPawSliceJournal r js sid"
proof (cases "validSessionId sid")
  case True
  with assms have "sliceJournalFile (sessionPaths r sid) \<noteq> sliceJournalFile (sessionPaths r (entry_session_id e))"
    by (simp add: journal_file_inject entry_wf_def)
  with assms(3) True show ?thesis by (simp add: readPawSliceJournal_def resolve_valid appendLine_def Let_def)
next
  case False
  then show ?thesis by (simp add: readPawSliceJournal_def resolvePawSessionPaths_def assertValidSessionId_def)
qed

lemma whole_after_append:
  assumes "journal_whole r js sid"
  shows "journal_whole r (appendLine js path v) sid"
  using assms by (auto simp: journal_whole_def appendLine_def Let_def split: option.splits)

section \<open>Properties\<close>

text \<open>The entries a list of documents stands for.\<close>

fun parsed_entries :: "json list \<Rightarrow> PawSliceJournalEntry list" where
  "parsed_entries [] = []"
| "parsed_entries (v # vs) =
     (case parsePawSliceJournalEntry v None of Inr e \<Rightarrow> [e] | Inl x \<Rightarrow> []) @ parsed_entries vs"

text \<open>
  (C38) The journal is faithful: after any sequence of successful appends, for any sessions, to
  journals without an unfinished line, reading a session's journal gives what it gave before
  followed by exactly the appended entries of that session, in order.
\<close>

theorem journal_append_read:
  assumes "save_all (appendPawSliceJournalEntry r) js vs = Inr js'"
    and "\<forall>sid. journal_whole r js sid"
  shows "readPawSliceJournal r js' sid =
    (case readPawSliceJournal r js sid of
       Inl x \<Rightarrow> Inl x
     | Inr es \<Rightarrow> Inr (es @ filter (\<lambda>e. entry_session_id e = sid) (parsed_entries vs)))"
  using assms
proof (induction vs arbitrary: js)
  case Nil
  then show ?case by (simp split: sum.splits)
next
  case (Cons v vs)
  then obtain e js1 where e: "parsePawSliceJournalEntry v None = Inr e"
    and js1: "js1 = appendLine js (sliceJournalFile (sessionPaths r (entry_session_id e))) (json_of_entry e)"
    and rest: "save_all (appendPawSliceJournalEntry r) js1 vs = Inr js'"
    by (auto simp: append_Inr split: sum.splits)
  have "\<forall>sid. journal_whole r js1 sid" using Cons.prems(2) js1 whole_after_append by blast
  note IH = Cons.IH [OF rest this]
  note same = read_after_append_same [OF parse_entry_wf [OF e] _ js1]
  note other = read_after_append_other [OF parse_entry_wf [OF e] _ js1]
  show ?case
  proof (cases "sid = entry_session_id e")
    case True
    with IH same Cons.prems(2) show ?thesis by (simp add: e split: sum.splits)
  next
    case False
    with IH other [of sid] show ?thesis by (simp add: e split: sum.splits)
  qed
qed

definition sample_entry :: PawSliceJournalEntry where
  "sample_entry = \<lparr>entry_session_id = ''s1'', entry_slice_id = ''a'', entry_path = ''src/a.ts'',
     entry_change_type = modify, entry_content_hash = ''sha256:1'', entry_apply_method = Some diff,
     timestamp = ''t''\<rparr>"

theorem journal_append_read_witness:
  "\<exists>js'. readPawSliceJournal ''/repo'' js' ''s1'' = Inr [sample_entry, sample_entry]"
proof -
  have wf: "entry_wf sample_entry" using sample_id_valid by (simp add: entry_wf_def sample_entry_def)
  note parse = parse_json_of_entry [OF wf]
  have sid: "entry_session_id sample_entry = ''s1''" by (simp add: sample_entry_def)
  have "\<exists>js'. save_all (appendPawSliceJournalEntry ''/repo'') Map.empty
      [json_of_entry sample_entry, json_of_entry sample_entry] = Inr js'"
    using sample_id_valid by (simp add: appendPawSliceJournalEntry_def parse resolve_valid sid)
  then obtain js' where "save_all (appendPawSliceJournalEntry ''/repo'') Map.empty
      [json_of_entry sample_entry, json_of_entry sample_entry] = Inr js'" ..
  from journal_append_read [OF this, of "''s1''"] sample_id_valid show ?thesis
    by (auto simp: journal_whole_def parse readPawSliceJournal_def resolve_valid sid)
qed

end
