(* ===== verification/Paw_Results.thy ===== *)
theory Paw_Results
  imports Paw_Task Paw_Resilience Paw_Journal
begin

text \<open>
  Recording what the sub-agents of a slice did: the worker's pass with its patches and journal
  entries (\<open>paw/worker-result.ts\<close>), the reviewer's pass (\<open>paw/reviewer-result.ts\<close>), the
  verification (\<open>paw/verifier-result.ts\<close>) and the blocked results of all three
  (\<open>paw/worker-blocked-result.ts\<close>, \<open>paw/reviewer-blocked-result.ts\<close>,
  \<open>paw/verifier-blocked-result.ts\<close>).

  The six recorders start with the same checks: the caller must hold the live lock of the
  session, which must be in the recorder's state with a current slice. These checks are the
  shared definitions \<open>enterLockedSession\<close> and \<open>enterSliceStage\<close>; the result types of the
  recorders are one type, \<open>record_outcome\<close>.

  The session files, the journals and the texts of the repository are three views of one disk.
  Nothing keeps a worker from patching files under \<open>.paw\<close>, so a patched path changes the other
  two views as well; how a text is read there (\<open>JSON.parse\<close>, the split into lines) is the
  parameter \<open>text_views\<close>, about which nothing is assumed.
\<close>

section \<open>Sub-agent outputs\<close>

datatype output_status = pass | fail | blocked | needs_user_decision

record output_blocked_reason =
  output_reason_code :: "PawBlockedReasonCode cast option"
  output_reason_message :: "string option"
  output_reason_action :: "string option"

text \<open>The fields of a sub-agent output that are read; \<open>slice_id\<close> may be absent or null.\<close>

record PawSubAgentOutput =
  status :: output_status
  agent :: PawSubAgentRole
  output_session_id :: string
  output_slice_id :: "string option option"
  artifact_ref :: string
  changed_files :: "PawChangedFile list"
  output_reason :: "output_blocked_reason option"

datatype lock_refusal =
    RefusedNotLocked not_locked_reason
  | RefusedOther PawSessionLock PawTaskSessionLockOwner

datatype 'a record_outcome =
    Recorded PawSessionLock PawSessionState PawSessionState 'a
  | RecordRefused lock_refusal
  | InvalidState PawSessionState "PawValidationIssue list"
  | NoSlice PawSessionState "PawValidationIssue list"
  | InvalidOutput PawSessionState "PawValidationIssue list"
  | OtherStatus PawSessionState
  | InvalidReason PawSessionState "PawValidationIssue list"
  | InvalidDecisions PawSessionState "PawValidationIssue list"
  | RecordInvalidTransition PawSessionState "PawValidationIssue list"

text \<open>
  The six result types; the value of a recorded outcome is what the type adds to the lock and
  the two states. For \<open>PawVerificationResult\<close> these are the unverified decisions: the outcome is
  \<open>completed\<close> when there are none and \<open>completed_with_unverified\<close> otherwise.
\<close>

type_synonym PawWorkerPassResult = "(PawSliceJournalEntry list \<times> PawAppliedPatchChange list) record_outcome"
type_synonym PawReviewerPassResult = "unit record_outcome"
type_synonym PawVerificationResult = "PawVerifyGateDecision list record_outcome"
type_synonym PawWorkerBlockedResult = "unit record_outcome"
type_synonym PawReviewerBlockedResult = "unit record_outcome"
type_synonym PawVerifierBlockedResult = "unit record_outcome"

section \<open>The shared checks\<close>

definition enterLockedSession ::
  "process_env \<Rightarrow> string \<Rightarrow> files \<Rightarrow> string \<Rightarrow> PawSessionLockOptions \<Rightarrow>
     (lock_refusal + PawSessionLock \<times> PawSessionState) throws" where
  "enterLockedSession env repo fs sid opts =
     (case getPawSessionLockStatus env repo fs sid opts of
        Inl e \<Rightarrow> Inl e
      | Inr Unlocked \<Rightarrow> Inr (Inl (RefusedNotLocked NotLockedUnlocked))
      | Inr (Stale r l) \<Rightarrow> Inr (Inl (RefusedNotLocked (NotLockedStale r l)))
      | Inr (Locked l) \<Rightarrow>
          let expectedOwner = getPawTaskSessionLockOwner env opts in
          if \<not> isPawTaskSessionLockOwner l expectedOwner then Inr (Inl (RefusedOther l expectedOwner))
          else (case readPawSessionState repo fs sid of
                  Inl e \<Rightarrow> Inl e
                | Inr s \<Rightarrow> Inr (Inr (l, s))))"

definition enterSliceStage ::
  "PawActiveStateName \<Rightarrow> string \<Rightarrow> process_env \<Rightarrow> string \<Rightarrow> files \<Rightarrow> string \<Rightarrow> PawSessionLockOptions \<Rightarrow>
     ('a record_outcome + PawSessionLock \<times> PawSessionState \<times> string) throws" where
  "enterSliceStage stage label env repo fs sid opts =
     (case enterLockedSession env repo fs sid opts of
        Inl e \<Rightarrow> Inl e
      | Inr (Inl r) \<Rightarrow> Inr (Inl (RecordRefused r))
      | Inr (Inr (l, s)) \<Rightarrow>
          if state_name s \<noteq> Member (Active stage) then
            Inr (Inl (InvalidState s [Issue ''/name''
              (label @ '' requires '' @ activeStateString stage @ '' state.'')]))
          else (case current_slice_id s of
                  None \<Rightarrow> Inr (Inl (NoSlice s [Issue ''/current_slice_id''
                            (label @ '' requires a current slice.'')]))
                | Some c \<Rightarrow> Inr (Inr (l, s, c))))"

text \<open>The end of every recorder: the transition, and the write of its result.\<close>

definition recordTransition ::
  "string \<Rightarrow> files \<Rightarrow> PawSessionLock \<Rightarrow> PawSessionState \<Rightarrow> PawStateTransition \<Rightarrow> 'a \<Rightarrow>
     ('a record_outcome \<times> files) throws" where
  "recordTransition repo fs l s t v =
     (case transitionPawSessionState s t of
        Invalid is \<Rightarrow> Inr (RecordInvalidTransition s is, fs)
      | Ok s' \<Rightarrow> (case writePawSessionState repo fs s' of
           Inl e \<Rightarrow> Inl e
         | Inr fs' \<Rightarrow> Inr (Recorded l s s' v, fs')))"

definition quoted :: "string \<Rightarrow> string" where
  "quoted s = [CHR 0x22] @ s @ [CHR 0x22]"

definition outputIssues ::
  "string \<Rightarrow> string \<Rightarrow> PawSubAgentRole \<Rightarrow> PawSubAgentOutput \<Rightarrow> string \<Rightarrow> string \<Rightarrow> PawValidationIssue list" where
  "outputIssues label who role out sid slice =
     (if agent out \<noteq> role then [Issue ''/agent'' (label @ '' requires agent '' @ quoted (roleString role) @ ''.'')] else [])
     @ (if output_session_id out \<noteq> sid
        then [Issue ''/session_id'' (who @ '' output session id must match '' @ sid @ ''.'')] else [])
     @ (if output_slice_id out \<noteq> Some (Some slice)
        then [Issue ''/slice_id'' (who @ '' output slice id must match '' @ slice @ ''.'')] else [])"

section \<open>Worker pass\<close>

definition changedFileIssues :: "nat \<times> PawChangedFile \<Rightarrow> PawValidationIssue list" where
  "changedFileIssues e = (case e of (i, c) \<Rightarrow>
     (if blank (changed_path c) then [Issue (''/changed_files/'' @ show_nat i @ ''/path'')
        ''Changed file path is required for journal persistence.''] else [])
     @ (if blank (content_hash c) then [Issue (''/changed_files/'' @ show_nat i @ ''/content_hash'')
          ''Changed file content hash is required for journal persistence.''] else []))"

definition validateWorkerOutput ::
  "PawSubAgentOutput \<Rightarrow> string \<Rightarrow> string \<Rightarrow> PawValidationIssue list" where
  "validateWorkerOutput out sid slice =
     outputIssues ''Worker pass completion'' ''Worker'' worker out sid slice
     @ concat (map changedFileIssues (entries (changed_files out)))"

record disk =
  session_files :: files
  session_journals :: journals
  repo_files :: workspace

record text_views =
  json_view :: "string \<Rightarrow> file_text"
  journal_view :: "string \<Rightarrow> journal_text"

text \<open>A view of the disk after the repository texts changed from \<open>w\<close> to \<open>w'\<close>.\<close>

definition patchedView ::
  "(string \<Rightarrow> 'b) \<Rightarrow> workspace \<Rightarrow> workspace \<Rightarrow> (string \<Rightarrow> 'b option) \<Rightarrow> string \<Rightarrow> 'b option" where
  "patchedView view w w' fs = (\<lambda>p. let q = resolvePath [] p in
     if w' q = w q then fs p else map_option view (w' q))"

definition patchDisk :: "text_views \<Rightarrow> workspace \<Rightarrow> disk \<Rightarrow> disk" where
  "patchDisk views w' d =
     \<lparr>session_files = patchedView (json_view views) (repo_files d) w' (session_files d),
      session_journals = patchedView (journal_view views) (repo_files d) w' (session_journals d),
      repo_files = w'\<rparr>"

definition journalEntry :: "string \<Rightarrow> string \<Rightarrow> string \<Rightarrow> PawChangedFile \<Rightarrow> PawSliceJournalEntry" where
  "journalEntry sid slice ts c =
     \<lparr>entry_session_id = sid, entry_slice_id = slice, entry_path = changed_path c,
      entry_change_type = changed_type c, entry_content_hash = content_hash c,
      entry_apply_method = apply_method c, timestamp = ts\<rparr>"

text \<open>The loop of appends: a throwing append leaves the entries before it in the journal.\<close>

fun appendEntries :: "string \<Rightarrow> journals \<Rightarrow> PawSliceJournalEntry list \<Rightarrow> js_error option \<times> journals" where
  "appendEntries repo js [] = (None, js)"
| "appendEntries repo js (e # es) =
     (case appendPawSliceJournalEntry repo js (json_of_entry e) of
        Inl x \<Rightarrow> (Some x, js)
      | Inr js' \<Rightarrow> appendEntries repo js' es)"

definition appliedPatches ::
  "patch_env \<Rightarrow> string \<Rightarrow> PawEditPolicyConfig option \<Rightarrow> PawSubAgentOutput \<Rightarrow> workspace \<Rightarrow>
     PawPatchApplyResult \<times> workspace" where
  "appliedPatches penv repo config out w = (case config of
     None \<Rightarrow> (PatchApplied [], w)
   | Some cfg \<Rightarrow> applyPawWorkerOutputPatches penv (resolvePath [] repo) cfg (changed_files out) w)"

text \<open>
  \<open>completePawWorkerPass\<close>; \<open>now\<close> is the clock as an ISO string. The repository root as a path of
  the workspace is the resolved root.
\<close>

definition completePawWorkerPass ::
  "process_env \<Rightarrow> patch_env \<Rightarrow> text_views \<Rightarrow> string \<Rightarrow> string \<Rightarrow> PawEditPolicyConfig option \<Rightarrow> disk \<Rightarrow> string \<Rightarrow>
     PawSubAgentOutput \<Rightarrow> PawSessionLockOptions \<Rightarrow> string option \<Rightarrow>
     PawWorkerPassResult throws \<times> disk" where
  "completePawWorkerPass env penv views now repo config d sid out opts ts =
     (case enterSliceStage IMPLEMENTING ''Worker pass completion'' env repo (session_files d) sid opts of
        Inl e \<Rightarrow> (Inl e, d)
      | Inr (Inl refused) \<Rightarrow> (Inr refused, d)
      | Inr (Inr (l, s, slice)) \<Rightarrow>
          let issues = validateWorkerOutput out sid slice in
          if length issues > 0 then (Inr (InvalidOutput s issues), d)
          else if status out \<noteq> pass then (Inr (OtherStatus s), d)
          else
            let (patchResult, w') = appliedPatches penv repo config out (repo_files d);
                d1 = patchDisk views w' d
            in case patchResult of
                 PatchBlocked is changes \<Rightarrow> (Inr (InvalidOutput s is), d1)
               | PatchApplied changes \<Rightarrow>
                   (case transitionPawSessionState s (goto REVIEWING) of
                      Invalid is \<Rightarrow> (Inr (RecordInvalidTransition s is), d1)
                    | Ok s' \<Rightarrow>
                        let journal = map (journalEntry sid slice (or_else ts now)) (changed_files out);
                            (thrown, js') = appendEntries repo (session_journals d1) journal;
                            d2 = d1\<lparr>session_journals := js'\<rparr>
                        in case thrown of
                             Some e \<Rightarrow> (Inl e, d2)
                           | None \<Rightarrow>
                               (case writePawSessionState repo (session_files d2) s' of
                                  Inl e \<Rightarrow> (Inl e, d2)
                                | Inr fs' \<Rightarrow>
                                    (Inr (Recorded l s s' (journal, changes)), d2\<lparr>session_files := fs'\<rparr>))))"

section \<open>Reviewer pass and verification\<close>

definition validateReviewerOutput ::
  "PawSubAgentOutput \<Rightarrow> string \<Rightarrow> string \<Rightarrow> PawValidationIssue list" where
  "validateReviewerOutput out sid slice =
     outputIssues ''Reviewer pass completion'' ''Reviewer'' reviewer out sid slice"

definition completePawReviewerPass ::
  "process_env \<Rightarrow> string \<Rightarrow> files \<Rightarrow> string \<Rightarrow> PawSubAgentOutput \<Rightarrow> PawSessionLockOptions \<Rightarrow>
     (PawReviewerPassResult \<times> files) throws" where
  "completePawReviewerPass env repo fs sid out opts =
     (case enterSliceStage REVIEWING ''Reviewer pass completion'' env repo fs sid opts of
        Inl e \<Rightarrow> Inl e
      | Inr (Inl refused) \<Rightarrow> Inr (refused, fs)
      | Inr (Inr (l, s, slice)) \<Rightarrow>
          let issues = validateReviewerOutput out sid slice in
          if length issues > 0 then Inr (InvalidOutput s issues, fs)
          else if status out \<noteq> pass then Inr (OtherStatus s, fs)
          else recordTransition repo fs l s (goto VERIFYING) ())"

fun isUnverified :: "PawVerifyGateDecision \<Rightarrow> bool" where
  "isUnverified (GateVerified g a gs) = False"
| "isUnverified (GateUnverified g a gs r) = True"

text \<open>The recorded value is the list of unverified decisions; it is empty for \<open>completed\<close>.\<close>

definition completePawVerification ::
  "process_env \<Rightarrow> string \<Rightarrow> files \<Rightarrow> string \<Rightarrow> PawVerifyGateDecision list \<Rightarrow> PawSessionLockOptions \<Rightarrow>
     (PawVerificationResult \<times> files) throws" where
  "completePawVerification env repo fs sid decisions opts =
     (case enterSliceStage VERIFYING ''Verification completion'' env repo fs sid opts of
        Inl e \<Rightarrow> Inl e
      | Inr (Inl refused) \<Rightarrow> Inr (refused, fs)
      | Inr (Inr (l, s, slice)) \<Rightarrow>
          if length decisions = 0 then
            Inr (InvalidDecisions s [Issue ''/verify_decisions''
              ''Verification completion requires at least one gate decision.''], fs)
          else recordTransition repo fs l s (goto SLICE_DONE) (filter isUnverified decisions))"

section \<open>Blocked results\<close>

text \<open>\<open>validateBlockedReason\<close> of the three files, which differ in the name of the agent.\<close>

definition validateAgentBlockedReason ::
  "string \<Rightarrow> output_blocked_reason option \<Rightarrow> (PawBlockedReasonCode \<times> string \<times> string) PawValidationResult" where
  "validateAgentBlockedReason who reason =
     (case reason of
        None \<Rightarrow> Invalid [Issue ''/blocked_reason'' (who @ '' blocked result requires blocked_reason metadata.'')]
      | Some br \<Rightarrow>
          let issues =
            (case output_reason_code br of
               Some (Member c) \<Rightarrow> []
             | _ \<Rightarrow> [Issue ''/blocked_reason/code'' (who @ '' blocked reason code is invalid.'')])
            @ (case output_reason_message br of
                 Some m \<Rightarrow> if \<not> blank m then [] else
                   [Issue ''/blocked_reason/message'' (who @ '' blocked reason message is required.'')]
               | None \<Rightarrow> [Issue ''/blocked_reason/message'' (who @ '' blocked reason message is required.'')])
            @ (case output_reason_action br of
                 Some a \<Rightarrow> if \<not> blank a then [] else
                   [Issue ''/blocked_reason/suggested_action''
                      (who @ '' blocked reason suggested action is required.'')]
               | None \<Rightarrow> [Issue ''/blocked_reason/suggested_action''
                      (who @ '' blocked reason suggested action is required.'')])
          in case (output_reason_code br, output_reason_message br, output_reason_action br) of
               (Some (Member c), Some m, Some a) \<Rightarrow>
                 if blank m \<or> blank a then Invalid issues else Ok (c, m, a)
             | _ \<Rightarrow> Invalid issues)"

definition validateVerifierBlockedReason ::
  "output_blocked_reason \<Rightarrow> (PawBlockedReasonCode \<times> string \<times> string) PawValidationResult" where
  "validateVerifierBlockedReason reason = validateAgentBlockedReason ''Verifier'' (Some reason)"

definition validateWorkerBlockedOutput :: "PawSubAgentOutput \<Rightarrow> string \<Rightarrow> string \<Rightarrow> PawValidationIssue list" where
  "validateWorkerBlockedOutput = outputIssues ''Worker blocked result'' ''Worker'' worker"

definition validateReviewerBlockedOutput :: "PawSubAgentOutput \<Rightarrow> string \<Rightarrow> string \<Rightarrow> PawValidationIssue list" where
  "validateReviewerBlockedOutput = outputIssues ''Reviewer blocked result'' ''Reviewer'' reviewer"

definition blockedTransition :: "PawBlockedReasonCode \<Rightarrow> string \<Rightarrow> string \<Rightarrow> string \<Rightarrow> PawStateTransition" where
  "blockedTransition c m a slice =
     \<lparr>to_state = Blocked c, slice_ids = None,
      transition_reason = Some \<lparr>input_code = Some c, input_message = m, input_suggested_action = a,
        input_slice_id = Some slice\<rparr>\<rparr>"

text \<open>
  The common body of \<open>blockPawWorkerResult\<close> and \<open>blockPawReviewerResult\<close>, over the agent's name
  and its output check.
\<close>

definition blockAgentResult ::
  "PawActiveStateName \<Rightarrow> string \<Rightarrow> (PawSubAgentOutput \<Rightarrow> string \<Rightarrow> string \<Rightarrow> PawValidationIssue list) \<Rightarrow>
     process_env \<Rightarrow> string \<Rightarrow> files \<Rightarrow> string \<Rightarrow>
     PawSubAgentOutput \<Rightarrow> PawSessionLockOptions \<Rightarrow> (unit record_outcome \<times> files) throws" where
  "blockAgentResult stage who check env repo fs sid out opts =
     (case enterSliceStage stage (who @ '' blocked result'') env repo fs sid opts of
        Inl e \<Rightarrow> Inl e
      | Inr (Inl refused) \<Rightarrow> Inr (refused, fs)
      | Inr (Inr (l, s, slice)) \<Rightarrow>
          let issues = check out sid slice in
          if length issues > 0 then Inr (InvalidOutput s issues, fs)
          else if status out \<noteq> blocked \<and> status out \<noteq> needs_user_decision then Inr (OtherStatus s, fs)
          else (case validateAgentBlockedReason who (output_reason out) of
                  Invalid is \<Rightarrow> Inr (InvalidReason s is, fs)
                | Ok (c, m, a) \<Rightarrow> recordTransition repo fs l s (blockedTransition c m a slice) ()))"

definition blockPawWorkerResult ::
  "process_env \<Rightarrow> string \<Rightarrow> files \<Rightarrow> string \<Rightarrow> PawSubAgentOutput \<Rightarrow> PawSessionLockOptions \<Rightarrow>
     (PawWorkerBlockedResult \<times> files) throws" where
  "blockPawWorkerResult = blockAgentResult IMPLEMENTING ''Worker'' validateWorkerBlockedOutput"

definition blockPawReviewerResult ::
  "process_env \<Rightarrow> string \<Rightarrow> files \<Rightarrow> string \<Rightarrow> PawSubAgentOutput \<Rightarrow> PawSessionLockOptions \<Rightarrow>
     (PawReviewerBlockedResult \<times> files) throws" where
  "blockPawReviewerResult = blockAgentResult REVIEWING ''Reviewer'' validateReviewerBlockedOutput"

text \<open>The verifier's reason is passed directly and always has a message and an action.\<close>

definition blockPawVerifierResult ::
  "process_env \<Rightarrow> string \<Rightarrow> files \<Rightarrow> string \<Rightarrow> output_blocked_reason \<Rightarrow> PawSessionLockOptions \<Rightarrow>
     (PawVerifierBlockedResult \<times> files) throws" where
  "blockPawVerifierResult env repo fs sid reason opts =
     (case enterSliceStage VERIFYING ''Verifier blocked result'' env repo fs sid opts of
        Inl e \<Rightarrow> Inl e
      | Inr (Inl refused) \<Rightarrow> Inr (refused, fs)
      | Inr (Inr (l, s, slice)) \<Rightarrow>
          (case validateVerifierBlockedReason reason of
             Invalid is \<Rightarrow> Inr (InvalidReason s is, fs)
           | Ok (c, m, a) \<Rightarrow> recordTransition repo fs l s (blockedTransition c m a slice) ()))"

section \<open>Entering a stage\<close>

lemma enterLocked_iff:
  "enterLockedSession env r fs sid opts = Inr (Inr (l, s)) \<longleftrightarrow>
     holds_live_lock env r fs sid opts l \<and> readPawSessionState r fs sid = Inr s"
proof (cases "validSessionId sid")
  case True
  then show ?thesis
    by (auto simp: enterLockedSession_def holds_live_lock_def lockStatus_lock lockHolder_def owner_current
        Let_def split: sum.splits option.splits if_splits)
next
  case False
  then show ?thesis
    by (simp add: enterLockedSession_def getPawSessionLockStatus_def resolvePawSessionPaths_def
        assertValidSessionId_def holds_live_lock_def)
qed

lemma enterStage_iff:
  "enterSliceStage stage label env r fs sid opts = Inr (Inr (l, s, c)) \<longleftrightarrow>
     holds_live_lock env r fs sid opts l \<and> readPawSessionState r fs sid = Inr s
     \<and> state_name s = Member (Active stage) \<and> current_slice_id s = Some c"
proof -
  have "enterSliceStage stage label env r fs sid opts = Inr (Inr (l, s, c)) \<longleftrightarrow>
     enterLockedSession env r fs sid opts = Inr (Inr (l, s))
     \<and> state_name s = Member (Active stage) \<and> current_slice_id s = Some c"
    by (auto simp: enterSliceStage_def split: sum.splits option.splits if_splits)
  then show ?thesis by (simp add: enterLocked_iff conj_assoc)
qed

text \<open>A stage that is not entered gives an outcome that records nothing.\<close>

fun recorded :: "'a record_outcome \<Rightarrow> bool" where
  "recorded (Recorded l s s' v) = True"
| "recorded (RecordRefused r) = False"
| "recorded (InvalidState s is) = False"
| "recorded (NoSlice s is) = False"
| "recorded (InvalidOutput s is) = False"
| "recorded (OtherStatus s) = False"
| "recorded (InvalidReason s is) = False"
| "recorded (InvalidDecisions s is) = False"
| "recorded (RecordInvalidTransition s is) = False"

lemma enterStage_refused:
  "enterSliceStage stage label env r fs sid opts = Inr (Inl x) \<Longrightarrow> \<not> recorded x"
  by (auto simp: enterSliceStage_def split: sum.splits option.splits if_splits prod.splits)

section \<open>The contract of a recorder\<close>

text \<open>
  What the recorders of slice results promise the rest of the system: a recorder either leaves
  the files alone and records nothing, or it performed one accepted transition of the stored
  session for the holder of its live lock, and wrote the result.
\<close>

definition guarded_record ::
  "string \<Rightarrow> process_env \<Rightarrow> files \<Rightarrow> string \<Rightarrow> PawSessionLockOptions \<Rightarrow> 'a record_outcome \<Rightarrow> files \<Rightarrow> bool" where
  "guarded_record r env fs sid opts res fs' \<longleftrightarrow>
     (\<not> recorded res \<and> fs' = fs)
     \<or> (\<exists>l s s' t v. res = Recorded l s s' v \<and> holds_live_lock env r fs sid opts l
          \<and> readPawSessionState r fs sid = Inr s \<and> transitionPawSessionState s t = Ok s'
          \<and> writePawSessionState r fs s' = Inr fs')"

locale slice_recorder =
  fixes rec_op :: "process_env \<Rightarrow> string \<Rightarrow> files \<Rightarrow> string \<Rightarrow> 'i \<Rightarrow> PawSessionLockOptions \<Rightarrow>
      ('a record_outcome \<times> files) throws"
  assumes guarded: "rec_op env r fs sid i opts = Inr (res, fs') \<Longrightarrow> guarded_record r env fs sid opts res fs'"
begin

lemma keeps_store:
  assumes "store_inv r fs" "rec_op env r fs sid i opts = Inr (res, fs')"
  shows "store_inv r fs'"
  using guarded [OF assms(2)] unfolding guarded_record_def
proof (elim disjE exE conjE)
  fix l s s' t v
  assume "readPawSessionState r fs sid = Inr s" and t: "transitionPawSessionState s t = Ok s'"
    and w: "writePawSessionState r fs s' = Inr fs'"
  with assms(1) have "session_id s = sid" "reached sid s" by (auto simp: store_inv_def)
  with t have "reached (session_id s') s'" by (simp add: transition_session_id reached_step)
  with store_inv_write [OF assms(1) w] show ?thesis .
qed (use assms(1) in simp)

lemma without_lock_nothing:
  assumes "rec_op env r fs sid i opts = Inr (res, fs')" "\<nexists>l. holds_live_lock env r fs sid opts l"
  shows "fs' = fs \<and> \<not> recorded res"
  using guarded [OF assms(1)] assms(2) unfolding guarded_record_def by blast

end

lemma unrecorded_guarded [simp]: "\<not> recorded res \<Longrightarrow> guarded_record r env fs sid opts res fs"
  by (simp add: guarded_record_def)

lemma recordTransition_guarded:
  assumes "recordTransition r fs l s t v = Inr (res, fs')"
    and "holds_live_lock env r fs sid opts l" "readPawSessionState r fs sid = Inr s"
  shows "guarded_record r env fs sid opts res fs'"
  using assms unfolding guarded_record_def
  by (auto simp: recordTransition_def split: PawValidationResult.splits sum.splits)

lemma stage_guarded:
  assumes "(case enterSliceStage stage label env r fs sid opts of
        Inl e \<Rightarrow> Inl e
      | Inr (Inl refused) \<Rightarrow> Inr (refused, fs)
      | Inr (Inr (l, s, slice)) \<Rightarrow> f l s slice) = Inr (res, fs')"
    and "\<And>l s slice. f l s slice = Inr (res, fs') \<Longrightarrow> holds_live_lock env r fs sid opts l \<Longrightarrow>
        readPawSessionState r fs sid = Inr s \<Longrightarrow> guarded_record r env fs sid opts res fs'"
  shows "guarded_record r env fs sid opts res fs'"
proof (cases "enterSliceStage stage label env r fs sid opts :: ('a record_outcome + _) throws")
  case (Inl e)
  with assms(1) show ?thesis by simp
next
  case (Inr x)
  show ?thesis
  proof (cases x)
    case (Inl refused)
    with Inr assms(1) enterStage_refused [of stage label env r fs sid opts refused] show ?thesis
      by (simp add: guarded_record_def)
  next
    case inr: (Inr y)
    obtain l s slice where y: "y = (l, s, slice)" by (cases y)
    with Inr inr assms(1) have "f l s slice = Inr (res, fs')" by simp
    with Inr inr y assms(2) show ?thesis by (simp add: enterStage_iff)
  qed
qed

interpretation reviewer_pass: slice_recorder completePawReviewerPass
proof
  fix env r fs sid out opts res fs'
  assume "completePawReviewerPass env r fs sid out opts = Inr (res, fs')"
  then show "guarded_record r env fs sid opts res fs'"
    unfolding completePawReviewerPass_def Let_def
    by (rule stage_guarded) (auto split: if_splits intro: recordTransition_guarded)
qed

interpretation verification: slice_recorder completePawVerification
proof
  fix env r fs sid ds opts res fs'
  assume "completePawVerification env r fs sid ds opts = Inr (res, fs')"
  then show "guarded_record r env fs sid opts res fs'"
    unfolding completePawVerification_def Let_def
    by (rule stage_guarded) (auto split: if_splits intro: recordTransition_guarded)
qed

lemma blockAgent_guarded:
  assumes "blockAgentResult stage who check env r fs sid out opts = Inr (res, fs')"
  shows "guarded_record r env fs sid opts res fs'"
  using assms unfolding blockAgentResult_def Let_def
  by (rule stage_guarded)
    (auto split: if_splits PawValidationResult.splits intro: recordTransition_guarded)

interpretation worker_blocked: slice_recorder blockPawWorkerResult
  unfolding blockPawWorkerResult_def by unfold_locales (rule blockAgent_guarded)

interpretation reviewer_blocked: slice_recorder blockPawReviewerResult
  unfolding blockPawReviewerResult_def by unfold_locales (rule blockAgent_guarded)

interpretation verifier_blocked: slice_recorder blockPawVerifierResult
proof
  fix env r fs sid reason opts res fs'
  assume "blockPawVerifierResult env r fs sid reason opts = Inr (res, fs')"
  then show "guarded_record r env fs sid opts res fs'"
    unfolding blockPawVerifierResult_def
    by (rule stage_guarded) (auto split: PawValidationResult.splits intro: recordTransition_guarded)
qed

section \<open>Driving a session\<close>

text \<open>
  A process drives a session: the store is consistent, the process holds the live lock, and
  the stored session is \<open>s\<close>. An accepted transition that is written keeps it driving.
\<close>

definition drives ::
  "process_env \<Rightarrow> string \<Rightarrow> files \<Rightarrow> string \<Rightarrow> PawSessionLockOptions \<Rightarrow> PawSessionLock \<Rightarrow> PawSessionState \<Rightarrow> bool" where
  "drives env r fs sid opts l s \<longleftrightarrow>
     store_inv r fs \<and> holds_live_lock env r fs sid opts l \<and> readPawSessionState r fs sid = Inr s"

abbreviation stored_state :: "string \<Rightarrow> string \<Rightarrow> PawSessionState \<Rightarrow> files \<Rightarrow> files" where
  "stored_state r sid s fs \<equiv> fs(stateFile (sessionPaths r sid) \<mapsto> JsonText (json_of_state s))"

lemma drives_step:
  assumes "drives env r fs sid opts l s" "transitionPawSessionState s t = Ok s'"
  shows "writePawSessionState r fs s' = Inr (stored_state r sid s' fs)"
    and "drives env r (stored_state r sid s' fs) sid opts l s'"
proof -
  have inv: "store_inv r fs" and lock: "holds_live_lock env r fs sid opts l"
    and rd: "readPawSessionState r fs sid = Inr s"
    using assms(1) by (simp_all add: drives_def)
  show w: "writePawSessionState r fs s' = Inr (stored_state r sid s' fs)"
    by (rule write_transitioned [OF inv rd assms(2)])
  have id: "session_id s = sid" "reached sid s" using inv rd by (auto simp: store_inv_def)
  with assms(2) have "reached (session_id s') s'" by (simp add: transition_session_id reached_step)
  note inv' = store_inv_write [OF inv w this]
  have "holds_live_lock env r (stored_state r sid s' fs) sid opts l"
    using lock lockHolder_after_write [OF w] id(1) transition_session_id [OF assms(2)]
    by (simp add: holds_live_lock_def)
  moreover have "readPawSessionState r (stored_state r sid s' fs) sid = Inr s'"
    using read_stored [OF read_valid [OF rd] transition_keeps_wf [OF assms(2)]] .
  ultimately show "drives env r (stored_state r sid s' fs) sid opts l s'"
    using inv' by (simp add: drives_def)
qed

lemma drives_enters:
  assumes "drives env r fs sid opts l s"
    and "state_name s = Member (Active stage)" "current_slice_id s = Some c"
  shows "enterSliceStage stage label env r fs sid opts = Inr (Inr (l, s, c))"
  using assms by (simp add: enterStage_iff drives_def)

lemma drives_advance:
  assumes "drives env r fs sid opts l s" "transitionPawSessionState s t = Ok s'"
  shows "advancePawTaskSession env r fs sid t opts = Inr (Advanced l s s', stored_state r sid s' fs)"
  using assms advance_consistent [of r fs env sid opts l s t] by (simp add: drives_def)

lemma drives_phase: "drives env r fs sid opts l s \<Longrightarrow> phase_inv s"
  unfolding drives_def using store_inv_phase by blast

lemma drives_records:
  assumes "drives env r fs sid opts l s" "transitionPawSessionState s t = Ok s'"
  shows "recordTransition r fs l s t v = Inr (Recorded l s s' v, stored_state r sid s' fs)"
  using drives_step [OF assms] assms(2) by (simp add: recordTransition_def)

section \<open>Journal entries of a worker pass\<close>

lemma append_wf:
  assumes "entry_wf e"
  shows "appendPawSliceJournalEntry r js (json_of_entry e) =
    Inr (appendLine js (sliceJournalFile (sessionPaths r (entry_session_id e))) (json_of_entry e))"
  using assms by (simp add: append_Inr parse_json_of_entry)

lemma appendEntries_wf:
  assumes "\<forall>e \<in> set es. entry_wf e \<and> entry_session_id e = sid" "journal_whole r js sid"
  shows "\<exists>js'. appendEntries r js es = (None, js')
    \<and> readPawSliceJournal r js' sid =
        (case readPawSliceJournal r js sid of Inl x \<Rightarrow> Inl x | Inr old \<Rightarrow> Inr (old @ es))"
  using assms
proof (induction es arbitrary: js)
  case Nil
  then show ?case by (simp split: sum.splits)
next
  case (Cons e es)
  let ?js = "appendLine js (sliceJournalFile (sessionPaths r sid)) (json_of_entry e)"
  have e: "entry_wf e" and sid: "entry_session_id e = sid" using Cons.prems(1) by auto
  from Cons.IH [of ?js] Cons.prems obtain js' where js': "appendEntries r ?js es = (None, js')"
    and rd: "readPawSliceJournal r js' sid =
        (case readPawSliceJournal r ?js sid of Inl x \<Rightarrow> Inl x | Inr old \<Rightarrow> Inr (old @ es))"
    using whole_after_append by auto
  have "readPawSliceJournal r ?js sid =
      (case readPawSliceJournal r js sid of Inl x \<Rightarrow> Inl x | Inr old \<Rightarrow> Inr (old @ [e]))"
    using read_after_append_same [OF e] Cons.prems(2) sid by simp
  with js' rd append_wf [OF e] sid show ?case by (simp split: sum.splits)
qed

lemma validWorkerOutput_iff:
  "validateWorkerOutput out sid slice = [] \<longleftrightarrow>
     agent out = worker \<and> output_session_id out = sid \<and> output_slice_id out = Some (Some slice)
     \<and> (\<forall>c \<in> set (changed_files out). \<not> blank (changed_path c) \<and> \<not> blank (content_hash c))"
proof -
  have "snd ` set (entries cs) = set cs" for cs :: "PawChangedFile list"
    by (metis list.set_map map_snd_entries)
  then have "(\<forall>e \<in> set (entries cs). P (snd e)) \<longleftrightarrow> (\<forall>c \<in> set cs. P c)" for P and cs :: "PawChangedFile list"
    by (metis image_iff)
  from this [of "changed_files out" "\<lambda>c. \<not> blank (changed_path c) \<and> \<not> blank (content_hash c)"]
  show ?thesis
    by (simp add: validateWorkerOutput_def outputIssues_def changedFileIssues_def split_beta) blast
qed

section \<open>The worker pass\<close>

text \<open>A worker output that is not applied, or whose changes stay out of the \<open>.paw\<close> directory.\<close>

definition spares_paw :: "string \<Rightarrow> PawEditPolicyConfig option \<Rightarrow> PawSubAgentOutput \<Rightarrow> bool" where
  "spares_paw repo config out \<longleftrightarrow> config = None \<or> (\<forall>c \<in> set (changed_files out).
     case resolveWorkerPatchPath (resolvePath [] repo) (changed_path c) of
       None \<Rightarrow> True
     | Some t \<Rightarrow> take (Suc (length (resolvePath [] repo))) t \<noteq> resolvePath [] repo @ [''.paw''])"

lemma split_on_append: "split_on d (a @ d # b) = split_on d a @ split_on d b"
proof (induction a)
  case (Cons c cs)
  then show ?case by (cases "split_on d cs") (auto split: list.splits)
qed simp

lemma resolve_join:
  assumes "CHR ''/'' \<notin> set seg" "seg \<notin> {'''', ''.'', ''..''}"
  shows "resolvePath [] (pathJoin dir seg) = resolvePath [] dir @ [seg]"
proof -
  have one: "foldl resolve_segment b (split_on CHR ''/'' seg) = b @ [seg]" for b
    using assms by (simp add: split_on_single)
  show ?thesis
  proof (cases "ends_with ''/'' dir")
    case True
    then obtain d where dir: "dir = d @ ''/''"
      by (auto simp: ends_with_def starts_with_iff rev_eq_append_conv)
    then show ?thesis
      using True one by (simp add: pathJoin_def resolvePath_def split_on_append)
  next
    case False
    then show ?thesis using one by (simp add: pathJoin_def resolvePath_def split_on_append)
  qed
qed

lemma session_file_resolved:
  assumes "validSessionId sid" "CHR ''/'' \<notin> set f" "f \<notin> {'''', ''.'', ''..''}"
  shows "resolvePath [] (pathJoin (pathJoin (sessionsDir r) sid) f)
       = resolvePath [] r @ [''.paw'', ''sessions'', sid, f]"
proof -
  have "sid \<notin> {'''', ''.'', ''..''}"
    using assms(1) by (auto simp: validSessionId_def is_alnum_def)
  with assms validSessionId_no_slash [OF assms(1)] show ?thesis
    by (simp add: resolve_join sessionsDir_def)
qed

text \<open>Patches that stay out of \<open>.paw\<close> leave every file of every session as it is.\<close>

lemma patched_unchanged:
  assumes "spares_paw r config out" "take (Suc (length (resolvePath [] r))) q = resolvePath [] r @ [''.paw'']"
  shows "snd (appliedPatches penv r config out w) q = w q"
proof (cases config)
  case None
  then show ?thesis by (simp add: appliedPatches_def)
next
  case (Some cfg)
  have "\<not> justified penv (resolvePath [] r) cfg (changed_files out) q x" for x
    using assms by (auto simp: justified_def spares_paw_def Some split: option.splits)
  then show ?thesis
    using applyChanged_justified [of penv "resolvePath [] r" cfg 0 "changed_files out"
        "\<lparr>patch_issues = [], appliedChanges = [], ws = w\<rparr>" q]
    by (simp add: Some appliedPatches_def applyPawWorkerOutputPatches_def Let_def)
qed

lemma patchedView_session_file:
  assumes "spares_paw r config out" "validSessionId sid" "CHR ''/'' \<notin> set f" "f \<notin> {'''', ''.'', ''..''}"
    and "appliedPatches penv r config out w = (res, w')"
  shows "patchedView view w w' fs (pathJoin (pathJoin (sessionsDir r) sid) f)
       = fs (pathJoin (pathJoin (sessionsDir r) sid) f)"
  using patched_unchanged [OF assms(1), of "resolvePath [] r @ [''.paw'', ''sessions'', sid, f]" penv w]
  by (simp add: patchedView_def Let_def session_file_resolved [OF assms(2-4)] assms(5))

lemma patchDisk_spared:
  assumes "spares_paw r config out" "validSessionId sid"
    and "appliedPatches penv r config out (repo_files d) = (res, w')"
  shows "session_files (patchDisk views w' d) (stateFile (sessionPaths r sid))
       = session_files d (stateFile (sessionPaths r sid))"
    and "session_files (patchDisk views w' d) (lockFile (sessionPaths r sid))
       = session_files d (lockFile (sessionPaths r sid))"
    and "session_journals (patchDisk views w' d) (sliceJournalFile (sessionPaths r sid))
       = session_journals d (sliceJournalFile (sessionPaths r sid))"
  unfolding sessionPaths_files patchDisk_def
  by (simp_all add: patchedView_session_file [OF assms(1,2) _ _ assms(3)])

lemma lockHolder_depends:
  "fs (lockFile (sessionPaths r sid)) = fs' (lockFile (sessionPaths r sid)) \<Longrightarrow>
     lockHolder r sid fs = lockHolder r sid fs'"
  by (simp add: lockHolder_def readPawSessionLockIfExists_def readPawJson_def)

lemma spared_reads:
  assumes "spares_paw r config out" "appliedPatches penv r config out (repo_files d) = (res, w')"
  shows "readPawSessionState r (session_files (patchDisk views w' d)) k
       = readPawSessionState r (session_files d) k"
proof (cases "validSessionId k")
  case True
  with patchDisk_spared(1) [OF assms(1) _ assms(2)] show ?thesis by (intro read_depends)
next
  case False
  then show ?thesis
    by (simp add: readPawSessionState_def resolvePawSessionPaths_def assertValidSessionId_def)
qed

lemma spared_journal:
  assumes "spares_paw r config out" "appliedPatches penv r config out (repo_files d) = (res, w')" "validSessionId sid"
  shows "readPawSliceJournal r (session_journals (patchDisk views w' d)) sid
       = readPawSliceJournal r (session_journals d) sid"
    and "journal_whole r (session_journals (patchDisk views w' d)) sid
       = journal_whole r (session_journals d) sid"
  using patchDisk_spared(3) [OF assms(1,3,2)]
  by (simp_all add: readPawSliceJournal_def journal_whole_def resolve_valid [OF assms(3)])

lemma spared_drives:
  assumes "drives env r (session_files d) sid opts l s"
    and "spares_paw r config out" "appliedPatches penv r config out (repo_files d) = (res, w')"
  shows "drives env r (session_files (patchDisk views w' d)) sid opts l s"
proof -
  have v: "validSessionId sid" using assms(1) by (simp add: drives_def holds_live_lock_def)
  have "lockHolder r sid (session_files (patchDisk views w' d)) = lockHolder r sid (session_files d)"
    by (rule lockHolder_depends) (rule patchDisk_spared(2) [OF assms(2) v assms(3)])
  with assms(1) spared_reads [OF assms(2,3)] show ?thesis
    by (auto simp: drives_def holds_live_lock_def intro: store_inv_same_reads)
qed

end
