(* ===== verification/Paw_Commands.thy ===== *)
theory Paw_Commands
  imports Paw_Results
begin

text \<open>
  All the commands that change a repository, run by any processes in any order: what a worker
  pass leaves behind, the cycle of one slice through the commands, and what every stored
  session went through. Every command runs to completion before the next one starts.
\<close>

section \<open>A worker pass that succeeds\<close>

lemma worker_entries_wf:
  assumes "validateWorkerOutput out sid slice = []" "validSessionId sid" "slice \<noteq> ''''" "ts \<noteq> ''''"
  shows "\<forall>e \<in> set (map (journalEntry sid slice ts) (changed_files out)).
    entry_wf e \<and> entry_session_id e = sid"
  using assms by (auto simp: validWorkerOutput_iff entry_wf_def journalEntry_def)

lemma worker_pass_succeeds:
  assumes drives: "drives env r (session_files d) sid opts l s"
    and name: "state_name s = Member (Active IMPLEMENTING)" and slice: "current_slice_id s = Some slice"
    and valid: "validateWorkerOutput out sid slice = []" and pass: "status out = pass"
    and spares: "spares_paw r config out"
    and patched: "appliedPatches penv r config out (repo_files d) = (PatchApplied changes, w')"
    and whole: "journal_whole r (session_journals d) sid" and ts: "or_else ts now \<noteq> ''''"
  shows "\<exists>d'. completePawWorkerPass env penv views now r config d sid out opts ts =
      (Inr (Recorded l s (s\<lparr>state_name := Member (Active REVIEWING)\<rparr>)
         (map (journalEntry sid slice (or_else ts now)) (changed_files out), changes)), d')
    \<and> drives env r (session_files d') sid opts l (s\<lparr>state_name := Member (Active REVIEWING)\<rparr>)
    \<and> readPawSliceJournal r (session_journals d') sid =
        (case readPawSliceJournal r (session_journals d) sid of
           Inl x \<Rightarrow> Inl x
         | Inr old \<Rightarrow> Inr (old @ map (journalEntry sid slice (or_else ts now)) (changed_files out)))
    \<and> repo_files d' = w'"
proof -
  let ?s' = "s\<lparr>state_name := Member (Active REVIEWING)\<rparr>"
  let ?es = "map (journalEntry sid slice (or_else ts now)) (changed_files out)"
  let ?d1 = "patchDisk views w' d"
  have wf: "session_wf s" using drives_phase [OF drives] by (simp add: phase_inv_def)
  have v: "validSessionId sid" using drives by (simp add: drives_def holds_live_lock_def)
  have "\<not> blank slice" using wf slice by (auto simp: session_wf_def plan_order_def)
  then have "slice \<noteq> ''''" by auto
  note entries = worker_entries_wf [OF valid v this ts]
  have t: "transitionPawSessionState s (goto REVIEWING) = Ok ?s'"
    by (rule transition_goto_name(1) [OF wf name]) (auto simp: slice)
  note d1 = spared_drives [OF drives spares patched, where views = views]
  note journal = spared_journal [OF spares patched v, where views = views]
  obtain js' where js': "appendEntries r (session_journals ?d1) ?es = (None, js')"
    and rd: "readPawSliceJournal r js' sid =
      (case readPawSliceJournal r (session_journals d) sid of Inl x \<Rightarrow> Inl x | Inr old \<Rightarrow> Inr (old @ ?es))"
    using appendEntries_wf [OF entries, of r "session_journals ?d1"] whole by (auto simp: journal)
  have "completePawWorkerPass env penv views now r config d sid out opts ts =
      (Inr (Recorded l s ?s' (?es, changes)),
       ?d1\<lparr>session_journals := js', session_files := stored_state r sid ?s' (session_files ?d1)\<rparr>)"
    using drives_step(1) [OF d1 t] valid pass js'
    by (simp add: completePawWorkerPass_def drives_enters [OF drives name slice] patched t Let_def)
  moreover have "repo_files ?d1 = w'" by (simp add: patchDisk_def)
  ultimately show ?thesis using drives_step(2) [OF d1 t] rd by simp
qed

section \<open>What a worker pass can do\<close>

text \<open>The output of a worker may be recorded for the stored session by this process.\<close>

definition accepts_worker ::
  "process_env \<Rightarrow> string \<Rightarrow> files \<Rightarrow> string \<Rightarrow> PawSessionLockOptions \<Rightarrow> PawSubAgentOutput \<Rightarrow>
     PawSessionLock \<Rightarrow> PawSessionState \<Rightarrow> string \<Rightarrow> bool" where
  "accepts_worker env r fs sid opts out l s slice \<longleftrightarrow>
     holds_live_lock env r fs sid opts l \<and> readPawSessionState r fs sid = Inr s
     \<and> state_name s = Member (Active IMPLEMENTING) \<and> current_slice_id s = Some slice
     \<and> validateWorkerOutput out sid slice = [] \<and> status out = pass"

lemma worker_pass_refused:
  assumes "\<nexists>l s slice. accepts_worker env r (session_files d) sid opts out l s slice"
    and "completePawWorkerPass env penv views now r config d sid out opts ts = (res, d')"
  shows "d' = d \<and> (\<forall>x. res = Inr x \<longrightarrow> \<not> recorded x)"
proof (cases "enterSliceStage IMPLEMENTING ''Worker pass completion'' env r (session_files d) sid opts
    :: ((PawSliceJournalEntry list \<times> PawAppliedPatchChange list) record_outcome + _) throws")
  case (Inl e)
  with assms(2) show ?thesis by (auto simp: completePawWorkerPass_def)
next
  case (Inr x)
  show ?thesis
  proof (cases x)
    case (Inl y)
    with Inr assms(2) enterStage_refused [of _ _ env r "session_files d" sid opts y] show ?thesis
      by (auto simp: completePawWorkerPass_def)
  next
    case inr: (Inr y)
    obtain l s slice where y: "y = (l, s, slice)" by (cases y)
    with Inr inr have "validateWorkerOutput out sid slice \<noteq> [] \<or> status out \<noteq> pass"
      using assms(1) by (auto simp: enterStage_iff accepts_worker_def)
    with Inr inr y assms(2) show ?thesis
      by (auto simp: completePawWorkerPass_def Let_def split: if_splits)
  qed
qed

lemma worker_pass_accepted:
  assumes "accepts_worker env r (session_files d) sid opts out l s slice"
    and "completePawWorkerPass env penv views now r config d sid out opts ts = (res, d')"
    and "appliedPatches penv r config out (repo_files d) = (pres, w')"
  shows "repo_files d' = w'
    \<and> (case res of
         Inr (Recorded l' s1 s2 v) \<Rightarrow> l' = l \<and> s1 = s \<and> transitionPawSessionState s (goto REVIEWING) = Ok s2
           \<and> (\<exists>changes. pres = PatchApplied changes \<and>
                v = (map (journalEntry sid slice (or_else ts now)) (changed_files out), changes))
           \<and> writePawSessionState r (session_files (patchDisk views w' d)) s2 = Inr (session_files d')
       | _ \<Rightarrow> session_files d' = session_files (patchDisk views w' d)
           \<and> (\<forall>is changes. pres = PatchBlocked is changes \<longrightarrow> res = Inr (InvalidOutput s is)
                \<and> session_journals d' = session_journals (patchDisk views w' d)))"
proof -
  from assms(1) have enter: "enterSliceStage IMPLEMENTING ''Worker pass completion'' env r (session_files d)
      sid opts = Inr (Inr (l, s, slice))"
    and ok: "validateWorkerOutput out sid slice = []" "status out = pass"
    by (simp_all add: enterStage_iff accepts_worker_def)
  note body = assms(2) [unfolded completePawWorkerPass_def enter sum.case prod.case assms(3) Let_def, simplified ok]
  have repo: "repo_files (patchDisk views w' d) = w'" by (simp add: patchDisk_def)
  show ?thesis
    using body repo by (auto split: PawPatchApplyResult.splits PawValidationResult.splits prod.splits
        option.splits sum.splits)
qed

lemma store_inv_worker_pass:
  assumes inv: "store_inv r (session_files d)" and spares: "spares_paw r config out"
    and run: "completePawWorkerPass env penv views now r config d sid out opts ts = (res, d')"
  shows "store_inv r (session_files d')"
proof (cases "\<exists>l s slice. accepts_worker env r (session_files d) sid opts out l s slice")
  case False
  with worker_pass_refused [OF _ run] inv show ?thesis by auto
next
  case True
  then obtain l s slice where acc: "accepts_worker env r (session_files d) sid opts out l s slice" by blast
  obtain pres w' where p: "appliedPatches penv r config out (repo_files d) = (pres, w')" by fastforce
  note cases = worker_pass_accepted [OF acc run p]
  have inv1: "store_inv r (session_files (patchDisk views w' d))"
    by (rule store_inv_same_reads [OF inv spared_reads [OF spares p]])
  show ?thesis
  proof (cases "\<exists>l' s1 s2 v. res = Inr (Recorded l' s1 s2 v)")
    case True
    with cases obtain s2 where t: "transitionPawSessionState s (goto REVIEWING) = Ok s2"
      and w: "writePawSessionState r (session_files (patchDisk views w' d)) s2 = Inr (session_files d')"
      by auto
    have "session_id s = sid" "reached sid s"
      using acc inv by (auto simp: accepts_worker_def store_inv_def)
    with t have "reached (session_id s2) s2" by (simp add: transition_session_id reached_step)
    with store_inv_write [OF inv1 w] show ?thesis .
  next
    case False
    with cases have "session_files d' = session_files (patchDisk views w' d)"
      by (auto split: sum.splits record_outcome.splits)
    with inv1 show ?thesis by simp
  qed
qed

section \<open>All commands\<close>

datatype paw_command =
    SessionCommand session_command
  | ApprovePlan actor string json
  | SelectSlice actor string
  | BeginImplementation actor string
  | WorkerPass actor string "PawEditPolicyConfig option" PawSubAgentOutput "string option"
  | ReviewerPass actor string PawSubAgentOutput
  | Verification actor string "PawVerifyGateDecision list"
  | WorkerBlocked actor string PawSubAgentOutput
  | ReviewerBlocked actor string PawSubAgentOutput
  | VerifierBlocked actor string output_blocked_reason

text \<open>A command that throws leaves the files it had not written.\<close>

definition files_after :: "files \<Rightarrow> ('a \<times> files) throws \<Rightarrow> files" where
  "files_after fs res = (case res of Inl e \<Rightarrow> fs | Inr (x, fs') \<Rightarrow> fs')"

record surroundings =
  root :: string
  patching :: patch_env
  disk_views :: text_views
  now_text :: string

fun run_on_files :: "string \<Rightarrow> files \<Rightarrow> paw_command \<Rightarrow> files" where
  "run_on_files r fs (SessionCommand c) = exec_command r fs c"
| "run_on_files r fs (ApprovePlan a sid v) = files_after fs (approvePawPlanSlices (fst a) r fs sid v (snd a))"
| "run_on_files r fs (SelectSlice a sid) = snd (selectNextPawPlanSlice (fst a) r fs sid (snd a))"
| "run_on_files r fs (BeginImplementation a sid) = snd (beginPawSliceImplementation (fst a) r fs sid (snd a))"
| "run_on_files r fs (WorkerPass a sid config out ts) = fs"
| "run_on_files r fs (ReviewerPass a sid out) = files_after fs (completePawReviewerPass (fst a) r fs sid out (snd a))"
| "run_on_files r fs (Verification a sid ds) = files_after fs (completePawVerification (fst a) r fs sid ds (snd a))"
| "run_on_files r fs (WorkerBlocked a sid out) = files_after fs (blockPawWorkerResult (fst a) r fs sid out (snd a))"
| "run_on_files r fs (ReviewerBlocked a sid out) = files_after fs (blockPawReviewerResult (fst a) r fs sid out (snd a))"
| "run_on_files r fs (VerifierBlocked a sid reason) = files_after fs (blockPawVerifierResult (fst a) r fs sid reason (snd a))"

definition run_command :: "surroundings \<Rightarrow> disk \<Rightarrow> paw_command \<Rightarrow> disk" where
  "run_command w d cmd = (case cmd of
     WorkerPass a sid config out ts \<Rightarrow>
       snd (completePawWorkerPass (fst a) (patching w) (disk_views w) (now_text w) (root w) config d sid out (snd a) ts)
   | _ \<Rightarrow> d\<lparr>session_files := run_on_files (root w) (session_files d) cmd\<rparr>)"

section \<open>Every command keeps the store consistent\<close>

lemma store_inv_after:
  "store_inv r fs \<Longrightarrow> (\<And>x fs'. res = Inr (x, fs') \<Longrightarrow> store_inv r fs') \<Longrightarrow> store_inv r (files_after fs res)"
  by (auto simp: files_after_def split: sum.splits)

lemma store_inv_approve:
  assumes "store_inv r fs" "approvePawPlanSlices env r fs sid v opts = Inr (x, fs')"
  shows "store_inv r fs'"
  using assms store_inv_advance [OF assms(1)]
  by (auto simp: approvePawPlanSlices_def split: PawValidationResult.splits sum.splits)

lemma store_inv_select: "store_inv r fs \<Longrightarrow> store_inv r (snd (selectNextPawPlanSlice env r fs sid opts))"
  using store_inv_advance by (auto simp: selectNextPawPlanSlice_def split: sum.split)

lemma store_inv_begin: "store_inv r fs \<Longrightarrow> store_inv r (snd (beginPawSliceImplementation env r fs sid opts))"
  using store_inv_advance by (auto simp: beginPawSliceImplementation_def split: sum.split)

lemma store_inv_run_on_files: "store_inv r fs \<Longrightarrow> store_inv r (run_on_files r fs cmd)"
  by (cases cmd)
    (simp_all add: store_inv_command store_inv_select store_inv_begin,
     (blast intro: store_inv_after store_inv_approve reviewer_pass.keeps_store verification.keeps_store
        worker_blocked.keeps_store reviewer_blocked.keeps_store verifier_blocked.keeps_store)+)

fun spares :: "string \<Rightarrow> paw_command \<Rightarrow> bool" where
  "spares r (WorkerPass a sid config out ts) = spares_paw r config out"
| "spares r _ = True"

lemma store_inv_run_command:
  assumes "store_inv (root w) (session_files d)" "spares (root w) cmd"
  shows "store_inv (root w) (session_files (run_command w d cmd))"
proof (cases "\<exists>a sid config out ts. cmd = WorkerPass a sid config out ts")
  case True
  then obtain a sid config out ts where cmd: "cmd = WorkerPass a sid config out ts" by blast
  let ?run = "completePawWorkerPass (fst a) (patching w) (disk_views w) (now_text w) (root w) config d sid out (snd a) ts"
  have "?run = (fst ?run, snd ?run)" by simp
  from store_inv_worker_pass [OF assms(1) _ this] assms(2) cmd show ?thesis
    by (simp add: run_command_def)
next
  case False
  then have "run_command w d cmd = d\<lparr>session_files := run_on_files (root w) (session_files d) cmd\<rparr>"
    by (simp add: run_command_def split: paw_command.split)
  with store_inv_run_on_files [OF assms(1)] show ?thesis by simp
qed

lemma store_inv_run:
  assumes "store_inv (root w) (session_files d)" "\<forall>c \<in> set cmds. spares (root w) c"
  shows "store_inv (root w) (session_files (foldl (run_command w) d cmds))"
  using assms by (induction cmds arbitrary: d) (auto intro: store_inv_run_command)

section \<open>The cycle of a slice\<close>

text \<open>One accepted transition by a command, as seen on the whole disk.\<close>

lemma drives_transitions:
  assumes drives: "drives env r fs sid opts l s" and wf: "session_wf s"
  shows select_runs: "state_name s = Member (Active a) \<Longrightarrow> a \<in> {PLAN_APPROVED, SLICE_DONE} \<Longrightarrow>
      pending_slice_ids s = x # xs \<Longrightarrow>
      drives env r (run_on_files r fs (SelectSlice (env, opts) sid)) sid opts l
        (s\<lparr>state_name := Member (Active SLICE_SELECT), current_slice_id := Some x, pending_slice_ids := xs\<rparr>)"
    and begin_runs: "state_name s = Member (Active SLICE_SELECT) \<Longrightarrow> current_slice_id s \<noteq> None \<Longrightarrow>
      drives env r (run_on_files r fs (BeginImplementation (env, opts) sid)) sid opts l
        (s\<lparr>state_name := Member (Active IMPLEMENTING)\<rparr>)"
    and reviewer_runs: "state_name s = Member (Active REVIEWING) \<Longrightarrow> current_slice_id s = Some x \<Longrightarrow>
      validateReviewerOutput out sid x = [] \<Longrightarrow> status out = pass \<Longrightarrow>
      drives env r (run_on_files r fs (ReviewerPass (env, opts) sid out)) sid opts l
        (s\<lparr>state_name := Member (Active VERIFYING)\<rparr>)"
    and verification_runs: "state_name s = Member (Active VERIFYING) \<Longrightarrow> current_slice_id s = Some x \<Longrightarrow>
      ds \<noteq> [] \<Longrightarrow>
      drives env r (run_on_files r fs (Verification (env, opts) sid ds)) sid opts l
        (applyActiveTransition s SLICE_DONE None)"
proof -
  assume name: "state_name s = Member (Active a)" "a \<in> {PLAN_APPROVED, SLICE_DONE}"
    and p: "pending_slice_ids s = x # xs"
  let ?s' = "s\<lparr>state_name := Member (Active SLICE_SELECT), current_slice_id := Some x, pending_slice_ids := xs\<rparr>"
  have t: "transitionPawSessionState s (goto SLICE_SELECT) = Ok ?s'"
    by (simp only: transition_select [OF wf name(1)] name(2) p if_True list.case)
  show "drives env r (run_on_files r fs (SelectSlice (env, opts) sid)) sid opts l ?s'"
    using drives_step(2) [OF drives t] by (simp add: selectNextPawPlanSlice_def drives_advance [OF drives t])
next
  assume name: "state_name s = Member (Active SLICE_SELECT)" and cur: "current_slice_id s \<noteq> None"
  have t: "transitionPawSessionState s (goto IMPLEMENTING) = Ok (s\<lparr>state_name := Member (Active IMPLEMENTING)\<rparr>)"
    by (rule transition_goto_name(1) [OF wf name _ _ cur]) simp_all
  show "drives env r (run_on_files r fs (BeginImplementation (env, opts) sid)) sid opts l
        (s\<lparr>state_name := Member (Active IMPLEMENTING)\<rparr>)"
    using drives_step(2) [OF drives t] by (simp add: beginPawSliceImplementation_def drives_advance [OF drives t])
next
  assume name: "state_name s = Member (Active REVIEWING)" and cur: "current_slice_id s = Some x"
    and ok: "validateReviewerOutput out sid x = []" "status out = pass"
  have t: "transitionPawSessionState s (goto VERIFYING) = Ok (s\<lparr>state_name := Member (Active VERIFYING)\<rparr>)"
    by (rule transition_goto_name(1) [OF wf name]) (simp_all add: cur)
  show "drives env r (run_on_files r fs (ReviewerPass (env, opts) sid out)) sid opts l
        (s\<lparr>state_name := Member (Active VERIFYING)\<rparr>)"
    using drives_step(2) [OF drives t] ok
    by (simp add: completePawReviewerPass_def drives_enters [OF drives name cur] drives_records [OF drives t]
        files_after_def)
next
  assume name: "state_name s = Member (Active VERIFYING)" and cur: "current_slice_id s = Some x"
    and ds: "ds \<noteq> []"
  have t: "transitionPawSessionState s (goto SLICE_DONE) = Ok (applyActiveTransition s SLICE_DONE None)"
    by (rule transition_goto [OF wf name]) (simp_all add: cur guard_Nil)
  show "drives env r (run_on_files r fs (Verification (env, opts) sid ds)) sid opts l
        (applyActiveTransition s SLICE_DONE None)"
    using drives_step(2) [OF drives t] ds
    by (simp add: completePawVerification_def drives_enters [OF drives name cur] drives_records [OF drives t]
        files_after_def)
qed

section \<open>Properties\<close>

text \<open>
  Whatever commands any processes run on a fresh repository (starts, advances, heartbeats
  and releases, plan approvals, selections, implementation starts, worker and reviewer passes,
  verifications and blocked results), in any order and on any sessions, with commands refused
  or throwing in between: as long as no worker patch reaches into \<open>.paw\<close>, a session that can
  be read from disk is filed under its own id and was reached from the initial state by
  accepted transitions only, so its completed, current and pending slices are exactly those
  of its approved plans, in order.
\<close>

theorem stored_sessions_reachable:
  assumes "session_files d = Map.empty" and "\<forall>c \<in> set cmds. spares (root w) c"
    and "readPawSessionState (root w) (session_files (foldl (run_command w) d cmds)) sid = Inr s"
  shows "session_id s = sid
    \<and> (\<exists>ts. run_steps transitionPawSessionState (createInitialPawSessionState sid) ts = Ok s
         \<and> plan_order s = run_total transitionPawSessionState approvedSlices
             (createInitialPawSessionState sid) ts)"
proof -
  have "store_inv (root w) (session_files (foldl (run_command w) d cmds))"
    using assms(1,2) by (intro store_inv_run) (simp_all add: store_inv_empty)
  with assms(3) have id: "session_id s = sid" and "reached sid s" by (auto simp: store_inv_def)
  then obtain ts where ts: "run_steps transitionPawSessionState (createInitialPawSessionState sid) ts = Ok s"
    by (auto simp: reached_def)
  have "\<not> blank sid" using read_wf [OF assms(3)] id by (auto simp: session_wf_def)
  from session_machine.run_account [OF phase_inv_init [OF this] ts]
  have "plan_order s = run_total transitionPawSessionState approvedSlices (createInitialPawSessionState sid) ts"
    by (simp add: plan_order_def createInitialPawSessionState_def)
  with id ts show ?thesis by blast
qed

definition sample_surroundings :: surroundings where
  "sample_surroundings = \<lparr>root = ''/repo'', patching = sample_patch_env,
     disk_views = \<lparr>json_view = BrokenText, journal_view = (\<lambda>t. \<lparr>complete_lines = [], torn_line = None\<rparr>)\<rparr>,
     now_text = ''2026-01-01T00:00:00.000Z''\<rparr>"

definition fresh_disk :: disk where
  "fresh_disk = \<lparr>session_files = Map.empty, session_journals = Map.empty, repo_files = Map.empty\<rparr>"

lemma sample_start:
  "readPawSessionState ''/repo'' (session_files (foldl (run_command sample_surroundings) fresh_disk
     [SessionCommand (Start (sample_actor 7) ''s1'' sample_contents)])) ''s1''
   = Inr (sample_session (Active INTAKE) None [] [])"
  by code_simp

theorem stored_sessions_reachable_witness:
  "\<exists>ts. run_steps transitionPawSessionState (createInitialPawSessionState ''s1'') ts
     = Ok (sample_session (Active INTAKE) None [] [])"
  using stored_sessions_reachable [of fresh_disk
      "[SessionCommand (Start (sample_actor 7) ''s1'' sample_contents)]" sample_surroundings "''s1''"]
    sample_start
  by (auto simp: fresh_disk_def sample_surroundings_def)


definition sample_output :: "PawSubAgentRole \<Rightarrow> string \<Rightarrow> PawChangedFile list \<Rightarrow> PawSubAgentOutput" where
  "sample_output role slice cs = \<lparr>status = pass, agent = role, output_session_id = ''s1'',
     output_slice_id = Some (Some slice), artifact_ref = ''.paw/artifacts/s1/worker/report.md'', changed_files = cs, output_reason = None\<rparr>"

definition implementing_session :: PawSessionState where
  "implementing_session = sample_session (Active IMPLEMENTING) (Some ''a'') [''b''] []"

definition sample_disk :: "PawSessionState \<Rightarrow> disk" where
  "sample_disk s = \<lparr>session_files = sample_store s, session_journals = Map.empty,
     repo_files = [[''repo'', ''src'', ''a.ts''] \<mapsto> ''old'']\<rparr>"

lemma implementing_run:
  "run_steps transitionPawSessionState (createInitialPawSessionState ''s1'')
     (intake_to_plan [''a'', ''b''] @ map goto [SLICE_SELECT, IMPLEMENTING]) = Ok implementing_session"
  by code_simp

lemma implementing_drives:
  "drives (sample_env 7) ''/repo'' (session_files (sample_disk implementing_session)) ''s1'' no_options
     (nextLock (sample_env 7) no_options) implementing_session"
proof -
  have "session_wf implementing_session" unfolding sessionStateIssues_Nil [symmetric] by code_simp
  then show ?thesis
    by (simp add: drives_def sample_disk_def sample_store_inv [OF implementing_run] sample_store_locked
        sample_store_read)
qed

lemma sample_worker_patches:
  "spares_paw ''/repo'' (Some sample_edit_config) (sample_output worker ''a'' [sample_change ''src/a.ts''])"
  "fst (appliedPatches sample_patch_env ''/repo'' (Some sample_edit_config)
     (sample_output worker ''a'' [sample_change ''src/a.ts'']) (repo_files (sample_disk implementing_session)))
   = PatchApplied [applied_entry (sample_change ''src/a.ts'')]"
  "validateWorkerOutput (sample_output worker ''a'' [sample_change ''src/a.ts'']) ''s1'' ''a'' = []"
  by code_simp+


text \<open>
  (C22) A slice gets done: a process that holds a live lock on a session after plan approval or
  a finished slice selects the first pending slice, begins its implementation and records a
  worker pass, a reviewer pass and a verification for it. Then this slice is completed and
  stored so, the other slices wait in the same order, the worker's changes are in the
  repository, and the journal has grown by exactly one entry per changed file.
\<close>

theorem slice_cycle_completes:
  assumes "drives env (root w) (session_files d) sid opts l s"
    and "state_name s = Member (Active a)" "a \<in> {PLAN_APPROVED, SLICE_DONE}" "pending_slice_ids s = x # xs"
    and "validateWorkerOutput wout sid x = []" "status wout = pass" "spares_paw (root w) config wout"
    and "appliedPatches (patching w) (root w) config wout (repo_files d) = (PatchApplied changes, w')"
    and "journal_whole (root w) (session_journals d) sid" "or_else ts (now_text w) \<noteq> ''''"
    and "validateReviewerOutput rout sid x = []" "status rout = pass" "ds \<noteq> []"
  shows "let d' = foldl (run_command w) d [SelectSlice (env, opts) sid, BeginImplementation (env, opts) sid,
      WorkerPass (env, opts) sid config wout ts, ReviewerPass (env, opts) sid rout,
      Verification (env, opts) sid ds]
    in readPawSessionState (root w) (session_files d') sid =
         Inr (s\<lparr>state_name := Member (Active SLICE_DONE), current_slice_id := None, pending_slice_ids := xs,
           completed_slice_ids := completed_slice_ids s @ [x]\<rparr>)
       \<and> holds_live_lock env (root w) (session_files d') sid opts l
       \<and> repo_files d' = w'
       \<and> readPawSliceJournal (root w) (session_journals d') sid =
           (case readPawSliceJournal (root w) (session_journals d) sid of
              Inl e \<Rightarrow> Inl e
            | Inr old \<Rightarrow> Inr (old @ map (journalEntry sid x (or_else ts (now_text w))) (changed_files wout)))"
proof -
  let ?A = "(env, opts)"
  let ?sel = "s\<lparr>state_name := Member (Active SLICE_SELECT), current_slice_id := Some x, pending_slice_ids := xs\<rparr>"
  let ?imp = "?sel\<lparr>state_name := Member (Active IMPLEMENTING)\<rparr>"
  let ?rev = "?imp\<lparr>state_name := Member (Active REVIEWING)\<rparr>"
  let ?ver = "?rev\<lparr>state_name := Member (Active VERIFYING)\<rparr>"
  let ?done = "s\<lparr>state_name := Member (Active SLICE_DONE), current_slice_id := None, pending_slice_ids := xs,
           completed_slice_ids := completed_slice_ids s @ [x]\<rparr>"
  have wf: "session_wf t" if "drives env (root w) fs sid opts l t" for fs t
    using drives_phase [OF that] by (simp add: phase_inv_def)
  define d1 where "d1 = run_command w d (SelectSlice ?A sid)"
  define d2 where "d2 = run_command w d1 (BeginImplementation ?A sid)"
  note unfold = d1_def d2_def run_command_def
  have s1: "drives env (root w) (session_files d1) sid opts l ?sel"
    using select_runs [OF assms(1) wf [OF assms(1)] assms(2-4)] by (simp add: unfold)
  have s2: "drives env (root w) (session_files d2) sid opts l ?imp"
    using begin_runs [OF s1 wf [OF s1]] by (simp add: unfold)
  have kept: "session_journals d2 = session_journals d" "repo_files d2 = repo_files d" by (simp_all add: unfold)
  define d3 where "d3 = run_command w d2 (WorkerPass ?A sid config wout ts)"
  have s3: "drives env (root w) (session_files d3) sid opts l ?rev" and repo: "repo_files d3 = w'"
    and jr: "readPawSliceJournal (root w) (session_journals d3) sid =
           (case readPawSliceJournal (root w) (session_journals d) sid of
              Inl e \<Rightarrow> Inl e
            | Inr old \<Rightarrow> Inr (old @ map (journalEntry sid x (or_else ts (now_text w))) (changed_files wout)))"
    using worker_pass_succeeds [OF s2 _ _ assms(5-7) assms(8) [folded kept] assms(9) [folded kept] assms(10),
        where views = "disk_views w"]
    by (auto simp: d3_def run_command_def kept)
  define d4 where "d4 = run_command w d3 (ReviewerPass ?A sid rout)"
  have s4: "drives env (root w) (session_files d4) sid opts l ?ver"
    using reviewer_runs [OF s3 wf [OF s3], of x rout] assms(11,12) by (simp add: d4_def run_command_def)
  define d5 where "d5 = run_command w d4 (Verification ?A sid ds)"
  have "x \<notin> set (completed_slice_ids s)"
    using wf [OF assms(1)] assms(4) by (auto simp: session_wf_def plan_order_def)
  then have "applyActiveTransition ?ver SLICE_DONE None = ?done"
    using session_wf_active_reason [OF wf [OF assms(1)] assms(2)]
    by (cases s) (simp add: applyActiveTransition_def)
  then have s5: "drives env (root w) (session_files d5) sid opts l ?done"
    using verification_runs [OF s4 wf [OF s4], of x ds] assms(13) by (simp add: d5_def run_command_def)
  have "session_journals d5 = session_journals d3" "repo_files d5 = repo_files d3"
    by (simp_all add: d5_def d4_def run_command_def)
  moreover have "d5 = foldl (run_command w) d [SelectSlice ?A sid, BeginImplementation ?A sid,
      WorkerPass ?A sid config wout ts, ReviewerPass ?A sid rout, Verification ?A sid ds]"
    by (simp add: d5_def d4_def d3_def d2_def d1_def)
  ultimately show ?thesis using s5 repo jr by (simp add: drives_def Let_def)
qed

lemma approved_drives:
  "drives (sample_env 7) ''/repo'' (sample_store (sample_session (Active PLAN_APPROVED) None [''a'', ''b''] [])) ''s1''
     no_options (nextLock (sample_env 7) no_options) (sample_session (Active PLAN_APPROVED) None [''a'', ''b''] [])"
proof -
  have run: "run_steps transitionPawSessionState (createInitialPawSessionState ''s1'')
      (intake_to_plan [''a'', ''b'']) = Ok (sample_session (Active PLAN_APPROVED) None [''a'', ''b''] [])"
    by code_simp
  have "session_wf (sample_session (Active PLAN_APPROVED) None [''a'', ''b''] [])"
    unfolding sessionStateIssues_Nil [symmetric] by code_simp
  then show ?thesis
    by (simp add: drives_def sample_store_inv [OF run] sample_store_locked sample_store_read)
qed

theorem slice_cycle_completes_witness:
  "\<exists>d' :: disk. readPawSessionState ''/repo'' (session_files d') ''s1''
     = Inr (sample_session (Active SLICE_DONE) None [''b''] [''a''])"
proof -
  let ?s = "sample_session (Active PLAN_APPROVED) None [''a'', ''b''] []"
  let ?d = "sample_disk ?s"
  have root: "root sample_surroundings = ''/repo''" by (simp add: sample_surroundings_def)
  have dr: "drives (sample_env 7) (root sample_surroundings) (session_files ?d) ''s1'' no_options
      (nextLock (sample_env 7) no_options) ?s"
    using approved_drives by (simp add: root sample_disk_def)
  have patched: "appliedPatches (patching sample_surroundings) (root sample_surroundings) None
      (sample_output worker ''a'' []) (repo_files ?d) = (PatchApplied [], repo_files ?d)"
    by (simp add: appliedPatches_def)
  have valid: "validateWorkerOutput (sample_output worker ''a'' []) ''s1'' ''a'' = []"
    "validateReviewerOutput (sample_output reviewer ''a'' []) ''s1'' ''a'' = []"
    by code_simp+
  have rest: "state_name ?s = Member (Active PLAN_APPROVED)" "PLAN_APPROVED \<in> {PLAN_APPROVED, SLICE_DONE}"
    "pending_slice_ids ?s = [''a'', ''b'']" "status (sample_output worker ''a'' []) = pass"
    "status (sample_output reviewer ''a'' []) = pass"
    "spares_paw (root sample_surroundings) None (sample_output worker ''a'' [])"
    "journal_whole (root sample_surroundings) (session_journals ?d) ''s1''"
    "or_else None (now_text sample_surroundings) \<noteq> ''''" "[GateVerified g x gs] \<noteq> []" for g x gs
    by (simp_all add: sample_session_def sample_output_def spares_paw_def journal_whole_def sample_disk_def
        or_else_def sample_surroundings_def)
  note cycle = slice_cycle_completes [OF dr rest(1,2,3) valid(1) rest(4) rest(6) patched rest(7,8) valid(2) rest(5,9),
      unfolded Let_def root, THEN conjunct1]
  have eq: "?s\<lparr>state_name := Member (Active SLICE_DONE), current_slice_id := None, pending_slice_ids := [''b''],
      completed_slice_ids := completed_slice_ids ?s @ [''a'']\<rparr>
    = sample_session (Active SLICE_DONE) None [''b''] [''a'']"
    by (simp add: sample_session_def)
  show ?thesis
    by (rule exI) (rule cycle [unfolded eq])
qed

definition forged_change :: PawChangedFile where
  "forged_change = (sample_change ''.paw/sessions/s2/state.json'')\<lparr>base_content_hash := None\<rparr>"

definition two_sessions :: disk where
  "two_sessions = (sample_disk implementing_session)\<lparr>session_files :=
     (sample_store implementing_session)
       (stateFile (sessionPaths ''/repo'' ''s2'') \<mapsto>
          JsonText (json_of_state ((createInitialPawSessionState ''s2'')\<lparr>state_name := Member (Active INTAKE)\<rparr>)),
        lockFile (sessionPaths ''/repo'' ''s2'') \<mapsto> JsonText (json_of_lock (nextLock (sample_env 9) no_options)))\<rparr>"

definition forging_views :: text_views where
  "forging_views = \<lparr>json_view = (\<lambda>t. JsonText (json_of_state
       ((createInitialPawSessionState ''s2'')\<lparr>state_name := Member (Active FINAL_REPORT)\<rparr>))),
     journal_view = (\<lambda>t. \<lparr>complete_lines = [], torn_line = None\<rparr>)\<rparr>"


end
