(* ===== verification/Paw_Checkpoint.thy ===== *)
theory Paw_Checkpoint
  imports Paw_Results
begin

text \<open>
  Checkpoints and rollback: names, metadata and file snapshots (\<open>paw/checkpoints.ts\<close>), the
  checkpoint taken when a slice is selected (\<open>paw/slice-checkpoint.ts\<close>) and the restoration of
  a checkpoint (\<open>paw/rollback-command.ts\<close>).

  File contents are byte strings. Parameters stand for what is computed outside the sources:
  the SHA-256 digest, the UTF-8 codec (\<open>None\<close> is the fatal decoding error), date parsing
  (\<open>None\<close> is an invalid date) and formatting, directory listings and the locale's collation.
  Directories are not modelled: a snapshot or restore path never names one.
\<close>

section \<open>Checkpoint metadata\<close>

datatype PawCheckpointScope = task_start | slice_scope

fun scopeString :: "PawCheckpointScope \<Rightarrow> string" where
  "scopeString task_start = ''task_start''"
| "scopeString slice_scope = ''slice''"

definition CHECKPOINT_SCOPES :: "PawCheckpointScope list" where
  "CHECKPOINT_SCOPES = [task_start, slice_scope]"

record PawCheckpointChangedFile =
  cp_path :: string
  cp_content_hash :: "string option"

record PawCheckpointRestorableFile =
  restore_path :: string
  restore_content :: "string option"
  current_content_hash :: "string option"

record PawCheckpointMetadata =
  cp_session_id :: string
  checkpoint_name :: string
  scope :: PawCheckpointScope
  cp_slice_id :: "string option"
  created_at :: string
  base_tree :: string
  cp_changed_files :: "PawCheckpointChangedFile list"
  restore_files :: "PawCheckpointRestorableFile list option"
  cp_notes :: "string option"

record PawCheckpointPaths =
  cp_repoRoot :: string
  cp_sessionId :: string
  checkpointName :: string
  checkpointDir :: string
  metadataFile :: string

record snapshot_env =
  snap_sha256 :: "string \<Rightarrow> string"
  decodeUtf8 :: "string \<Rightarrow> string option"
  encodeUtf8 :: "string \<Rightarrow> string"
  isSymlink :: "path \<Rightarrow> bool"
  parseDate :: "string \<Rightarrow> int option"
  isoDate :: "int \<Rightarrow> string"

definition CHECKPOINT_METADATA_KEYS :: "string list" where
  "CHECKPOINT_METADATA_KEYS = [''session_id'', ''checkpoint_name'', ''scope'', ''slice_id'', ''created_at'',
     ''base_tree'', ''changed_files'', ''restore_files'', ''notes'']"

definition CHECKPOINT_CHANGED_FILE_KEYS :: "string list" where
  "CHECKPOINT_CHANGED_FILE_KEYS = [''path'', ''content_hash'']"

definition CHECKPOINT_RESTORABLE_FILE_KEYS :: "string list" where
  "CHECKPOINT_RESTORABLE_FILE_KEYS = [''path'', ''paw_owned'', ''restore_content'', ''current_content_hash'']"

definition MAX_CHECKPOINT_SEGMENT_LENGTH :: nat where
  "MAX_CHECKPOINT_SEGMENT_LENGTH = 48"

text \<open>\<open>CHECKPOINT_NAME_PATTERN\<close>.\<close>

definition validCheckpointName :: "string \<Rightarrow> bool" where
  "validCheckpointName n \<longleftrightarrow> n \<noteq> [] \<and> is_alnum (hd n) \<and> is_alnum (last n)
     \<and> list_all (\<lambda>c. is_alnum c \<or> c = CHR ''-'') n"

section \<open>Names\<close>

datatype js_date = DateObject "int option" | DateText string

definition dateValue :: "snapshot_env \<Rightarrow> js_date \<Rightarrow> int option" where
  "dateValue env d = (case d of DateObject v \<Rightarrow> v | DateText s \<Rightarrow> parseDate env s)"

definition js_slice :: "string \<Rightarrow> nat \<Rightarrow> nat \<Rightarrow> string" where
  "js_slice s a b = take (b - a) (drop a s)"

definition formatCheckpointTimestamp :: "snapshot_env \<Rightarrow> js_date \<Rightarrow> string throws" where
  "formatCheckpointTimestamp env d =
     (case dateValue env d of
        None \<Rightarrow> Inl (JsError ''Paw checkpoint timestamp must be a valid date.'')
      | Some ms \<Rightarrow> let iso = isoDate env ms in
          Inr (js_slice iso 0 4 @ js_slice iso 5 7 @ js_slice iso 8 10 @ ''T''
            @ js_slice iso 11 13 @ js_slice iso 14 16 @ js_slice iso 17 19 @ ''Z''))"

definition lower_char :: "char \<Rightarrow> char" where
  "lower_char c = (let n = (of_char c :: nat) in
     if 65 \<le> n \<and> n \<le> 90 \<or> 192 \<le> n \<and> n \<le> 222 \<and> n \<noteq> 215 then char_of (n + 32) else c)"

definition is_lower_alnum :: "char \<Rightarrow> bool" where
  "is_lower_alnum c \<longleftrightarrow> (let n = (of_char c :: nat) in 97 \<le> n \<and> n \<le> 122 \<or> 48 \<le> n \<and> n \<le> 57)"

text \<open>\<open>replace(/[^a-z0-9]+/g, "-")\<close>: every maximal run of other characters becomes one dash.\<close>

fun dash_runs :: "bool \<Rightarrow> string \<Rightarrow> string" where
  "dash_runs in_run [] = []"
| "dash_runs in_run (c # cs) =
     (if is_lower_alnum c then c # dash_runs False cs
      else if in_run then dash_runs True cs else CHR ''-'' # dash_runs True cs)"

definition trim_dashes :: "string \<Rightarrow> string" where
  "trim_dashes s = rev (dropWhile (\<lambda>c. c = CHR ''-'') (rev (dropWhile (\<lambda>c. c = CHR ''-'') s)))"

definition sanitizeCheckpointSegment :: "string \<Rightarrow> string \<Rightarrow> nat \<Rightarrow> string" where
  "sanitizeCheckpointSegment v fallback maxLength =
     (let sanitized = trim_dashes (take maxLength (trim_dashes (dash_runs False (map lower_char v)))) in
      if length sanitized > 0 then sanitized else fallback)"

definition sanitizeCheckpointShortId :: "string \<Rightarrow> string throws" where
  "sanitizeCheckpointShortId v =
     (let sanitized = filter is_lower_alnum (map lower_char v) in
      if length sanitized = 0
      then Inl (JsError ''Paw checkpoint short id must contain at least one alphanumeric character.'')
      else Inr sanitized)"

definition createPawCheckpointName :: "snapshot_env \<Rightarrow> js_date \<Rightarrow> string option \<Rightarrow> string \<Rightarrow> string throws" where
  "createPawCheckpointName env d sliceId sid =
     (case formatCheckpointTimestamp env d of
        Inl e \<Rightarrow> Inl e
      | Inr ts \<Rightarrow>
          let sliceSegment = sanitizeCheckpointSegment (or_else sliceId '''') ''task'' MAX_CHECKPOINT_SEGMENT_LENGTH in
          (case sanitizeCheckpointShortId sid of
             Inl e \<Rightarrow> Inl e
           | Inr short \<Rightarrow> Inr (ts @ ''-'' @ sliceSegment @ ''-'' @ short)))"

section \<open>Paths of checkpoints\<close>

definition assertValidCheckpointName :: "string \<Rightarrow> unit throws" where
  "assertValidCheckpointName n =
     (if validCheckpointName n then Inr ()
      else Inl (JsError (''Paw checkpoint name must be non-empty, contain only alphanumeric characters and ''
        @ [CHR 0x27] @ ''-'' @ [CHR 0x27] @ '', and start and end with an alphanumeric character.'')))"

definition assertValidCheckpointSessionId :: "string \<Rightarrow> unit throws" where
  "assertValidCheckpointSessionId sid =
     (case resolvePawSessionPaths ''.'' sid of Inl e \<Rightarrow> Inl e | Inr p \<Rightarrow> Inr ())"

definition checkpointPaths :: "string \<Rightarrow> string \<Rightarrow> string \<Rightarrow> PawCheckpointPaths" where
  "checkpointPaths repo sid name =
     (let pp = resolvePawProjectPaths repo;
          dir = pathJoin (pathJoin (pathJoin (pawDir pp) ''checkpoints'') sid) name in
      \<lparr>cp_repoRoot = project_root pp, cp_sessionId = sid, checkpointName = name, checkpointDir = dir,
       metadataFile = pathJoin dir ''checkpoint.json''\<rparr>)"

definition resolvePawCheckpointPaths :: "string \<Rightarrow> string \<Rightarrow> string \<Rightarrow> PawCheckpointPaths throws" where
  "resolvePawCheckpointPaths repo sid name =
     (case assertValidCheckpointSessionId sid of
        Inl e \<Rightarrow> Inl e
      | Inr u \<Rightarrow> (case assertValidCheckpointName name of
           Inl e \<Rightarrow> Inl e
         | Inr u \<Rightarrow> Inr (checkpointPaths repo sid name)))"

section \<open>Paths of files\<close>

definition backslash :: char where
  "backslash = CHR 0x5C"

fun hasDrivePrefix :: "string \<Rightarrow> bool" where
  "hasDrivePrefix (c # d # e # rest) = (let n = (of_char c :: nat) in
     (65 \<le> n \<and> n \<le> 90 \<or> 97 \<le> n \<and> n \<le> 122) \<and> d = CHR '':'' \<and> (e = backslash \<or> e = CHR ''/''))"
| "hasDrivePrefix s = False"

text \<open>\<open>replace(/^\.\/+/, "")\<close>.\<close>

definition stripDotSlash :: "string \<Rightarrow> string" where
  "stripDotSlash s = (if starts_with ''./'' s then dropWhile (\<lambda>c. c = CHR ''/'') (drop 1 s) else s)"

definition normalizedPath :: "string \<Rightarrow> string" where
  "normalizedPath p = stripDotSlash (replace_char backslash CHR ''/'' p)"

definition isSecretCheckpointPath :: "string \<Rightarrow> bool" where
  "isSecretCheckpointPath p =
     (let basename = last (split_on CHR ''/'' p) in
      starts_with ''.env'' basename \<or> starts_with ''id_rsa'' basename
      \<or> ends_with ''.pem'' basename \<or> ends_with ''.key'' basename
      \<or> p = ''secrets'' \<or> starts_with ''secrets/'' p \<or> includes_str ''/secrets/'' p)"

definition validateCheckpointFilePath :: "string \<Rightarrow> string \<Rightarrow> PawValidationIssue list" where
  "validateCheckpointFilePath p issuePath =
     (if length p = 0 then []
      else
        (if CHR 0x00 \<in> set p then [Issue issuePath ''Path must not contain null bytes.''] else [])
        @ (if starts_with ''/'' p \<or> hasDrivePrefix p
           then [Issue issuePath ''Path must be relative to the repository root.''] else [])
        @ (if backslash \<in> set p
           then [Issue issuePath (''Path must use '' @ [CHR 0x27] @ ''/'' @ [CHR 0x27] @ '' separators.'')] else [])
        @ (if ''..'' \<in> set (split_on CHR ''/'' (normalizedPath p))
           then [Issue issuePath ''Path must not traverse outside the repository root.''] else [])
        @ (if isSecretCheckpointPath (normalizedPath p)
           then [Issue issuePath ''Path must not target secret or credential files.''] else []))"

definition validateCheckpointFilePaths :: "string list \<Rightarrow> string \<Rightarrow> PawValidationIssue list" where
  "validateCheckpointFilePaths paths prefix =
     concat (map (\<lambda>(i, p). validateCheckpointFilePath p (prefix @ ''/'' @ show_nat i @ ''/path'')) (entries paths))"

text \<open>The resolved root as a list of segments; \<open>startsWith(root + "/")\<close> on the path strings.\<close>

definition resolveCheckpointTargetPath :: "path \<Rightarrow> string \<Rightarrow> path option" where
  "resolveCheckpointTargetPath repo p =
     (let target = resolvePath repo p in
      if target \<noteq> repo \<and> \<not> starts_with (pathString repo @ ''/'') (pathString target) then None else Some target)"

text \<open>The loop of the symlink check, from the target up; the cursor is kept reversed.\<close>

fun symlinkedUpwards :: "(path \<Rightarrow> bool) \<Rightarrow> path \<Rightarrow> path \<Rightarrow> bool" where
  "symlinkedUpwards isLink repo cursor =
     (if rev cursor = repo then False
      else if isLink (rev cursor) then True
      else case cursor of [] \<Rightarrow> True | s # up \<Rightarrow> symlinkedUpwards isLink repo up)"

declare symlinkedUpwards.simps [simp del]

definition hasSymlinkedCheckpointAncestor :: "snapshot_env \<Rightarrow> path \<Rightarrow> path \<Rightarrow> bool" where
  "hasSymlinkedCheckpointAncestor env repo target = symlinkedUpwards (isSymlink env) repo (rev target)"

section \<open>Validation of metadata\<close>

definition readCheckpointRecord ::
  "json \<Rightarrow> string \<Rightarrow> string list \<Rightarrow> (string \<times> json) list \<times> PawValidationIssue list" where
  "readCheckpointRecord v path allowed =
     (let loc = (if path = '''' then ''/'' else path) in
      case v of
        JObject rec \<Rightarrow> (rec, map (\<lambda>k. Issue loc (''Unexpected property '' @ k @ ''.''))
                          (filter (\<lambda>k. k \<notin> set allowed) (map fst rec)))
      | _ \<Rightarrow> ([], [Issue loc ''Expected object.'']))"

definition readNonEmptyString ::
  "(string \<times> json) list \<Rightarrow> string \<Rightarrow> string \<Rightarrow> string \<times> PawValidationIssue list" where
  "readNonEmptyString rec key prefix =
     (let bad = ('''', [Issue (prefix @ ''/'' @ key) ''Expected non-empty string.'']) in
      case json_get rec key of
        JString s \<Rightarrow> if length s > 0 then (s, []) else bad
      | _ \<Rightarrow> bad)"

definition readOptionalString ::
  "(string \<times> json) list \<Rightarrow> string \<Rightarrow> string option \<times> PawValidationIssue list" where
  "readOptionalString rec key =
     (case json_get rec key of
        JUndefined \<Rightarrow> (None, [])
      | JString s \<Rightarrow> (Some s, [])
      | _ \<Rightarrow> (None, [Issue (''/'' @ key) ''Expected string.'']))"

definition readCheckpointScope :: "(string \<times> json) list \<Rightarrow> PawCheckpointScope \<times> PawValidationIssue list" where
  "readCheckpointScope rec =
     (let bad = (task_start, [Issue ''/scope''
            (''Expected one of '' @ join_with '', '' (map scopeString CHECKPOINT_SCOPES) @ ''.'')]) in
      case json_get rec ''scope'' of
        JString s \<Rightarrow> (case find (\<lambda>a. scopeString a = s) CHECKPOINT_SCOPES of Some a \<Rightarrow> (a, []) | None \<Rightarrow> bad)
      | _ \<Rightarrow> bad)"

definition readDateString ::
  "snapshot_env \<Rightarrow> (string \<times> json) list \<Rightarrow> string \<Rightarrow> string \<times> PawValidationIssue list" where
  "readDateString env rec key =
     (let bad = ('''', [Issue (''/'' @ key) ''Expected valid date string.'']) in
      case json_get rec key of
        JString s \<Rightarrow> if length s > 0 \<and> parseDate env s \<noteq> None then (s, []) else bad
      | _ \<Rightarrow> bad)"

text \<open>\<open>readNullableContent\<close>; \<open>readContentHash\<close> is the same check on \<open>content_hash\<close>.\<close>

definition readNullableContent ::
  "(string \<times> json) list \<Rightarrow> string \<Rightarrow> string \<Rightarrow> string option \<times> PawValidationIssue list" where
  "readNullableContent rec key prefix = readNullableString rec key prefix"

definition readContentHash :: "(string \<times> json) list \<Rightarrow> nat \<Rightarrow> string option \<times> PawValidationIssue list" where
  "readContentHash rec i = readNullableString rec ''content_hash'' (''/changed_files/'' @ show_nat i)"

definition readNullableContentHash ::
  "(string \<times> json) list \<Rightarrow> string \<Rightarrow> string \<Rightarrow> string option \<times> PawValidationIssue list" where
  "readNullableContentHash rec key prefix =
     (let bad = (None, [Issue (prefix @ ''/'' @ key) ''Expected non-empty string or null.'']) in
      case json_get rec key of
        JNull \<Rightarrow> (None, [])
      | JString s \<Rightarrow> if length s > 0 then (Some s, []) else bad
      | _ \<Rightarrow> bad)"

definition readChangedFile :: "nat \<times> json \<Rightarrow> PawCheckpointChangedFile \<times> PawValidationIssue list" where
  "readChangedFile e = (case e of (i, v) \<Rightarrow>
     let prefix = ''/changed_files/'' @ show_nat i;
         (rec, i0) = readCheckpointRecord v prefix CHECKPOINT_CHANGED_FILE_KEYS;
         (p, i1) = readNonEmptyString rec ''path'' prefix;
         (h, i2) = readContentHash rec i
     in (\<lparr>cp_path = p, cp_content_hash = h\<rparr>, i0 @ i1 @ i2))"

definition validatePawOwnedTrue :: "(string \<times> json) list \<Rightarrow> nat \<Rightarrow> PawValidationIssue list" where
  "validatePawOwnedTrue rec i =
     (if json_get rec ''paw_owned'' \<noteq> JBool True
      then [Issue (''/restore_files/'' @ show_nat i @ ''/paw_owned'') ''Expected true.''] else [])"

definition readRestorableFile :: "nat \<times> json \<Rightarrow> PawCheckpointRestorableFile \<times> PawValidationIssue list" where
  "readRestorableFile e = (case e of (i, v) \<Rightarrow>
     let prefix = ''/restore_files/'' @ show_nat i;
         (rec, i0) = readCheckpointRecord v prefix CHECKPOINT_RESTORABLE_FILE_KEYS;
         i1 = validatePawOwnedTrue rec i;
         (p, i2) = readNonEmptyString rec ''path'' prefix;
         (c, i3) = readNullableContent rec ''restore_content'' prefix;
         (h, i4) = readNullableContentHash rec ''current_content_hash'' prefix
     in (\<lparr>restore_path = p, restore_content = c, current_content_hash = h\<rparr>, i0 @ i1 @ i2 @ i3 @ i4))"

definition readChangedFiles :: "(string \<times> json) list \<Rightarrow> PawCheckpointChangedFile list \<times> PawValidationIssue list" where
  "readChangedFiles rec =
     (case json_get rec ''changed_files'' of
        JArray vs \<Rightarrow> let rs = map readChangedFile (entries vs) in (map fst rs, concat (map snd rs))
      | _ \<Rightarrow> ([], [Issue ''/changed_files'' ''Expected array.'']))"

definition readOptionalRestorableFiles ::
  "(string \<times> json) list \<Rightarrow> PawCheckpointRestorableFile list option \<times> PawValidationIssue list" where
  "readOptionalRestorableFiles rec =
     (case json_get rec ''restore_files'' of
        JUndefined \<Rightarrow> (None, [])
      | JArray vs \<Rightarrow> let rs = map readRestorableFile (entries vs) in (Some (map fst rs), concat (map snd rs))
      | _ \<Rightarrow> (Some [], [Issue ''/restore_files'' ''Expected array.'']))"

text \<open>The assertions checked here throw plain errors only.\<close>

definition formatErrorMessage :: "js_error \<Rightarrow> string" where
  "formatErrorMessage e = (case e of JsError m \<Rightarrow> m | FileSystemError c \<Rightarrow> c)"

definition validateCheckpointSessionId :: "string \<Rightarrow> PawValidationIssue list" where
  "validateCheckpointSessionId sid =
     (case assertValidCheckpointSessionId sid of
        Inl e \<Rightarrow> [Issue ''/session_id'' (formatErrorMessage e)] | Inr u \<Rightarrow> [])"

definition validateCheckpointName :: "string \<Rightarrow> PawValidationIssue list" where
  "validateCheckpointName n =
     (case assertValidCheckpointName n of
        Inl e \<Rightarrow> [Issue ''/checkpoint_name'' (formatErrorMessage e)] | Inr u \<Rightarrow> [])"

definition validateScopeSliceId :: "PawCheckpointScope \<Rightarrow> string option \<Rightarrow> PawValidationIssue list" where
  "validateScopeSliceId sc sl =
     (if sc = task_start \<and> sl \<noteq> None
      then [Issue ''/slice_id'' ''Expected null for task_start checkpoint scope.''] else [])
     @ (if sc = slice_scope \<and> (sl = None \<or> sl = Some [])
        then [Issue ''/slice_id'' ''Expected non-empty string for slice checkpoint scope.''] else [])"

definition validatePawCheckpointMetadata :: "snapshot_env \<Rightarrow> json \<Rightarrow> PawCheckpointMetadata PawValidationResult" where
  "validatePawCheckpointMetadata env v =
     (let (rec, i0) = readCheckpointRecord v [] CHECKPOINT_METADATA_KEYS;
          (sid, i1) = readNonEmptyString rec ''session_id'' [];
          (name, i2) = readNonEmptyString rec ''checkpoint_name'' [];
          (sc, i3) = readCheckpointScope rec;
          (sl, i4) = readNullableString rec ''slice_id'' [];
          (created, i5) = readDateString env rec ''created_at'';
          (tree, i6) = readNonEmptyString rec ''base_tree'' [];
          (changed, i7) = readChangedFiles rec;
          (restore, i8) = readOptionalRestorableFiles rec;
          (nt, i9) = readOptionalString rec ''notes'';
          metadata = \<lparr>cp_session_id = sid, checkpoint_name = name, scope = sc, cp_slice_id = sl,
            created_at = created, base_tree = tree, cp_changed_files = changed, restore_files = restore,
            cp_notes = nt\<rparr>;
          issues = i0 @ i1 @ i2 @ i3 @ i4 @ i5 @ i6 @ i7 @ i8 @ i9
            @ validateCheckpointSessionId sid @ validateCheckpointName name @ validateScopeSliceId sc sl
            @ validateCheckpointFilePaths (map cp_path changed) ''/changed_files''
            @ validateCheckpointFilePaths (map restore_path (or_else restore [])) ''/restore_files''
      in if length issues > 0 then Invalid issues else Ok metadata)"

text \<open>The metadata object as the validator and \<open>JSON.stringify\<close> see it.\<close>

definition json_of_changed :: "PawCheckpointChangedFile \<Rightarrow> json" where
  "json_of_changed f = JObject [(''path'', JString (cp_path f)), (''content_hash'', json_of_option (cp_content_hash f))]"

definition json_of_restorable :: "PawCheckpointRestorableFile \<Rightarrow> json" where
  "json_of_restorable f = JObject [(''path'', JString (restore_path f)), (''paw_owned'', JBool True),
     (''restore_content'', json_of_option (restore_content f)),
     (''current_content_hash'', json_of_option (current_content_hash f))]"

definition json_of_metadata :: "PawCheckpointMetadata \<Rightarrow> json" where
  "json_of_metadata m = JObject
     ([(''session_id'', JString (cp_session_id m)), (''checkpoint_name'', JString (checkpoint_name m)),
       (''scope'', JString (scopeString (scope m))), (''slice_id'', json_of_option (cp_slice_id m)),
       (''created_at'', JString (created_at m)), (''base_tree'', JString (base_tree m)),
       (''changed_files'', JArray (map json_of_changed (cp_changed_files m)))]
      @ (case restore_files m of None \<Rightarrow> [] | Some fs \<Rightarrow> [(''restore_files'', JArray (map json_of_restorable fs))])
      @ (case cp_notes m of None \<Rightarrow> [] | Some n \<Rightarrow> [(''notes'', JString n)]))"

definition writePawCheckpointMetadata ::
  "snapshot_env \<Rightarrow> string \<Rightarrow> files \<Rightarrow> PawCheckpointMetadata \<Rightarrow> (PawCheckpointPaths \<times> files) throws" where
  "writePawCheckpointMetadata env repo fs m =
     (case validatePawCheckpointMetadata env (json_of_metadata m) of
        Invalid is \<Rightarrow> Inl (JsError (formatValidationIssues ''Invalid Paw checkpoint metadata'' is))
      | Ok v \<Rightarrow>
          (case resolvePawCheckpointPaths repo (cp_session_id v) (checkpoint_name v) of
             Inl e \<Rightarrow> Inl e
           | Inr p \<Rightarrow> Inr (p, writePawJsonAtomic fs (metadataFile p) (json_of_metadata v))))"

definition readPawCheckpointMetadata ::
  "snapshot_env \<Rightarrow> string \<Rightarrow> files \<Rightarrow> string \<Rightarrow> string \<Rightarrow> PawCheckpointMetadata throws" where
  "readPawCheckpointMetadata env repo fs sid name =
     (case resolvePawCheckpointPaths repo sid name of
        Inl e \<Rightarrow> Inl e
      | Inr p \<Rightarrow> (case readPawJson fs (metadataFile p) of
           Inl e \<Rightarrow> Inl e
         | Inr v \<Rightarrow> (case validatePawCheckpointMetadata env v of
              Invalid is \<Rightarrow> Inl (JsError (formatValidationIssues ''Invalid Paw checkpoint metadata'' is))
            | Ok m \<Rightarrow> Inr m)))"

section \<open>Snapshots\<close>

definition hashCheckpointContent :: "snapshot_env \<Rightarrow> string \<Rightarrow> string" where
  "hashCheckpointContent env content = ''sha256:'' @ snap_sha256 env content"

definition decodeCheckpointContent :: "snapshot_env \<Rightarrow> path \<Rightarrow> string \<Rightarrow> string throws" where
  "decodeCheckpointContent env p content =
     (case decodeUtf8 env content of
        Some t \<Rightarrow> Inr t
      | None \<Rightarrow> Inl (JsError (''Cannot create Paw checkpoint snapshot for '' @ pathString p
          @ '': file content is not valid UTF-8 and cannot be represented safely in restore metadata.'')))"

definition readCheckpointCurrentContent ::
  "snapshot_env \<Rightarrow> workspace \<Rightarrow> path \<Rightarrow> (string option \<times> string option) throws" where
  "readCheckpointCurrentContent env w p =
     (case w p of
        None \<Rightarrow> Inr (None, None)
      | Some content \<Rightarrow>
          (case decodeCheckpointContent env p content of
             Inl e \<Rightarrow> Inl e
           | Inr t \<Rightarrow> Inr (Some t, Some (hashCheckpointContent env content))))"

definition snapshotError :: "nat \<Rightarrow> string \<Rightarrow> js_error" where
  "snapshotError i msg = JsError (''Invalid Paw checkpoint snapshot paths: /changed_files/'' @ show_nat i @ ''/path '' @ msg)"

fun snapshotFiles ::
  "snapshot_env \<Rightarrow> path \<Rightarrow> workspace \<Rightarrow> string list \<Rightarrow> (nat \<times> string) list \<Rightarrow> PawCheckpointRestorableFile list throws" where
  "snapshotFiles env repo w seen [] = Inr []"
| "snapshotFiles env repo w seen ((i, p) # files) =
     (if p \<in> set seen then Inl (snapshotError i ''Path is declared more than once.'')
      else case resolveCheckpointTargetPath repo p of
        None \<Rightarrow> Inl (snapshotError i ''Path must be relative to the repository root.'')
      | Some target \<Rightarrow>
          if hasSymlinkedCheckpointAncestor env repo target
          then Inl (snapshotError i ''Path has a symlinked ancestor and cannot be snapshotted safely.'')
          else (case readCheckpointCurrentContent env w target of
                  Inl e \<Rightarrow> Inl e
                | Inr (content, hash) \<Rightarrow>
                    (case snapshotFiles env repo w (p # seen) files of
                       Inl e \<Rightarrow> Inl e
                     | Inr rest \<Rightarrow> Inr (\<lparr>restore_path = p, restore_content = content,
                         current_content_hash = hash\<rparr> # rest))))"

definition createPawRestorableFileSnapshots ::
  "snapshot_env \<Rightarrow> string \<Rightarrow> workspace \<Rightarrow> string list \<Rightarrow> PawCheckpointRestorableFile list throws" where
  "createPawRestorableFileSnapshots env repo w paths =
     (let issues = validateCheckpointFilePaths paths ''/changed_files'' in
      if length issues > 0
      then Inl (JsError (formatValidationIssues ''Invalid Paw checkpoint snapshot paths'' issues))
      else snapshotFiles env (resolvePath [] repo) w [] (entries paths))"

section \<open>The checkpoint of a slice\<close>

datatype PawSliceCheckpointResult =
    CheckpointPrepared PawCheckpointMetadata PawCheckpointPaths PawSessionState PawSessionLock
  | CheckpointRefused lock_refusal
  | CheckpointInvalidState PawSessionState PawSessionLock
  | CheckpointNoSlice PawSessionState PawSessionLock

record PawSliceCheckpointInput =
  baseTree :: string
  changedFiles :: "PawCheckpointChangedFile list"
  restoreFiles :: "PawCheckpointRestorableFile list option"
  captureRestoreFiles :: bool
  shortId :: string
  checkpoint_timestamp :: js_date
  input_notes :: "string option"

text \<open>Only called with a date \<open>createPawCheckpointName\<close> accepted.\<close>

definition toCheckpointCreatedAt :: "snapshot_env \<Rightarrow> js_date \<Rightarrow> string" where
  "toCheckpointCreatedAt env d = (case dateValue env d of Some ms \<Rightarrow> isoDate env ms | None \<Rightarrow> [])"

definition preparePawSliceCheckpoint ::
  "process_env \<Rightarrow> snapshot_env \<Rightarrow> string \<Rightarrow> files \<Rightarrow> workspace \<Rightarrow> string \<Rightarrow> PawSliceCheckpointInput \<Rightarrow>
     PawSessionLockOptions \<Rightarrow> (PawSliceCheckpointResult \<times> files) throws" where
  "preparePawSliceCheckpoint env senv repo fs w sid inp opts =
     (case enterLockedSession env repo fs sid opts of
        Inl e \<Rightarrow> Inl e
      | Inr (Inl r) \<Rightarrow> Inr (CheckpointRefused r, fs)
      | Inr (Inr (l, s)) \<Rightarrow>
          if state_name s \<noteq> Member (Active SLICE_SELECT) then Inr (CheckpointInvalidState s l, fs)
          else (case current_slice_id s of
            None \<Rightarrow> Inr (CheckpointNoSlice s l, fs)
          | Some slice \<Rightarrow>
              (case createPawCheckpointName senv (checkpoint_timestamp inp) (Some slice) (shortId inp) of
                 Inl e \<Rightarrow> Inl e
               | Inr name \<Rightarrow>
                   (case (case restoreFiles inp of
                            Some rs \<Rightarrow> Inr (Some rs)
                          | None \<Rightarrow> if captureRestoreFiles inp
                              then map_sum id Some (createPawRestorableFileSnapshots senv repo w (map cp_path (changedFiles inp)))
                              else Inr None) of
                      Inl e \<Rightarrow> Inl e
                    | Inr restore \<Rightarrow>
                        let m = \<lparr>cp_session_id = sid, checkpoint_name = name, scope = slice_scope,
                              cp_slice_id = Some slice, created_at = toCheckpointCreatedAt senv (checkpoint_timestamp inp),
                              base_tree = baseTree inp, cp_changed_files = changedFiles inp,
                              restore_files = restore, cp_notes = input_notes inp\<rparr> in
                        (case writePawCheckpointMetadata senv repo fs m of
                           Inl e \<Rightarrow> Inl e
                         | Inr (paths, fs') \<Rightarrow> Inr (CheckpointPrepared m paths s l, fs'))))))"

section \<open>Rollback\<close>

record dir_env =
  isDirectory :: "string \<Rightarrow> bool"
  readdir :: "string \<Rightarrow> string list option"
  localeCompareBase :: "string \<Rightarrow> string \<Rightarrow> int"

record rollback_inspection =
  rb_sessionId :: string
  rb_checkpointName :: string
  rb_metadataPath :: string
  rb_stateName :: "PawSessionStateName cast"
  rb_metadata :: PawCheckpointMetadata

datatype PawRollbackCommandResult =
    RollbackDryRun rollback_inspection
  | RollbackRestored rollback_inspection bool "string list" "string list" "string list"
  | RollbackMissingRestoreMetadata rollback_inspection string "string list"
  | RollbackUnsafeRestore rollback_inspection string "string list"
  | RollbackMissingProject string
  | RollbackMissingSession string string
  | RollbackNoCheckpoints string string
  | RollbackMissingCheckpoint string string string
  | RollbackInvalidCheckpoint string string string "PawValidationIssue list"

record PawRollbackParsedInput =
  dryRun :: bool
  rb_input_checkpoint :: "string option"

definition getExternalSideEffectsNotReverted :: "string list" where
  "getExternalSideEffectsNotReverted = [''migrations'', ''installed dependencies'',
     ''generated artifacts outside Paw-owned file changes'', ''external service or provider side effects'']"

definition readCurrentFileHash :: "snapshot_env \<Rightarrow> workspace \<Rightarrow> path \<Rightarrow> string option" where
  "readCurrentFileHash env w p = map_option (\<lambda>c. ''sha256:'' @ snap_sha256 env c) (w p)"

text \<open>
  \<open>resolveRestoreTargetPath\<close> and \<open>hasSymlinkedAncestor\<close> repeat the checks of \<open>checkpoints.ts\<close>.
\<close>

definition resolveRestoreTargetPath :: "path \<Rightarrow> string \<Rightarrow> path option" where
  "resolveRestoreTargetPath base p =
     (let target = resolvePath base p in
      if target \<noteq> base \<and> \<not> starts_with (pathString base @ ''/'') (pathString target) then None else Some target)"

definition hasSymlinkedAncestor :: "snapshot_env \<Rightarrow> path \<Rightarrow> path \<Rightarrow> bool" where
  "hasSymlinkedAncestor env base target = symlinkedUpwards (isSymlink env) base (rev target)"

fun findUnsafeRestoreReason ::
  "snapshot_env \<Rightarrow> path \<Rightarrow> workspace \<Rightarrow> string list \<Rightarrow> PawCheckpointRestorableFile list \<Rightarrow> string option" where
  "findUnsafeRestoreReason env base w seen [] = None"
| "findUnsafeRestoreReason env base w seen (f # fs) =
     (case resolveRestoreTargetPath base (restore_path f) of
        None \<Rightarrow> Some (''Restore path '' @ restore_path f @ '' is outside the repository root.'')
      | Some target \<Rightarrow>
          if restore_path f \<in> set seen
          then Some (''Restore path '' @ restore_path f @ '' is declared more than once.'')
          else if hasSymlinkedAncestor env base target
          then Some (''Restore path '' @ restore_path f @ '' has a symlinked ancestor and cannot be restored safely.'')
          else if readCurrentFileHash env w target \<noteq> current_content_hash f
          then Some (''Current content for '' @ restore_path f @ '' does not match checkpoint safety hash.'')
          else findUnsafeRestoreReason env base w (restore_path f # seen) fs)"

text \<open>An error in the loop leaves the files written before it.\<close>

fun restorePawOwnedFiles ::
  "snapshot_env \<Rightarrow> path \<Rightarrow> workspace \<Rightarrow> PawCheckpointRestorableFile list \<Rightarrow> js_error option \<times> workspace" where
  "restorePawOwnedFiles env base w [] = (None, w)"
| "restorePawOwnedFiles env base w (f # fs) =
     (case resolveRestoreTargetPath base (restore_path f) of
        None \<Rightarrow> (Some (JsError (''Restore path '' @ restore_path f @ '' is outside the repository root.'')), w)
      | Some target \<Rightarrow>
          if hasSymlinkedAncestor env base target
          then (Some (JsError (''Restore path '' @ restore_path f
                  @ '' has a symlinked ancestor and cannot be restored safely.'')), w)
          else restorePawOwnedFiles env base
            (w(target := map_option (encodeUtf8 env) (restore_content f))) fs)"

definition checkpointSessionDir :: "string \<Rightarrow> string \<Rightarrow> string" where
  "checkpointSessionDir repo sid = pathJoin (pathJoin (pawDir (resolvePawProjectPaths repo)) ''checkpoints'') sid"

definition resolvePawCheckpointSessionDir :: "string \<Rightarrow> string \<Rightarrow> string throws" where
  "resolvePawCheckpointSessionDir repo sid =
     (case resolvePawCheckpointPaths repo sid ''placeholder'' of
        Inl e \<Rightarrow> Inl e | Inr p \<Rightarrow> Inr (checkpointSessionDir repo sid))"

text \<open>The loop over the directory entries, which rejects an entry that is no checkpoint name.\<close>

fun checkpointDirectories :: "dir_env \<Rightarrow> string \<Rightarrow> string \<Rightarrow> string list \<Rightarrow> string list throws" where
  "checkpointDirectories denv repo sid [] = Inr []"
| "checkpointDirectories denv repo sid (e # es) =
     (case resolvePawCheckpointPaths repo sid e of
        Inl x \<Rightarrow> Inl x
      | Inr p \<Rightarrow> (case checkpointDirectories denv repo sid es of
           Inl x \<Rightarrow> Inl x
         | Inr ds \<Rightarrow> Inr (if isDirectory denv (checkpointDir p) then e # ds else ds)))"

definition findLatestPawCheckpointName :: "dir_env \<Rightarrow> string \<Rightarrow> string \<Rightarrow> string option throws" where
  "findLatestPawCheckpointName denv repo sid =
     (case resolvePawCheckpointSessionDir repo sid of
        Inl e \<Rightarrow> Inl e
      | Inr dir \<Rightarrow> (case readdir denv dir of
           None \<Rightarrow> Inr None
         | Some es \<Rightarrow> (case checkpointDirectories denv repo sid es of
              Inl e \<Rightarrow> Inl e
            | Inr ds \<Rightarrow> Inr (if ds = [] then None else Some (last (sort_by (localeCompareBase denv) ds))))))"

definition relativeText :: "string \<Rightarrow> string \<Rightarrow> string" where
  "relativeText a b = join_with ''/'' (relativePath (resolvePath [] a) (resolvePath [] b))"

text \<open>The part of \<open>createPawRollbackCommandResult\<close> after the metadata and the state are read.\<close>

definition rollbackTo ::
  "snapshot_env \<Rightarrow> string \<Rightarrow> workspace \<Rightarrow> bool \<Rightarrow> rollback_inspection \<Rightarrow>
     PawRollbackCommandResult throws \<times> workspace" where
  "rollbackTo env repo w dry insp =
     (if dry then (Inr (RollbackDryRun insp), w)
      else
        let files = or_else (restore_files (rb_metadata insp)) [];
            base = resolvePath [] repo in
        if length files = 0 then
          (Inr (RollbackMissingRestoreMetadata insp
            ''Checkpoint metadata records changed paths and content hashes only; it does not contain restorable Paw-owned file snapshots.''
            getExternalSideEffectsNotReverted), w)
        else case findUnsafeRestoreReason env base w [] files of
          Some reason \<Rightarrow> (Inr (RollbackUnsafeRestore insp reason getExternalSideEffectsNotReverted), w)
        | None \<Rightarrow>
            (case restorePawOwnedFiles env base w files of
               (Some e, w') \<Rightarrow> (Inl e, w')
             | (None, w') \<Rightarrow>
                 (Inr (RollbackRestored insp (length files > 0)
                    (map restore_path (filter (\<lambda>f. restore_content f \<noteq> None) files))
                    (map restore_path (filter (\<lambda>f. restore_content f = None) files))
                    getExternalSideEffectsNotReverted), w')))"

definition createPawRollbackCommandResult ::
  "snapshot_env \<Rightarrow> dir_env \<Rightarrow> string \<Rightarrow> files \<Rightarrow> workspace \<Rightarrow> string \<Rightarrow> PawRollbackParsedInput \<Rightarrow>
     PawRollbackCommandResult throws \<times> workspace" where
  "createPawRollbackCommandResult env denv repo fs w sid inp =
     (let pp = resolvePawProjectPaths repo;
          paw = (let rel = relativeText (project_root pp) (pawDir pp) in if rel = [] then ''.paw'' else rel) in
      if \<not> isDirectory denv (pawDir pp) then (Inr (RollbackMissingProject paw), w)
      else case resolvePawSessionPaths repo sid of
        Inl e \<Rightarrow> (Inl e, w)
      | Inr sp \<Rightarrow>
          if fs (stateFile sp) = None
          then (Inr (RollbackMissingSession sid (relativeText (project_root pp) (stateFile sp))), w)
          else case (case rb_input_checkpoint inp of
                       Some n \<Rightarrow> Inr (Some n) | None \<Rightarrow> findLatestPawCheckpointName denv repo sid) of
            Inl e \<Rightarrow> (Inl e, w)
          | Inr None \<Rightarrow>
              (case resolvePawCheckpointSessionDir repo sid of
                 Inl e \<Rightarrow> (Inl e, w)
               | Inr dir \<Rightarrow> (Inr (RollbackNoCheckpoints sid (relativeText (project_root pp) dir)), w))
          | Inr (Some name) \<Rightarrow>
              (case resolvePawCheckpointPaths repo sid name of
                 Inl e \<Rightarrow> (Inl e, w)
               | Inr p \<Rightarrow>
                   let mfile = relativeText (project_root pp) (metadataFile p) in
                   if fs (metadataFile p) = None then (Inr (RollbackMissingCheckpoint sid name mfile), w)
                   else case readPawJson fs (metadataFile p) of
                     Inl e \<Rightarrow> (Inl e, w)
                   | Inr v \<Rightarrow>
                       (case validatePawCheckpointMetadata env v of
                          Invalid is \<Rightarrow> (Inr (RollbackInvalidCheckpoint sid name mfile is), w)
                        | Ok m \<Rightarrow>
                            (case readPawSessionState repo fs sid of
                               Inl e \<Rightarrow> (Inl e, w)
                             | Inr s \<Rightarrow> rollbackTo env repo w (dryRun inp)
                                 \<lparr>rb_sessionId = sid, rb_checkpointName = name, rb_metadataPath = mfile,
                                  rb_stateName = state_name s, rb_metadata = m\<rparr>))))"

section \<open>The metadata codec\<close>

definition checkpoint_path_ok :: "string \<Rightarrow> bool" where
  "checkpoint_path_ok p \<longleftrightarrow> p \<noteq> [] \<and> validateCheckpointFilePath p [] = []"

definition metadata_wf :: "snapshot_env \<Rightarrow> PawCheckpointMetadata \<Rightarrow> bool" where
  "metadata_wf env m \<longleftrightarrow> validSessionId (cp_session_id m) \<and> validCheckpointName (checkpoint_name m)
     \<and> (scope m = task_start \<longrightarrow> cp_slice_id m = None)
     \<and> (scope m = slice_scope \<longrightarrow> cp_slice_id m \<noteq> None \<and> cp_slice_id m \<noteq> Some [])
     \<and> created_at m \<noteq> [] \<and> parseDate env (created_at m) \<noteq> None \<and> base_tree m \<noteq> []
     \<and> (\<forall>f \<in> set (cp_changed_files m). checkpoint_path_ok (cp_path f))
     \<and> (\<forall>f \<in> set (or_else (restore_files m) []). checkpoint_path_ok (restore_path f)
          \<and> current_content_hash f \<noteq> Some [])"

lemma path_issues_anywhere: "validateCheckpointFilePath p a = [] \<longleftrightarrow> validateCheckpointFilePath p b = []"
  by (simp add: validateCheckpointFilePath_def)

lemma path_issues_Nil:
  "validateCheckpointFilePaths ps prefix = [] \<longleftrightarrow> (\<forall>p \<in> set ps. validateCheckpointFilePath p [] = [])"
proof -
  have "validateCheckpointFilePaths ps prefix = [] \<longleftrightarrow>
      (\<forall>e \<in> set (entries ps). validateCheckpointFilePath (snd e) [] = [])"
    using path_issues_anywhere [of _ _ "[]"]
    by (auto simp: validateCheckpointFilePaths_def split_beta)
  also have "\<dots> \<longleftrightarrow> (\<forall>p \<in> snd ` set (entries ps). validateCheckpointFilePath p [] = [])" by simp
  also have "snd ` set (entries ps) = set ps" by (metis list.set_map map_snd_entries)
  finally show ?thesis .
qed

lemma checkpoint_name_issues: "validateCheckpointName n = [] \<longleftrightarrow> validCheckpointName n"
  by (simp add: validateCheckpointName_def assertValidCheckpointName_def)

lemma checkpoint_session_ok: "assertValidCheckpointSessionId sid = Inr u \<longleftrightarrow> validSessionId sid"
  by (simp add: assertValidCheckpointSessionId_def resolvePawSessionPaths_def assertValidSessionId_def)

lemma checkpoint_session_issues: "validateCheckpointSessionId sid = [] \<longleftrightarrow> validSessionId sid"
  using checkpoint_session_ok [of sid] by (auto simp: validateCheckpointSessionId_def split: sum.splits)

lemma scope_issues:
  "validateScopeSliceId sc sl = [] \<longleftrightarrow> (sc = task_start \<longrightarrow> sl = None) \<and> (sc = slice_scope \<longrightarrow> sl \<noteq> None \<and> sl \<noteq> Some [])"
  by (auto simp: validateScopeSliceId_def)

lemma read_json_of_changed:
  "readChangedFile (i, json_of_changed f) = (f, if cp_path f = [] then
     [Issue (''/changed_files/'' @ show_nat i @ ''/path'') ''Expected non-empty string.''] else [])"
  by (cases f; cases "cp_content_hash f")
    (auto simp: readChangedFile_def json_of_changed_def readCheckpointRecord_def CHECKPOINT_CHANGED_FILE_KEYS_def
      readNonEmptyString_def readContentHash_def readNullableString_def json_get_def json_of_option_def Let_def)

lemma read_json_of_restorable:
  "fst (readRestorableFile (i, json_of_restorable f)) =
     f\<lparr>current_content_hash := (if current_content_hash f = Some [] then None else current_content_hash f)\<rparr>"
  "snd (readRestorableFile (i, json_of_restorable f)) = [] \<longleftrightarrow> restore_path f \<noteq> [] \<and> current_content_hash f \<noteq> Some []"
  by (cases f; cases "restore_content f"; cases "current_content_hash f";
      auto simp: readRestorableFile_def json_of_restorable_def readCheckpointRecord_def
      CHECKPOINT_RESTORABLE_FILE_KEYS_def readNonEmptyString_def readNullableContent_def readNullableString_def
      readNullableContentHash_def validatePawOwnedTrue_def json_get_def json_of_option_def Let_def)+

lemma map_entries: "map (\<lambda>e. g (snd e)) (entries xs) = map g xs"
proof -
  have "map (\<lambda>e. g (snd e)) (entries xs) = map g (map snd (entries xs))" by (simp del: map_snd_entries)
  then show ?thesis by (simp only: map_snd_entries)
qed

lemma entries_map: "entries (map h xs) = map (\<lambda>e. (fst e, h (snd e))) (entries xs)"
  by (simp add: entries_def zip_map2 split_beta)

lemma all_entries: "(\<forall>e \<in> set (entries xs). P (snd e)) \<longleftrightarrow> (\<forall>x \<in> set xs. P x)"
proof -
  have "snd ` set (entries xs) = set xs" by (metis list.set_map map_snd_entries)
  then show ?thesis by (metis image_iff)
qed

lemma read_changed_list:
  assumes "json_get rec ''changed_files'' = JArray (map json_of_changed fs)"
  shows "fst (readChangedFiles rec) = fs" "snd (readChangedFiles rec) = [] \<longleftrightarrow> (\<forall>f \<in> set fs. cp_path f \<noteq> [])"
proof -
  have "map (\<lambda>e. fst (readChangedFile (fst e, json_of_changed (snd e)))) (entries fs) = map snd (entries fs)"
    by (simp add: read_json_of_changed)
  then show "fst (readChangedFiles rec) = fs"
    by (simp add: readChangedFiles_def assms entries_map comp_def)
  show "snd (readChangedFiles rec) = [] \<longleftrightarrow> (\<forall>f \<in> set fs. cp_path f \<noteq> [])"
    using all_entries [of fs "\<lambda>f. cp_path f \<noteq> []"]
    by (auto simp: readChangedFiles_def assms entries_map comp_def read_json_of_changed)
qed

lemma read_restorable_list:
  assumes "json_get rec ''restore_files'' = JArray (map json_of_restorable fs)"
  shows "snd (readOptionalRestorableFiles rec) = [] \<longleftrightarrow>
      (\<forall>f \<in> set fs. restore_path f \<noteq> [] \<and> current_content_hash f \<noteq> Some [])"
    and "map_option (map restore_path) (fst (readOptionalRestorableFiles rec)) = Some (map restore_path fs)"
    and "snd (readOptionalRestorableFiles rec) = [] \<Longrightarrow> fst (readOptionalRestorableFiles rec) = Some fs"
proof -
  show iff: "snd (readOptionalRestorableFiles rec) = [] \<longleftrightarrow>
      (\<forall>f \<in> set fs. restore_path f \<noteq> [] \<and> current_content_hash f \<noteq> Some [])"
    using all_entries [of fs "\<lambda>f. restore_path f \<noteq> [] \<and> current_content_hash f \<noteq> Some []"]
    by (auto simp: readOptionalRestorableFiles_def assms entries_map comp_def read_json_of_restorable)
  have "map (\<lambda>e. restore_path (fst (readRestorableFile (fst e, json_of_restorable (snd e))))) (entries fs)
      = map (\<lambda>e. restore_path (snd e)) (entries fs)"
    by (simp add: read_json_of_restorable)
  then show "map_option (map restore_path) (fst (readOptionalRestorableFiles rec)) = Some (map restore_path fs)"
    by (simp add: readOptionalRestorableFiles_def assms entries_map comp_def map_entries)
  assume "snd (readOptionalRestorableFiles rec) = []"
  with iff have ok: "\<forall>e \<in> set (entries fs). current_content_hash (snd e) \<noteq> Some []"
    using all_entries [of fs "\<lambda>f. current_content_hash f \<noteq> Some []"] by auto
  have "map (\<lambda>e. fst (readRestorableFile (fst e, json_of_restorable (snd e)))) (entries fs) = map snd (entries fs)"
    using ok by (intro map_cong) (simp_all add: read_json_of_restorable)
  then show "fst (readOptionalRestorableFiles rec) = Some fs"
    by (simp add: readOptionalRestorableFiles_def assms entries_map comp_def)
qed

lemma find_scope: "find (\<lambda>a. scopeString a = scopeString sc) CHECKPOINT_SCOPES = Some sc"
  by (cases sc) (simp_all add: CHECKPOINT_SCOPES_def)

lemma metadata_get:
  fixes m :: PawCheckpointMetadata
  defines "rec \<equiv> (case json_of_metadata m of JObject r \<Rightarrow> r | _ \<Rightarrow> [])"
  shows "readCheckpointRecord (json_of_metadata m) [] CHECKPOINT_METADATA_KEYS = (rec, [])"
    and "json_get rec ''session_id'' = JString (cp_session_id m)"
    and "json_get rec ''checkpoint_name'' = JString (checkpoint_name m)"
    and "json_get rec ''scope'' = JString (scopeString (scope m))"
    and "json_get rec ''slice_id'' = json_of_option (cp_slice_id m)"
    and "json_get rec ''created_at'' = JString (created_at m)"
    and "json_get rec ''base_tree'' = JString (base_tree m)"
    and "json_get rec ''changed_files'' = JArray (map json_of_changed (cp_changed_files m))"
    and "json_get rec ''restore_files'' = (case restore_files m of None \<Rightarrow> JUndefined | Some fs \<Rightarrow> JArray (map json_of_restorable fs))"
    and "json_get rec ''notes'' = (case cp_notes m of None \<Rightarrow> JUndefined | Some n \<Rightarrow> JString n)"
  by (cases "restore_files m"; cases "cp_notes m";
      simp add: rec_def json_of_metadata_def readCheckpointRecord_def CHECKPOINT_METADATA_KEYS_def json_get_def)+

lemma read_non_empty:
  "json_get rec k = JString t \<Longrightarrow> \<exists>i. readNonEmptyString rec k prefix = (t, i) \<and> (i = [] \<longleftrightarrow> t \<noteq> [])"
  by (cases "t = []") (simp_all add: readNonEmptyString_def)

text \<open>Validating the document of metadata decides well-formedness and changes nothing.\<close>

lemma validate_metadata:
  "validatePawCheckpointMetadata env (json_of_metadata m) = Ok v \<longleftrightarrow> metadata_wf env m \<and> v = m"
proof -
  define rec where "rec = (case json_of_metadata m of JObject r \<Rightarrow> r | _ \<Rightarrow> [])"
  note get = metadata_get [of m, folded rec_def]
  obtain restore i8 where i8: "readOptionalRestorableFiles rec = (restore, i8)" by fastforce
  have paths: "map restore_path (or_else restore []) = map restore_path (or_else (restore_files m) [])"
    and restore: "i8 = [] \<Longrightarrow> restore = restore_files m"
    and i8_iff: "i8 = [] \<longleftrightarrow> (\<forall>f \<in> set (or_else (restore_files m) []). restore_path f \<noteq> [] \<and> current_content_hash f \<noteq> Some [])"
  proof (atomize (full), cases "restore_files m")
    case None
    with get(9) i8 show "map restore_path (or_else restore []) = map restore_path (or_else (restore_files m) [])
        \<and> (i8 = [] \<longrightarrow> restore = restore_files m)
        \<and> (i8 = []) = (\<forall>f \<in> set (or_else (restore_files m) []). restore_path f \<noteq> [] \<and> current_content_hash f \<noteq> Some [])"
      by (simp add: readOptionalRestorableFiles_def or_else_def)
  next
    case (Some fs)
    note r = read_restorable_list [of rec fs] get(9)
    from r i8 Some show "map restore_path (or_else restore []) = map restore_path (or_else (restore_files m) [])
        \<and> (i8 = [] \<longrightarrow> restore = restore_files m)
        \<and> (i8 = []) = (\<forall>f \<in> set (or_else (restore_files m) []). restore_path f \<noteq> [] \<and> current_content_hash f \<noteq> Some [])"
      by (auto simp: or_else_def split: option.splits)
  qed
  obtain i7 where i7: "readChangedFiles rec = (cp_changed_files m, i7)"
    and i7_iff: "i7 = [] \<longleftrightarrow> (\<forall>f \<in> set (cp_changed_files m). cp_path f \<noteq> [])"
    using read_changed_list [OF get(8)] by (metis surjective_pairing)
  obtain i1 i2 i6 where simple: "readNonEmptyString rec ''session_id'' [] = (cp_session_id m, i1)"
    "readNonEmptyString rec ''checkpoint_name'' [] = (checkpoint_name m, i2)"
    "readNonEmptyString rec ''base_tree'' [] = (base_tree m, i6)"
    and iff: "i1 = [] \<longleftrightarrow> cp_session_id m \<noteq> []" "i2 = [] \<longleftrightarrow> checkpoint_name m \<noteq> []" "i6 = [] \<longleftrightarrow> base_tree m \<noteq> []"
    using read_non_empty [OF get(2)] read_non_empty [OF get(3)] read_non_empty [OF get(7)] by metis
  have plain: "readCheckpointScope rec = (scope m, [])" "readNullableString rec ''slice_id'' [] = (cp_slice_id m, [])"
    "readOptionalString rec ''notes'' = (cp_notes m, [])"
    by (auto simp: readCheckpointScope_def readNullableString_def readOptionalString_def
        get find_scope json_of_option_def split: option.splits)
  obtain created i5 where i5: "readDateString env rec ''created_at'' = (created, i5)"
    and i5_iff: "i5 = [] \<longleftrightarrow> created_at m \<noteq> [] \<and> parseDate env (created_at m) \<noteq> None"
    and created: "i5 = [] \<Longrightarrow> created = created_at m"
    by (cases "created_at m \<noteq> [] \<and> parseDate env (created_at m) \<noteq> None") (auto simp: readDateString_def get)
  have "validatePawCheckpointMetadata env (json_of_metadata m) = Ok v \<longleftrightarrow>
      (i1 = [] \<and> i2 = [] \<and> i5 = [] \<and> i6 = [] \<and> i7 = [] \<and> i8 = []
       \<and> validateCheckpointSessionId (cp_session_id m) = [] \<and> validateCheckpointName (checkpoint_name m) = []
       \<and> validateScopeSliceId (scope m) (cp_slice_id m) = []
       \<and> validateCheckpointFilePaths (map cp_path (cp_changed_files m)) ''/changed_files'' = []
       \<and> validateCheckpointFilePaths (map restore_path (or_else (restore_files m) [])) ''/restore_files'' = [])
      \<and> v = m\<lparr>created_at := created, restore_files := restore\<rparr>"
    by (auto simp: validatePawCheckpointMetadata_def get(1) simple plain i5 i7 i8 paths Let_def)
  also have "\<dots> \<longleftrightarrow> metadata_wf env m \<and> v = m"
    using created restore
    by (auto simp: iff i5_iff i7_iff i8_iff path_issues_Nil checkpoint_name_issues checkpoint_session_issues
        scope_issues metadata_wf_def checkpoint_path_ok_def validSessionId_def validCheckpointName_def)
  finally show ?thesis .
qed

section \<open>Restore targets\<close>

lemma same_target_checks:
  "resolveRestoreTargetPath = resolveCheckpointTargetPath" "hasSymlinkedAncestor = hasSymlinkedCheckpointAncestor"
  by (auto simp: fun_eq_iff resolveRestoreTargetPath_def resolveCheckpointTargetPath_def
      hasSymlinkedAncestor_def hasSymlinkedCheckpointAncestor_def)

text \<open>A target is below the root: the comparison of path strings is one of segments.\<close>

lemma target_below:
  assumes "\<forall>s \<in> set base. plain_segment s" "resolveRestoreTargetPath base p = Some t"
  shows "t = resolvePath base p" "take (length base) t = base"
proof -
  show t: "t = resolvePath base p"
    using assms(2) by (auto simp: resolveRestoreTargetPath_def Let_def split: if_splits)
  have plain: "\<forall>s \<in> set t. plain_segment s" unfolding t by (rule resolvePath_plain [OF assms(1)])
  show "take (length base) t = base"
  proof (cases "t = base \<or> base = []")
    case False
    then obtain rest where rest: "pathString t = pathString base @ ''/'' @ rest" and base: "base \<noteq> []"
      using assms(2) t by (auto simp: resolveRestoreTargetPath_def Let_def starts_with_iff split: if_splits)
    then have eq: "join_with ''/'' t = join_with ''/'' base @ CHR ''/'' # rest"
      by (simp add: pathString_def)
    then have "t \<noteq> []" by (cases t) auto
    with plain have "t = split_on CHR ''/'' (join_with ''/'' base @ CHR ''/'' # rest)"
      unfolding eq [symmetric] by (subst split_join) (auto simp: plain_segment_def)
    also have "\<dots> = base @ split_on CHR ''/'' rest"
      unfolding split_on_append using assms(1) base
      by (subst split_join) (auto simp: plain_segment_def)
    finally show ?thesis by simp
  qed auto
qed

lemma symlinked_upwards_iff:
  assumes "take (length base) t = base"
  shows "symlinkedUpwards isLink base (rev t) \<longleftrightarrow> (\<exists>k. length base < k \<and> k \<le> length t \<and> isLink (take k t))"
  using assms
proof (induction "rev t" arbitrary: t)
  case Nil
  then show ?case by (simp add: symlinkedUpwards.simps)
next
  case (Cons s up)
  then have t: "t = rev up @ [s]" by (metis rev.simps(2) rev_rev_ident)
  show ?case
  proof (cases "t = base")
    case True
    then show ?thesis by (subst symlinkedUpwards.simps) simp
  next
    case False
    then have len: "length base < length t" using Cons.prems by (metis leI take_all)
    then have "take (length base) (rev up) = base" using Cons.prems t by simp
    note IH = Cons.hyps(1) [of "rev up", simplified, OF this]
    have "symlinkedUpwards isLink base (rev t) \<longleftrightarrow> isLink t \<or> symlinkedUpwards isLink base up"
      using False t by (subst symlinkedUpwards.simps) simp
    also have "\<dots> \<longleftrightarrow> (\<exists>k. length base < k \<and> k \<le> length t \<and> isLink (take k t))"
      unfolding IH using len t
      by (auto simp: le_Suc_eq dest: le_SucI)
    finally show ?thesis .
  qed
qed

section \<open>What a rollback does\<close>

text \<open>A file of the metadata may be restored to the workspace.\<close>

definition restorable ::
  "snapshot_env \<Rightarrow> path \<Rightarrow> workspace \<Rightarrow> PawCheckpointRestorableFile \<Rightarrow> bool" where
  "restorable env base w f \<longleftrightarrow> resolveRestoreTargetPath base (restore_path f) = Some (resolvePath base (restore_path f))
     \<and> \<not> hasSymlinkedAncestor env base (resolvePath base (restore_path f))
     \<and> readCurrentFileHash env w (resolvePath base (restore_path f)) = current_content_hash f"

lemma resolve_restore_Some: "resolveRestoreTargetPath base p = Some t \<Longrightarrow> t = resolvePath base p"
  by (auto simp: resolveRestoreTargetPath_def Let_def split: if_splits)

lemma safe_restore_iff:
  "findUnsafeRestoreReason env base w seen fs = None \<longleftrightarrow>
     (\<forall>f \<in> set fs. restorable env base w f) \<and> distinct (map restore_path fs)
     \<and> set (map restore_path fs) \<inter> set seen = {}"
  by (induction fs arbitrary: seen)
    (auto simp: restorable_def dest: resolve_restore_Some split: option.splits)

text \<open>What the files hold afterwards: the last declared content for a target, else the old content.\<close>

definition restored_content ::
  "snapshot_env \<Rightarrow> path \<Rightarrow> PawCheckpointRestorableFile list \<Rightarrow> workspace \<Rightarrow> workspace" where
  "restored_content env base fs w p =
     (case find (\<lambda>f. resolvePath base (restore_path f) = p) (rev fs) of
        None \<Rightarrow> w p
      | Some f \<Rightarrow> map_option (encodeUtf8 env) (restore_content f))"

lemma find_append: "find P (xs @ ys) = (case find P xs of None \<Rightarrow> find P ys | Some x \<Rightarrow> Some x)"
  by (induction xs) auto

lemma find_Some_in: "find P xs = Some x \<Longrightarrow> x \<in> set xs \<and> P x"
  by (induction xs) (auto split: if_splits)

lemma restore_all:
  assumes "\<forall>f \<in> set fs. resolveRestoreTargetPath base (restore_path f) = Some (resolvePath base (restore_path f))
     \<and> \<not> hasSymlinkedAncestor env base (resolvePath base (restore_path f))"
  shows "restorePawOwnedFiles env base w fs = (None, restored_content env base fs w)"
  using assms
proof (induction fs arbitrary: w)
  case Nil
  then show ?case by (simp add: restored_content_def fun_eq_iff)
next
  case (Cons f fs)
  let ?w = "w(resolvePath base (restore_path f) := map_option (encodeUtf8 env) (restore_content f))"
  have "restored_content env base fs ?w = restored_content env base (f # fs) w"
    by (auto simp: restored_content_def fun_eq_iff find_append split: option.splits)
  with Cons show ?case by simp
qed

lemma rollbackTo_cases:
  assumes "rollbackTo env repo w dry insp = (res, w')"
  defines "fs \<equiv> or_else (restore_files (rb_metadata insp)) []" and "base \<equiv> resolvePath [] repo"
  shows "(w' = w \<and> (\<exists>r. res = Inr r \<and> (\<forall>i b x y z. r \<noteq> RollbackRestored i b x y z)))
    \<or> (\<not> dry \<and> fs \<noteq> [] \<and> (\<forall>f \<in> set fs. restorable env base w f) \<and> distinct (map restore_path fs)
        \<and> w' = restored_content env base fs w
        \<and> res = Inr (RollbackRestored insp True (map restore_path (filter (\<lambda>f. restore_content f \<noteq> None) fs))
            (map restore_path (filter (\<lambda>f. restore_content f = None) fs)) getExternalSideEffectsNotReverted))"
proof (cases "\<not> dry \<and> fs \<noteq> [] \<and> findUnsafeRestoreReason env base w [] fs = None")
  case True
  then have "\<forall>f \<in> set fs. restorable env base w f" "distinct (map restore_path fs)"
    by (simp_all add: safe_restore_iff)
  moreover from this(1) have "restorePawOwnedFiles env base w fs = (None, restored_content env base fs w)"
    by (intro restore_all) (simp add: restorable_def)
  ultimately show ?thesis
    using True assms(1) by (auto simp: rollbackTo_def fs_def [symmetric] base_def [symmetric] Let_def)
next
  case False
  with assms(1) show ?thesis
    by (auto simp: rollbackTo_def fs_def [symmetric] base_def [symmetric] Let_def split: if_splits option.splits)
qed

lemma rollback_reaches:
  assumes "createPawRollbackCommandResult env denv repo fs w sid inp = (res, w')"
  shows "(w' = w \<and> (\<forall>i b x y z. res \<noteq> Inr (RollbackRestored i b x y z)))
    \<or> (\<exists>p name v m s mfile. resolvePawCheckpointPaths repo sid name = Inr p
        \<and> (\<forall>n. rb_input_checkpoint inp = Some n \<longrightarrow> name = n)
        \<and> readPawJson fs (metadataFile p) = Inr v \<and> validatePawCheckpointMetadata env v = Ok m
        \<and> readPawSessionState repo fs sid = Inr s
        \<and> rollbackTo env repo w (dryRun inp)
            \<lparr>rb_sessionId = sid, rb_checkpointName = name, rb_metadataPath = mfile,
             rb_stateName = state_name s, rb_metadata = m\<rparr> = (res, w'))"
  using assms unfolding createPawRollbackCommandResult_def Let_def
  by (auto split: if_splits sum.splits option.splits PawValidationResult.splits)

section \<open>What a snapshot holds\<close>

definition captures :: "snapshot_env \<Rightarrow> path \<Rightarrow> workspace \<Rightarrow> PawCheckpointRestorableFile \<Rightarrow> bool" where
  "captures env base w f \<longleftrightarrow> (case w (resolvePath base (restore_path f)) of
     None \<Rightarrow> restore_content f = None \<and> current_content_hash f = None
   | Some b \<Rightarrow> restore_content f \<noteq> None \<and> decodeUtf8 env b = restore_content f
       \<and> current_content_hash f = Some (''sha256:'' @ snap_sha256 env b))"

lemma snapshot_current:
  assumes "readCheckpointCurrentContent env w (resolvePath base p) = Inr (c, h)"
  shows "captures env base w \<lparr>restore_path = p, restore_content = c, current_content_hash = h\<rparr>"
proof (cases "w (resolvePath base p)")
  case None
  with assms show ?thesis by (simp add: readCheckpointCurrentContent_def captures_def)
next
  case (Some b)
  with assms obtain t where "decodeUtf8 env b = Some t" "c = Some t" "h = Some (''sha256:'' @ snap_sha256 env b)"
    by (cases "decodeUtf8 env b")
      (auto simp: readCheckpointCurrentContent_def decodeCheckpointContent_def hashCheckpointContent_def)
  with Some show ?thesis by (simp add: captures_def)
qed

lemma snapshot_files:
  "snapshotFiles env base w seen files = Inr snaps \<Longrightarrow>
     map restore_path snaps = map snd files \<and> (\<forall>f \<in> set snaps. captures env base w f)"
proof (induction files arbitrary: seen snaps)
  case (Cons e files)
  obtain i p where e: "e = (i, p)" by (cases e)
  from Cons.prems obtain c h rest where t: "resolveCheckpointTargetPath base p = Some (resolvePath base p)"
    and cur: "readCheckpointCurrentContent env w (resolvePath base p) = Inr (c, h)"
    and rest: "snapshotFiles env base w (p # seen) files = Inr rest"
    and snaps: "snaps = \<lparr>restore_path = p, restore_content = c, current_content_hash = h\<rparr> # rest"
    unfolding e by (auto simp: same_target_checks [symmetric] dest: resolve_restore_Some
        split: if_splits option.splits sum.splits)
  from Cons.IH [OF rest] snapshot_current [OF cur] show ?case by (simp add: snaps e)
qed simp

lemma captured_files:
  assumes "createPawRestorableFileSnapshots env repo w paths = Inr snaps"
  shows "map restore_path snaps = paths" "\<forall>f \<in> set snaps. captures env (resolvePath [] repo) w f"
  using assms snapshot_files [of env "resolvePath [] repo" w "[]" "entries paths" snaps]
  by (auto simp: createPawRestorableFileSnapshots_def Let_def split: if_splits)

text \<open>A captured file may only be restored where its hash has not changed.\<close>

lemma captured_restorable:
  assumes "captures env base w0 f" "restorable env base w f"
  shows "readCurrentFileHash env w (resolvePath base (restore_path f))
       = readCurrentFileHash env w0 (resolvePath base (restore_path f))"
  using assms by (auto simp: captures_def restorable_def readCurrentFileHash_def split: option.splits)

section \<open>Checkpoint names\<close>

lemma lower_is_alnum: "is_lower_alnum c \<Longrightarrow> is_alnum c"
  by (auto simp: is_lower_alnum_def is_alnum_def Let_def)

lemma dash_runs_chars: "\<forall>c \<in> set (dash_runs b s). is_lower_alnum c \<or> c = CHR ''-''"
  by (induction b s rule: dash_runs.induct) auto

lemma trim_dashes_sub: "set (trim_dashes s) \<subseteq> set s"
  by (auto simp: trim_dashes_def dest!: set_dropWhileD)

lemma trim_dashes_ends:
  assumes "\<forall>c \<in> set s. is_lower_alnum c \<or> c = CHR ''-''" "trim_dashes s \<noteq> []"
  shows "is_lower_alnum (hd (trim_dashes s))" "is_lower_alnum (last (trim_dashes s))"
proof -
  define u where "u = dropWhile (\<lambda>c. c = CHR ''-'') s"
  define v where "v = dropWhile (\<lambda>c. c = CHR ''-'') (rev u)"
  have tv: "trim_dashes s = rev v" by (simp add: trim_dashes_def u_def v_def)
  with assms(2) have v: "v \<noteq> []" by simp
  have "hd v \<noteq> CHR ''-''" using v unfolding v_def by (rule hd_dropWhile)
  moreover have "hd v \<in> set s"
    using v by (metis hd_in_set set_dropWhileD set_rev u_def v_def)
  ultimately show "is_lower_alnum (last (trim_dashes s))"
    using assms(1) v by (auto simp: tv last_rev)
  have "u \<noteq> []" using v by (auto simp: v_def)
  then have hu: "hd u \<noteq> CHR ''-''" unfolding u_def by (rule hd_dropWhile)
  obtain pre where pre: "rev u = pre @ v" by (metis takeWhile_dropWhile_id v_def)
  then have "u = rev v @ rev pre" by (metis rev_append rev_rev_ident)
  with v have "hd (rev v) = hd u" by simp
  moreover have "hd u \<in> set s" using \<open>u \<noteq> []\<close> by (metis hd_in_set set_dropWhileD u_def)
  ultimately show "is_lower_alnum (hd (trim_dashes s))" using assms(1) hu tv by auto
qed

definition name_segment :: "string \<Rightarrow> bool" where
  "name_segment s \<longleftrightarrow> s \<noteq> [] \<and> is_alnum (hd s) \<and> is_alnum (last s) \<and> (\<forall>c \<in> set s. is_alnum c \<or> c = CHR ''-'')"

lemma valid_name_segment: "validCheckpointName n \<longleftrightarrow> name_segment n"
  by (auto simp: validCheckpointName_def name_segment_def list_all_iff)

lemma name_segments_join: "name_segment a \<Longrightarrow> name_segment b \<Longrightarrow> name_segment (a @ ''-'' @ b)"
  by (auto simp: name_segment_def)

lemma sanitized_segment: "name_segment (sanitizeCheckpointSegment v ''task'' n)"
proof -
  define t where "t = take n (trim_dashes (dash_runs False (map lower_char v)))"
  have chars: "\<forall>c \<in> set t. is_lower_alnum c \<or> c = CHR ''-''"
    using dash_runs_chars trim_dashes_sub unfolding t_def by (meson in_set_takeD subsetD)
  show ?thesis
  proof (cases "trim_dashes t = []")
    case True
    then show ?thesis
      by (simp add: sanitizeCheckpointSegment_def t_def [symmetric] name_segment_def is_alnum_def)
  next
    case False
    moreover have "\<forall>c \<in> set (trim_dashes t). is_alnum c \<or> c = CHR ''-''"
      using chars trim_dashes_sub [of t] lower_is_alnum by blast
    ultimately show ?thesis
      using trim_dashes_ends [OF chars]
      by (auto simp: sanitizeCheckpointSegment_def t_def [symmetric] name_segment_def lower_is_alnum Let_def)
  qed
qed

lemma sanitized_short: "sanitizeCheckpointShortId v = Inr s \<Longrightarrow> name_segment s"
proof -
  assume "sanitizeCheckpointShortId v = Inr s"
  then have "s = filter is_lower_alnum (map lower_char v)" "s \<noteq> []"
    by (auto simp: sanitizeCheckpointShortId_def Let_def split: if_splits)
  then have "s \<noteq> []" "\<forall>c \<in> set s. is_lower_alnum c" by auto
  then show ?thesis using lower_is_alnum by (auto simp: name_segment_def)
qed

text \<open>The digits of the dates \<open>toISOString\<close> prints without a sign, from year 0 to 9999.\<close>

definition plain_iso :: "string \<Rightarrow> bool" where
  "plain_iso s \<longleftrightarrow> 19 \<le> length s \<and> (\<forall>i \<in> {0, 1, 2, 3, 5, 6, 8, 9, 11, 12, 14, 15, 17, 18}. is_alnum (s ! i))"

lemma slice_chars:
  assumes "c \<in> set (js_slice s a b)"
  shows "\<exists>i. a \<le> i \<and> i < b \<and> i < length s \<and> c = s ! i"
proof -
  from assms obtain j where j: "j < length (take (b - a) (drop a s))" "c = take (b - a) (drop a s) ! j"
    by (auto simp: js_slice_def in_set_conv_nth)
  then have "a \<le> length s" by auto
  with j have "c = s ! (a + j)" by simp
  moreover have "a + j < b" "a + j < length s" using j(1) by auto
  ultimately show ?thesis by (intro exI [where x = "a + j"]) simp
qed

section \<open>Properties\<close>

text \<open>
  (C28) Rolling back restores exactly what the checkpoint declares. A rollback that reports
  restored files wrote, for every path of the repository, the last content the validated
  metadata declares for it (or removed the file) and left every other path alone; every
  restored path lies below the repository root without a symbolic link on the way, is no
  declared secret, and held the content the checkpoint's safety hash names. Every other
  outcome, also a thrown error, leaves all files as they were.
\<close>

theorem rollback_exact:
  assumes "createPawRollbackCommandResult env denv repo fs w sid inp = (res, w')"
  shows "case res of
      Inr (RollbackRestored insp changed restored deleted ext) \<Rightarrow>
        let files = or_else (restore_files (rb_metadata insp)) []; base = resolvePath [] repo in
        \<not> dryRun inp \<and> w' = restored_content env base files w
        \<and> restored = map restore_path (filter (\<lambda>f. restore_content f \<noteq> None) files)
        \<and> deleted = map restore_path (filter (\<lambda>f. restore_content f = None) files)
        \<and> (\<forall>f \<in> set files. let t = resolvePath base (restore_path f) in
             take (length base) t = base \<and> (\<forall>k. length base < k \<and> k \<le> length t \<longrightarrow> \<not> isSymlink env (take k t))
             \<and> readCurrentFileHash env w t = current_content_hash f)
    | _ \<Rightarrow> w' = w"
proof -
  have plain: "\<forall>s \<in> set (resolvePath [] repo). plain_segment s" by (rule resolvePath_plain) simp
  have good: "take (length base) t = base \<and> (\<forall>k. length base < k \<and> k \<le> length t \<longrightarrow> \<not> isSymlink env (take k t))
      \<and> readCurrentFileHash env w t = current_content_hash f"
    if "restorable env base w f" "base = resolvePath [] repo" "t = resolvePath base (restore_path f)" for f base t
  proof -
    have below: "take (length base) t = base"
      using target_below(2) [of base "restore_path f" t] that plain by (simp add: restorable_def)
    with that show ?thesis
      using symlinked_upwards_iff [OF below, of "isSymlink env"] by (auto simp: restorable_def hasSymlinkedAncestor_def)
  qed
  from rollback_reaches [OF assms] consider
      "w' = w" "\<forall>i b x y z. res \<noteq> Inr (RollbackRestored i b x y z)"
    | insp where "rollbackTo env repo w (dryRun inp) insp = (res, w')" by blast
  then show ?thesis
  proof cases
    case 1
    then show ?thesis by (auto split: sum.splits PawRollbackCommandResult.splits)
  next
    case 2
    from rollbackTo_cases [OF 2] show ?thesis
      by (auto simp: Let_def good split: sum.splits PawRollbackCommandResult.splits)
  qed
qed

text \<open>
  The checkpoint metadata store is faithful: writing succeeds exactly for well-formed
  metadata of a valid session and name, and what was written is read back unchanged.
\<close>

theorem checkpoint_metadata_roundtrip:
  "if metadata_wf env m
   then let p = checkpointPaths repo (cp_session_id m) (checkpoint_name m);
            fs' = fs(metadataFile p \<mapsto> JsonText (json_of_metadata m))
        in writePawCheckpointMetadata env repo fs m = Inr (p, fs')
          \<and> readPawCheckpointMetadata env repo fs' (cp_session_id m) (checkpoint_name m) = Inr m
   else \<exists>e. writePawCheckpointMetadata env repo fs m = Inl e"
proof (cases "metadata_wf env m")
  case True
  then have "resolvePawCheckpointPaths repo (cp_session_id m) (checkpoint_name m)
      = Inr (checkpointPaths repo (cp_session_id m) (checkpoint_name m))"
    using checkpoint_session_ok [of "cp_session_id m" "()"]
    by (simp add: resolvePawCheckpointPaths_def assertValidCheckpointName_def metadata_wf_def)
  moreover have "validatePawCheckpointMetadata env (json_of_metadata m) = Ok m"
    using True by (simp add: validate_metadata)
  ultimately show ?thesis
    using True by (simp add: writePawCheckpointMetadata_def readPawCheckpointMetadata_def writePawJsonAtomic_def
        readPawJson_def Let_def)
next
  case False
  then show ?thesis
    by (cases "validatePawCheckpointMetadata env (json_of_metadata m)")
      (simp_all add: writePawCheckpointMetadata_def validate_metadata)
qed

text \<open>The checkpoint of a slice with captured files, as it was written.\<close>

lemma prepared_checkpoint:
  assumes "preparePawSliceCheckpoint penv env repo fs w sid inp opts = Inr (CheckpointPrepared m p s l, fs')"
    and "restoreFiles inp = None" "captureRestoreFiles inp"
  shows "fs' (metadataFile p) = Some (JsonText (json_of_metadata m))"
    and "validatePawCheckpointMetadata env (json_of_metadata m) = Ok m"
    and "resolvePawCheckpointPaths repo sid (checkpoint_name m) = Inr p"
    and "\<exists>snaps. restore_files m = Some snaps
      \<and> createPawRestorableFileSnapshots env repo w (map cp_path (changedFiles inp)) = Inr snaps"
proof -
  have captured: "map_sum id Some x = Inr y \<longleftrightarrow> (\<exists>z. x = Inr z \<and> y = Some z)"
    for x :: "PawCheckpointRestorableFile list throws" and y by (cases x) auto
  from assms obtain snaps where w: "writePawCheckpointMetadata env repo fs m = Inr (p, fs')"
    and snaps: "restore_files m = Some snaps"
      "createPawRestorableFileSnapshots env repo w (map cp_path (changedFiles inp)) = Inr snaps"
    and sid: "cp_session_id m = sid"
    by (auto simp: preparePawSliceCheckpoint_def Let_def captured split: sum.splits option.splits if_splits)
  from w obtain v where v: "validatePawCheckpointMetadata env (json_of_metadata m) = Ok v"
    "resolvePawCheckpointPaths repo (cp_session_id v) (checkpoint_name v) = Inr p"
    "fs' = writePawJsonAtomic fs (metadataFile p) (json_of_metadata v)"
    by (auto simp: writePawCheckpointMetadata_def split: PawValidationResult.splits sum.splits)
  from v(1) have m: "v = m" by (simp add: validate_metadata)
  show "fs' (metadataFile p) = Some (JsonText (json_of_metadata m))"
    "validatePawCheckpointMetadata env (json_of_metadata m) = Ok m"
    "resolvePawCheckpointPaths repo sid (checkpoint_name m) = Inr p"
    using v by (simp_all add: m sid writePawJsonAtomic_def)
  show "\<exists>snaps. restore_files m = Some snaps
      \<and> createPawRestorableFileSnapshots env repo w (map cp_path (changedFiles inp)) = Inr snaps"
    using snaps by blast
qed

lemma captured_restore_noop:
  assumes "\<forall>f \<in> set fs. captures env base w0 f \<and> restorable env base w f"
    and "\<forall>q. readCurrentFileHash env w q = readCurrentFileHash env w0 q \<longrightarrow> w q = w0 q"
    and "\<forall>q b t. w0 q = Some b \<and> decodeUtf8 env b = Some t \<longrightarrow> encodeUtf8 env t = b"
  shows "restored_content env base fs w = w"
proof
  fix q
  show "restored_content env base fs w q = w q"
  proof (cases "find (\<lambda>f. resolvePath base (restore_path f) = q) (rev fs)")
    case None
    then show ?thesis by (simp add: restored_content_def)
  next
    case (Some f)
    then have f: "f \<in> set fs" and q: "resolvePath base (restore_path f) = q"
      by (auto dest: find_Some_in)
    from f assms(1) have c: "captures env base w0 f" "restorable env base w f" by auto
    from captured_restorable [OF c] q assms(2) have same: "w q = w0 q" by auto
    show ?thesis
    proof (cases "w0 q")
      case None
      with c(1) q have "restore_content f = None" by (simp add: captures_def)
      with None same Some show ?thesis by (simp add: restored_content_def)
    next
      case b: (Some b)
      with c(1) q obtain t where "restore_content f = Some t" "decodeUtf8 env b = Some t"
        by (auto simp: captures_def)
      with b same Some assms(3) show ?thesis by (simp add: restored_content_def)
    qed
  qed
qed


lemma timestamp_segment:
  assumes "formatCheckpointTimestamp env d = Inr ts" "\<And>ms. dateValue env d = Some ms \<Longrightarrow> plain_iso (isoDate env ms)"
  shows "name_segment ts"
proof -
  from assms obtain iso where iso: "plain_iso iso" and ts: "ts = js_slice iso 0 4 @ js_slice iso 5 7 @ js_slice iso 8 10
      @ ''T'' @ js_slice iso 11 13 @ js_slice iso 14 16 @ js_slice iso 17 19 @ ''Z''"
    by (auto simp: formatCheckpointTimestamp_def Let_def split: option.splits)
  have chars: "is_alnum c" if "c \<in> set (js_slice iso a b)"
    "{a..<b} \<subseteq> {0, 1, 2, 3, 5, 6, 8, 9, 11, 12, 14, 15, 17, 18}" for a b c
    using slice_chars [OF that(1)] that(2) iso unfolding plain_iso_def by (meson atLeastLessThan_iff subsetD)
  have parts: "{0..<4} \<subseteq> {0, 1, 2, 3, 5, 6, 8, 9, 11, 12, 14, 15, 17, 18 :: nat}"
    "{5..<7} \<subseteq> {0, 1, 2, 3, 5, 6, 8, 9, 11, 12, 14, 15, 17, 18 :: nat}"
    "{8..<10} \<subseteq> {0, 1, 2, 3, 5, 6, 8, 9, 11, 12, 14, 15, 17, 18 :: nat}"
    "{11..<13} \<subseteq> {0, 1, 2, 3, 5, 6, 8, 9, 11, 12, 14, 15, 17, 18 :: nat}"
    "{14..<16} \<subseteq> {0, 1, 2, 3, 5, 6, 8, 9, 11, 12, 14, 15, 17, 18 :: nat}"
    "{17..<19} \<subseteq> {0, 1, 2, 3, 5, 6, 8, 9, 11, 12, 14, 15, 17, 18 :: nat}"
    by (auto simp: subset_iff)
  have letters: "is_alnum CHR ''T''" "is_alnum CHR ''Z''" by (simp_all add: is_alnum_def)
  have all: "\<forall>c \<in> set ts. is_alnum c"
    unfolding ts using letters chars [OF _ parts(1)] chars [OF _ parts(2)] chars [OF _ parts(3)]
      chars [OF _ parts(4)] chars [OF _ parts(5)] chars [OF _ parts(6)] by auto
  have ne: "ts \<noteq> []" by (simp add: ts)
  with all show ?thesis using hd_in_set [OF ne] last_in_set [OF ne] by (simp add: name_segment_def)
qed

lemma created_name_valid:
  assumes "createPawCheckpointName env d sl short = Inr n" "\<And>ms. dateValue env d = Some ms \<Longrightarrow> plain_iso (isoDate env ms)"
  shows "validCheckpointName n"
proof -
  from assms(1) obtain ts sh where "formatCheckpointTimestamp env d = Inr ts" "sanitizeCheckpointShortId short = Inr sh"
    and n: "n = ts @ ''-'' @ sanitizeCheckpointSegment (or_else sl '''') ''task'' MAX_CHECKPOINT_SEGMENT_LENGTH @ ''-'' @ sh"
    by (auto simp: createPawCheckpointName_def Let_def split: sum.splits)
  then show ?thesis
    unfolding valid_name_segment n
    by (intro name_segments_join timestamp_segment [OF _ assms(2)] sanitized_segment sanitized_short)
qed

text \<open>
  A selected slice gets its checkpoint: for the holder of the live lock of a session in
  \<open>SLICE_SELECT\<close> with a current slice, a valid date of the years 0 to 9999, a short id with a
  letter or digit, a base tree and files that can be snapshotted, the checkpoint is written
  under a valid name, whatever the slice id looks like, and is read back as it was prepared.
  The session itself does not change.
\<close>

theorem slice_checkpoint_prepared:
  assumes "holds_live_lock penv repo fs sid opts l" "readPawSessionState repo fs sid = Inr s"
    and "state_name s = Member (Active SLICE_SELECT)" "current_slice_id s = Some slice"
    and "restoreFiles inp = None" "captureRestoreFiles inp" "baseTree inp \<noteq> []"
    and "dateValue env (checkpoint_timestamp inp) = Some ms" "plain_iso (isoDate env ms)"
    and "parseDate env (isoDate env ms) \<noteq> None"
    and "sanitizeCheckpointShortId (shortId inp) = Inr short"
    and "\<forall>f \<in> set (changedFiles inp). cp_path f \<noteq> []"
    and "createPawRestorableFileSnapshots env repo w (map cp_path (changedFiles inp)) = Inr snaps"
  shows "\<exists>m p fs'. preparePawSliceCheckpoint penv env repo fs w sid inp opts = Inr (CheckpointPrepared m p s l, fs')
    \<and> cp_slice_id m = Some slice \<and> restore_files m = Some snaps \<and> cp_changed_files m = changedFiles inp
    \<and> readPawCheckpointMetadata env repo fs' sid (checkpoint_name m) = Inr m
    \<and> (\<forall>q. q \<noteq> metadataFile p \<longrightarrow> fs' q = fs q)"
proof -
  have v: "validSessionId sid" using assms(1) by (simp add: holds_live_lock_def)
  have "session_wf s" by (rule read_wf [OF assms(2)])
  then have "slice \<noteq> []" using assms(4) by (auto simp: session_wf_def plan_order_def)
  obtain name where name: "createPawCheckpointName env (checkpoint_timestamp inp) (Some slice) (shortId inp) = Inr name"
    using assms(8,11) by (simp add: createPawCheckpointName_def formatCheckpointTimestamp_def Let_def)
  have valid: "validCheckpointName name"
    using created_name_valid [OF name] assms(8,9) by simp
  define m where "m = \<lparr>cp_session_id = sid, checkpoint_name = name, scope = slice_scope,
      cp_slice_id = Some slice, created_at = isoDate env ms, base_tree = baseTree inp,
      cp_changed_files = changedFiles inp, restore_files = Some snaps, cp_notes = input_notes inp\<rparr>"
  have iss: "validateCheckpointFilePaths (map cp_path (changedFiles inp)) ''/changed_files'' = []"
    using assms(13) by (auto simp: createPawRestorableFileSnapshots_def Let_def split: if_splits)
  then have paths: "\<forall>f \<in> set (changedFiles inp). checkpoint_path_ok (cp_path f)"
    using assms(12) by (auto simp: path_issues_Nil checkpoint_path_ok_def)
  note cap = captured_files [OF assms(13)]
  have snap_ok: "\<forall>f \<in> set snaps. checkpoint_path_ok (restore_path f) \<and> current_content_hash f \<noteq> Some []"
  proof (intro ballI conjI)
    fix f assume f: "f \<in> set snaps"
    then have "restore_path f \<in> set (map cp_path (changedFiles inp))" unfolding cap(1) [symmetric] by simp
    with paths show "checkpoint_path_ok (restore_path f)" by auto
    from cap(2) f show "current_content_hash f \<noteq> Some []" by (auto simp: captures_def split: option.splits)
  qed
  have "isoDate env ms \<noteq> []" using assms(9) by (auto simp: plain_iso_def)
  with v valid \<open>slice \<noteq> []\<close> assms(7,10) paths snap_ok have wf: "metadata_wf env m"
    by (simp add: metadata_wf_def m_def or_else_def)
  define p where "p = checkpointPaths repo sid name"
  have res: "resolvePawCheckpointPaths repo sid name = Inr p"
    using checkpoint_session_ok [of sid "()"] v valid
    by (simp add: resolvePawCheckpointPaths_def assertValidCheckpointName_def p_def)
  have val: "validatePawCheckpointMetadata env (json_of_metadata m) = Ok m" using wf by (simp add: validate_metadata)
  define fs' where "fs' = writePawJsonAtomic fs (metadataFile p) (json_of_metadata m)"
  have written: "writePawCheckpointMetadata env repo fs m = Inr (p, fs')"
    using val res by (simp add: writePawCheckpointMetadata_def m_def fs'_def)
  have created: "toCheckpointCreatedAt env (checkpoint_timestamp inp) = isoDate env ms"
    using assms(8) by (simp add: toCheckpointCreatedAt_def)
  have "enterLockedSession penv repo fs sid opts = Inr (Inr (l, s))"
    using assms(1,2) by (simp add: enterLocked_iff)
  then have "preparePawSliceCheckpoint penv env repo fs w sid inp opts = Inr (CheckpointPrepared m p s l, fs')"
    using assms(3,4,5,6,13) name written created by (simp add: preparePawSliceCheckpoint_def m_def)
  moreover have "readPawCheckpointMetadata env repo fs' sid name = Inr m"
    using res val by (simp add: readPawCheckpointMetadata_def fs'_def writePawJsonAtomic_def readPawJson_def)
  ultimately show ?thesis
    by (intro exI [where x = m] exI [where x = p] exI [where x = fs'])
      (simp add: m_def fs'_def writePawJsonAtomic_def)
qed

section \<open>Witnesses\<close>

definition sample_snapshot_env :: snapshot_env where
  "sample_snapshot_env = \<lparr>snap_sha256 = (\<lambda>b. b), decodeUtf8 = Some, encodeUtf8 = (\<lambda>t. t),
     isSymlink = (\<lambda>p. False), parseDate = (\<lambda>s. Some 0), isoDate = (\<lambda>ms. ''2026-01-01T00:00:00.000Z'')\<rparr>"

definition sample_dir_env :: dir_env where
  "sample_dir_env = \<lparr>isDirectory = (\<lambda>p. True), readdir = (\<lambda>p. None), localeCompareBase = (\<lambda>a b. 0)\<rparr>"

definition sample_checkpoint_input :: PawSliceCheckpointInput where
  "sample_checkpoint_input = \<lparr>baseTree = ''tree'', changedFiles = [\<lparr>cp_path = ''src/a.ts'', cp_content_hash = None\<rparr>],
     restoreFiles = None, captureRestoreFiles = True, shortId = ''ab1'', checkpoint_timestamp = DateObject (Some 0),
     input_notes = None\<rparr>"

definition selected_session :: PawSessionState where
  "selected_session = sample_session (Active SLICE_SELECT) (Some ''a'') [] []"

definition sample_workspace :: "string \<Rightarrow> workspace" where
  "sample_workspace t = [[''repo'', ''src'', ''a.ts''] \<mapsto> t]"

definition sample_snaps :: "PawCheckpointRestorableFile list" where
  "sample_snaps = [\<lparr>restore_path = ''src/a.ts'', restore_content = Some ''old'', current_content_hash = Some ''sha256:old''\<rparr>]"

lemma sample_captured:
  "createPawRestorableFileSnapshots sample_snapshot_env ''/repo'' (sample_workspace ''old'')
     (map cp_path (changedFiles sample_checkpoint_input)) = Inr sample_snaps"
  by code_simp

lemma selected_read: "readPawSessionState ''/repo'' (sample_store selected_session) ''s1'' = Inr selected_session"
proof (rule sample_store_read)
  show "session_wf selected_session" unfolding sessionStateIssues_Nil [symmetric] by code_simp
qed

theorem slice_checkpoint_prepared_witness:
  "\<exists>m p fs'. preparePawSliceCheckpoint (sample_env 7) sample_snapshot_env ''/repo'' (sample_store selected_session)
       (sample_workspace ''old'') ''s1'' sample_checkpoint_input no_options
     = Inr (CheckpointPrepared m p selected_session (nextLock (sample_env 7) no_options), fs')
     \<and> restore_files m = Some sample_snaps"
proof -
  have "state_name selected_session = Member (Active SLICE_SELECT)" "current_slice_id selected_session = Some ''a''"
    by (simp_all add: selected_session_def sample_session_def)
  moreover have "restoreFiles sample_checkpoint_input = None" "captureRestoreFiles sample_checkpoint_input"
    "baseTree sample_checkpoint_input \<noteq> []" "\<forall>f \<in> set (changedFiles sample_checkpoint_input). cp_path f \<noteq> []"
    "dateValue sample_snapshot_env (checkpoint_timestamp sample_checkpoint_input) = Some 0"
    "parseDate sample_snapshot_env (isoDate sample_snapshot_env 0) \<noteq> None"
    by (simp_all add: sample_checkpoint_input_def sample_snapshot_env_def dateValue_def)
  moreover have "plain_iso (isoDate sample_snapshot_env 0)"
    "sanitizeCheckpointShortId (shortId sample_checkpoint_input) = Inr ''ab1''" by code_simp+
  ultimately show ?thesis
    using slice_checkpoint_prepared [OF sample_store_locked selected_read _ _ _ _ _ _ _ _ _ _ sample_captured] by blast
qed

definition sample_metadata :: "PawCheckpointRestorableFile list \<Rightarrow> PawCheckpointMetadata" where
  "sample_metadata rs = \<lparr>cp_session_id = ''s1'', checkpoint_name = ''20260101T000000Z-a-ab1'', scope = slice_scope,
     cp_slice_id = Some ''a'', created_at = ''2026-01-01T00:00:00.000Z'', base_tree = ''tree'',
     cp_changed_files = [\<lparr>cp_path = ''src/a.ts'', cp_content_hash = None\<rparr>], restore_files = Some rs,
     cp_notes = None\<rparr>"

definition sample_restore :: "PawCheckpointRestorableFile list" where
  "sample_restore = [\<lparr>restore_path = ''src/a.ts'', restore_content = Some ''old'', current_content_hash = Some ''sha256:new''\<rparr>]"

definition sample_rollback_input :: PawRollbackParsedInput where
  "sample_rollback_input = \<lparr>dryRun = False, rb_input_checkpoint = Some ''20260101T000000Z-a-ab1''\<rparr>"

definition sample_checkpoint_paths :: PawCheckpointPaths where
  "sample_checkpoint_paths = checkpointPaths ''/repo'' ''s1'' ''20260101T000000Z-a-ab1''"

definition sample_rollback :: "PawRollbackCommandResult throws \<times> workspace" where
  "sample_rollback = createPawRollbackCommandResult sample_snapshot_env sample_dir_env ''/repo''
     ((sample_store selected_session)(metadataFile sample_checkpoint_paths \<mapsto>
        JsonText (json_of_metadata (sample_metadata sample_restore))))
     (sample_workspace ''new'') ''s1'' sample_rollback_input"

lemma sample_rollback_result:
  "fst sample_rollback = Inr (RollbackRestored
     \<lparr>rb_sessionId = ''s1'', rb_checkpointName = ''20260101T000000Z-a-ab1'',
      rb_metadataPath = ''.paw/checkpoints/s1/20260101T000000Z-a-ab1/checkpoint.json'',
      rb_stateName = Member (Active SLICE_SELECT), rb_metadata = sample_metadata sample_restore\<rparr>
     True [''src/a.ts''] [] getExternalSideEffectsNotReverted)"
  by code_simp

lemma sample_restored:
  "restored_content sample_snapshot_env (resolvePath [] ''/repo'') sample_restore (sample_workspace ''new'')
     [''repo'', ''src'', ''a.ts''] = Some ''old''"
  by code_simp

theorem rollback_exact_witness: "snd sample_rollback [''repo'', ''src'', ''a.ts''] = Some ''old''"
proof -
  have "createPawRollbackCommandResult sample_snapshot_env sample_dir_env ''/repo''
     ((sample_store selected_session)(metadataFile sample_checkpoint_paths \<mapsto>
        JsonText (json_of_metadata (sample_metadata sample_restore))))
     (sample_workspace ''new'') ''s1'' sample_rollback_input = (fst sample_rollback, snd sample_rollback)"
    by (simp add: sample_rollback_def)
  from rollback_exact [OF this] sample_restored show ?thesis
    unfolding sample_rollback_result by (simp add: sample_metadata_def or_else_def Let_def)
qed

lemma sample_prepared:
  "map_sum id fst (preparePawSliceCheckpoint (sample_env 7) sample_snapshot_env ''/repo'' (sample_store selected_session)
     (sample_workspace ''old'') ''s1'' sample_checkpoint_input no_options)
   = Inr (CheckpointPrepared (sample_metadata sample_snaps) sample_checkpoint_paths selected_session
       (nextLock (sample_env 7) no_options))"
  by code_simp


end
