(* ===== verification/Paw_Report.thy ===== *)
theory Paw_Report
  imports Paw_Results
begin

text \<open>
  Verification and the final report: which commands verify a gate (\<open>paw/verification-plan.ts\<close>),
  running them (\<open>paw/verification-runner.ts\<close>), the report and its text
  (\<open>paw/final-report.ts\<close>), and its emission, which closes a session
  (\<open>paw/final-report-emission.ts\<close>).

  Parameters stand for the file system the plan is made from and for the executor of the
  commands. The evidence of a session is kept as the results written, a map beside the files:
  the code reads it back without validation.
\<close>

section \<open>The verification plan\<close>

datatype PawNativeVerificationPlanEntry =
    Planned string "string list" string
  | Unsupported string string

definition NATIVE_VERIFICATION_COMMANDS :: "(string \<times> string list) list" where
  "NATIVE_VERIFICATION_COMMANDS =
     [(''working_tree_baseline'', [''git'', ''status'', ''--short'']),
      (''dep_diff'', [''git'', ''diff'', ''--'', ''package.json'', ''package-lock.json'',
         ''packages/coding-agent/npm-shrinkwrap.json'']),
      (''tsc'', [''npm'', ''run'', ''check'']), (''eslint_ruff'', [''npm'', ''run'', ''check'']),
      (''unit_tests'', [''./test.sh'']), (''build'', [''npm'', ''run'', ''build'']),
      (''reviewer_diff'', [''git'', ''diff'', ''--check'']),
      (''a11y_lint_light'', [''npm'', ''run'', ''check:browser-smoke''])]"

text \<open>
  What planning sees of a repository: which files exist, and the parsed \<open>package.json\<close>
  (\<open>None\<close> when it cannot be parsed).
\<close>

record plan_env =
  existsSync :: "string \<Rightarrow> bool"
  packageJson :: "json option"

text \<open>\<open>Object.entries\<close> of a parsed value, as far as the keys of string values go.\<close>

definition stringEntries :: "json \<Rightarrow> string list" where
  "stringEntries v =
     (case v of
        JObject rec \<Rightarrow> map fst (filter (\<lambda>(k, x). case x of JString s \<Rightarrow> True | _ \<Rightarrow> False) rec)
      | JArray xs \<Rightarrow> map (\<lambda>(i, x). show_nat i) (filter (\<lambda>(i, x). case x of JString s \<Rightarrow> True | _ \<Rightarrow> False) (entries xs))
      | JString s \<Rightarrow> map (\<lambda>(i, c). show_nat i) (entries s)
      | _ \<Rightarrow> [])"

definition readPackageScripts :: "plan_env \<Rightarrow> string option \<Rightarrow> string list option" where
  "readPackageScripts env repoRoot =
     (case repoRoot of
        None \<Rightarrow> None
      | Some r \<Rightarrow>
          if \<not> existsSync env (pathJoin r ''package.json'') then None
          else (case packageJson env of
                  None \<Rightarrow> None
                | Some JNull \<Rightarrow> None
                | Some parsed \<Rightarrow>
                    (let scripts = (case parsed of JObject rec \<Rightarrow> json_get rec ''scripts'' | _ \<Rightarrow> JUndefined) in
                     Some (if scripts = JUndefined \<or> scripts = JNull then [] else stringEntries scripts))))"

text \<open>In message texts \<open>@\<close> stands for a single and \<open>#\<close> for a double quote.\<close>

definition quotes :: "string \<Rightarrow> string" where
  "quotes s = map (\<lambda>c. if c = CHR ''@'' then CHR 0x27 else if c = CHR ''#'' then CHR 0x22 else c) s"

definition createNodeSyntaxCheckCommand :: "string list" where
  "createNodeSyntaxCheckCommand = [''node'', ''-e'', concat (map quotes
     [''const {spawnSync}=require(@node:child_process@);'',
      ''const {readdirSync,statSync}=require(@node:fs@);'',
      ''const {join}=require(@node:path@);'',
      ''const skip=new Set([@.git@,@node_modules@,@.paw@,@dist@,@build@,@.next@,@coverage@]);'',
      ''const files=[];'',
      ''function walk(d){for(const n of readdirSync(d)){if(skip.has(n))continue;const p=join(d,n);const s=statSync(p);if(s.isDirectory())walk(p);else if(/'' @ [CHR 0x5C] @ ''.(mjs|cjs|js)$/.test(n))files.push(p);}}'',
      ''walk(process.cwd());'',
      ''if(files.length===0){console.error(@No JavaScript files available for native syntax check.@);process.exit(78);}'',
      ''for(const f of files){const r=spawnSync(process.execPath,[@--check@,f],{stdio:@inherit@});if(r.status!==0)process.exit(r.status||1);}'',
      ''console.log(@node syntax check passed for @+files.length+@ file(s)@);''])]"

definition createGenericSyntaxCheckCommand :: "plan_env \<Rightarrow> string \<Rightarrow> string list" where
  "createGenericSyntaxCheckCommand env r =
     (if existsSync env (pathJoin r ''requirements.txt'') \<or> existsSync env (pathJoin r ''pyproject.toml'')
      then [''python3'', ''-m'', ''compileall'', ''.'']
      else createNodeSyntaxCheckCommand)"

definition npmScriptOrFallback :: "string list option \<Rightarrow> string list \<Rightarrow> string list \<Rightarrow> string list" where
  "npmScriptOrFallback scripts names fallback =
     (case find (\<lambda>n. case scripts of None \<Rightarrow> False | Some xs \<Rightarrow> n \<in> set xs) names of
        Some n \<Rightarrow> [''npm'', ''run'', n]
      | None \<Rightarrow> fallback)"

definition resolveNativeVerificationCommand ::
  "plan_env \<Rightarrow> string \<Rightarrow> string list option \<Rightarrow> string option \<Rightarrow> string list option" where
  "resolveNativeVerificationCommand env gate scripts repoRoot =
     (case repoRoot of
        None \<Rightarrow> map_of NATIVE_VERIFICATION_COMMANDS gate
      | Some r \<Rightarrow>
          let generic = createGenericSyntaxCheckCommand env r in
          if gate = ''tsc'' then Some (npmScriptOrFallback scripts [''check'', ''typecheck'', ''tsc''] generic)
          else if gate = ''eslint_ruff'' then Some (npmScriptOrFallback scripts [''lint'', ''check''] generic)
          else if gate = ''unit_tests'' then
            (if existsSync env (pathJoin r ''test.sh'') then Some [''./test.sh'']
             else Some (npmScriptOrFallback scripts [''test'', ''test:paw''] generic))
          else if gate = ''build'' then Some (npmScriptOrFallback scripts [''build''] generic)
          else if gate = ''a11y_lint_light'' then
            Some (npmScriptOrFallback scripts [''check:browser-smoke'', ''lint'', ''check''] generic)
          else map_of NATIVE_VERIFICATION_COMMANDS gate)"

definition formatCommand :: "string list \<Rightarrow> string" where
  "formatCommand command = join_with '' '' command"

definition createPawNativeVerificationPlan ::
  "plan_env \<Rightarrow> string list \<Rightarrow> string option \<Rightarrow> PawNativeVerificationPlanEntry list" where
  "createPawNativeVerificationPlan env gates repoRoot =
     (let scripts = readPackageScripts env repoRoot in
      map (\<lambda>gate. case resolveNativeVerificationCommand env gate scripts repoRoot of
          None \<Rightarrow> Unsupported gate (''No native command mapping is defined for verification gate '' @ gate @ ''.'')
        | Some command \<Rightarrow> Planned gate command
            (''Native verification command will execute through the native subprocess runner: ''
              @ formatCommand command @ ''.'')) gates)"

section \<open>Running the plan\<close>

record PawNativeVerificationExecutorInput =
  exec_gate :: string
  exec_argv :: "string list"
  exec_timeoutSec :: int

record PawNativeVerificationExecutorResult =
  exitCode :: int
  stdout :: string
  stderr :: string
  timedOut :: "bool option"

text \<open>
  The executor may answer the same call differently each time: it gets the number of the call.
\<close>

type_synonym PawNativeVerificationExecutor =
  "nat \<Rightarrow> PawNativeVerificationExecutorInput \<Rightarrow> PawNativeVerificationExecutorResult throws"

record PawNativeVerificationRunOptions =
  timeoutSec :: int
  outputMaxChars :: int

text \<open>The fields a result has when its command was executed: command, exit code and outputs.\<close>

record run_execution =
  ran_command :: "string list"
  ran_exitCode :: int
  ran_stdout :: string
  ran_stderr :: string

datatype PawNativeVerificationRunResult =
    RunVerified (run_gate: string) run_execution
  | RunUnverified (run_gate: string) "run_execution option" string

definition js_slice_to :: "string \<Rightarrow> int \<Rightarrow> string" where
  "js_slice_to s n = (if n \<ge> 0 then take (nat n) s else take (length s - nat (- n)) s)"

definition summarizeNativeVerificationOutput :: "string \<Rightarrow> int \<Rightarrow> string" where
  "summarizeNativeVerificationOutput output maxChars =
     (if int (length output) \<le> maxChars then output
      else if maxChars \<le> 3 then js_slice_to output maxChars
      else js_slice_to output (maxChars - 3) @ ''...'')"

definition firstNonEmpty :: "string \<Rightarrow> string \<Rightarrow> string \<Rightarrow> string" where
  "firstNonEmpty a b fallback = (if length a > 0 then a else if length b > 0 then b else fallback)"

text \<open>The result of one executed entry.\<close>

definition executedResult ::
  "PawNativeVerificationRunOptions \<Rightarrow> string \<Rightarrow> string list \<Rightarrow> PawNativeVerificationExecutorResult \<Rightarrow>
     PawNativeVerificationRunResult" where
  "executedResult opts gate command execution =
     (let out = summarizeNativeVerificationOutput (stdout execution) (outputMaxChars opts);
          err = summarizeNativeVerificationOutput (stderr execution) (outputMaxChars opts);
          done_run = \<lparr>ran_command = command, ran_exitCode = exitCode execution, ran_stdout = out, ran_stderr = err\<rparr> in
      if timedOut execution = Some True then
        RunUnverified gate (Some done_run)
          (''Native verification command timed out after '' @ show_int (timeoutSec opts) @ '' seconds.'')
      else if exitCode execution = 0 then RunVerified gate done_run
      else RunUnverified gate (Some done_run)
        (''Native verification command failed with exit code '' @ show_int (exitCode execution) @ '': ''
          @ firstNonEmpty out err ''no output''))"

fun runPawNativeVerificationPlan ::
  "PawNativeVerificationExecutor \<Rightarrow> PawNativeVerificationRunOptions \<Rightarrow> nat \<Rightarrow>
     PawNativeVerificationPlanEntry list \<Rightarrow> PawNativeVerificationRunResult list throws" where
  "runPawNativeVerificationPlan executor opts n [] = Inr []"
| "runPawNativeVerificationPlan executor opts n (Unsupported gate reason # plan) =
     map_sum id (Cons (RunUnverified gate None reason)) (runPawNativeVerificationPlan executor opts n plan)"
| "runPawNativeVerificationPlan executor opts n (Planned gate command reason # plan) =
     (case executor n \<lparr>exec_gate = gate, exec_argv = command, exec_timeoutSec = timeoutSec opts\<rparr> of
        Inl e \<Rightarrow> Inl e
      | Inr execution \<Rightarrow>
          map_sum id (Cons (executedResult opts gate command execution))
            (runPawNativeVerificationPlan executor opts (Suc n) plan))"

definition mapPawNativeVerificationRunResults ::
  "PawNativeVerificationRunResult list \<Rightarrow> PawVerifyConfig \<Rightarrow> PawVerifyGateDecision list" where
  "mapPawNativeVerificationRunResults results cfg =
     map (\<lambda>r. case r of
         RunVerified gate done_run \<Rightarrow> evaluatePawVerifyGate gate True cfg None
       | RunUnverified gate done_run reason \<Rightarrow> evaluatePawVerifyGate gate False cfg (Some reason)) results"

section \<open>The final report\<close>

datatype PawFinalReportStatus = report_done | done_with_unverified

fun reportStatusString :: "PawFinalReportStatus \<Rightarrow> string" where
  "reportStatusString report_done = ''done''"
| "reportStatusString done_with_unverified = ''done_with_unverified''"

datatype PawRiskSeverity = risk_low | risk_medium | risk_high | risk_critical

fun severityString :: "PawRiskSeverity \<Rightarrow> string" where
  "severityString risk_low = ''low''"
| "severityString risk_medium = ''medium''"
| "severityString risk_high = ''high''"
| "severityString risk_critical = ''critical''"

record PawFinalReportRisk =
  risk_description :: string
  risk_severity :: PawRiskSeverity

text \<open>
  \<open>nativeVerificationRunResults\<close> is an optional property; the emission distinguishes its
  absence from the value \<open>undefined\<close>: \<open>None\<close> is absent, \<open>Some None\<close> is undefined.
\<close>

record PawFinalReportInput =
  report_summary :: string
  report_evidence :: "string list"
  report_risks :: "PawFinalReportRisk list option"
  verifyDecisions :: "PawVerifyGateDecision list"
  degradedSteps :: "PawDegradedStep list option"
  nextActions :: "string list option"
  nativeVerificationRunResults :: "PawNativeVerificationRunResult list option option"

record PawFinalReport =
  final_session_id :: string
  final_summary :: string
  final_status :: PawFinalReportStatus
  final_evidence :: "string list"
  final_risks :: "PawFinalReportRisk list"
  verified_gates :: "PawVerifyGateDecision list"
  unverified_gates :: "PawVerifyGateDecision list"
  degraded_steps :: "PawDegradedStep list"
  next_actions :: "string list"
  native_verification_run_results :: "PawNativeVerificationRunResult list"

fun decision_applicable :: "PawVerifyGateDecision \<Rightarrow> bool" where
  "decision_applicable (GateVerified g a gs) = a"
| "decision_applicable (GateUnverified g a gs r) = a"

fun decision_gate :: "PawVerifyGateDecision \<Rightarrow> string" where
  "decision_gate (GateVerified g a gs) = g"
| "decision_gate (GateUnverified g a gs r) = g"

definition requireNonEmptyString :: "string \<Rightarrow> string \<Rightarrow> string throws" where
  "requireNonEmptyString v fieldName =
     (let trimmed = js_trim v in
      if length trimmed = 0 then Inl (JsError (fieldName @ '' must be a non-empty string'')) else Inr trimmed)"

definition trimNonEmptyStrings :: "string list \<Rightarrow> string list" where
  "trimNonEmptyStrings vs = filter (\<lambda>v. length v > 0) (map js_trim vs)"

definition createPawFinalReport :: "string \<Rightarrow> PawFinalReportInput \<Rightarrow> PawFinalReport throws" where
  "createPawFinalReport sid inp =
     (case requireNonEmptyString sid ''sessionId'' of
        Inl e \<Rightarrow> Inl e
      | Inr sessionId \<Rightarrow> (case requireNonEmptyString (report_summary inp) ''summary'' of
           Inl e \<Rightarrow> Inl e
         | Inr summary \<Rightarrow>
             let verified = filter (\<lambda>d. \<not> isUnverified d \<and> decision_applicable d) (verifyDecisions inp);
                 unverified = filter (\<lambda>d. isUnverified d \<and> decision_applicable d) (verifyDecisions inp)
             in Inr \<lparr>final_session_id = sessionId, final_summary = summary,
                  final_status = (if length unverified > 0 then done_with_unverified else report_done),
                  final_evidence = trimNonEmptyStrings (report_evidence inp),
                  final_risks = or_else (report_risks inp) [],
                  verified_gates = verified, unverified_gates = unverified,
                  degraded_steps = or_else (degradedSteps inp) [],
                  next_actions = trimNonEmptyStrings (or_else (nextActions inp) []),
                  native_verification_run_results =
                    or_else (or_else (nativeVerificationRunResults inp) None) []\<rparr>))"

definition newline :: string where
  "newline = [CHR 0x0A]"

text \<open>The list renderers: \<open>- None\<close> for an empty list, else one line per element.\<close>

definition renderLines :: "('a \<Rightarrow> string) \<Rightarrow> 'a list \<Rightarrow> string" where
  "renderLines f xs = (if length xs = 0 then ''- None'' else join_with newline (map (\<lambda>x. ''- '' @ f x) xs))"

definition renderStringList :: "string list \<Rightarrow> string" where
  "renderStringList vs = renderLines (\<lambda>v. v) vs"

definition renderVerifiedGates :: "PawVerifyGateDecision list \<Rightarrow> string" where
  "renderVerifiedGates gs = renderLines decision_gate gs"

definition renderUnverifiedGates :: "PawVerifyGateDecision list \<Rightarrow> string" where
  "renderUnverifiedGates gs = renderLines (\<lambda>g. case g of
      GateUnverified gate a s reason \<Rightarrow> gate @ '': '' @ reason
    | GateVerified gate a s \<Rightarrow> gate) gs"

definition renderRisks :: "PawFinalReportRisk list \<Rightarrow> string" where
  "renderRisks rs = renderLines (\<lambda>r. severityString (risk_severity r) @ '': '' @ risk_description r) rs"

definition renderDegradedSteps :: "PawDegradedStep list \<Rightarrow> string" where
  "renderDegradedSteps ss = renderLines (\<lambda>s. degraded_step s @ '': '' @ degraded_reason s) ss"

fun run_executed :: "PawNativeVerificationRunResult \<Rightarrow> bool" where
  "run_executed (RunVerified gate x) = True"
| "run_executed (RunUnverified gate x reason) = (x \<noteq> None)"

fun run_status :: "PawNativeVerificationRunResult \<Rightarrow> string" where
  "run_status (RunVerified gate x) = ''verified''"
| "run_status (RunUnverified gate x reason) = ''unverified''"

definition renderVerificationEvidence :: "PawNativeVerificationRunResult list \<Rightarrow> string" where
  "renderVerificationEvidence results =
     (let executed = filter run_executed results in
      if length executed = 0 then ''- No native verification gates executed''
      else join_with newline (map (\<lambda>r. ''- '' @ run_gate r @ '': '' @ run_status r) executed))"

definition renderPawFinalReportMarkdown :: "PawFinalReport \<Rightarrow> string" where
  "renderPawFinalReportMarkdown r = join_with newline
     [''## Summary'', [], ''Session: '' @ final_session_id r, [], final_summary r, [],
      ''## Status'', [], ''- '' @ reportStatusString (final_status r), [],
      ''## Evidence'', [], renderStringList (final_evidence r), [],
      ''## Verified Gates'', [], renderVerifiedGates (verified_gates r), [],
      ''## Unverified Gates'', [], renderUnverifiedGates (unverified_gates r), [],
      ''## Verification Evidence'', [], renderVerificationEvidence (native_verification_run_results r), [],
      ''## Risks'', [], renderRisks (final_risks r), [],
      ''## Degraded Steps'', [], renderDegradedSteps (degraded_steps r), [],
      ''## Next Actions'', [], renderStringList (next_actions r), []]"

section \<open>Evidence\<close>

type_synonym evidence_files = "string \<Rightarrow> PawNativeVerificationRunResult list option"

definition writePawVerificationEvidence ::
  "string \<Rightarrow> evidence_files \<Rightarrow> string \<Rightarrow> PawNativeVerificationRunResult list \<Rightarrow> evidence_files throws" where
  "writePawVerificationEvidence repo ev sid results =
     (case resolvePawSessionPaths repo sid of
        Inl e \<Rightarrow> Inl e
      | Inr p \<Rightarrow> Inr (ev(verificationEvidenceFile p \<mapsto> results)))"

definition readPawVerificationEvidence ::
  "string \<Rightarrow> evidence_files \<Rightarrow> string \<Rightarrow> PawNativeVerificationRunResult list throws" where
  "readPawVerificationEvidence repo ev sid =
     (case resolvePawSessionPaths repo sid of
        Inl e \<Rightarrow> Inl e
      | Inr p \<Rightarrow> Inr (or_else (ev (verificationEvidenceFile p)) []))"

section \<open>Emission\<close>

text \<open>The objects as \<open>JSON.stringify\<close> sees them.\<close>

fun gateSetString :: "PawVerifyGateSet \<Rightarrow> string" where
  "gateSetString v1 = ''v1''"
| "gateSetString v2 = ''v2''"
| "gateSetString unconfigured = ''unconfigured''"

fun json_of_decision :: "PawVerifyGateDecision \<Rightarrow> json" where
  "json_of_decision (GateVerified g a gs) = JObject [(''status'', JString ''verified''), (''gate'', JString g),
     (''verified'', JBool True), (''applicable'', JBool a), (''gateSet'', JString (gateSetString gs))]"
| "json_of_decision (GateUnverified g a gs r) = JObject [(''status'', JString ''unverified''), (''gate'', JString g),
     (''verified'', JBool False), (''applicable'', JBool a), (''gateSet'', JString (gateSetString gs)),
     (''reason'', JString r)]"

definition json_of_execution :: "run_execution \<Rightarrow> (string \<times> json) list" where
  "json_of_execution x = [(''command'', JArray (map JString (ran_command x))),
     (''exitCode'', JNumber (Num (of_int (ran_exitCode x)))), (''stdout'', JString (ran_stdout x)),
     (''stderr'', JString (ran_stderr x))]"

fun json_of_run_result :: "PawNativeVerificationRunResult \<Rightarrow> json" where
  "json_of_run_result (RunVerified g x) = JObject ([(''status'', JString ''verified''), (''gate'', JString g),
     (''verified'', JBool True), (''executed'', JBool True)] @ json_of_execution x)"
| "json_of_run_result (RunUnverified g x r) = JObject ([(''status'', JString ''unverified''), (''gate'', JString g),
     (''verified'', JBool False), (''executed'', JBool (x \<noteq> None))]
     @ (case x of None \<Rightarrow> [] | Some y \<Rightarrow> json_of_execution y) @ [(''reason'', JString r)])"

definition json_of_report :: "PawFinalReport \<Rightarrow> json" where
  "json_of_report r = JObject
     [(''session_id'', JString (final_session_id r)), (''summary'', JString (final_summary r)),
      (''status'', JString (reportStatusString (final_status r))),
      (''evidence'', JArray (map JString (final_evidence r))),
      (''risks'', JArray (map (\<lambda>x. JObject [(''description'', JString (risk_description x)),
         (''severity'', JString (severityString (risk_severity x)))]) (final_risks r))),
      (''verified_gates'', JArray (map json_of_decision (verified_gates r))),
      (''unverified_gates'', JArray (map json_of_decision (unverified_gates r))),
      (''degraded_steps'', JArray (map (\<lambda>x. JObject [(''step'', JString (degraded_step x)),
         (''degraded'', JBool True), (''reason'', JString (degraded_reason x))]) (degraded_steps r))),
      (''next_actions'', JArray (map JString (next_actions r))),
      (''native_verification_run_results'', JArray (map json_of_run_result (native_verification_run_results r)))]"

text \<open>The report and its text, and the paths they were written to.\<close>

record emitted_report =
  emitted :: PawFinalReport
  emitted_markdown :: string
  emitted_summaryFile :: string
  emitted_reportJsonFile :: string

datatype PawFinalReportEmissionResult =
    EmissionCompleted PawSessionLock PawSessionState PawSessionState emitted_report
  | EmissionRefused lock_refusal
  | EmissionInvalidState PawSessionState "PawValidationIssue list"
  | EmissionPendingSlices PawSessionState "PawValidationIssue list"
  | EmissionInvalidReportInput PawSessionState "PawValidationIssue list"
  | EmissionInvalidTransition PawSessionState "PawValidationIssue list"

definition createFinalReport :: "string \<Rightarrow> PawFinalReportInput \<Rightarrow> PawFinalReport PawValidationResult" where
  "createFinalReport sid inp =
     (case createPawFinalReport sid inp of
        Inr r \<Rightarrow> Ok r
      | Inl e \<Rightarrow> Invalid [Issue ''/report_input'' (case e of JsError m \<Rightarrow> m | FileSystemError c \<Rightarrow> c)])"

text \<open>The summary is a text that is no JSON.\<close>

definition emitPawFinalReport ::
  "process_env \<Rightarrow> string \<Rightarrow> files \<Rightarrow> evidence_files \<Rightarrow> string \<Rightarrow>
     PawFinalReportInput \<Rightarrow> PawSessionLockOptions \<Rightarrow> PawFinalReportEmissionResult throws \<times> files" where
  "emitPawFinalReport env repo fs ev sid inp opts =
     (case enterLockedSession env repo fs sid opts of
        Inl e \<Rightarrow> (Inl e, fs)
      | Inr (Inl r) \<Rightarrow> (Inr (EmissionRefused r), fs)
      | Inr (Inr (l, s)) \<Rightarrow>
          if state_name s \<noteq> Member (Active SLICE_DONE) then
            (Inr (EmissionInvalidState s [Issue ''/name'' ''Final report emission requires SLICE_DONE state.'']), fs)
          else if length (pending_slice_ids s) > 0 then
            (Inr (EmissionPendingSlices s
              [Issue ''/pending_slice_ids'' ''Final report emission requires no pending slices.'']), fs)
          else
            (case (if nativeVerificationRunResults inp \<noteq> None then Inr inp
                   else map_sum id (\<lambda>results. inp\<lparr>nativeVerificationRunResults := Some (Some results)\<rparr>)
                          (readPawVerificationEvidence repo ev sid)) of
               Inl e \<Rightarrow> (Inl e, fs)
             | Inr resolved \<Rightarrow>
                 (case createFinalReport sid resolved of
                    Invalid is \<Rightarrow> (Inr (EmissionInvalidReportInput s is), fs)
                  | Ok report \<Rightarrow>
                      (case transitionPawSessionState s (goto FINAL_REPORT) of
                         Invalid is \<Rightarrow> (Inr (EmissionInvalidTransition s is), fs)
                       | Ok s' \<Rightarrow>
                           (case resolvePawSessionPaths repo sid of
                              Inl e \<Rightarrow> (Inl e, fs)
                            | Inr p \<Rightarrow>
                                let markdown = renderPawFinalReportMarkdown report;
                                    fs1 = fs(summaryFile p \<mapsto> BrokenText markdown);
                                    fs2 = fs1(reportJsonFile p \<mapsto> JsonText (json_of_report report))
                                in (case writePawSessionState repo fs2 s' of
                                      Inl e \<Rightarrow> (Inl e, fs2)
                                    | Inr fs3 \<Rightarrow> (Inr (EmissionCompleted l s s'
                                        \<lparr>emitted = report, emitted_markdown = markdown,
                                         emitted_summaryFile = summaryFile p,
                                         emitted_reportJsonFile = reportJsonFile p\<rparr>), fs3)))))))"

section \<open>Runs\<close>

text \<open>A gate counts as verified only by an executed command that ended with exit code 0 in time.\<close>

definition vouched ::
  "PawNativeVerificationExecutor \<Rightarrow> PawNativeVerificationRunOptions \<Rightarrow> PawNativeVerificationPlanEntry list \<Rightarrow>
     string \<Rightarrow> bool" where
  "vouched executor opts plan gate \<longleftrightarrow> (\<exists>n command reason x.
     Planned gate command reason \<in> set plan
     \<and> executor n \<lparr>exec_gate = gate, exec_argv = command, exec_timeoutSec = timeoutSec opts\<rparr> = Inr x
     \<and> exitCode x = 0 \<and> timedOut x \<noteq> Some True)"

fun plan_gate :: "PawNativeVerificationPlanEntry \<Rightarrow> string" where
  "plan_gate (Planned g c r) = g"
| "plan_gate (Unsupported g r) = g"

lemma map_sum_Inr: "map_sum id f x = Inr y \<longleftrightarrow> (\<exists>z. x = Inr z \<and> y = f z)"
  by (cases x) auto

lemma executed_gate: "run_gate (executedResult opts gate command x) = gate"
  by (simp add: executedResult_def Let_def)

lemma executed_verified:
  "executedResult opts gate command x = RunVerified g y \<Longrightarrow> exitCode x = 0 \<and> timedOut x \<noteq> Some True \<and> g = gate"
  by (auto simp: executedResult_def Let_def split: if_splits)

lemma run_gates: "runPawNativeVerificationPlan executor opts n plan = Inr rs \<Longrightarrow> map run_gate rs = map plan_gate plan"
  by (induction executor opts n plan arbitrary: rs rule: runPawNativeVerificationPlan.induct)
    (auto simp: map_sum_Inr executed_gate split: sum.splits)

lemma run_verified_vouched:
  "runPawNativeVerificationPlan executor opts n plan = Inr rs \<Longrightarrow> RunVerified g y \<in> set rs \<Longrightarrow>
     vouched executor opts plan g"
proof (induction executor opts n plan arbitrary: rs rule: runPawNativeVerificationPlan.induct)
  case (2 executor opts n gate reason plan)
  then show ?case by (auto simp: map_sum_Inr vouched_def)
next
  case (3 executor opts n gate command reason plan)
  from 3(2) obtain x rest where x: "executor n \<lparr>exec_gate = gate, exec_argv = command, exec_timeoutSec = timeoutSec opts\<rparr> = Inr x"
    and rest: "runPawNativeVerificationPlan executor opts (Suc n) plan = Inr rest"
    and rs: "rs = executedResult opts gate command x # rest"
    by (auto simp: map_sum_Inr split: sum.splits)
  show ?case
  proof (cases "RunVerified g y \<in> set rest")
    case True
    from 3(1) [OF x rest True] show ?thesis by (auto simp: vouched_def)
  next
    case False
    with 3(3) rs have "executedResult opts gate command x = RunVerified g y" by auto
    from executed_verified [OF this] x show ?thesis unfolding vouched_def by auto
  qed
qed simp

definition configured_gate :: "PawVerifyConfig \<Rightarrow> string \<Rightarrow> bool" where
  "configured_gate cfg g \<longleftrightarrow> g \<in> set (v1_gates cfg) \<or> g \<in> set (v2_optin_gates cfg)"

lemma decision_of_gate:
  "decision_applicable (evaluatePawVerifyGate g b cfg r) \<longleftrightarrow> configured_gate cfg g"
  "isUnverified (evaluatePawVerifyGate g b cfg r) \<longleftrightarrow> \<not> b" "decision_gate (evaluatePawVerifyGate g b cfg r) = g"
  by (auto simp: evaluatePawVerifyGate_def findPawVerifyGateSet_def configured_gate_def Let_def)

lemma mapped_verified:
  assumes "d \<in> set (mapPawNativeVerificationRunResults rs cfg)"
  obtains g x where "RunVerified g x \<in> set rs" "d = evaluatePawVerifyGate g True cfg None"
    | g x r where "RunUnverified g x r \<in> set rs" "d = evaluatePawVerifyGate g False cfg (Some r)"
  using assms by (auto simp: mapPawNativeVerificationRunResults_def split: PawNativeVerificationRunResult.splits)

lemma mapped_gates: "map decision_gate (mapPawNativeVerificationRunResults rs cfg) = map run_gate rs"
  by (auto simp: mapPawNativeVerificationRunResults_def decision_of_gate split: PawNativeVerificationRunResult.split)

section \<open>The files of an emission\<close>

lemma sep_inject:
  assumes "d \<notin> set a" "d \<notin> set b"
  shows "a @ d # x = b @ d # y \<longleftrightarrow> a = b \<and> x = y"
  using assms
proof (induction a arbitrary: b)
  case Nil
  then show ?case by (cases b) auto
next
  case (Cons c a)
  then show ?case by (cases b) auto
qed

lemma session_file_text:
  assumes "validSessionId sid"
  shows "pathJoin (pathJoin (sessionsDir r) sid) f = pathJoin r ''.paw'' @ ''/sessions/'' @ sid @ CHR ''/'' # f"
proof -
  have "CHR ''/'' \<notin> set sid" "sid \<noteq> []"
    using assms validSessionId_no_slash by (auto simp: validSessionId_def)
  then show ?thesis
    unfolding sessionsDir_def by (subst pathJoin_seg, simp, simp)+ (simp add: pathJoin_seg)
qed

lemma session_file_eq:
  assumes "validSessionId sid" "validSessionId sid'"
  shows "pathJoin (pathJoin (sessionsDir r) sid) f = pathJoin (pathJoin (sessionsDir r) sid') g \<longleftrightarrow> sid = sid' \<and> f = g"
  using sep_inject [of "CHR ''/''" sid sid' f g] validSessionId_no_slash assms
  by (simp add: session_file_text)

lemma report_paths:
  "summaryFile (sessionPaths r sid) = pathJoin (pathJoin (sessionsDir r) sid) ''summary.md''"
  "reportJsonFile (sessionPaths r sid) = pathJoin (pathJoin (sessionsDir r) sid) ''report.json''"
  by (simp_all add: sessionPaths_def Let_def resolvePawProjectPaths_def sessionsDir_def)

definition report_written :: "string \<Rightarrow> string \<Rightarrow> PawFinalReport \<Rightarrow> files \<Rightarrow> files" where
  "report_written r sid report fs =
     fs(summaryFile (sessionPaths r sid) \<mapsto> BrokenText (renderPawFinalReportMarkdown report),
        reportJsonFile (sessionPaths r sid) \<mapsto> JsonText (json_of_report report))"

lemma read_report_written:
  assumes "validSessionId sid"
  shows "readPawSessionState r (report_written r sid report fs) k = readPawSessionState r fs k"
    and "lockHolder r sid (report_written r sid report fs) = lockHolder r sid fs"
proof -
  have "report_written r sid report fs (stateFile (sessionPaths r k)) = fs (stateFile (sessionPaths r k))"
    if "validSessionId k"
    using assms that by (simp add: report_written_def sessionPaths_files report_paths session_file_eq)
  then show "readPawSessionState r (report_written r sid report fs) k = readPawSessionState r fs k"
  proof (cases "validSessionId k")
    case True
    assume "validSessionId k \<Longrightarrow>
      report_written r sid report fs (stateFile (sessionPaths r k)) = fs (stateFile (sessionPaths r k))"
    from this [OF True] show ?thesis by (rule read_depends)
  next
    case False
    then show ?thesis
      by (simp add: readPawSessionState_def resolvePawSessionPaths_def assertValidSessionId_def)
  qed
  show "lockHolder r sid (report_written r sid report fs) = lockHolder r sid fs"
    by (rule lockHolder_depends) (simp add: report_written_def sessionPaths_files report_paths session_file_eq assms)
qed

lemma report_written_drives:
  assumes "drives env r fs sid opts l s"
  shows "drives env r (report_written r sid report fs) sid opts l s"
proof -
  have inv: "store_inv r fs" and lock: "holds_live_lock env r fs sid opts l"
    and rd: "readPawSessionState r fs sid = Inr s"
    using assms by (simp_all add: drives_def)
  have v: "validSessionId sid" using lock by (simp add: holds_live_lock_def)
  have "store_inv r (report_written r sid report fs)"
    by (rule store_inv_same_reads [OF inv read_report_written(1) [OF v]])
  moreover have "holds_live_lock env r (report_written r sid report fs) sid opts l"
    using lock unfolding holds_live_lock_def read_report_written(2) [OF v] .
  moreover have "readPawSessionState r (report_written r sid report fs) sid = Inr s"
    unfolding read_report_written(1) [OF v] by (rule rd)
  ultimately show ?thesis by (simp add: drives_def)
qed

text \<open>The input of the report: the stored evidence takes the place of results not given.\<close>

definition with_evidence ::
  "string \<Rightarrow> evidence_files \<Rightarrow> string \<Rightarrow> PawFinalReportInput \<Rightarrow> PawFinalReportInput" where
  "with_evidence r ev sid inp =
     (if nativeVerificationRunResults inp \<noteq> None then inp
      else inp\<lparr>nativeVerificationRunResults :=
        Some (Some (or_else (ev (verificationEvidenceFile (sessionPaths r sid))) []))\<rparr>)"

definition emission :: "string \<Rightarrow> string \<Rightarrow> PawFinalReport \<Rightarrow> emitted_report" where
  "emission r sid report = \<lparr>emitted = report, emitted_markdown = renderPawFinalReportMarkdown report,
     emitted_summaryFile = summaryFile (sessionPaths r sid),
     emitted_reportJsonFile = reportJsonFile (sessionPaths r sid)\<rparr>"

text \<open>Every emission, by its outcome.\<close>

lemma emission_cases:
  assumes "emitPawFinalReport env r fs ev sid inp opts = (res, fs')"
  shows "fs' = fs \<and> (\<forall>l s s' e. res \<noteq> Inr (EmissionCompleted l s s' e))
    \<or> (\<exists>l s s' report. holds_live_lock env r fs sid opts l \<and> readPawSessionState r fs sid = Inr s
        \<and> state_name s = Member (Active SLICE_DONE) \<and> pending_slice_ids s = []
        \<and> transitionPawSessionState s (goto FINAL_REPORT) = Ok s'
        \<and> createPawFinalReport sid (with_evidence r ev sid inp) = Inr report
        \<and> ((\<exists>x. res = Inl x) \<and> fs' = report_written r sid report fs
           \<or> writePawSessionState r (report_written r sid report fs) s' = Inr fs'
             \<and> res = Inr (EmissionCompleted l s s' (emission r sid report))))"
proof (cases "enterLockedSession env r fs sid opts")
  case (Inl e)
  with assms show ?thesis by (auto simp: emitPawFinalReport_def)
next
  case (Inr x)
  show ?thesis
  proof (cases x)
    case (Inl y)
    with Inr assms show ?thesis by (auto simp: emitPawFinalReport_def)
  next
    case inr: (Inr y)
    obtain l s where y: "y = (l, s)" by (cases y)
    with Inr inr have lock: "holds_live_lock env r fs sid opts l" and rd: "readPawSessionState r fs sid = Inr s"
      by (simp_all add: enterLocked_iff)
    then have v: "validSessionId sid" by (simp add: holds_live_lock_def)
    define resolved where "resolved = with_evidence r ev sid inp"
    have res: "(if nativeVerificationRunResults inp \<noteq> None then Inr inp
         else map_sum id (\<lambda>results. inp\<lparr>nativeVerificationRunResults := Some (Some results)\<rparr>)
           (readPawVerificationEvidence r ev sid)) = (Inr resolved :: PawFinalReportInput throws)"
      by (simp add: readPawVerificationEvidence_def resolve_valid [OF v] resolved_def with_evidence_def)
    note body = assms [unfolded emitPawFinalReport_def Inr inr y sum.case prod.case res resolve_valid [OF v] Let_def
        report_written_def [symmetric]]
    show ?thesis
    proof (cases "state_name s = Member (Active SLICE_DONE) \<and> pending_slice_ids s = []")
      case False
      with body show ?thesis by (auto split: if_splits)
    next
      case here: True
      show ?thesis
      proof (cases "createPawFinalReport sid resolved")
        case (Inl e)
        with body here show ?thesis by (auto simp: createFinalReport_def)
      next
        case report: (Inr report)
        show ?thesis
        proof (cases "transitionPawSessionState s (goto FINAL_REPORT)")
          case (Invalid issues)
          with body here report show ?thesis by (auto simp: createFinalReport_def)
        next
          case (Ok s')
          with body here report lock rd show ?thesis
            unfolding resolved_def [symmetric]
            by (cases "writePawSessionState r (report_written r sid report fs) s'")
              (auto simp: createFinalReport_def emission_def)
        qed
      qed
    qed
  qed
qed

text \<open>What a driving process finds at the end of a plan.\<close>

lemma final_transition:
  assumes "session_wf s" "state_name s = Member (Active SLICE_DONE)" "pending_slice_ids s = []"
  shows "transitionPawSessionState s (goto FINAL_REPORT) = Ok (applyActiveTransition s FINAL_REPORT None)"
    and "state_name (applyActiveTransition s FINAL_REPORT None) = Member (Active FINAL_REPORT)"
  using assms transition_goto [of s SLICE_DONE FINAL_REPORT]
  by (simp_all add: guard_Nil applyActiveTransition_def)

lemma report_created:
  assumes "validSessionId sid" "\<not> blank (report_summary inp)"
  obtains report where "createPawFinalReport sid inp = Inr report"
  using assms validSessionId_trimmed [of sid]
  by (auto simp: createPawFinalReport_def requireNonEmptyString_def blank_def Let_def)

lemma final_report_id:
  "validSessionId sid \<Longrightarrow> createPawFinalReport sid inp = Inr report \<Longrightarrow> final_session_id report = sid"
  by (auto simp: createPawFinalReport_def requireNonEmptyString_def validSessionId_trimmed Let_def
      split: sum.splits if_splits)

lemma report_depends_on_summary:
  "createPawFinalReport sid inp = Inr report \<Longrightarrow> \<not> blank (report_summary inp)"
  by (auto simp: createPawFinalReport_def requireNonEmptyString_def blank_def Let_def split: sum.splits if_splits)

lemma emission_enters:
  assumes "drives env r fs sid opts l s" "state_name s = Member (Active SLICE_DONE)" "pending_slice_ids s = []"
    and "createPawFinalReport sid (with_evidence r ev sid inp) = Inr report"
    and "transitionPawSessionState s (goto FINAL_REPORT) = Ok s'"
  shows "emitPawFinalReport env r fs ev sid inp opts =
    (Inr (EmissionCompleted l s s' (emission r sid report)), stored_state r sid s' (report_written r sid report fs))"
proof -
  have v: "validSessionId sid" using assms(1) by (simp add: drives_def holds_live_lock_def)
  have enter: "enterLockedSession env r fs sid opts = Inr (Inr (l, s))"
    using assms(1) by (simp add: enterLocked_iff drives_def)
  have res: "(if nativeVerificationRunResults inp \<noteq> None then Inr inp
       else map_sum id (\<lambda>results. inp\<lparr>nativeVerificationRunResults := Some (Some results)\<rparr>)
         (readPawVerificationEvidence r ev sid)) = (Inr (with_evidence r ev sid inp) :: PawFinalReportInput throws)"
    by (simp add: readPawVerificationEvidence_def resolve_valid [OF v] with_evidence_def)
  show ?thesis
    unfolding emitPawFinalReport_def enter sum.case prod.case res resolve_valid [OF v] Let_def report_written_def [symmetric]
    using drives_step(1) [OF report_written_drives [OF assms(1), of report] assms(5)] assms(2-5)
    by (simp add: createFinalReport_def emission_def)
qed

section \<open>Properties\<close>

text \<open>
  (C30) The final report tells the truth about verification. For the report made from the
  results of running a plan: every gate it lists as verified was configured and had its
  command executed, in time and with exit code 0; every configured gate of the plan is listed,
  as verified or as unverified; and the status is \<open>done\<close> only if every configured gate of the
  plan is vouched for in this way.
\<close>

theorem report_verified_gates_executed:
  assumes "runPawNativeVerificationPlan executor opts n plan = Inr rs"
    and "verifyDecisions inp = mapPawNativeVerificationRunResults rs cfg"
    and "createPawFinalReport sid inp = Inr report"
  shows "(\<forall>d \<in> set (verified_gates report). configured_gate cfg (decision_gate d)
            \<and> vouched executor opts plan (decision_gate d))
    \<and> (\<forall>e \<in> set plan. configured_gate cfg (plan_gate e) \<longrightarrow>
          plan_gate e \<in> decision_gate ` set (verified_gates report @ unverified_gates report))
    \<and> (final_status report = report_done \<longrightarrow>
          (\<forall>e \<in> set plan. configured_gate cfg (plan_gate e) \<longrightarrow> vouched executor opts plan (plan_gate e)))"
proof -
  let ?ds = "mapPawNativeVerificationRunResults rs cfg"
  from assms(2,3) have ver: "verified_gates report = filter (\<lambda>d. \<not> isUnverified d \<and> decision_applicable d) ?ds"
    and unver: "unverified_gates report = filter (\<lambda>d. isUnverified d \<and> decision_applicable d) ?ds"
    and st: "final_status report = (if length (unverified_gates report) > 0 then done_with_unverified else report_done)"
    by (auto simp: createPawFinalReport_def Let_def split: sum.splits)
  have vouch: "configured_gate cfg (decision_gate d) \<and> vouched executor opts plan (decision_gate d)"
    if "d \<in> set (verified_gates report)" for d
  proof -
    from that have "d \<in> set ?ds" "\<not> isUnverified d" "decision_applicable d" by (simp_all add: ver)
    then show ?thesis
      using run_verified_vouched [OF assms(1)] by (elim mapped_verified) (auto simp: decision_of_gate)
  qed
  have listed: "plan_gate e \<in> decision_gate ` set (verified_gates report @ unverified_gates report)"
    if "e \<in> set plan" "configured_gate cfg (plan_gate e)" for e
  proof -
    have "plan_gate e \<in> set (map decision_gate ?ds)"
      unfolding mapped_gates run_gates [OF assms(1)] using that(1) by simp
    then obtain d where d: "d \<in> set ?ds" "decision_gate d = plan_gate e" by auto
    then have "decision_applicable d" using that(2) by (elim mapped_verified) (auto simp: decision_of_gate)
    with d(1) have "d \<in> set (verified_gates report @ unverified_gates report)" by (simp add: ver unver)
    with d(2) show ?thesis by (metis image_eqI)
  qed
  have "vouched executor opts plan (plan_gate e)"
    if "final_status report = report_done" "e \<in> set plan" "configured_gate cfg (plan_gate e)" for e
    using listed [OF that(2,3)] that(1) vouch st by (auto split: if_splits)
  with vouch listed show ?thesis by blast
qed

text \<open>
  (C31) Emission closes finished sessions, and only those. On a store of reachable sessions an
  emission changes a file only if the caller holds the live lock of the session, the session
  is in \<open>SLICE_DONE\<close> with no slice pending, and the report can be made from the input (completed
  by the stored evidence when it carries no results); then it completes, exactly the summary,
  the report and the state of the session are written, and the session reads \<open>FINAL_REPORT\<close>.
  Conversely every such caller gets there.
\<close>

theorem final_report_exact:
  assumes "store_inv r fs" "emitPawFinalReport env r fs ev sid inp opts = (res, fs')"
  shows "(\<exists>l s. holds_live_lock env r fs sid opts l \<and> readPawSessionState r fs sid = Inr s
        \<and> state_name s = Member (Active SLICE_DONE) \<and> pending_slice_ids s = []
        \<and> \<not> blank (report_summary inp)
        \<and> (\<exists>report s'. createPawFinalReport sid (with_evidence r ev sid inp) = Inr report
            \<and> final_session_id report = sid
            \<and> res = Inr (EmissionCompleted l s s' (emission r sid report))
            \<and> fs' = stored_state r sid s' (report_written r sid report fs)
            \<and> readPawSessionState r fs' sid = Inr s' \<and> state_name s' = Member (Active FINAL_REPORT)
            \<and> completed_slice_ids s' = plan_order s))
    \<or> fs' = fs \<and> (\<forall>l s s' e. res \<noteq> Inr (EmissionCompleted l s s' e))
      \<and> \<not> (\<exists>l s. holds_live_lock env r fs sid opts l \<and> readPawSessionState r fs sid = Inr s
            \<and> state_name s = Member (Active SLICE_DONE) \<and> pending_slice_ids s = []
            \<and> \<not> blank (report_summary inp))"
proof (cases "\<exists>l s. holds_live_lock env r fs sid opts l \<and> readPawSessionState r fs sid = Inr s
            \<and> state_name s = Member (Active SLICE_DONE) \<and> pending_slice_ids s = []
            \<and> \<not> blank (report_summary inp)")
  case True
  then obtain l s where lock: "holds_live_lock env r fs sid opts l" and rd: "readPawSessionState r fs sid = Inr s"
    and st: "state_name s = Member (Active SLICE_DONE)" "pending_slice_ids s = []"
    and sum: "\<not> blank (report_summary inp)" by blast
  have dr: "drives env r fs sid opts l s" using assms(1) lock rd by (simp add: drives_def)
  have v: "validSessionId sid" using lock by (simp add: holds_live_lock_def)
  have "report_summary (with_evidence r ev sid inp) = report_summary inp" by (simp add: with_evidence_def)
  with report_created [OF v, of "with_evidence r ev sid inp"] sum
  obtain report where rep: "createPawFinalReport sid (with_evidence r ev sid inp) = Inr report" by auto
  note inv = drives_phase [OF dr]
  then have wf: "session_wf s" and cur: "current_slice_id s = None"
    using st by (auto simp: phase_inv_def phase_def working_states_def)
  note t = final_transition [OF wf st]
  have emit: "res = Inr (EmissionCompleted l s (applyActiveTransition s FINAL_REPORT None) (emission r sid report))"
    "fs' = stored_state r sid (applyActiveTransition s FINAL_REPORT None) (report_written r sid report fs)"
    using emission_enters [OF dr st rep t(1)] assms(2) by simp_all
  have rd': "readPawSessionState r fs' sid = Inr (applyActiveTransition s FINAL_REPORT None)"
    using drives_step(2) [OF report_written_drives [OF dr] t(1)] by (simp add: emit(2) drives_def)
  have compl: "completed_slice_ids (applyActiveTransition s FINAL_REPORT None) = plan_order s"
    using cur st by (simp add: applyActiveTransition_def plan_order_def)
  show ?thesis
    using lock rd st sum rep final_report_id [OF v rep] emit rd' t(2) compl by blast
next
  case False
  have sum: "report_summary (with_evidence r ev sid inp) = report_summary inp" by (simp add: with_evidence_def)
  have never: False if "holds_live_lock env r fs sid opts l" "readPawSessionState r fs sid = Inr s"
      "state_name s = Member (Active SLICE_DONE)" "pending_slice_ids s = []"
      "createPawFinalReport sid (with_evidence r ev sid inp) = Inr report" for l s report
    using that(1-4) report_depends_on_summary [OF that(5)] False unfolding sum by blast
  from emission_cases [OF assms(2)]
  have "fs' = fs \<and> (\<forall>l s s' e. res \<noteq> Inr (EmissionCompleted l s s' e))"
    by (elim disjE exE conjE) (blast, (rule FalseE, erule (4) never)+)
  with False show ?thesis by blast
qed

section \<open>Examples\<close>

definition sample_executor :: PawNativeVerificationExecutor where
  "sample_executor n x = Inr \<lparr>exitCode = (if exec_gate x = ''build'' then 2 else 0), stdout = ''out'', stderr = [],
     timedOut = None\<rparr>"

definition sample_plan_env :: plan_env where
  "sample_plan_env = \<lparr>existsSync = (\<lambda>f. True), packageJson = None\<rparr>"

definition sample_plan :: "PawNativeVerificationPlanEntry list" where
  "sample_plan = createPawNativeVerificationPlan sample_plan_env [''tsc'', ''build'', ''sonar''] None"

definition sample_run_options :: PawNativeVerificationRunOptions where
  "sample_run_options = \<lparr>timeoutSec = 60, outputMaxChars = 100\<rparr>"

definition sample_verify_config :: PawVerifyConfig where
  "sample_verify_config = \<lparr>v1_gates = [''tsc'', ''build''], v2_optin_gates = []\<rparr>"

definition sample_results :: "PawNativeVerificationRunResult list" where
  "sample_results = projr (runPawNativeVerificationPlan sample_executor sample_run_options 0 sample_plan)"

definition sample_report_input :: "PawVerifyGateDecision list \<Rightarrow> PawFinalReportInput" where
  "sample_report_input ds = \<lparr>report_summary = '' all slices done'', report_evidence = [''checked''], report_risks = None,
     verifyDecisions = ds, degradedSteps = None, nextActions = None, nativeVerificationRunResults = None\<rparr>"

theorem report_verified_gates_executed_witness:
  "case createPawFinalReport ''s1'' (sample_report_input
       (mapPawNativeVerificationRunResults sample_results sample_verify_config)) of
     Inl e \<Rightarrow> False
   | Inr report \<Rightarrow> vouched sample_executor sample_run_options sample_plan ''tsc''
       \<and> final_status report = done_with_unverified \<and> map decision_gate (unverified_gates report) = [''build'']"
proof -
  let ?inp = "sample_report_input (mapPawNativeVerificationRunResults sample_results sample_verify_config)"
  have run: "runPawNativeVerificationPlan sample_executor sample_run_options 0 sample_plan = Inr sample_results"
    by code_simp
  have inp: "verifyDecisions ?inp = mapPawNativeVerificationRunResults sample_results sample_verify_config"
    by (simp add: sample_report_input_def)
  obtain report where report: "createPawFinalReport ''s1'' ?inp = Inr report"
    by (rule report_created [OF sample_id_valid, of ?inp]) (code_simp, blast)
  have facts: "case createPawFinalReport ''s1'' ?inp of Inl e \<Rightarrow> False | Inr report \<Rightarrow>
      final_status report = done_with_unverified \<and> map decision_gate (unverified_gates report) = [''build'']
      \<and> map decision_gate (verified_gates report) = [''tsc'']"
    by code_simp
  then have "''tsc'' \<in> set (map decision_gate (verified_gates report))" by (simp add: report)
  then obtain d where "d \<in> set (verified_gates report)" "decision_gate d = ''tsc''" by auto
  with report_verified_gates_executed [OF run inp report] have "vouched sample_executor sample_run_options sample_plan ''tsc''"
    by auto
  with facts show ?thesis by (simp add: report)
qed

text \<open>A session whose plan is done, locked by its process.\<close>

definition done_session :: PawSessionState where
  "done_session = sample_session (Active SLICE_DONE) None [] [''a'']"

lemma done_drives:
  "drives (sample_env 7) ''/repo'' (sample_store done_session) ''s1'' no_options
     (nextLock (sample_env 7) no_options) done_session"
proof -
  have run: "run_steps transitionPawSessionState (createInitialPawSessionState ''s1'')
      (intake_to_plan [''a''] @ slice_cycle) = Ok done_session"
    by code_simp
  have "session_wf done_session"
    unfolding sessionStateIssues_Nil [symmetric] by code_simp
  then show ?thesis
    by (simp add: drives_def sample_store_inv [OF run] sample_store_locked sample_store_read)
qed

theorem final_report_exact_witness:
  "case emitPawFinalReport (sample_env 7) ''/repo'' (sample_store done_session) Map.empty ''s1''
     (sample_report_input []) no_options of
     (res, fs') \<Rightarrow> (case res of Inr (EmissionCompleted l s s' e) \<Rightarrow> True | _ \<Rightarrow> False)
       \<and> map_sum id state_name (readPawSessionState ''/repo'' fs' ''s1'') = Inr (Member (Active FINAL_REPORT))"
proof -
  obtain res fs' where emit: "emitPawFinalReport (sample_env 7) ''/repo'' (sample_store done_session) Map.empty ''s1''
     (sample_report_input []) no_options = (res, fs')" by fastforce
  have inv: "store_inv ''/repo'' (sample_store done_session)" using done_drives by (simp add: drives_def)
  have changed: "case emitPawFinalReport (sample_env 7) ''/repo'' (sample_store done_session) Map.empty ''s1''
      (sample_report_input []) no_options of (res, fs') \<Rightarrow>
        (case res of Inr (EmissionCompleted l s s' e) \<Rightarrow> True | _ \<Rightarrow> False)"
    by code_simp
  from final_report_exact [OF inv emit] show ?thesis
  proof (elim disjE exE conjE)
    fix s'
    assume "readPawSessionState ''/repo'' fs' ''s1'' = Inr s'" "state_name s' = Member (Active FINAL_REPORT)"
    with emit changed show ?thesis by simp
  next
    assume "\<forall>l s s' e. res \<noteq> Inr (EmissionCompleted l s s' e)"
    with emit changed show ?thesis
      by (auto split: sum.splits PawFinalReportEmissionResult.splits)
  qed
qed


end
