(* ===== verification/Paw_Subagent.thy ===== *)
theory Paw_Subagent
  imports Paw_Results
begin

text \<open>
  What a sub-agent answers and what becomes of it: the contract of a sub-agent output
  (\<open>paw/contracts.ts\<close>) and its validation (\<open>paw/subagent.ts\<close>, \<open>paw/subagent-output-file.ts\<close>),
  the decision on a response (\<open>paw/subagent-response.ts\<close>), the model that is asked
  (\<open>paw/model-routing.ts\<close>), the sandbox that has to be there (\<open>paw/security-policy.ts\<close>,
  \<open>paw/subagent-sandbox-preflight.ts\<close>), and one invocation through an executor
  (\<open>paw/subagent-runtime.ts\<close>).

  The schema is the predicate \<open>PawSubAgentOutputSchema\<close> on JSON values, with the meaning the
  schema library documents for its combinators; the texts of its error messages are the
  parameter \<open>schema_errors\<close>. The executor that asks a provider is a parameter as well.
\<close>

section \<open>Schemas\<close>

definition schemaString :: "nat \<Rightarrow> json \<Rightarrow> bool" where
  "schemaString minLength v = (case v of JString s \<Rightarrow> minLength \<le> length s | _ \<Rightarrow> False)"

definition schemaLiterals :: "string list \<Rightarrow> json \<Rightarrow> bool" where
  "schemaLiterals ls v = (case v of JString s \<Rightarrow> s \<in> set ls | _ \<Rightarrow> False)"

definition schemaArray :: "(json \<Rightarrow> bool) \<Rightarrow> json \<Rightarrow> bool" where
  "schemaArray item v = (case v of JArray xs \<Rightarrow> list_all item xs | _ \<Rightarrow> False)"

definition schemaBoolean :: "json \<Rightarrow> bool" where
  "schemaBoolean v = (case v of JBool b \<Rightarrow> True | _ \<Rightarrow> False)"

definition schemaNumber :: "json \<Rightarrow> bool" where
  "schemaNumber v = (case v of JNumber n \<Rightarrow> js_isFinite n | _ \<Rightarrow> False)"

definition schemaNonNegative :: "json \<Rightarrow> bool" where
  "schemaNonNegative v = (case v of JNumber (Num a) \<Rightarrow> 0 \<le> a | _ \<Rightarrow> False)"

definition schemaNatural :: "json \<Rightarrow> bool" where
  "schemaNatural v = (case v of JNumber n \<Rightarrow> js_isInteger n \<and> schemaNonNegative v | _ \<Rightarrow> False)"

text \<open>An object without additional properties: required and optional properties with their schemas.\<close>

definition schemaObject :: "(string \<times> (json \<Rightarrow> bool)) list \<Rightarrow> (string \<times> (json \<Rightarrow> bool)) list \<Rightarrow> json \<Rightarrow> bool" where
  "schemaObject required optional v = (case v of
     JObject rec \<Rightarrow>
       list_all (\<lambda>(k, p). json_has rec k \<and> p (json_get rec k)) required
       \<and> list_all (\<lambda>(k, p). json_get rec k = JUndefined \<or> p (json_get rec k)) optional
       \<and> list_all (\<lambda>(k, x). k \<in> fst ` set (required @ optional)) rec
   | _ \<Rightarrow> False)"

definition isDigitString :: "string \<Rightarrow> bool" where
  "isDigitString s \<longleftrightarrow> s \<noteq> [] \<and> list_all (\<lambda>c. 48 \<le> (of_char c :: nat) \<and> (of_char c :: nat) \<le> 57) s"

text \<open>The pattern \<open>^[0-9]+-[0-9]+$\<close>.\<close>

definition lineSpanPattern :: "string \<Rightarrow> bool" where
  "lineSpanPattern s = (case split_on CHR ''-'' s of [a, b] \<Rightarrow> isDigitString a \<and> isDigitString b | _ \<Rightarrow> False)"

text \<open>
  The pattern of an artifact reference: \<open>.paw/artifacts/\<close>, at least one character that is no
  line terminator, a role, and \<open>/report.md\<close>.
\<close>

definition artifactRefPattern :: "string \<Rightarrow> bool" where
  "artifactRefPattern s = list_ex (\<lambda>r.
     let pre = ''.paw/artifacts/''; suf = ''/'' @ r @ ''/report.md'';
         mid = take (length s - length pre - length suf) (drop (length pre) s) in
     length pre + length suf < length s \<and> starts_with pre s \<and> ends_with suf s
     \<and> list_all (\<lambda>c. c \<noteq> CHR 0x0A \<and> c \<noteq> CHR 0x0D) mid)
     [''scout'', ''planner'', ''worker'', ''reviewer'']"

definition schemaPattern :: "(string \<Rightarrow> bool) \<Rightarrow> json \<Rightarrow> bool" where
  "schemaPattern p v = (case v of JString s \<Rightarrow> p s | _ \<Rightarrow> False)"

definition schemaNullable :: "(json \<Rightarrow> bool) \<Rightarrow> json \<Rightarrow> bool" where
  "schemaNullable p v \<longleftrightarrow> v = JNull \<or> p v"

definition ChangedFileSchema :: "json \<Rightarrow> bool" where
  "ChangedFileSchema = schemaObject
     [(''path'', schemaString 1), (''change_type'', schemaLiterals [''create'', ''modify'', ''delete'', ''rename'']),
      (''content_hash'', schemaString 0)]
     [(''apply_method'', schemaLiterals [''diff'', ''fuzzy_diff'', ''full_file'']),
      (''base_content_hash'', schemaNullable (schemaString 0)), (''new_content'', schemaNullable (schemaString 0)),
      (''unified_diff'', schemaString 0)]"

definition InspectedFileSchema :: "json \<Rightarrow> bool" where
  "InspectedFileSchema = schemaObject [(''path'', schemaString 1)]
     [(''line_span'', schemaPattern lineSpanPattern), (''rationale'', schemaPattern (\<lambda>s. length s \<le> 200)),
      (''rank'', schemaNumber), (''required'', schemaBoolean)]"

definition PlanSliceSchema :: "json \<Rightarrow> bool" where
  "PlanSliceSchema = schemaObject
     [(''slice_id'', schemaString 0), (''title'', schemaString 0), (''order'', schemaNatural)]
     [(''target_files'', schemaArray (schemaString 0)),
      (''max_risk_level'', schemaLiterals [''R0'', ''R1'', ''R2'', ''R3'', ''R4'', ''R5'', ''R6'', ''R7'']),
      (''acceptance'', schemaString 0)]"

definition RiskSchema :: "json \<Rightarrow> bool" where
  "RiskSchema = schemaObject [(''description'', schemaString 0),
     (''severity'', schemaLiterals [''low'', ''medium'', ''high'', ''critical''])] []"

definition BlockedReasonSchema :: "json \<Rightarrow> bool" where
  "BlockedReasonSchema = schemaObject []
     [(''code'', schemaLiterals [''NEEDS_USER_DECISION'', ''BUDGET_EXCEEDED'', ''TEST_FAILURE'', ''BUILD_FAILURE'',
         ''TOOL_PERMISSION'', ''CONTEXT_MISSING'', ''PROVIDER_UNAVAILABLE'', ''SANDBOX_UNAVAILABLE'', ''PATCH_APPLY_FAILED'']),
      (''message'', schemaString 0), (''suggested_action'', schemaString 0)]"

definition PawSubAgentOutputSchema :: "json \<Rightarrow> bool" where
  "PawSubAgentOutputSchema = schemaObject
     [(''status'', schemaLiterals [''pass'', ''fail'', ''blocked'', ''needs_user_decision'']),
      (''confidence'', schemaLiterals [''low'', ''medium'', ''high'']),
      (''agent'', schemaLiterals [''scout'', ''planner'', ''worker'', ''reviewer'']),
      (''session_id'', schemaString 1), (''artifact_ref'', schemaPattern artifactRefPattern),
      (''changed_files'', schemaArray ChangedFileSchema), (''inspected_files'', schemaArray InspectedFileSchema),
      (''risks'', schemaArray RiskSchema), (''next_actions'', schemaArray (schemaString 0)),
      (''tokens_used'', schemaNatural), (''usd_cost'', schemaNonNegative), (''degraded'', schemaBoolean)]
     [(''slice_id'', schemaNullable (schemaString 0)), (''plan_slices'', schemaArray PlanSliceSchema),
      (''blocked_reason'', schemaNullable BlockedReasonSchema), (''model_used'', schemaNullable (schemaString 0))]"

section \<open>Reading a conforming value\<close>

text \<open>
  A value that conforms is used as a \<open>PawSubAgentOutput\<close>; \<open>outputOfJson\<close> reads the fields the
  code uses. Its results for other values are never used.
\<close>

definition stringOf :: "json \<Rightarrow> string" where
  "stringOf v = (case v of JString s \<Rightarrow> s | _ \<Rightarrow> '''')"

definition fieldsOf :: "json \<Rightarrow> (string \<times> json) list" where
  "fieldsOf v = (case v of JObject rec \<Rightarrow> rec | _ \<Rightarrow> [])"

definition itemsOf :: "json \<Rightarrow> json list" where
  "itemsOf v = (case v of JArray xs \<Rightarrow> xs | _ \<Rightarrow> [])"

definition optionalString :: "json \<Rightarrow> string option" where
  "optionalString v = (case v of JString s \<Rightarrow> Some s | _ \<Rightarrow> None)"

definition nullableString :: "json \<Rightarrow> string option option" where
  "nullableString v = (case v of JString s \<Rightarrow> Some (Some s) | JNull \<Rightarrow> Some None | _ \<Rightarrow> None)"

fun outputStatusString :: "output_status \<Rightarrow> string" where
  "outputStatusString pass = ''pass''"
| "outputStatusString fail = ''fail''"
| "outputStatusString blocked = ''blocked''"
| "outputStatusString needs_user_decision = ''needs_user_decision''"

definition memberOf :: "('a \<Rightarrow> string) \<Rightarrow> 'a list \<Rightarrow> 'a \<Rightarrow> string \<Rightarrow> 'a" where
  "memberOf f xs d s = or_else (find (\<lambda>x. f x = s) xs) d"

definition changedFileOfJson :: "json \<Rightarrow> PawChangedFile" where
  "changedFileOfJson v = (let rec = fieldsOf v in
     \<lparr>changed_path = stringOf (json_get rec ''path''),
      changed_type = memberOf changeTypeString [create, modify, delete, rename] modify (stringOf (json_get rec ''change_type'')),
      content_hash = stringOf (json_get rec ''content_hash''),
      apply_method = map_option (memberOf methodString [diff, fuzzy_diff, full_file] diff)
        (optionalString (json_get rec ''apply_method'')),
      base_content_hash = nullableString (json_get rec ''base_content_hash''),
      new_content = nullableString (json_get rec ''new_content''),
      unified_diff = optionalString (json_get rec ''unified_diff'')\<rparr>)"

definition blockedReasonOfJson :: "json \<Rightarrow> output_blocked_reason option" where
  "blockedReasonOfJson v = (case v of
     JObject rec \<Rightarrow> Some
       \<lparr>output_reason_code = map_option (castOf blockedCodeString PAW_BLOCKED_REASON_CODES)
          (optionalString (json_get rec ''code'')),
        output_reason_message = optionalString (json_get rec ''message''),
        output_reason_action = optionalString (json_get rec ''suggested_action'')\<rparr>
   | _ \<Rightarrow> None)"

definition outputOfJson :: "json \<Rightarrow> PawSubAgentOutput" where
  "outputOfJson v = (let rec = fieldsOf v in
     \<lparr>status = memberOf outputStatusString [pass, fail, blocked, needs_user_decision] fail
        (stringOf (json_get rec ''status'')),
      agent = memberOf roleString [scout, planner, worker, reviewer] scout (stringOf (json_get rec ''agent'')),
      output_session_id = stringOf (json_get rec ''session_id''),
      output_slice_id = nullableString (json_get rec ''slice_id''),
      artifact_ref = stringOf (json_get rec ''artifact_ref''),
      changed_files = map changedFileOfJson (itemsOf (json_get rec ''changed_files'')),
      output_reason = blockedReasonOfJson (json_get rec ''blocked_reason'')\<rparr>)"

section \<open>Validation\<close>

definition isRecord :: "json \<Rightarrow> bool" where
  "isRecord v = (case v of JObject rec \<Rightarrow> True | _ \<Rightarrow> False)"

definition getSubAgentConditionalIssues :: "json \<Rightarrow> PawValidationIssue list" where
  "getSubAgentConditionalIssues v = (case v of
     JObject rec \<Rightarrow>
       (if (json_get rec ''status'' = JString ''blocked'' \<or> json_get rec ''status'' = JString ''needs_user_decision'')
           \<and> (\<not> json_has rec ''blocked_reason'' \<or> \<not> isRecord (json_get rec ''blocked_reason''))
        then [Issue ''/blocked_reason'' ''Expected object for blocked or needs_user_decision status''] else [])
       @ (if json_get rec ''agent'' = JString ''planner'' \<and> json_get rec ''status'' = JString ''pass''
             \<and> \<not> (case json_get rec ''plan_slices'' of JArray xs \<Rightarrow> True | _ \<Rightarrow> False)
          then [Issue ''/plan_slices'' ''Expected planner pass output to include plan_slices''] else [])
   | _ \<Rightarrow> [])"

text \<open>\<open>confidence >= k\<close> on numbers, false for \<open>NaN\<close>.\<close>

definition js_ge :: "js_number \<Rightarrow> js_number \<Rightarrow> bool" where
  "js_ge x y \<longleftrightarrow> js_gt x y \<or> x = y \<and> x \<noteq> NaN"

definition normalizeConfidence :: "json \<Rightarrow> json" where
  "normalizeConfidence v = (case v of
     JNumber n \<Rightarrow> JString (if js_ge n (Num (3 / 4)) then ''high'' else if js_ge n (Num (2 / 5)) then ''medium'' else ''low'')
   | _ \<Rightarrow> v)"

definition normalizeRisks :: "json \<Rightarrow> json" where
  "normalizeRisks v = (case v of
     JArray xs \<Rightarrow> JArray (map (\<lambda>r. case r of
        JString s \<Rightarrow> JObject [(''description'', JString s), (''severity'', JString ''medium'')]
      | _ \<Rightarrow> r) xs)
   | _ \<Rightarrow> v)"

definition normalizePawSubAgentOutputCandidate :: "json \<Rightarrow> json" where
  "normalizePawSubAgentOutputCandidate v = (case v of
     JObject rec \<Rightarrow> JObject (map (\<lambda>(k, x). (k,
       if k = ''confidence'' then normalizeConfidence x else if k = ''risks'' then normalizeRisks x else x)) rec)
   | _ \<Rightarrow> v)"

type_synonym schema_errors = "json \<Rightarrow> PawValidationIssue list"

definition validatePawSubAgentOutput :: "schema_errors \<Rightarrow> json \<Rightarrow> PawSubAgentOutput PawValidationResult" where
  "validatePawSubAgentOutput errors v =
     (let normalized = normalizePawSubAgentOutputCandidate v;
          issues = (if PawSubAgentOutputSchema normalized then [] else errors normalized)
            @ getSubAgentConditionalIssues v
      in if length issues > 0 then Invalid issues else Ok (outputOfJson normalized))"

text \<open>The text of an output is its JSON value or a text that is no JSON.\<close>

definition parsePawSubAgentOutputJson :: "schema_errors \<Rightarrow> file_text \<Rightarrow> PawSubAgentOutput PawValidationResult" where
  "parsePawSubAgentOutputJson errors content = (case content of
     BrokenText txt \<Rightarrow> Invalid [Issue ''/'' (''Invalid JSON: '' @ syntaxErrorMessage txt)]
   | JsonText v \<Rightarrow> validatePawSubAgentOutput errors v)"

datatype 'a file_read = FileMissing | FileInvalid "PawValidationIssue list" | FileOk 'a

definition readPawSubAgentOutputFile :: "schema_errors \<Rightarrow> files \<Rightarrow> string \<Rightarrow> PawSubAgentOutput file_read" where
  "readPawSubAgentOutputFile errors fs path = (case fs path of
     None \<Rightarrow> FileMissing
   | Some content \<Rightarrow> (case parsePawSubAgentOutputJson errors content of
        Invalid is \<Rightarrow> FileInvalid is
      | Ok out \<Rightarrow> FileOk out))"

section \<open>The decision on a response\<close>

record PawSubAgentResponseInput =
  rawOutput :: file_text
  attemptNumber :: int
  maxInvalidAttempts :: "int option"
  expectedAgent :: PawSubAgentRole
  expectedSessionId :: string
  expectedArtifactRef :: string
  expectedSliceId :: "string option option"
  modelUsed :: "string option"

datatype PawSubAgentResponseDecision =
    ResponseAccepted PawSubAgentOutput int
  | ResponseRetry int "PawValidationIssue list" string
  | ResponseBlocked PawSubAgentOutput int "PawValidationIssue list"

text \<open>\<open>JSON.stringify\<close> of a string.\<close>

definition hex_digit :: "nat \<Rightarrow> char" where
  "hex_digit n = (if n < 10 then char_of (48 + n) else char_of (87 + n))"

definition escapeJsonChar :: "char \<Rightarrow> string" where
  "escapeJsonChar c = (let n = (of_char c :: nat) in
     if n = 34 then [CHR 0x5C, CHR 0x22] else if n = 92 then [CHR 0x5C, CHR 0x5C]
     else if n = 8 then [CHR 0x5C, CHR ''b''] else if n = 12 then [CHR 0x5C, CHR ''f'']
     else if n = 10 then [CHR 0x5C, CHR ''n''] else if n = 13 then [CHR 0x5C, CHR ''r'']
     else if n = 9 then [CHR 0x5C, CHR ''t'']
     else if n < 32 then [CHR 0x5C, CHR ''u'', CHR ''0'', CHR ''0'', hex_digit (n div 16), hex_digit (n mod 16)]
     else [c])"

definition jsonQuoted :: "string \<Rightarrow> string" where
  "jsonQuoted s = quoted (concat (map escapeJsonChar s))"

definition nullableText :: "string option \<Rightarrow> string" where
  "nullableText v = (case v of None \<Rightarrow> ''null'' | Some s \<Rightarrow> jsonQuoted s)"

definition createMismatchIssue :: "string \<Rightarrow> string option \<Rightarrow> string option option \<Rightarrow> PawValidationIssue" where
  "createMismatchIssue path expected actual = Issue path
     (''Expected '' @ nullableText expected @ '' but received ''
       @ (case actual of None \<Rightarrow> ''undefined'' | Some v \<Rightarrow> nullableText v))"

definition getMetadataIssues :: "PawSubAgentOutput \<Rightarrow> PawSubAgentResponseInput \<Rightarrow> PawValidationIssue list" where
  "getMetadataIssues out inp =
     (if agent out \<noteq> expectedAgent inp
      then [createMismatchIssue ''/agent'' (Some (roleString (expectedAgent inp))) (Some (Some (roleString (agent out))))]
      else [])
     @ (if output_session_id out \<noteq> expectedSessionId inp
        then [createMismatchIssue ''/session_id'' (Some (expectedSessionId inp)) (Some (Some (output_session_id out)))]
        else [])
     @ (if artifact_ref out \<noteq> expectedArtifactRef inp
        then [createMismatchIssue ''/artifact_ref'' (Some (expectedArtifactRef inp)) (Some (Some (artifact_ref out)))]
        else [])
     @ (case expectedSliceId inp of
          None \<Rightarrow> []
        | Some e \<Rightarrow> if output_slice_id out \<noteq> Some e
                    then [createMismatchIssue ''/slice_id'' e (output_slice_id out)] else [])"

definition summarizeIssues :: "PawValidationIssue list \<Rightarrow> string" where
  "summarizeIssues is = join_with ''; '' (map (\<lambda>i. issue_path i @ '': '' @ issue_message i) is)"

definition createRetryMessage :: "PawValidationIssue list \<Rightarrow> string" where
  "createRetryMessage is = ''Sub-agent response did not match the required contract: '' @ summarizeIssues is"

text \<open>
  The blocked outputs the program itself makes up, as the JSON objects they are: they differ
  in the invocation they answer, in the risk, the next action and the reason they name.
\<close>

definition nullable :: "string option \<Rightarrow> json" where
  "nullable v = (case v of None \<Rightarrow> JNull | Some s \<Rightarrow> JString s)"

definition syntheticBlockedOutput ::
  "PawSubAgentRole \<Rightarrow> string \<Rightarrow> string option \<Rightarrow> string \<Rightarrow> string \<Rightarrow> string \<Rightarrow> PawBlockedReasonCode \<Rightarrow> string \<Rightarrow>
     string \<Rightarrow> bool \<Rightarrow> string option \<Rightarrow> json" where
  "syntheticBlockedOutput role sid slice artifact risk action rcode rmessage suggested is_degraded model = JObject
     [(''status'', JString ''blocked''), (''confidence'', JString ''low''), (''agent'', JString (roleString role)),
      (''session_id'', JString sid), (''slice_id'', nullable slice), (''artifact_ref'', JString artifact),
      (''changed_files'', JArray []), (''inspected_files'', JArray []),
      (''risks'', JArray [JObject [(''description'', JString risk), (''severity'', JString ''high'')]]),
      (''next_actions'', JArray [JString action]),
      (''blocked_reason'', JObject [(''code'', JString (blockedCodeString rcode)), (''message'', JString rmessage),
         (''suggested_action'', JString suggested)]),
      (''tokens_used'', JNumber (Num 0)), (''usd_cost'', JNumber (Num 0)), (''degraded'', JBool is_degraded),
      (''model_used'', nullable model)]"

definition createBlockedOutput ::
  "schema_errors \<Rightarrow> PawSubAgentResponseInput \<Rightarrow> PawValidationIssue list \<Rightarrow> PawSubAgentOutput throws" where
  "createBlockedOutput errors inp issues =
     (let output = syntheticBlockedOutput (expectedAgent inp) (expectedSessionId inp)
            (or_else (expectedSliceId inp) None) (expectedArtifactRef inp)
            ''Sub-agent response did not match the required contract.''
            ''Retry the sub-agent with the required JSON contract.''
            CONTEXT_MISSING (createRetryMessage issues)
            ''Retry the sub-agent with a valid Paw sub-agent output JSON object.''
            False (modelUsed inp)
      in case validatePawSubAgentOutput errors output of
           Invalid is \<Rightarrow> Inl (JsError (''Synthetic Paw blocked output failed validation: '' @ summarizeIssues is))
         | Ok v \<Rightarrow> Inr v)"

definition evaluatePawSubAgentResponse ::
  "schema_errors \<Rightarrow> PawSubAgentResponseInput \<Rightarrow> PawSubAgentResponseDecision throws" where
  "evaluatePawSubAgentResponse errors inp =
     (let maxAttempts = or_else (maxInvalidAttempts inp) 2;
          parsed = parsePawSubAgentOutputJson errors (rawOutput inp);
          issues = (case parsed of Ok out \<Rightarrow> getMetadataIssues out inp | Invalid is \<Rightarrow> is);
          rejected = (if attemptNumber inp < maxAttempts
            then Inr (ResponseRetry (attemptNumber inp) issues (createRetryMessage issues))
            else map_sum id (\<lambda>out. ResponseBlocked out (attemptNumber inp) issues) (createBlockedOutput errors inp issues))
      in case parsed of
           Ok out \<Rightarrow> if length issues = 0 then Inr (ResponseAccepted out (attemptNumber inp)) else rejected
         | Invalid is \<Rightarrow> rejected)"

section \<open>Model routing\<close>

datatype PawModelTierName = cheap | mid | strong

record PawModelTier =
  tier_provider :: string
  tier_model :: string
  tier_thinking :: bool

text \<open>
  The part of the configuration that routes: the tier of every routing role, the tiers, the
  configured providers (a provider configuration is not inspected) and where thinking is on.
\<close>

record 'p routing_config =
  role_routing :: "string \<Rightarrow> PawModelTierName"
  model_tiers :: "PawModelTierName \<Rightarrow> PawModelTier"
  failover_order :: "string list"
  providers :: "(string \<times> 'p) list"
  thinking_classes :: "PawTaskClass list"
  thinking_roles :: "string list"

record 'p PawResolvedModelRoute =
  route_role :: string
  route_taskClass :: PawTaskClass
  route_tierName :: PawModelTierName
  route_providerName :: string
  route_provider :: "'p option"
  route_model :: string
  route_thinking :: bool

definition getPawModelTier :: "'p routing_config \<Rightarrow> PawModelTierName \<Rightarrow> PawModelTier" where
  "getPawModelTier cfg t = model_tiers cfg t"

definition resolvePawProviderName :: "'p routing_config \<Rightarrow> string \<Rightarrow> string throws" where
  "resolvePawProviderName cfg p =
     (if p \<in> fst ` set (providers cfg) then Inr p
      else Inl (JsError (''Unknown Paw provider '' @ quoted p @ '' in model routing config.'')))"

definition isPawThinkingEnabled :: "'p routing_config \<Rightarrow> string \<Rightarrow> PawTaskClass \<Rightarrow> PawModelTierName \<Rightarrow> bool" where
  "isPawThinkingEnabled cfg role cls t \<longleftrightarrow>
     tier_thinking (getPawModelTier cfg t) \<and> cls \<in> set (thinking_classes cfg) \<and> role \<in> set (thinking_roles cfg)"

definition resolvePawModelRoute ::
  "'p routing_config \<Rightarrow> string \<Rightarrow> PawTaskClass \<Rightarrow> 'p PawResolvedModelRoute throws" where
  "resolvePawModelRoute cfg role cls =
     (let t = role_routing cfg role; tier = getPawModelTier cfg t in
      map_sum id (\<lambda>p. \<lparr>route_role = role, route_taskClass = cls, route_tierName = t, route_providerName = p,
          route_provider = map_of (providers cfg) p, route_model = tier_model tier,
          route_thinking = isPawThinkingEnabled cfg role cls t\<rparr>)
        (resolvePawProviderName cfg (tier_provider tier)))"

fun getPawFailoverRoutes :: "'p routing_config \<Rightarrow> string list \<Rightarrow> (string \<times> 'p option) list throws" where
  "getPawFailoverRoutes cfg [] = Inr []"
| "getPawFailoverRoutes cfg (p # ps) =
     (case resolvePawProviderName cfg p of
        Inl e \<Rightarrow> Inl e
      | Inr q \<Rightarrow> map_sum id (Cons (q, map_of (providers cfg) q)) (getPawFailoverRoutes cfg ps))"

section \<open>The sandbox\<close>

datatype PawSandboxDecision =
    SandboxAllow string bool string
  | SandboxUnsafe string
  | SandboxReadOnly string string
  | SandboxBlocked PawRiskLevel string string

definition evaluatePawSandbox :: "string list \<Rightarrow> string list \<Rightarrow> PawRiskLevel \<Rightarrow> bool option \<Rightarrow> PawSandboxDecision" where
  "evaluatePawSandbox preferred available risk unsafeOverride =
     (case find (\<lambda>p. p \<in> set available) preferred of
        Some p \<Rightarrow>
          SandboxAllow p (p \<noteq> hd preferred)
            (if p = hd preferred then ''Selected preferred sandbox primitive '' @ p @ ''.''
             else ''Selected fallback sandbox primitive '' @ p @ ''.'')
      | None \<Rightarrow>
          if unsafeOverride = Some True then
            SandboxUnsafe ''No configured sandbox primitive is available; unsafe override permits writes with reduced guarantees.''
          else if isPawRiskAtLeast risk R1 then
            SandboxBlocked risk
              (''No configured sandbox primitive is available; '' @ riskLevelString risk @ '' writes are blocked.'')
              ''Enable bubblewrap/Landlock or user namespaces, rerun read-only, or pass --no-sandbox-i-understand.''
          else
            SandboxReadOnly
              ''No configured sandbox primitive is available; R0 may continue only in read-only mode.''
              ''Enable a sandbox primitive before attempting writes.'')"

section \<open>One invocation\<close>

record PawSubAgentRuntimeInvocation =
  inv_role :: PawSubAgentRole
  inv_session_id :: string
  inv_slice_id :: "string option option"
  inv_artifact_ref :: string
  inv_handoff :: string
  handoff_token_estimate :: int
  max_handoff_tokens :: int
  attempt_number :: int
  inv_model_id :: "string option option"

record PawSubAgentRuntimeDegradedMetadata =
  degraded_why :: string
  degraded_details :: "string option"

text \<open>\<open>model_id\<close> and \<open>degraded\<close> may be absent, null or present.\<close>

record PawSubAgentRuntimeExecutorResult =
  raw_output :: file_text
  exec_model_id :: "string option option"
  exec_degraded :: "PawSubAgentRuntimeDegradedMetadata option option"

text \<open>An executor may answer the same invocation differently each time.\<close>

type_synonym PawSubAgentRuntimeExecutor =
  "nat \<Rightarrow> PawSubAgentRuntimeInvocation \<Rightarrow> PawSubAgentRuntimeExecutorResult throws"

record PawSubAgentRuntimeDecision =
  runtime_decision :: PawSubAgentResponseDecision
  executor_model_id :: "string option option"
  executor_degraded :: "PawSubAgentRuntimeDegradedMetadata option option"

record PawSubAgentSandboxPreflightInput =
  availablePrimitives :: "string list"
  preflight_risk :: "PawRiskLevel option"
  unsafeOverride :: "bool option"

definition nullish :: "'a option option \<Rightarrow> 'a option" where
  "nullish v = or_else v None"

definition blockedDecision :: "json \<Rightarrow> int \<Rightarrow> PawValidationIssue list \<Rightarrow> PawSubAgentRuntimeDecision" where
  "blockedDecision output attempts issues =
     \<lparr>runtime_decision = ResponseBlocked (outputOfJson output) attempts issues,
      executor_model_id = None, executor_degraded = None\<rparr>"

definition createSandboxUnavailableOutput :: "PawSubAgentRuntimeInvocation \<Rightarrow> string \<Rightarrow> string \<Rightarrow> json" where
  "createSandboxUnavailableOutput ivk message action =
     syntheticBlockedOutput (inv_role ivk) (inv_session_id ivk) (nullish (inv_slice_id ivk)) (inv_artifact_ref ivk)
       ''No configured Paw sandbox primitive is available for write-capable work.'' action
       SANDBOX_UNAVAILABLE message action True (nullish (inv_model_id ivk))"

definition evaluatePawSubAgentSandboxPreflight ::
  "string list \<Rightarrow> PawSubAgentRuntimeInvocation \<Rightarrow> PawSubAgentSandboxPreflightInput option \<Rightarrow>
     PawSubAgentRuntimeDecision option" where
  "evaluatePawSubAgentSandboxPreflight preferred ivk preflight =
     (case preflight of
        None \<Rightarrow> None
      | Some i \<Rightarrow>
          (case evaluatePawSandbox preferred (availablePrimitives i) (or_else (preflight_risk i) R1) (unsafeOverride i) of
             SandboxAllow p degraded message \<Rightarrow> None
           | SandboxUnsafe message \<Rightarrow> None
           | SandboxReadOnly message action \<Rightarrow>
               Some (blockedDecision (createSandboxUnavailableOutput ivk message action) 0 [Issue ''/sandbox'' message])
           | SandboxBlocked risk message action \<Rightarrow>
               Some (blockedDecision (createSandboxUnavailableOutput ivk message action) 0 [Issue ''/sandbox'' message])))"

definition getOversizedHandoffIssue :: "PawSubAgentRuntimeInvocation \<Rightarrow> PawValidationIssue option" where
  "getOversizedHandoffIssue ivk =
     (if handoff_token_estimate ivk \<le> max_handoff_tokens ivk then None
      else Some (Issue ''/handoff_token_estimate''
        (''Estimated handoff tokens '' @ show_int (handoff_token_estimate ivk) @ '' exceed max_handoff_tokens ''
          @ show_int (max_handoff_tokens ivk) @ ''.'')))"

definition createResponseInput ::
  "PawSubAgentRuntimeInvocation \<Rightarrow> string option \<Rightarrow> file_text \<Rightarrow> PawSubAgentResponseInput" where
  "createResponseInput ivk model raw =
     \<lparr>rawOutput = raw, attemptNumber = attempt_number ivk, maxInvalidAttempts = None, expectedAgent = inv_role ivk,
      expectedSessionId = inv_session_id ivk, expectedArtifactRef = inv_artifact_ref ivk,
      expectedSliceId = inv_slice_id ivk, modelUsed = model\<rparr>"

definition createOversizedHandoffDecision ::
  "schema_errors \<Rightarrow> PawSubAgentRuntimeInvocation \<Rightarrow> PawValidationIssue \<Rightarrow> PawSubAgentRuntimeDecision throws" where
  "createOversizedHandoffDecision errors ivk issue =
     (let output = syntheticBlockedOutput (inv_role ivk) (inv_session_id ivk) (nullish (inv_slice_id ivk))
            (inv_artifact_ref ivk) ''Sub-agent handoff exceeds the configured handoff token limit.''
            ''Reduce the handoff context before invoking the sub-agent.'' BUDGET_EXCEEDED (issue_message issue)
            ''Reduce handoff text or increase the sub-agent handoff token cap.'' False (nullish (inv_model_id ivk))
      in case evaluatePawSubAgentResponse errors
                (createResponseInput ivk (nullish (inv_model_id ivk)) (JsonText output)) of
           Inl e \<Rightarrow> Inl e
         | Inr (ResponseAccepted out n) \<Rightarrow> Inr \<lparr>runtime_decision = ResponseBlocked out (attempt_number ivk) [issue],
             executor_model_id = None, executor_degraded = None\<rparr>
         | Inr _ \<Rightarrow> Inl (JsError ''Synthetic oversized Paw blocked output failed validation.''))"

text \<open>One run; it counts the calls of the executor.\<close>

definition runPawSubAgentRuntime ::
  "schema_errors \<Rightarrow> PawSubAgentRuntimeInvocation \<Rightarrow> PawSubAgentRuntimeExecutor \<Rightarrow> nat \<Rightarrow>
     PawSubAgentRuntimeDecision throws \<times> nat" where
  "runPawSubAgentRuntime errors ivk executor n =
     (case getOversizedHandoffIssue ivk of
        Some issue \<Rightarrow> (createOversizedHandoffDecision errors ivk issue, n)
      | None \<Rightarrow>
          (case executor n ivk of
             Inl e \<Rightarrow> (Inl e, Suc n)
           | Inr x \<Rightarrow>
               (map_sum id (\<lambda>d. \<lparr>runtime_decision = d, executor_model_id = exec_model_id x, executor_degraded = exec_degraded x\<rparr>)
                  (evaluatePawSubAgentResponse errors
                     (createResponseInput ivk
                        (case nullish (exec_model_id x) of Some m \<Rightarrow> Some m | None \<Rightarrow> nullish (inv_model_id ivk))
                        (raw_output x))), Suc n)))"


section \<open>The executor that asks a provider\<close>

text \<open>
  What a provider call returns; the call itself, the registry of models and the prompt text
  are not modelled, the first two are parameters.
\<close>

record AssistantMessage =
  stopReason :: string
  errorMessage :: "string option"
  responseModel :: "string option"
  messageModel :: "string option"
  textContents :: "string list"

record 'm model_registry =
  findModel :: "string \<Rightarrow> string \<Rightarrow> 'm option"
  hasConfiguredAuth :: "'m \<Rightarrow> bool"
  getApiKeyAndHeaders :: "'m \<Rightarrow> string option"
  modelIdOf :: "'m \<Rightarrow> string"

record PawProviderSubAgentCompletionResult =
  completion_text :: file_text
  completion_model_id :: "string option option"
  completion_degraded :: "PawSubAgentRuntimeDegradedMetadata option option"

definition parsePawProviderModelRef :: "string \<Rightarrow> string option \<Rightarrow> (string \<times> string) throws" where
  "parsePawProviderModelRef modelId defaultProvider =
     (let trimmed = js_trim modelId;
          bad = Inl (JsError (''Paw sub-agent model '' @ jsonQuoted trimmed @ '' must include provider/model.'')) in
      if length trimmed = 0 then Inl (JsError ''Paw sub-agent model id cannot be blank.'')
      else if CHR ''/'' \<notin> set trimmed then
        (case defaultProvider of
           None \<Rightarrow> bad
         | Some p \<Rightarrow> if blank p then bad else Inr (p, trimmed))
      else let p = takeWhile (\<lambda>c. c \<noteq> CHR ''/'') trimmed; m = tl (dropWhile (\<lambda>c. c \<noteq> CHR ''/'') trimmed) in
        if length p = 0 \<or> length m = 0 then bad else Inr (p, m))"

text \<open>
  The resolver: the id resolver may replace the model id, and throw; \<open>getApiKeyAndHeaders\<close> gives
  the error of a failed authentication.
\<close>

definition createPawModelRegistrySubAgentResolver ::
  "'m model_registry \<Rightarrow> string option \<Rightarrow> (PawSubAgentRuntimeInvocation \<Rightarrow> string throws) option \<Rightarrow>
     PawSubAgentRuntimeInvocation \<Rightarrow> string \<Rightarrow> 'm throws" where
  "createPawModelRegistrySubAgentResolver reg defaultProvider idResolver ivk model_id =
     (case (case idResolver of None \<Rightarrow> Inr model_id | Some f \<Rightarrow> f ivk) of
        Inl e \<Rightarrow> Inl e
      | Inr modelId \<Rightarrow>
          (case parsePawProviderModelRef modelId defaultProvider of
             Inl e \<Rightarrow> Inl e
           | Inr (p, m) \<Rightarrow>
               (case findModel reg p m of
                  None \<Rightarrow> Inl (JsError (''Paw sub-agent model '' @ p @ ''/'' @ m @ '' was not found.''))
                | Some model \<Rightarrow>
                    if \<not> hasConfiguredAuth reg model
                    then Inl (JsError (''Paw sub-agent model '' @ p @ ''/'' @ m @ '' has no configured auth.''))
                    else (case getApiKeyAndHeaders reg model of
                            Some err \<Rightarrow> Inl (JsError err)
                          | None \<Rightarrow> Inr model))))"

definition createPawProviderCompletionAttempts ::
  "string \<Rightarrow> string list option \<Rightarrow> (string \<times> PawSubAgentRuntimeDegradedMetadata option) list" where
  "createPawProviderCompletionAttempts model_id fallbacks =
     (model_id, None) # map (\<lambda>m. (m, Some \<lparr>degraded_why = ''provider_failover'',
        degraded_details = Some (''Failed over from '' @ model_id @ '' to '' @ m @ ''.'')\<rparr>)) (or_else fallbacks [])"

text \<open>How the text of a message is read as JSON is the parameter \<open>view\<close>.\<close>

definition completePawProviderSubAgentAttempt ::
  "(string \<Rightarrow> file_text) \<Rightarrow> 'm model_registry \<Rightarrow> (string \<Rightarrow> 'm throws) \<Rightarrow> ('m \<Rightarrow> AssistantMessage throws) \<Rightarrow> string \<Rightarrow>
     PawSubAgentRuntimeDegradedMetadata option \<Rightarrow> PawProviderSubAgentCompletionResult throws" where
  "completePawProviderSubAgentAttempt view reg resolve completeSimple modelId degraded =
     (case resolve modelId of
        Inl e \<Rightarrow> Inl e
      | Inr model \<Rightarrow>
          (case completeSimple model of
             Inl e \<Rightarrow> Inl e
           | Inr m \<Rightarrow>
               if stopReason m = ''error'' \<or> stopReason m = ''aborted'' then
                 Inl (JsError (or_else (errorMessage m) (''provider stopped with '' @ stopReason m)))
               else Inr \<lparr>completion_text = view (join_with [CHR 0x0A] (textContents m)),
                 completion_model_id = Some (case responseModel m of Some x \<Rightarrow> Some x | None \<Rightarrow>
                   (case messageModel m of Some x \<Rightarrow> Some x | None \<Rightarrow> Some (modelIdOf reg model))),
                 completion_degraded = map_option Some degraded\<rparr>))"

definition getErrorMessage :: "js_error \<Rightarrow> string" where
  "getErrorMessage e = (let m = (case e of JsError m \<Rightarrow> m | FileSystemError c \<Rightarrow> c) in
     if \<not> blank m then m else ''Paw sub-agent provider did not return a completion.'')"

text \<open>The loop over the attempts: the first that returns decides, the last error is reported.\<close>

fun completionAttempts ::
  "(string \<Rightarrow> PawSubAgentRuntimeDegradedMetadata option \<Rightarrow> PawProviderSubAgentCompletionResult throws) \<Rightarrow>
     (string \<times> PawSubAgentRuntimeDegradedMetadata option) list \<Rightarrow> js_error \<Rightarrow>
     PawProviderSubAgentCompletionResult throws" where
  "completionAttempts attempt [] lastError =
     Inl (JsError (''Paw sub-agent provider completion failed: '' @ getErrorMessage lastError))"
| "completionAttempts attempt ((m, d) # rest) lastError =
     (case attempt m d of Inr x \<Rightarrow> Inr x | Inl e \<Rightarrow> completionAttempts attempt rest e)"

definition createProviderUnavailableExecutorResult ::
  "PawSubAgentRuntimeInvocation \<Rightarrow> string option \<Rightarrow> string \<Rightarrow> PawSubAgentRuntimeExecutorResult" where
  "createProviderUnavailableExecutorResult ivk modelId message =
     \<lparr>raw_output = JsonText (syntheticBlockedOutput (inv_role ivk) (inv_session_id ivk) (nullish (inv_slice_id ivk))
        (inv_artifact_ref ivk) ''Paw sub-agent provider execution is unavailable.''
        ''Configure a Paw provider-backed sub-agent executor before retrying.'' PROVIDER_UNAVAILABLE message
        ''Configure a supported Paw provider and retry the sub-agent step.'' True modelId),
      exec_model_id = Some modelId,
      exec_degraded = Some (Some \<lparr>degraded_why = ''provider_unavailable'', degraded_details = Some message\<rparr>)\<rparr>"

text \<open>
  The completion gets the model id and the fallback ids of the invocation. The resolver of the
  fallback ids is called outside the block that catches: what it throws, the executor throws.
\<close>

definition createPawProviderSubAgentExecutor ::
  "(nat \<Rightarrow> PawSubAgentRuntimeInvocation \<Rightarrow> string \<Rightarrow> string list option \<Rightarrow> PawProviderSubAgentCompletionResult throws) \<Rightarrow>
     (PawSubAgentRuntimeInvocation \<Rightarrow> string list throws) option \<Rightarrow> PawSubAgentRuntimeExecutor" where
  "createPawProviderSubAgentExecutor completion fallbackResolver = (\<lambda>n ivk.
     (case nullish (inv_model_id ivk) of
        None \<Rightarrow> Inr (createProviderUnavailableExecutorResult ivk None ''No Paw sub-agent model was selected.'')
      | Some m \<Rightarrow>
          if blank m then Inr (createProviderUnavailableExecutorResult ivk None ''No Paw sub-agent model was selected.'')
          else (case (case fallbackResolver of None \<Rightarrow> Inr None | Some f \<Rightarrow> map_sum id Some (f ivk)) of
                  Inl e \<Rightarrow> Inl e
                | Inr fallbacks \<Rightarrow> Inr (case completion n ivk m fallbacks of
                    Inl e \<Rightarrow> createProviderUnavailableExecutorResult ivk (Some m) (getErrorMessage e)
                  | Inr x \<Rightarrow> \<lparr>raw_output = completion_text x,
                      exec_model_id = Some (case nullish (completion_model_id x) of Some i \<Rightarrow> Some i | None \<Rightarrow> Some m),
                      exec_degraded = completion_degraded x\<rparr>))))"

definition createPawProviderSubAgentRuntimeExecutor ::
  "(string \<Rightarrow> file_text) \<Rightarrow> 'm model_registry \<Rightarrow> string option \<Rightarrow> (PawSubAgentRuntimeInvocation \<Rightarrow> string throws) option \<Rightarrow>
     (PawSubAgentRuntimeInvocation \<Rightarrow> string list throws) option \<Rightarrow> (nat \<Rightarrow> 'm \<Rightarrow> AssistantMessage throws) \<Rightarrow>
     PawSubAgentRuntimeExecutor" where
  "createPawProviderSubAgentRuntimeExecutor view reg defaultProvider idResolver fallbackResolver completeSimple =
     createPawProviderSubAgentExecutor
       (\<lambda>n ivk m fallbacks. completionAttempts
          (completePawProviderSubAgentAttempt view reg
             (createPawModelRegistrySubAgentResolver reg defaultProvider idResolver ivk) (completeSimple n))
          (createPawProviderCompletionAttempts m fallbacks) (JsError ''''))
       fallbackResolver"

section \<open>Synthetic outputs satisfy the contract\<close>

lemma memberOf_literal:
  assumes "inj_on f (set xs)" "a \<in> set xs"
  shows "memberOf f xs d (f a) = a"
proof -
  have "find (\<lambda>x. f x = f a) xs = Some a" using assms by (induction xs) (auto simp: inj_on_def)
  then show ?thesis by (simp add: memberOf_def or_else_def)
qed

lemma nullable_schema [simp]: "schemaNullable (schemaString 0) (nullable v)" "nullable v \<noteq> JUndefined"
  by (auto simp: schemaNullable_def schemaString_def nullable_def split: option.split)

lemma nullableString_nullable [simp]: "nullableString (nullable v) = Some v"
  by (cases v) (simp_all add: nullableString_def nullable_def)

lemma blockedCode_literal:
  "blockedCodeString c \<in> set [''NEEDS_USER_DECISION'', ''BUDGET_EXCEEDED'', ''TEST_FAILURE'', ''BUILD_FAILURE'',
     ''TOOL_PERMISSION'', ''CONTEXT_MISSING'', ''PROVIDER_UNAVAILABLE'', ''SANDBOX_UNAVAILABLE'', ''PATCH_APPLY_FAILED'']"
  by (cases c) simp_all

lemma role_literal: "roleString r \<in> set [''scout'', ''planner'', ''worker'', ''reviewer'']"
  by (cases r) simp_all


text \<open>
  A made-up output conforms exactly when the session id is not empty and the artifact reference
  has the required form; it reads back as the blocked output it was made as.
\<close>

definition synthetic_output ::
  "PawSubAgentRole \<Rightarrow> string \<Rightarrow> string option \<Rightarrow> string \<Rightarrow> PawBlockedReasonCode \<Rightarrow> string \<Rightarrow> string \<Rightarrow> PawSubAgentOutput" where
  "synthetic_output role sid slice artifact rcode rmessage suggested =
     \<lparr>status = blocked, agent = role, output_session_id = sid, output_slice_id = Some slice, artifact_ref = artifact,
      changed_files = [], output_reason = Some \<lparr>output_reason_code = Some (Member rcode),
        output_reason_message = Some rmessage, output_reason_action = Some suggested\<rparr>\<rparr>"

lemma risk_conforms: "RiskSchema (JObject [(''description'', JString d), (''severity'', JString ''high'')])"
  by (simp add: RiskSchema_def schemaObject_def schemaString_def schemaLiterals_def json_has_def json_get_def)

lemma reason_conforms:
  "BlockedReasonSchema (JObject [(''code'', JString (blockedCodeString c)), (''message'', JString m), (''suggested_action'', JString a)])"
  using blockedCode_literal [of c]
  by (simp add: BlockedReasonSchema_def schemaObject_def schemaString_def schemaLiterals_def json_get_def)

lemma schema_on_values:
  "schemaString n (JString s) \<longleftrightarrow> n \<le> length s"
  "schemaNullable p (JObject rec) \<longleftrightarrow> p (JObject rec)"
  by (simp_all add: schemaString_def schemaNullable_def)

lemma synthetic_conforms:
  "PawSubAgentOutputSchema (syntheticBlockedOutput role sid slice artifact risk action rcode rmessage suggested dg model)
     \<longleftrightarrow> sid \<noteq> [] \<and> artifactRefPattern artifact"
  using role_literal [of role] risk_conforms [of risk] reason_conforms [of rcode rmessage suggested]
  by (cases sid) (auto simp: PawSubAgentOutputSchema_def syntheticBlockedOutput_def schemaObject_def schemaArray_def
      json_has_def json_get_def schemaLiterals_def schema_on_values schemaPattern_def schemaNatural_def
      schemaNonNegative_def schemaBoolean_def)

lemma synthetic_normal:
  "normalizePawSubAgentOutputCandidate
     (syntheticBlockedOutput role sid slice artifact risk action rcode rmessage suggested dg model)
   = syntheticBlockedOutput role sid slice artifact risk action rcode rmessage suggested dg model"
  by (simp add: normalizePawSubAgentOutputCandidate_def syntheticBlockedOutput_def normalizeConfidence_def
      normalizeRisks_def)

lemma synthetic_unconditional:
  "getSubAgentConditionalIssues
     (syntheticBlockedOutput role sid slice artifact risk action rcode rmessage suggested dg model) = []"
  by (simp add: getSubAgentConditionalIssues_def syntheticBlockedOutput_def json_get_def json_has_def isRecord_def)

lemma synthetic_reads:
  "outputOfJson (syntheticBlockedOutput role sid slice artifact risk action rcode rmessage suggested dg model)
   = synthetic_output role sid slice artifact rcode rmessage suggested"
proof -
  have role: "memberOf roleString [scout, planner, worker, reviewer] scout (roleString role) = role"
    by (rule memberOf_literal) (cases role; auto simp: inj_on_def)+
  have status: "memberOf outputStatusString [pass, fail, blocked, needs_user_decision] fail ''blocked'' = blocked"
    by (simp add: memberOf_def or_else_def)
  have code: "castOf blockedCodeString PAW_BLOCKED_REASON_CODES (blockedCodeString rcode) = Member rcode"
    using inj_blockedCodeString by (intro castOf_member) (auto simp: blocked_codes_complete intro: inj_on_subset)
  show ?thesis
    by (simp add: outputOfJson_def syntheticBlockedOutput_def synthetic_output_def json_get_def fieldsOf_def stringOf_def
        itemsOf_def blockedReasonOfJson_def optionalString_def role code status Let_def)
qed

lemma synthetic_valid:
  assumes "sid \<noteq> []" "artifactRefPattern artifact"
  shows "validatePawSubAgentOutput errors
      (syntheticBlockedOutput role sid slice artifact risk action rcode rmessage suggested dg model)
    = Ok (synthetic_output role sid slice artifact rcode rmessage suggested)"
  using assms
  by (simp add: validatePawSubAgentOutput_def synthetic_conforms synthetic_normal synthetic_unconditional
      synthetic_reads Let_def)


section \<open>Responses\<close>

lemma json_get_map: "json_get (map (\<lambda>(k, x). (k, f k x)) rec) k =
    (case map_of rec k of None \<Rightarrow> JUndefined | Some x \<Rightarrow> f k x)"
  by (induction rec) (auto simp: json_get_def)

lemma normalized_get:
  assumes "k \<noteq> ''confidence''" "k \<noteq> ''risks''"
  shows "json_get (fieldsOf (normalizePawSubAgentOutputCandidate v)) k = json_get (fieldsOf v) k"
proof (cases v)
  case (JObject rec)
  then have "json_get (fieldsOf (normalizePawSubAgentOutputCandidate v)) k =
      (case map_of rec k of None \<Rightarrow> JUndefined | Some x \<Rightarrow> x)"
    using assms by (simp add: normalizePawSubAgentOutputCandidate_def fieldsOf_def json_get_map split: option.split)
  with JObject show ?thesis by (simp add: fieldsOf_def json_get_def split: option.split)
qed (simp_all add: normalizePawSubAgentOutputCandidate_def fieldsOf_def)

lemma memberOf_string:
  assumes "memberOf f xs d s = a" "a \<noteq> d"
  shows "s = f a"
  using assms by (auto simp: memberOf_def or_else_def find_Some_iff split: option.splits)

lemma valid_output:
  assumes "\<forall>u. \<not> PawSubAgentOutputSchema u \<longrightarrow> errors u \<noteq> []" "validatePawSubAgentOutput errors v = Ok out"
  shows "PawSubAgentOutputSchema (normalizePawSubAgentOutputCandidate v)
    \<and> out = outputOfJson (normalizePawSubAgentOutputCandidate v)
    \<and> (status out \<in> {blocked, needs_user_decision} \<longrightarrow> output_reason out \<noteq> None)"
proof -
  let ?n = "normalizePawSubAgentOutputCandidate v"
  from assms(2) have iss: "(if PawSubAgentOutputSchema ?n then [] else errors ?n) = []"
    "getSubAgentConditionalIssues v = []" and out: "out = outputOfJson ?n"
    by (simp_all add: validatePawSubAgentOutput_def Let_def split: if_splits)
  from iss(1) assms(1) have conf: "PawSubAgentOutputSchema ?n" by (auto split: if_splits)
  have "output_reason out \<noteq> None" if "status out \<in> {blocked, needs_user_decision}"
  proof -
    have "memberOf outputStatusString [pass, fail, blocked, needs_user_decision] fail
        (stringOf (json_get (fieldsOf ?n) ''status'')) = status out" by (simp add: out outputOfJson_def Let_def)
    from memberOf_string [OF this] that
    have "stringOf (json_get (fieldsOf ?n) ''status'') \<in> {''blocked'', ''needs_user_decision''}" by auto
    then have st: "json_get (fieldsOf v) ''status'' \<in> {JString ''blocked'', JString ''needs_user_decision''}"
      by (simp add: normalized_get stringOf_def split: json.splits)
    then obtain rec where v: "v = JObject rec"
      by (cases v) (auto simp: fieldsOf_def json_get_def)
    with st iss(2) have "isRecord (json_get (fieldsOf ?n) ''blocked_reason'')"
      unfolding normalized_get [of "''blocked_reason''", simplified]
      by (auto simp: getSubAgentConditionalIssues_def fieldsOf_def split: if_splits)
    then show ?thesis
      by (auto simp: out outputOfJson_def Let_def blockedReasonOfJson_def isRecord_def split: json.splits)
  qed
  with conf out show ?thesis by blast
qed

lemma metadata_issues_Nil:
  "getMetadataIssues out inp = [] \<longleftrightarrow> agent out = expectedAgent inp \<and> output_session_id out = expectedSessionId inp
     \<and> artifact_ref out = expectedArtifactRef inp
     \<and> (\<forall>e. expectedSliceId inp = Some e \<longrightarrow> output_slice_id out = Some e)"
  by (auto simp: getMetadataIssues_def split: option.splits)

lemma blocked_output_made:
  assumes "expectedSessionId inp \<noteq> []" "artifactRefPattern (expectedArtifactRef inp)"
  shows "createBlockedOutput errors inp issues = Inr (synthetic_output (expectedAgent inp) (expectedSessionId inp)
    (or_else (expectedSliceId inp) None) (expectedArtifactRef inp) CONTEXT_MISSING (createRetryMessage issues)
    ''Retry the sub-agent with a valid Paw sub-agent output JSON object.'')"
  by (simp add: createBlockedOutput_def synthetic_valid [OF assms] Let_def)

section \<open>Properties\<close>

text \<open>
  (C32) Every response of a sub-agent is decided, and only conforming output is accepted. For
  an invocation with a session id and a well-formed artifact reference the evaluation never
  throws: the synthetic blocked output always passes the validation it is put through. An
  accepted output is the value that was parsed, satisfies the output schema, answers this very
  invocation, and carries a reason whenever it says it is blocked. A response is retried only
  below the limit of attempts; at the limit it becomes a blocked output without changes.
\<close>

theorem subagent_response_decided:
  assumes "\<forall>u. \<not> PawSubAgentOutputSchema u \<longrightarrow> errors u \<noteq> []"
    and "expectedSessionId inp \<noteq> []" "artifactRefPattern (expectedArtifactRef inp)"
  shows "case evaluatePawSubAgentResponse errors inp of
      Inl e \<Rightarrow> False
    | Inr (ResponseAccepted out n) \<Rightarrow> n = attemptNumber inp
        \<and> (\<exists>v. rawOutput inp = JsonText v \<and> PawSubAgentOutputSchema (normalizePawSubAgentOutputCandidate v)
             \<and> out = outputOfJson (normalizePawSubAgentOutputCandidate v))
        \<and> agent out = expectedAgent inp \<and> output_session_id out = expectedSessionId inp
        \<and> artifact_ref out = expectedArtifactRef inp
        \<and> (\<forall>e. expectedSliceId inp = Some e \<longrightarrow> output_slice_id out = Some e)
        \<and> (status out \<in> {blocked, needs_user_decision} \<longrightarrow> output_reason out \<noteq> None)
    | Inr (ResponseRetry n is m) \<Rightarrow> n = attemptNumber inp \<and> n < or_else (maxInvalidAttempts inp) 2 \<and> is \<noteq> []
    | Inr (ResponseBlocked out n is) \<Rightarrow> n = attemptNumber inp \<and> or_else (maxInvalidAttempts inp) 2 \<le> n \<and> is \<noteq> []
        \<and> status out = blocked \<and> changed_files out = [] \<and> agent out = expectedAgent inp
        \<and> output_session_id out = expectedSessionId inp"
proof (cases "parsePawSubAgentOutputJson errors (rawOutput inp)")
  case (Invalid issues)
  have "issues \<noteq> []"
    using Invalid by (auto simp: parsePawSubAgentOutputJson_def validatePawSubAgentOutput_def Let_def
        split: file_text.splits if_splits)
  then show ?thesis
    by (simp add: evaluatePawSubAgentResponse_def Invalid blocked_output_made [OF assms(2,3)] synthetic_output_def Let_def)
next
  case (Ok out)
  then obtain v where v: "rawOutput inp = JsonText v" "validatePawSubAgentOutput errors v = Ok out"
    by (cases "rawOutput inp") (auto simp: parsePawSubAgentOutputJson_def)
  note val = valid_output [OF assms(1) v(2)]
  show ?thesis
  proof (cases "getMetadataIssues out inp = []")
    case True
    then have "evaluatePawSubAgentResponse errors inp = Inr (ResponseAccepted out (attemptNumber inp))"
      by (simp add: evaluatePawSubAgentResponse_def Ok Let_def)
    moreover from True have "agent out = expectedAgent inp" "output_session_id out = expectedSessionId inp"
      "artifact_ref out = expectedArtifactRef inp"
      "\<forall>e. expectedSliceId inp = Some e \<longrightarrow> output_slice_id out = Some e"
      by (auto simp: metadata_issues_Nil)
    ultimately show ?thesis using val v(1) by auto
  next
    case False
    then show ?thesis
      by (simp add: evaluatePawSubAgentResponse_def Ok blocked_output_made [OF assms(2,3)] synthetic_output_def Let_def)
  qed
qed


definition sample_errors :: schema_errors where
  "sample_errors u = [Issue ''/'' ''Expected object'']"

definition sample_response :: "file_text \<Rightarrow> int \<Rightarrow> PawSubAgentResponseInput" where
  "sample_response raw n = \<lparr>rawOutput = raw, attemptNumber = n, maxInvalidAttempts = None, expectedAgent = worker,
     expectedSessionId = ''s1'', expectedArtifactRef = ''.paw/artifacts/s1/worker/report.md'',
     expectedSliceId = Some (Some ''a''), modelUsed = None\<rparr>"

theorem subagent_response_decided_witness:
  "case evaluatePawSubAgentResponse sample_errors (sample_response (BrokenText ''no json'') 2) of
     Inr (ResponseBlocked out n is) \<Rightarrow> n = 2 \<and> status out = blocked \<and> output_session_id out = ''s1''
   | _ \<Rightarrow> False"
proof -
  let ?i = "sample_response (BrokenText ''no json'') 2"
  have "\<forall>u. \<not> PawSubAgentOutputSchema u \<longrightarrow> sample_errors u \<noteq> []" by (simp add: sample_errors_def)
  moreover have "expectedSessionId ?i \<noteq> []" by (simp add: sample_response_def)
  moreover have "artifactRefPattern (expectedArtifactRef ?i)" by code_simp
  ultimately have *: "case evaluatePawSubAgentResponse sample_errors ?i of
      Inr (ResponseBlocked out n is) \<Rightarrow> n = attemptNumber ?i \<and> status out = blocked
        \<and> output_session_id out = expectedSessionId ?i
    | Inr (ResponseAccepted out n) \<Rightarrow> (\<exists>v. rawOutput ?i = JsonText v)
    | Inr (ResponseRetry n is m) \<Rightarrow> n = attemptNumber ?i \<and> n < or_else (maxInvalidAttempts ?i) 2
    | Inl e \<Rightarrow> False"
    using subagent_response_decided [of sample_errors ?i] by (auto split: sum.splits PawSubAgentResponseDecision.splits)
  then show ?thesis
    by (auto simp: sample_response_def or_else_def split: sum.splits PawSubAgentResponseDecision.splits)
qed


end
