(* ===== verification/Paw_Decisions.thy ===== *)
theory Paw_Decisions
  imports Paw_Report Paw_Subagent
begin

text \<open>
  Decision files: verification decisions and blocked reasons given to the commands as JSON
  (\<open>paw/verify-gate-decision-parse.ts\<close> and the readers of \<open>paw/verifier-result-command.ts\<close> and
  \<open>paw/verifier-blocked-command.ts\<close>).
\<close>

section \<open>Gate decisions\<close>

text \<open>What \<open>typeof value === "object"\<close> and not null lets through, as a record of its own properties.\<close>

definition objectFields :: "json \<Rightarrow> (string \<times> json) list option" where
  "objectFields v = (case v of JObject rec \<Rightarrow> Some rec | JArray xs \<Rightarrow> Some [] | _ \<Rightarrow> None)"

definition extractPawVerifyDecisionsFromJson :: "json \<Rightarrow> json list option" where
  "extractPawVerifyDecisionsFromJson parsed = (case parsed of
     JArray xs \<Rightarrow> Some xs
   | JObject rec \<Rightarrow> (case json_get rec ''verify_decisions'' of JArray xs \<Rightarrow> Some xs | _ \<Rightarrow> None)
   | _ \<Rightarrow> None)"

definition isPawVerifyGateSet :: "json \<Rightarrow> bool" where
  "isPawVerifyGateSet v \<longleftrightarrow> v \<in> {JString ''v1'', JString ''v2'', JString ''unconfigured''}"

definition gateSetOf :: "json \<Rightarrow> PawVerifyGateSet" where
  "gateSetOf v = (if v = JString ''v1'' then v1 else if v = JString ''v2'' then v2 else unconfigured)"

definition isBoolean :: "json \<Rightarrow> bool" where
  "isBoolean v = (case v of JBool b \<Rightarrow> True | _ \<Rightarrow> False)"

definition collectPawVerifyGateFieldIssues :: "(string \<times> json) list \<Rightarrow> string \<Rightarrow> PawValidationIssue list" where
  "collectPawVerifyGateFieldIssues rec basePath =
     (case json_get rec ''status'' of JString s \<Rightarrow> [] | _ \<Rightarrow> [Issue (basePath @ ''/status'') ''status must be a string.''])
     @ (case json_get rec ''gate'' of
          JString s \<Rightarrow> if blank s then [Issue (basePath @ ''/gate'') ''gate must be a non-empty string.''] else []
        | _ \<Rightarrow> [Issue (basePath @ ''/gate'') ''gate must be a non-empty string.''])
     @ (if \<not> isPawVerifyGateSet (json_get rec ''gateSet'')
        then [Issue (basePath @ ''/gateSet'') (quotes ''gateSet must be #v1#, #v2#, or #unconfigured#.'')] else [])
     @ (if \<not> isBoolean (json_get rec ''verified'') then [Issue (basePath @ ''/verified'') ''verified must be a boolean.''] else [])
     @ (if \<not> isBoolean (json_get rec ''applicable'')
        then [Issue (basePath @ ''/applicable'') ''applicable must be a boolean.''] else [])"

definition buildPawVerifiedGateDecision ::
  "json \<Rightarrow> string \<Rightarrow> bool \<Rightarrow> PawVerifyGateSet \<Rightarrow> string \<Rightarrow> PawVerifyGateDecision PawValidationResult" where
  "buildPawVerifiedGateDecision verified gate applicable gateSet basePath =
     (if verified \<noteq> JBool True then Invalid [Issue (basePath @ ''/verified'') ''verified decisions must set verified=true.'']
      else Ok (GateVerified gate applicable gateSet))"

definition buildPawUnverifiedGateDecision ::
  "json \<Rightarrow> json \<Rightarrow> string \<Rightarrow> bool \<Rightarrow> PawVerifyGateSet \<Rightarrow> string \<Rightarrow> PawVerifyGateDecision PawValidationResult" where
  "buildPawUnverifiedGateDecision verified reason gate applicable gateSet basePath =
     (if verified \<noteq> JBool False then Invalid [Issue (basePath @ ''/verified'') ''unverified decisions must set verified=false.'']
      else Ok (GateUnverified gate applicable gateSet
        (case reason of JString r \<Rightarrow> if blank r then ''unverified'' else r | _ \<Rightarrow> ''unverified'')))"

definition buildPawVerifyGateDecisionFromRecord ::
  "(string \<times> json) list \<Rightarrow> string \<Rightarrow> PawVerifyGateDecision PawValidationResult" where
  "buildPawVerifyGateDecisionFromRecord rec basePath =
     (let gate = stringOf (json_get rec ''gate''); gateSet = gateSetOf (json_get rec ''gateSet'');
          applicable = (json_get rec ''applicable'' = JBool True);
          status = stringOf (json_get rec ''status'') in
      if status = ''verified'' then
        buildPawVerifiedGateDecision (json_get rec ''verified'') gate applicable gateSet basePath
      else if status = ''unverified'' then
        buildPawUnverifiedGateDecision (json_get rec ''verified'') (json_get rec ''reason'') gate applicable gateSet basePath
      else Invalid [Issue (basePath @ ''/status'') (quotes ''status must be #verified# or #unverified#.'')])"

definition normalizePawVerifyGateDecision :: "json \<Rightarrow> string \<Rightarrow> PawVerifyGateDecision PawValidationResult" where
  "normalizePawVerifyGateDecision decision basePath = (case objectFields decision of
     None \<Rightarrow> Invalid [Issue basePath ''Each verify decision must be an object.'']
   | Some rec \<Rightarrow>
       (let itemIssues = collectPawVerifyGateFieldIssues rec basePath in
        if length itemIssues > 0 then Invalid itemIssues
        else buildPawVerifyGateDecisionFromRecord rec basePath))"

definition decisionPath :: "nat \<Rightarrow> string" where
  "decisionPath i = ''/verify_decisions/'' @ show_nat i"

fun normalizeDecisionsFrom :: "nat \<Rightarrow> json list \<Rightarrow> PawVerifyGateDecision list \<times> PawValidationIssue list" where
  "normalizeDecisionsFrom i [] = ([], [])"
| "normalizeDecisionsFrom i (v # vs) =
     (case normalizeDecisionsFrom (Suc i) vs of (ds, issues) \<Rightarrow>
        (case normalizePawVerifyGateDecision v (decisionPath i) of
           Ok d \<Rightarrow> (d # ds, issues)
         | Invalid is \<Rightarrow> (ds, is @ issues)))"

definition normalizePawVerifyGateDecisionList :: "json list \<Rightarrow> PawVerifyGateDecision list PawValidationResult" where
  "normalizePawVerifyGateDecisionList vs = (case normalizeDecisionsFrom 0 vs of (ds, issues) \<Rightarrow>
     if length issues > 0 then Invalid issues else Ok ds)"

section \<open>Decision files\<close>

definition invalidFile :: "string \<Rightarrow> string \<Rightarrow> 'a file_read" where
  "invalidFile path message = FileInvalid [Issue path message]"

definition parseVerificationDecisionFileContent :: "file_text \<Rightarrow> PawVerifyGateDecision list file_read" where
  "parseVerificationDecisionFileContent content = (case content of
     BrokenText txt \<Rightarrow> invalidFile ''/'' ''Decision file must contain valid JSON.''
   | JsonText parsed \<Rightarrow>
       (case extractPawVerifyDecisionsFromJson parsed of
          None \<Rightarrow> invalidFile ''/'' ''Decision file must be a verify decision array or an object with verify_decisions.''
        | Some decisions \<Rightarrow>
            if length decisions = 0 then
              invalidFile ''/verify_decisions'' ''Verification completion requires at least one gate decision.''
            else (case normalizePawVerifyGateDecisionList decisions of
                    Invalid is \<Rightarrow> FileInvalid is
                  | Ok ds \<Rightarrow> FileOk ds)))"

definition readVerificationDecisionFile :: "files \<Rightarrow> string \<Rightarrow> PawVerifyGateDecision list file_read" where
  "readVerificationDecisionFile fs path = (case fs path of
     None \<Rightarrow> FileMissing | Some content \<Rightarrow> parseVerificationDecisionFileContent content)"

text \<open>\<open>toLowerCase\<close> on the code units 0 to 255.\<close>

definition toLowerCase :: "string \<Rightarrow> string" where
  "toLowerCase s = map (\<lambda>c. let n = (of_char c :: nat) in
     if 65 \<le> n \<and> n \<le> 90 \<or> 192 \<le> n \<and> n \<le> 222 \<and> n \<noteq> 215 then char_of (n + 32) else c) s"

definition mapVerifyGateToBlockedReasonCode :: "string \<Rightarrow> PawBlockedReasonCode" where
  "mapVerifyGateToBlockedReasonCode gate =
     (if includes_str ''build'' (toLowerCase (js_trim gate)) then BUILD_FAILURE else TEST_FAILURE)"

definition extractBlockedReasonFromObject :: "json \<Rightarrow> output_blocked_reason file_read option" where
  "extractBlockedReasonFromObject parsed = (case objectFields parsed of
     None \<Rightarrow> None
   | Some record_fields \<Rightarrow>
       (if json_get record_fields ''blocked_reason'' = JUndefined then None
        else (case objectFields (json_get record_fields ''blocked_reason'') of
          None \<Rightarrow> Some (invalidFile ''/blocked_reason'' ''blocked_reason must be an object.'')
        | Some rec \<Rightarrow>
            let code_ok = (case json_get rec ''code'' of JString s \<Rightarrow> s \<in> blockedCodeString ` set PAW_BLOCKED_REASON_CODES | _ \<Rightarrow> False);
                text_ok = (\<lambda>key. case json_get rec key of JString s \<Rightarrow> \<not> blank s | _ \<Rightarrow> False);
                issues = (if code_ok then [] else [Issue ''/blocked_reason/code'' ''Verifier blocked reason code is invalid.''])
                  @ (if text_ok ''message'' then []
                     else [Issue ''/blocked_reason/message'' ''Verifier blocked reason message is required.''])
                  @ (if text_ok ''suggested_action'' then []
                     else [Issue ''/blocked_reason/suggested_action'' ''Verifier blocked reason suggested action is required.''])
            in Some (if length issues > 0 then FileInvalid issues
                 else FileOk \<lparr>output_reason_code = Some (castOf blockedCodeString PAW_BLOCKED_REASON_CODES (stringOf (json_get rec ''code''))),
                   output_reason_message = Some (stringOf (json_get rec ''message'')),
                   output_reason_action = Some (stringOf (json_get rec ''suggested_action''))\<rparr>))))"

definition deriveBlockedReasonFromVerifyDecision :: "PawVerifyGateDecision \<Rightarrow> output_blocked_reason" where
  "deriveBlockedReasonFromVerifyDecision d =
     (let detail = (case d of GateUnverified g a gs r \<Rightarrow> r | GateVerified g a gs \<Rightarrow> ''Verification gate failed.'') in
      \<lparr>output_reason_code = Some (Member (mapVerifyGateToBlockedReasonCode (decision_gate d))),
       output_reason_message = Some (''Verification gate failed for '' @ decision_gate d @ '': '' @ detail),
       output_reason_action = Some ''Fix the failing verification gate and resume verification.''\<rparr>)"

definition parseVerifierBlockedDecisionFileContent :: "file_text \<Rightarrow> output_blocked_reason file_read" where
  "parseVerifierBlockedDecisionFileContent content = (case content of
     BrokenText txt \<Rightarrow> invalidFile ''/'' ''Decision file must contain valid JSON.''
   | JsonText parsed \<Rightarrow>
       (case extractBlockedReasonFromObject parsed of
          Some direct \<Rightarrow> direct
        | None \<Rightarrow>
            (case extractPawVerifyDecisionsFromJson parsed of
               None \<Rightarrow> invalidFile ''/''
                 ''Decision file must include blocked_reason metadata or a verify decision array (or verify_decisions).''
             | Some decisions \<Rightarrow>
                 (case normalizePawVerifyGateDecisionList decisions of
                    Invalid is \<Rightarrow> FileInvalid is
                  | Ok ds \<Rightarrow>
                      (case find (\<lambda>d. isUnverified d \<and> decision_applicable d) ds of
                         None \<Rightarrow> invalidFile ''/verify_decisions''
                           ''Verifier blocked result requires at least one applicable unverified gate decision.''
                       | Some d \<Rightarrow> FileOk (deriveBlockedReasonFromVerifyDecision d))))))"

definition readVerifierBlockedDecisionFile :: "files \<Rightarrow> string \<Rightarrow> output_blocked_reason file_read" where
  "readVerifierBlockedDecisionFile fs path = (case fs path of
     None \<Rightarrow> FileMissing | Some content \<Rightarrow> parseVerifierBlockedDecisionFileContent content)"

section \<open>Lemmas\<close>

fun decision_wf :: "PawVerifyGateDecision \<Rightarrow> bool" where
  "decision_wf (GateVerified g a gs) = (\<not> blank g)"
| "decision_wf (GateUnverified g a gs r) = (\<not> blank g \<and> \<not> blank r)"

lemma gateSet_string: "isPawVerifyGateSet (JString (gateSetString gs))" "gateSetOf (JString (gateSetString gs)) = gs"
  by (cases gs; simp add: isPawVerifyGateSet_def gateSetOf_def)+

lemma normalize_encoded: "decision_wf d \<Longrightarrow> normalizePawVerifyGateDecision (json_of_decision d) path = Ok d"
  by (cases d) (simp_all add: normalizePawVerifyGateDecision_def objectFields_def collectPawVerifyGateFieldIssues_def
      buildPawVerifyGateDecisionFromRecord_def buildPawVerifiedGateDecision_def buildPawUnverifiedGateDecision_def
      json_get_def gateSet_string isBoolean_def stringOf_def Let_def)

lemma normalize_issues: "normalizePawVerifyGateDecision v path = Invalid is \<Longrightarrow> is \<noteq> []"
  by (auto simp: normalizePawVerifyGateDecision_def buildPawVerifyGateDecisionFromRecord_def
      buildPawVerifiedGateDecision_def buildPawUnverifiedGateDecision_def Let_def split: option.splits if_splits)

lemma blank_unverified: "\<not> blank ''unverified''"
  by (simp add: blank_def js_trim_def js_space_def)

lemma fields_gate: "collectPawVerifyGateFieldIssues rec path = [] \<Longrightarrow> \<not> blank (stringOf (json_get rec ''gate''))"
  by (auto simp: collectPawVerifyGateFieldIssues_def stringOf_def split: json.splits if_splits)

lemma normalize_wf:
  assumes "normalizePawVerifyGateDecision v path = Ok d"
  shows "decision_wf d"
proof -
  from assms obtain rec where "collectPawVerifyGateFieldIssues rec path = []"
    and d: "buildPawVerifyGateDecisionFromRecord rec path = Ok d"
    by (auto simp: normalizePawVerifyGateDecision_def Let_def split: option.splits if_splits)
  from fields_gate [OF this(1)] d blank_unverified show ?thesis
    by (auto simp: buildPawVerifyGateDecisionFromRecord_def buildPawVerifiedGateDecision_def
        buildPawUnverifiedGateDecision_def Let_def split: if_splits json.splits)
qed

lemma normalize_list_encoded:
  "list_all decision_wf ds \<Longrightarrow> normalizeDecisionsFrom i (map json_of_decision ds) = (ds, [])"
  by (induction ds arbitrary: i) (simp_all add: normalize_encoded)

lemma normalize_list_wf:
  "normalizeDecisionsFrom i vs = (ds, []) \<Longrightarrow> list_all decision_wf ds \<and> length ds = length vs"
  by (induction vs arbitrary: i ds)
    (auto simp: normalize_issues normalize_wf split: prod.splits PawValidationResult.splits)

lemma normalizeList_Ok:
  "normalizePawVerifyGateDecisionList vs = Ok ds \<longleftrightarrow> normalizeDecisionsFrom 0 vs = (ds, [])"
  by (auto simp: normalizePawVerifyGateDecisionList_def split: prod.splits if_splits)

section \<open>Properties\<close>

text \<open>
  (C33) Decision files carry exactly the well-formed decision lists. A list of verification
  decisions can be read from some decision file if and only if it is not empty and each of its
  gates has a name and each unverified gate a reason; the JSON of such a list, bare or in an
  object, is read back as that list.
\<close>

theorem decision_file_roundtrip:
  "((\<exists>content. parseVerificationDecisionFileContent content = FileOk ds) \<longleftrightarrow> ds \<noteq> [] \<and> list_all decision_wf ds)
   \<and> (parseVerificationDecisionFileContent (JsonText (JArray (map json_of_decision ds))) = FileOk ds
        \<longleftrightarrow> ds \<noteq> [] \<and> list_all decision_wf ds)
   \<and> parseVerificationDecisionFileContent (JsonText (JObject [(''verify_decisions'', JArray (map json_of_decision ds))]))
       = parseVerificationDecisionFileContent (JsonText (JArray (map json_of_decision ds)))"
proof -
  have read: "ds \<noteq> [] \<and> list_all decision_wf ds"
    if "parseVerificationDecisionFileContent content = FileOk ds" for content
    using that normalize_list_wf [of 0 _ ds]
    by (auto simp: parseVerificationDecisionFileContent_def invalidFile_def normalizeList_Ok
        split: file_text.splits option.splits if_splits PawValidationResult.splits)
  have wrote: "parseVerificationDecisionFileContent (JsonText (JArray (map json_of_decision ds))) = FileOk ds"
    if "ds \<noteq> []" "list_all decision_wf ds"
    using that normalize_list_encoded [OF that(2), of 0]
    by (simp add: parseVerificationDecisionFileContent_def extractPawVerifyDecisionsFromJson_def
        normalizePawVerifyGateDecisionList_def)
  have "parseVerificationDecisionFileContent (JsonText (JObject [(''verify_decisions'', JArray (map json_of_decision ds))]))
       = parseVerificationDecisionFileContent (JsonText (JArray (map json_of_decision ds)))"
    by (simp add: parseVerificationDecisionFileContent_def extractPawVerifyDecisionsFromJson_def json_get_def)
  with read wrote show ?thesis by blast
qed

end
