(* ===== verification/Paw_Cli.thy ===== *)
theory Paw_Cli
  imports Paw_Commands Paw_Checkpoint Paw_Decisions
begin

text \<open>
  The commands of the command line that work on one session. Each checks that the project and
  the session exist, acquires the session's lock, runs one operation of the components below,
  releases the lock and maps the outcome: \<open>slice-selection-command.ts\<close>,
  \<open>slice-implementation-command.ts\<close>, \<open>plan-approval-command.ts\<close>, \<open>slice-checkpoint-command.ts\<close>,
  \<open>worker-result-command.ts\<close>, \<open>reviewer-result-command.ts\<close>, \<open>verifier-result-command.ts\<close>, the three
  \<open>-blocked-command.ts\<close>, \<open>finalize-command.ts\<close>, \<open>verify-command.ts\<close>, \<open>resume-command.ts\<close>,
  \<open>start-command.ts\<close> and \<open>approve-retry-command.ts\<close>.

  The steps before and after the operation are shared definitions. They work on any state that
  has the session files as a part, given by a pair of functions that read and replace it: the
  files alone, the files with the evidence, or the whole disk. Which directories exist is a
  parameter; the rendering of results as text is not modelled.
\<close>

section \<open>Before and after the operation\<close>

datatype command_refusal =
    MissingProject string
  | MissingSession string string
  | CommandLocked string PawSessionLock

type_synonym directories = "string \<Rightarrow> bool"

definition pawCliIsDirectory :: "directories \<Rightarrow> string \<Rightarrow> bool" where
  "pawCliIsDirectory dirs path = dirs path"

definition pawCliIsFile :: "files \<Rightarrow> string \<Rightarrow> bool" where
  "pawCliIsFile fs path \<longleftrightarrow> fs path \<noteq> None"

definition commandTarget :: "directories \<Rightarrow> string \<Rightarrow> files \<Rightarrow> string \<Rightarrow> command_refusal option throws" where
  "commandTarget dirs repo fs sid =
     (let pp = resolvePawProjectPaths repo;
          paw = (let rel = relativeText (project_root pp) (pawDir pp) in if rel = [] then ''.paw'' else rel) in
      if \<not> pawCliIsDirectory dirs (pawDir pp) then Inr (Some (MissingProject paw))
      else case resolvePawSessionPaths repo sid of
        Inl e \<Rightarrow> Inl e
      | Inr sp \<Rightarrow>
          if \<not> pawCliIsFile fs (stateFile sp)
          then Inr (Some (MissingSession sid (relativeText (project_root pp) (stateFile sp))))
          else Inr None)"

text \<open>
  The lock around an operation: \<open>underLock\<close> acquires, runs and releases, and does not release
  when the operation throws; \<open>underLockFinally\<close> also releases then.
\<close>

definition releaseAfter ::
  "('s \<Rightarrow> files) \<Rightarrow> (files \<Rightarrow> 's \<Rightarrow> 's) \<Rightarrow> process_env \<Rightarrow> string \<Rightarrow> PawSessionLockOptions \<Rightarrow> string \<Rightarrow> 'x \<Rightarrow> 's \<Rightarrow>
     ('x \<times> bool) throws \<times> 's" where
  "releaseAfter get put env repo opts sid x s =
     (case releasePawSessionLock env repo (get s) sid opts of
        Inl e \<Rightarrow> (Inl e, s)
      | Inr (released, fs') \<Rightarrow> (Inr (x, released), put fs' s))"

fun releaseUnlessThrown ::
  "('s \<Rightarrow> files) \<Rightarrow> (files \<Rightarrow> 's \<Rightarrow> 's) \<Rightarrow> process_env \<Rightarrow> string \<Rightarrow> PawSessionLockOptions \<Rightarrow> string \<Rightarrow>
     'x throws \<times> 's \<Rightarrow> ('x \<times> bool) throws \<times> 's" where
  "releaseUnlessThrown get put env repo opts sid (Inl e, s) = (Inl e, s)"
| "releaseUnlessThrown get put env repo opts sid (Inr x, s) = releaseAfter get put env repo opts sid x s"

fun releaseFinally ::
  "('s \<Rightarrow> files) \<Rightarrow> (files \<Rightarrow> 's \<Rightarrow> 's) \<Rightarrow> process_env \<Rightarrow> string \<Rightarrow> PawSessionLockOptions \<Rightarrow> string \<Rightarrow>
     'x throws \<times> 's \<Rightarrow> ('x \<times> bool) throws \<times> 's" where
  "releaseFinally get put env repo opts sid (Inl e, s) =
     (case releaseAfter get put env repo opts sid e s of
        (Inl e', s') \<Rightarrow> (Inl e', s')
      | (Inr (e', b), s') \<Rightarrow> (Inl e', s'))"
| "releaseFinally get put env repo opts sid (Inr x, s) = releaseAfter get put env repo opts sid x s"

definition acquireThen ::
  "('s \<Rightarrow> files) \<Rightarrow> (files \<Rightarrow> 's \<Rightarrow> 's) \<Rightarrow> process_env \<Rightarrow> string \<Rightarrow> PawSessionLockOptions \<Rightarrow> string \<Rightarrow>
     ((PawSessionLockStaleReason \<times> PawSessionLock) option \<Rightarrow> 's \<Rightarrow> ('x \<times> bool) throws \<times> 's) \<Rightarrow> 's \<Rightarrow>
     (command_refusal + 'x \<times> bool) throws \<times> 's" where
  "acquireThen get put env repo opts sid body s =
     (case acquirePawSessionLock env repo (get s) sid opts of
        Inl e \<Rightarrow> (Inl e, s)
      | Inr (LiveLock l, fs1) \<Rightarrow> (Inr (Inl (CommandLocked sid l)), put fs1 s)
      | Inr (Acquired l reclaimed, fs1) \<Rightarrow> map_prod (map_sum id Inr) id (body reclaimed (put fs1 s)))"

definition underLock ::
  "('s \<Rightarrow> files) \<Rightarrow> (files \<Rightarrow> 's \<Rightarrow> 's) \<Rightarrow> process_env \<Rightarrow> string \<Rightarrow> PawSessionLockOptions \<Rightarrow> string \<Rightarrow>
     ((PawSessionLockStaleReason \<times> PawSessionLock) option \<Rightarrow> 's \<Rightarrow> 'x throws \<times> 's) \<Rightarrow> 's \<Rightarrow>
     (command_refusal + 'x \<times> bool) throws \<times> 's" where
  "underLock get put env repo opts sid operation =
     acquireThen get put env repo opts sid
       (\<lambda>reclaimed s. releaseUnlessThrown get put env repo opts sid (operation reclaimed s))"

definition underLockFinally ::
  "('s \<Rightarrow> files) \<Rightarrow> (files \<Rightarrow> 's \<Rightarrow> 's) \<Rightarrow> process_env \<Rightarrow> string \<Rightarrow> PawSessionLockOptions \<Rightarrow> string \<Rightarrow>
     ((PawSessionLockStaleReason \<times> PawSessionLock) option \<Rightarrow> 's \<Rightarrow> 'x throws \<times> 's) \<Rightarrow> 's \<Rightarrow>
     (command_refusal + 'x \<times> bool) throws \<times> 's" where
  "underLockFinally get put env repo opts sid operation =
     acquireThen get put env repo opts sid
       (\<lambda>reclaimed s. releaseFinally get put env repo opts sid (operation reclaimed s))"

text \<open>A command: the target is checked before the lock is taken.\<close>

definition sessionCommand ::
  "directories \<Rightarrow> string \<Rightarrow> string \<Rightarrow> ('s \<Rightarrow> files) \<Rightarrow> ('s \<Rightarrow> (command_refusal + 'x \<times> bool) throws \<times> 's) \<Rightarrow> 's \<Rightarrow>
     (command_refusal + 'x \<times> bool) throws \<times> 's" where
  "sessionCommand dirs repo sid get locked s =
     (case commandTarget dirs repo (get s) sid of
        Inl e \<Rightarrow> (Inl e, s)
      | Inr (Some refusal) \<Rightarrow> (Inr (Inl refusal), s)
      | Inr None \<Rightarrow> locked s)"

text \<open>The result of a command: refused before, or the mapped outcome with what the release returned.\<close>

definition commandResult ::
  "(command_refusal \<Rightarrow> 'r) \<Rightarrow> ('x \<Rightarrow> bool \<Rightarrow> 'r) \<Rightarrow> (command_refusal + 'x \<times> bool) throws \<times> 's \<Rightarrow> 'r throws \<times> 's" where
  "commandResult refused mapped = map_prod
     (map_sum id (\<lambda>r. case r of Inl refusal \<Rightarrow> refused refusal | Inr (x, released) \<Rightarrow> mapped x released)) id"

text \<open>Operations of the components that return their files only when they do not throw.\<close>

definition onFiles :: "(files \<Rightarrow> ('x \<times> files) throws) \<Rightarrow> 'o \<Rightarrow> files \<Rightarrow> 'x throws \<times> files" where
  "onFiles f reclaimed fs = (case f fs of Inl e \<Rightarrow> (Inl e, fs) | Inr (x, fs') \<Rightarrow> (Inr x, fs'))"

definition filesCommand ::
  "directories \<Rightarrow> process_env \<Rightarrow> string \<Rightarrow> PawSessionLockOptions \<Rightarrow> string \<Rightarrow>
     ((PawSessionLockStaleReason \<times> PawSessionLock) option \<Rightarrow> files \<Rightarrow> 'x throws \<times> files) \<Rightarrow> files \<Rightarrow>
     (command_refusal + 'x \<times> bool) throws \<times> files" where
  "filesCommand dirs env repo opts sid operation =
     sessionCommand dirs repo sid id (underLock id (\<lambda>fs s. fs) env repo opts sid operation)"

section \<open>Selecting, beginning, approving\<close>

type_synonym state_label = "PawSessionStateName cast"

datatype PawSelectSliceCommandResult =
    SelectSliceAdvanced string string state_label state_label bool
  | SelectSliceNoPending string state_label bool
  | SelectSliceRefused command_refusal
  | SelectSliceInvalidTransition string state_label "PawValidationIssue list" bool
  | SelectSliceNotLocked string bool
  | SelectSliceLockedByOther string PawSessionLock bool

text \<open>The last equation is for combinations a selection never returns.\<close>

fun mapPawSelectSliceResult :: "string \<Rightarrow> PawSliceSelectionResult \<Rightarrow> bool \<Rightarrow> PawSelectSliceCommandResult" where
  "mapPawSelectSliceResult sid (SliceSelected c (Advanced l s s')) b =
     SelectSliceAdvanced sid c (state_name s) (state_name s') b"
| "mapPawSelectSliceResult sid (NoPendingSlices s) b = SelectSliceNoPending sid (state_name s) b"
| "mapPawSelectSliceResult sid (SelectionRefused (InvalidTransition s is)) b =
     SelectSliceInvalidTransition sid (state_name s) is b"
| "mapPawSelectSliceResult sid (SelectionRefused (NotLocked why)) b = SelectSliceNotLocked sid b"
| "mapPawSelectSliceResult sid (SelectionRefused (LockedByOther l w)) b = SelectSliceLockedByOther sid l b"
| "mapPawSelectSliceResult sid _ b = SelectSliceNotLocked sid b"

definition createPawSelectSliceCommandResult ::
  "directories \<Rightarrow> process_env \<Rightarrow> string \<Rightarrow> PawSessionLockOptions \<Rightarrow> string \<Rightarrow> files \<Rightarrow>
     PawSelectSliceCommandResult throws \<times> files" where
  "createPawSelectSliceCommandResult dirs env repo opts sid fs =
     commandResult SelectSliceRefused (mapPawSelectSliceResult sid)
       (filesCommand dirs env repo opts sid (\<lambda>_ fs. selectNextPawPlanSlice env repo fs sid opts) fs)"

datatype PawBeginImplementationCommandResult =
    BeginAdvanced string string state_label state_label bool
  | BeginNoSelectedSlice string state_label bool
  | BeginRefused command_refusal
  | BeginInvalidTransition string state_label "PawValidationIssue list" bool
  | BeginNotLocked string bool
  | BeginLockedByOther string PawSessionLock bool

fun mapPawBeginImplementationResult ::
  "string \<Rightarrow> PawSliceImplementationResult \<Rightarrow> bool \<Rightarrow> PawBeginImplementationCommandResult" where
  "mapPawBeginImplementationResult sid (ImplementationBegun c (Advanced l s s')) b =
     BeginAdvanced sid c (state_name s) (state_name s') b"
| "mapPawBeginImplementationResult sid (NoSelectedSlice s adv) b = BeginNoSelectedSlice sid (state_name s) b"
| "mapPawBeginImplementationResult sid (ImplementationRefused (InvalidTransition s is)) b =
     BeginInvalidTransition sid (state_name s) is b"
| "mapPawBeginImplementationResult sid (ImplementationRefused (NotLocked why)) b = BeginNotLocked sid b"
| "mapPawBeginImplementationResult sid (ImplementationRefused (LockedByOther l w)) b = BeginLockedByOther sid l b"
| "mapPawBeginImplementationResult sid _ b = BeginNotLocked sid b"

definition createPawBeginImplementationCommandResult ::
  "directories \<Rightarrow> process_env \<Rightarrow> string \<Rightarrow> PawSessionLockOptions \<Rightarrow> string \<Rightarrow> files \<Rightarrow>
     PawBeginImplementationCommandResult throws \<times> files" where
  "createPawBeginImplementationCommandResult dirs env repo opts sid fs =
     commandResult BeginRefused (mapPawBeginImplementationResult sid)
       (filesCommand dirs env repo opts sid (\<lambda>_ fs. beginPawSliceImplementation env repo fs sid opts) fs)"

definition beforeColon :: "string \<Rightarrow> string" where
  "beforeColon v = takeWhile (\<lambda>c. c \<noteq> CHR '':'') v"

definition validatePawApprovePlanSliceValue :: "string \<Rightarrow> string option" where
  "validatePawApprovePlanSliceValue v =
     (if blank (beforeColon v)
      then Some (quotes ''Option --slice for #paw approve-plan# must include a non-empty slice id.'') else None)"

definition cliSlice :: "nat \<times> string \<Rightarrow> json" where
  "cliSlice e = (case e of (i, v) \<Rightarrow>
     let sid = js_trim (beforeColon v);
         title = (if CHR '':'' \<in> set v then js_trim (tl (dropWhile (\<lambda>c. c \<noteq> CHR '':'') v)) else sid) in
     JObject [(''slice_id'', JString sid), (''title'', JString (if length title > 0 then title else sid)),
       (''order'', JNumber (Num (of_nat i)))])"

definition buildPawPlannerSlicesFromCliSliceValues :: "string list \<Rightarrow> json" where
  "buildPawPlannerSlicesFromCliSliceValues vs = JArray (map cliSlice (entries vs))"

definition cliSliceIds :: "string list \<Rightarrow> string list" where
  "cliSliceIds vs = map (\<lambda>v. js_trim (beforeColon v)) vs"

datatype PawApprovePlanCommandResult =
    ApproveAdvanced string "string list" state_label state_label bool
  | ApproveRefused command_refusal
  | ApproveInvalidPlan string "string list" "PawValidationIssue list" bool
  | ApproveInvalidTransition string "string list" state_label "PawValidationIssue list" bool
  | ApproveNotLocked string "string list" bool
  | ApproveLockedByOther string "string list" PawSessionLock bool

fun mapPawApprovePlanApprovalResult ::
  "string \<Rightarrow> string list \<Rightarrow> PawPlanApprovalResult \<Rightarrow> bool \<Rightarrow> PawApprovePlanCommandResult" where
  "mapPawApprovePlanApprovalResult sid ids (InvalidPlan is) b = ApproveInvalidPlan sid ids is b"
| "mapPawApprovePlanApprovalResult sid ids (PlanTransition q (Advanced l s s')) b =
     ApproveAdvanced sid ids (state_name s) (state_name s') b"
| "mapPawApprovePlanApprovalResult sid ids (PlanTransition q (InvalidTransition s is)) b =
     ApproveInvalidTransition sid ids (state_name s) is b"
| "mapPawApprovePlanApprovalResult sid ids (PlanTransition q (NotLocked why)) b = ApproveNotLocked sid ids b"
| "mapPawApprovePlanApprovalResult sid ids (PlanTransition q (LockedByOther l w)) b = ApproveLockedByOther sid ids l b"

definition createPawApprovePlanCommandResult ::
  "directories \<Rightarrow> process_env \<Rightarrow> string \<Rightarrow> PawSessionLockOptions \<Rightarrow> string \<Rightarrow> string list \<Rightarrow> files \<Rightarrow>
     PawApprovePlanCommandResult throws \<times> files" where
  "createPawApprovePlanCommandResult dirs env repo opts sid sliceValues fs =
     commandResult ApproveRefused (mapPawApprovePlanApprovalResult sid (cliSliceIds sliceValues))
       (filesCommand dirs env repo opts sid
          (onFiles (\<lambda>fs. approvePawPlanSlices env repo fs sid (buildPawPlannerSlicesFromCliSliceValues sliceValues) opts)) fs)"

section \<open>Recording results from files\<close>

text \<open>
  The result types of the six commands that record what a sub-agent did are one type, over what
  a recorded result adds: the number of journal entries, the counts of decisions, or the code
  and message of the blocked reason.
\<close>

datatype 'v recorded_command =
    CommandRecorded string string state_label state_label 'v bool
  | RecordCommandRefused command_refusal
  | MissingInputFile string string
  | InvalidInputFile string string "PawValidationIssue list"
  | CommandInvalidState string state_label "PawValidationIssue list" bool
  | CommandNoSelectedSlice string state_label "PawValidationIssue list" bool
  | CommandInvalidOutput string state_label "PawSubAgentOutput option" "PawValidationIssue list" bool
  | CommandOtherStatus string state_label "output_status option" bool
  | CommandInvalidReason string state_label "PawSubAgentOutput option" "PawValidationIssue list" bool
  | CommandInvalidDecisions string state_label "PawValidationIssue list" bool
  | CommandInvalidTransition string state_label "PawValidationIssue list" bool
  | CommandNotLocked PawNotLockedCommandFields
  | CommandLockedByOther string PawSessionLock bool

text \<open>\<open>out\<close> is the sub-agent output the command was given, if it was given one.\<close>

fun mapRecordResult ::
  "string \<Rightarrow> PawSubAgentOutput option \<Rightarrow> (PawSessionState \<Rightarrow> 'a \<Rightarrow> 'v) \<Rightarrow> 'a record_outcome \<Rightarrow> bool \<Rightarrow> 'v recorded_command" where
  "mapRecordResult sid out added (Recorded l s s' v) b =
     CommandRecorded sid (or_else (current_slice_id s) '''') (state_name s) (state_name s') (added s' v) b"
| "mapRecordResult sid out added (InvalidState s is) b = CommandInvalidState sid (state_name s) is b"
| "mapRecordResult sid out added (NoSlice s is) b = CommandNoSelectedSlice sid (state_name s) is b"
| "mapRecordResult sid out added (InvalidOutput s is) b = CommandInvalidOutput sid (state_name s) out is b"
| "mapRecordResult sid out added (OtherStatus s) b = CommandOtherStatus sid (state_name s) (map_option status out) b"
| "mapRecordResult sid out added (InvalidReason s is) b = CommandInvalidReason sid (state_name s) out is b"
| "mapRecordResult sid out added (InvalidDecisions s is) b = CommandInvalidDecisions sid (state_name s) is b"
| "mapRecordResult sid out added (RecordInvalidTransition s is) b = CommandInvalidTransition sid (state_name s) is b"
| "mapRecordResult sid out added (RecordRefused (RefusedNotLocked NotLockedUnlocked)) b =
     CommandNotLocked (mapPawNotLockedCommandFields sid False b None)"
| "mapRecordResult sid out added (RecordRefused (RefusedNotLocked (NotLockedStale r l))) b =
     CommandNotLocked (mapPawNotLockedCommandFields sid True b (Some r))"
| "mapRecordResult sid out added (RecordRefused (RefusedOther l w)) b = CommandLockedByOther sid l b"

definition relativeOr :: "string \<Rightarrow> string \<Rightarrow> string" where
  "relativeOr repo file = (let rel = relativeText repo file in if rel = [] then file else rel)"

text \<open>A command on a file: the file is read after the target checks and before the lock is taken.\<close>

definition fileCommand ::
  "directories \<Rightarrow> string \<Rightarrow> string \<Rightarrow> ('s \<Rightarrow> files) \<Rightarrow> string \<Rightarrow> 'i file_read \<Rightarrow>
     ('i \<Rightarrow> 's \<Rightarrow> 'v recorded_command throws \<times> 's) \<Rightarrow> 's \<Rightarrow> 'v recorded_command throws \<times> 's" where
  "fileCommand dirs repo sid get file input locked s =
     (case commandTarget dirs repo (get s) sid of
        Inl e \<Rightarrow> (Inl e, s)
      | Inr (Some refusal) \<Rightarrow> (Inr (RecordCommandRefused refusal), s)
      | Inr None \<Rightarrow>
          (case input of
             FileMissing \<Rightarrow> (Inr (MissingInputFile sid (relativeOr repo file)), s)
           | FileInvalid is \<Rightarrow> (Inr (InvalidInputFile sid (relativeOr repo file) is), s)
           | FileOk i \<Rightarrow> locked i s))"

definition recordingCommand ::
  "directories \<Rightarrow> process_env \<Rightarrow> string \<Rightarrow> PawSessionLockOptions \<Rightarrow> string \<Rightarrow> string \<Rightarrow> 'i file_read \<Rightarrow>
     ('i \<Rightarrow> PawSubAgentOutput option) \<Rightarrow> ('i \<Rightarrow> PawSessionState \<Rightarrow> 'a \<Rightarrow> 'v) \<Rightarrow>
     ('i \<Rightarrow> files \<Rightarrow> ('a record_outcome \<times> files) throws) \<Rightarrow> files \<Rightarrow> 'v recorded_command throws \<times> files" where
  "recordingCommand dirs env repo opts sid file input out_of added operation =
     fileCommand dirs repo sid id file input
       (\<lambda>i fs. commandResult RecordCommandRefused (mapRecordResult sid (out_of i) (added i))
          (underLock id (\<lambda>fs s. fs) env repo opts sid (onFiles (operation i)) fs))"

definition blockedReasonOf :: "PawSessionState \<Rightarrow> string \<times> string" where
  "blockedReasonOf s = (case blocked_reason s of
     None \<Rightarrow> ('''', '''') | Some r \<Rightarrow> (castString blockedCodeString (code r), reason_message r))"

type_synonym PawCompleteReviewerCommandResult = "unit recorded_command"
type_synonym PawCompleteVerificationCommandResult = "(bool \<times> nat \<times> nat) recorded_command"
type_synonym PawBlockCommandResult = "(string \<times> string) recorded_command"
type_synonym PawCompleteWorkerCommandResult = "nat recorded_command"

definition createPawCompleteReviewerCommandResult ::
  "schema_errors \<Rightarrow> directories \<Rightarrow> process_env \<Rightarrow> string \<Rightarrow> PawSessionLockOptions \<Rightarrow> string \<Rightarrow> string \<Rightarrow> files \<Rightarrow>
     PawCompleteReviewerCommandResult throws \<times> files" where
  "createPawCompleteReviewerCommandResult errors dirs env repo opts sid outputFile fs =
     recordingCommand dirs env repo opts sid outputFile (readPawSubAgentOutputFile errors fs outputFile)
       Some (\<lambda>i s u. ()) (\<lambda>out fs. completePawReviewerPass env repo fs sid out opts) fs"

text \<open>
  The added values of a completed verification: whether gates stayed unverified, how many
  decisions there were and how many of them unverified.
\<close>

definition createPawCompleteVerificationCommandResult ::
  "directories \<Rightarrow> process_env \<Rightarrow> string \<Rightarrow> PawSessionLockOptions \<Rightarrow> string \<Rightarrow> string \<Rightarrow> files \<Rightarrow>
     PawCompleteVerificationCommandResult throws \<times> files" where
  "createPawCompleteVerificationCommandResult dirs env repo opts sid decisionFile fs =
     recordingCommand dirs env repo opts sid decisionFile (readVerificationDecisionFile fs decisionFile)
       (\<lambda>ds. None) (\<lambda>ds s unverified. (length unverified > 0, length ds, length unverified))
       (\<lambda>ds fs. completePawVerification env repo fs sid ds opts) fs"

definition createPawBlockWorkerCommandResult ::
  "schema_errors \<Rightarrow> directories \<Rightarrow> process_env \<Rightarrow> string \<Rightarrow> PawSessionLockOptions \<Rightarrow> string \<Rightarrow> string \<Rightarrow> files \<Rightarrow>
     PawBlockCommandResult throws \<times> files" where
  "createPawBlockWorkerCommandResult errors dirs env repo opts sid outputFile fs =
     recordingCommand dirs env repo opts sid outputFile (readPawSubAgentOutputFile errors fs outputFile)
       Some (\<lambda>i s u. blockedReasonOf s) (\<lambda>out fs. blockPawWorkerResult env repo fs sid out opts) fs"

definition createPawBlockReviewerCommandResult ::
  "schema_errors \<Rightarrow> directories \<Rightarrow> process_env \<Rightarrow> string \<Rightarrow> PawSessionLockOptions \<Rightarrow> string \<Rightarrow> string \<Rightarrow> files \<Rightarrow>
     PawBlockCommandResult throws \<times> files" where
  "createPawBlockReviewerCommandResult errors dirs env repo opts sid outputFile fs =
     recordingCommand dirs env repo opts sid outputFile (readPawSubAgentOutputFile errors fs outputFile)
       Some (\<lambda>i s u. blockedReasonOf s) (\<lambda>out fs. blockPawReviewerResult env repo fs sid out opts) fs"

definition createPawBlockVerifierCommandResult ::
  "directories \<Rightarrow> process_env \<Rightarrow> string \<Rightarrow> PawSessionLockOptions \<Rightarrow> string \<Rightarrow> string \<Rightarrow> files \<Rightarrow>
     PawBlockCommandResult throws \<times> files" where
  "createPawBlockVerifierCommandResult dirs env repo opts sid decisionFile fs =
     recordingCommand dirs env repo opts sid decisionFile (readVerifierBlockedDecisionFile fs decisionFile)
       (\<lambda>r. None) (\<lambda>i s u. blockedReasonOf s) (\<lambda>r fs. blockPawVerifierResult env repo fs sid r opts) fs"

text \<open>
  Completing a worker pass works on the whole disk. The command line passes no configuration,
  so that no patch is applied.
\<close>

definition createPawCompleteWorkerCommandResult ::
  "schema_errors \<Rightarrow> directories \<Rightarrow> surroundings \<Rightarrow> process_env \<Rightarrow> PawEditPolicyConfig option \<Rightarrow> PawSessionLockOptions \<Rightarrow>
     string \<Rightarrow> string \<Rightarrow> string option \<Rightarrow> disk \<Rightarrow> PawCompleteWorkerCommandResult throws \<times> disk" where
  "createPawCompleteWorkerCommandResult errors dirs w env config opts sid outputFile ts d =
     fileCommand dirs (root w) sid session_files outputFile
       (readPawSubAgentOutputFile errors (session_files d) outputFile)
       (\<lambda>out d. commandResult RecordCommandRefused
          (mapRecordResult sid (Some out) (\<lambda>s (journal, changes). length journal))
          (underLock session_files (\<lambda>fs d. d\<lparr>session_files := fs\<rparr>) env (root w) opts sid
             (\<lambda>_ d. completePawWorkerPass env (patching w) (disk_views w) (now_text w) (root w) config d sid out opts ts) d)) d"

section \<open>Checkpoints\<close>

datatype PawPrepareCheckpointCommandResult =
    PrepareDone string string string string state_label nat bool
  | PrepareRefused command_refusal
  | PrepareInvalidState string PawActiveStateName state_label bool
  | PrepareNoSelectedSlice string state_label bool
  | PrepareNotLocked PawNotLockedCommandFields
  | PrepareLockedByOther string PawSessionLock bool

fun mapPawPrepareCheckpointResult ::
  "string \<Rightarrow> string \<Rightarrow> PawSliceCheckpointResult \<Rightarrow> bool \<Rightarrow> PawPrepareCheckpointCommandResult" where
  "mapPawPrepareCheckpointResult repo sid (CheckpointPrepared m p s l) b =
     PrepareDone sid (checkpoint_name m) (or_else (cp_slice_id m) '''') (relativeOr repo (metadataFile p)) (state_name s)
       (length (cp_changed_files m)) b"
| "mapPawPrepareCheckpointResult repo sid (CheckpointInvalidState s l) b =
     PrepareInvalidState sid SLICE_SELECT (state_name s) b"
| "mapPawPrepareCheckpointResult repo sid (CheckpointNoSlice s l) b = PrepareNoSelectedSlice sid (state_name s) b"
| "mapPawPrepareCheckpointResult repo sid (CheckpointRefused (RefusedNotLocked NotLockedUnlocked)) b =
     PrepareNotLocked (mapPawNotLockedCommandFields sid False b None)"
| "mapPawPrepareCheckpointResult repo sid (CheckpointRefused (RefusedNotLocked (NotLockedStale r l))) b =
     PrepareNotLocked (mapPawNotLockedCommandFields sid True b (Some r))"
| "mapPawPrepareCheckpointResult repo sid (CheckpointRefused (RefusedOther l w)) b = PrepareLockedByOther sid l b"

definition createPawPrepareCheckpointCommandResult ::
  "directories \<Rightarrow> process_env \<Rightarrow> snapshot_env \<Rightarrow> string \<Rightarrow> PawSessionLockOptions \<Rightarrow> string \<Rightarrow> PawSliceCheckpointInput \<Rightarrow>
     workspace \<Rightarrow> files \<Rightarrow> PawPrepareCheckpointCommandResult throws \<times> files" where
  "createPawPrepareCheckpointCommandResult dirs env senv repo opts sid inp w fs =
     commandResult PrepareRefused (mapPawPrepareCheckpointResult repo sid)
       (filesCommand dirs env repo opts sid
          (onFiles (\<lambda>fs. preparePawSliceCheckpoint env senv repo fs w sid
             (inp\<lparr>restoreFiles := None, captureRestoreFiles := True\<rparr>) opts)) fs)"

section \<open>Finalizing\<close>

datatype PawFinalizeCommandResult =
    FinalizeCompleted string string string string PawFinalReportStatus state_label state_label bool
  | FinalizeRefused command_refusal
  | FinalizeInvalidState string state_label "PawValidationIssue list" bool
  | FinalizePendingSlices string state_label "PawValidationIssue list" bool
  | FinalizeInvalidReportInput string state_label "PawValidationIssue list" bool
  | FinalizeInvalidTransition string state_label "PawValidationIssue list" bool
  | FinalizeNotLocked PawNotLockedCommandFields

fun mapPawFinalizeEmissionResult ::
  "string \<Rightarrow> string \<Rightarrow> PawFinalReportEmissionResult \<Rightarrow> bool \<Rightarrow> PawFinalizeCommandResult" where
  "mapPawFinalizeEmissionResult sid summary (EmissionCompleted l s s' e) b =
     FinalizeCompleted sid summary (emitted_summaryFile e) (emitted_reportJsonFile e) (final_status (emitted e))
       (state_name s) (state_name s') b"
| "mapPawFinalizeEmissionResult sid summary (EmissionRefused (RefusedNotLocked NotLockedUnlocked)) b =
     FinalizeNotLocked (mapPawNotLockedCommandFields sid False b None)"
| "mapPawFinalizeEmissionResult sid summary (EmissionRefused (RefusedNotLocked (NotLockedStale r l))) b =
     FinalizeNotLocked (mapPawNotLockedCommandFields sid True b (Some r))"
| "mapPawFinalizeEmissionResult sid summary (EmissionRefused (RefusedOther l w)) b =
     FinalizeRefused (CommandLocked sid l)"
| "mapPawFinalizeEmissionResult sid summary (EmissionInvalidState s is) b = FinalizeInvalidState sid (state_name s) is b"
| "mapPawFinalizeEmissionResult sid summary (EmissionPendingSlices s is) b = FinalizePendingSlices sid (state_name s) is b"
| "mapPawFinalizeEmissionResult sid summary (EmissionInvalidReportInput s is) b =
     FinalizeInvalidReportInput sid (state_name s) is b"
| "mapPawFinalizeEmissionResult sid summary (EmissionInvalidTransition s is) b =
     FinalizeInvalidTransition sid (state_name s) is b"

definition finalizeReportInput :: "string \<Rightarrow> string list \<Rightarrow> PawFinalReportInput" where
  "finalizeReportInput summary evidence =
     \<lparr>report_summary = summary,
      report_evidence = (if length evidence > 0 then evidence else [''manual finalization requested'']),
      report_risks = None, verifyDecisions = [], degradedSteps = None, nextActions = None,
      nativeVerificationRunResults = None\<rparr>"

definition createPawFinalizeCommandResult ::
  "directories \<Rightarrow> process_env \<Rightarrow> string \<Rightarrow> PawSessionLockOptions \<Rightarrow> string \<Rightarrow> string \<Rightarrow> string list \<Rightarrow> evidence_files \<Rightarrow>
     files \<Rightarrow> PawFinalizeCommandResult throws \<times> files" where
  "createPawFinalizeCommandResult dirs env repo opts sid summary evidence ev fs =
     commandResult FinalizeRefused (mapPawFinalizeEmissionResult sid summary)
       (filesCommand dirs env repo opts sid
          (\<lambda>_ fs. emitPawFinalReport env repo fs ev sid (finalizeReportInput summary evidence) opts) fs)"


section \<open>Verifying\<close>

record verify_settings =
  verify_config :: PawVerifyConfig
  verify_run_options :: PawNativeVerificationRunOptions

type_synonym evidence_state = "files \<times> evidence_files"

datatype PawVerifyCommandResult =
    VerifyCompleted string state_label state_label string "PawNativeVerificationPlanEntry list"
      "PawNativeVerificationRunResult list" "PawVerifyGateDecision list" "PawVerifyGateDecision list" bool
  | VerifyRefused command_refusal
  | VerifyInvalidState string state_label "PawValidationIssue list" bool
  | VerifyInvalidVerification string "PawValidationIssue list" bool

text \<open>What a verification has when it is recorded: plan, results, decisions and the outcome.\<close>

type_synonym verification_run =
  "PawNativeVerificationPlanEntry list \<times> PawNativeVerificationRunResult list \<times> PawVerifyGateDecision list
     \<times> PawVerificationResult"

definition verifyOperation ::
  "plan_env \<Rightarrow> verify_settings \<Rightarrow> process_env \<Rightarrow> string \<Rightarrow> PawSessionLockOptions \<Rightarrow> string \<Rightarrow>
     PawNativeVerificationExecutor option \<Rightarrow> evidence_state \<Rightarrow> verification_run throws \<times> evidence_state" where
  "verifyOperation penv cfg env repo opts sid executor st =
     (let plan = createPawNativeVerificationPlan penv (v1_gates (verify_config cfg)) (Some repo) in
      case (case executor of
              None \<Rightarrow> Inr ([], map (\<lambda>entry. case entry of
                  Planned gate command reason \<Rightarrow> evaluatePawVerifyGate gate False (verify_config cfg) (Some reason)
                | Unsupported gate reason \<Rightarrow> evaluatePawVerifyGate gate False (verify_config cfg) (Some reason)) plan)
            | Some ex \<Rightarrow> map_sum id (\<lambda>results. (results, mapPawNativeVerificationRunResults results (verify_config cfg)))
                (runPawNativeVerificationPlan ex (verify_run_options cfg) 0 plan)) of
        Inl e \<Rightarrow> (Inl e, st)
      | Inr (results, decisions) \<Rightarrow>
          (case completePawVerification env repo (fst st) sid decisions opts of
             Inl e \<Rightarrow> (Inl e, st)
           | Inr (outcome, fs') \<Rightarrow>
               if recorded outcome then
                 (case writePawVerificationEvidence repo (snd st) sid results of
                    Inl e \<Rightarrow> (Inl e, (fs', snd st))
                  | Inr ev' \<Rightarrow> (Inr (plan, results, decisions, outcome), (fs', ev')))
               else (Inr (plan, results, decisions, outcome), (fs', snd st))))"

text \<open>The outcomes \<open>InvalidOutput\<close>, \<open>OtherStatus\<close> and \<open>InvalidReason\<close> do not occur.\<close>

fun mapVerification :: "string \<Rightarrow> verification_run \<Rightarrow> bool \<Rightarrow> PawVerifyCommandResult" where
  "mapVerification sid (plan, results, decisions, Recorded l s s' unverified) b =
     VerifyCompleted sid (state_name s) (state_name s') (or_else (current_slice_id s) '''') plan results decisions unverified b"
| "mapVerification sid (plan, results, decisions, InvalidState s is) b = VerifyInvalidState sid (state_name s) is b"
| "mapVerification sid (plan, results, decisions, NoSlice s is) b = VerifyInvalidState sid (state_name s) is b"
| "mapVerification sid (plan, results, decisions, InvalidDecisions s is) b = VerifyInvalidVerification sid is b"
| "mapVerification sid (plan, results, decisions, RecordInvalidTransition s is) b = VerifyInvalidVerification sid is b"
| "mapVerification sid (plan, results, decisions, RecordRefused (RefusedNotLocked why)) b =
     VerifyInvalidVerification sid [Issue ''/lock'' (''Acquired lock was not current: ''
       @ (case why of NotLockedUnlocked \<Rightarrow> ''unlocked'' | NotLockedStale r l \<Rightarrow> ''stale'') @ ''.'')] b"
| "mapVerification sid (plan, results, decisions, RecordRefused (RefusedOther l w)) b = VerifyRefused (CommandLocked sid l)"
| "mapVerification sid (plan, results, decisions, _) b = VerifyInvalidVerification sid [] b"

text \<open>
  The configuration is loaded after the lock is taken and before the block that releases it
  in any case; \<open>cfg\<close> is the loaded configuration or the error.
\<close>

definition createPawVerifyCommandResult ::
  "directories \<Rightarrow> plan_env \<Rightarrow> verify_settings throws \<Rightarrow> process_env \<Rightarrow> string \<Rightarrow> PawSessionLockOptions \<Rightarrow> string \<Rightarrow>
     PawNativeVerificationExecutor option \<Rightarrow> evidence_state \<Rightarrow> PawVerifyCommandResult throws \<times> evidence_state" where
  "createPawVerifyCommandResult dirs penv cfg env repo opts sid executor st =
     commandResult VerifyRefused (mapVerification sid)
       (sessionCommand dirs repo sid fst
          (acquireThen fst (\<lambda>fs st. (fs, snd st)) env repo opts sid
             (\<lambda>_ st. case cfg of
                Inl e \<Rightarrow> (Inl e, st)
              | Inr c \<Rightarrow> releaseFinally fst (\<lambda>fs st. (fs, snd st)) env repo opts sid
                  (verifyOperation penv c env repo opts sid executor st))) st)"

section \<open>Starting and resuming\<close>

datatype PawStartCommandResult =
    StartCommandStarted string state_label nat nat "(PawSessionLockStaleReason \<times> PawSessionLock) option" bool
  | StartCommandExisting string state_label nat nat "(PawSessionLockStaleReason \<times> PawSessionLock) option" bool
  | StartCommandLocked string nat nat PawSessionLock

definition createPawStartCommandResult ::
  "process_env \<Rightarrow> string \<Rightarrow> init_contents \<Rightarrow> PawSessionLockOptions \<Rightarrow> string \<Rightarrow> files \<Rightarrow>
     PawStartCommandResult throws \<times> files" where
  "createPawStartCommandResult env repo c opts sid fs =
     (case startPawTaskSession env repo c fs sid opts of
        (Inl e, fs1) \<Rightarrow> (Inl e, fs1)
      | (Inr (StartLocked i l), fs1) \<Rightarrow> (Inr (StartCommandLocked sid (length (created i)) (length (existing i)) l), fs1)
      | (Inr (Started i l reclaimed s), fs1) \<Rightarrow>
          map_prod (map_sum id (\<lambda>(u, b). StartCommandStarted sid (state_name s) (length (created i)) (length (existing i)) reclaimed b)) id
            (releaseAfter id (\<lambda>fs s. fs) env repo opts sid () fs1)
      | (Inr (Existing i l reclaimed s), fs1) \<Rightarrow>
          map_prod (map_sum id (\<lambda>(u, b). StartCommandExisting sid (state_name s) (length (created i)) (length (existing i)) reclaimed b)) id
            (releaseAfter id (\<lambda>fs s. fs) env repo opts sid () fs1))"

datatype PawResumeCommandResult =
    ResumeReady string state_label "string option" nat nat "(PawSessionLockStaleReason \<times> PawSessionLock) option" bool
  | ResumeInvalidSession string string string
  | ResumeRefused command_refusal

definition errorText :: "js_error \<Rightarrow> string" where
  "errorText e = (case e of JsError m \<Rightarrow> m | FileSystemError c \<Rightarrow> c)"

text \<open>
  Resuming reads the session under its lock; an error of the read or of the release becomes
  the result, after another release.
\<close>

definition createPawResumeCommandResult ::
  "directories \<Rightarrow> process_env \<Rightarrow> string \<Rightarrow> PawSessionLockOptions \<Rightarrow> string \<Rightarrow> files \<Rightarrow>
     PawResumeCommandResult throws \<times> files" where
  "createPawResumeCommandResult dirs env repo opts sid fs =
     (case commandTarget dirs repo fs sid of
        Inl e \<Rightarrow> (Inl e, fs)
      | Inr (Some refusal) \<Rightarrow> (Inr (ResumeRefused refusal), fs)
      | Inr None \<Rightarrow>
          (case acquirePawSessionLock env repo fs sid opts of
             Inl e \<Rightarrow> (Inl e, fs)
           | Inr (LiveLock l, fs1) \<Rightarrow> (Inr (ResumeRefused (CommandLocked sid l)), fs1)
           | Inr (Acquired l reclaimed, fs1) \<Rightarrow>
               let invalid = (\<lambda>e. map_prod (map_sum id (\<lambda>u. ResumeInvalidSession sid
                       (relativeText repo (stateFile (sessionPaths repo sid))) (errorText e))) id
                     (releaseAfter id (\<lambda>fs s. fs) env repo opts sid () fs1)) in
               (case readPawSessionState repo fs1 sid of
                  Inl e \<Rightarrow> invalid e
                | Inr s \<Rightarrow>
                    (case releasePawSessionLock env repo fs1 sid opts of
                       Inl e \<Rightarrow> invalid e
                     | Inr (b, fs2) \<Rightarrow> (Inr (ResumeReady sid (state_name s) (current_slice_id s)
                         (length (pending_slice_ids s)) (length (completed_slice_ids s)) reclaimed b), fs2)))))"

section \<open>Approving, rejecting and retrying a step\<close>

datatype PawApproveRetryAction = approve_action | reject_action | retry_action

datatype PawApproveRetryResult =
    StepAdvanced string state_label state_label
  | StepRejected string state_label string
  | StepRetried string state_label state_label
  | StepNoOp string state_label string
  | StepInvalidState string state_label PawApproveRetryAction string
  | StepMissingSession string string
  | StepLocked string PawSessionLock

text \<open>The writes of these actions go past the state machine, but for \<open>executeReject\<close>.\<close>

definition writeAs :: "string \<Rightarrow> files \<Rightarrow> PawSessionState \<Rightarrow> PawApproveRetryResult \<Rightarrow> PawApproveRetryResult throws \<times> files" where
  "writeAs repo fs s res = (case writePawSessionState repo fs s of Inl e \<Rightarrow> (Inl e, fs) | Inr fs' \<Rightarrow> (Inr res, fs'))"

definition castName :: "PawActiveStateName cast \<Rightarrow> state_label" where
  "castName n = (case n of Member a \<Rightarrow> Member (Active a)
     | Foreign t \<Rightarrow> castOf stateNameString PAW_SESSION_STATE_NAMES t)"

definition resumedState :: "PawSessionState \<Rightarrow> PawBlockedReason \<Rightarrow> PawSessionState" where
  "resumedState s br = s\<lparr>state_name := castName (resume_state br), blocked_reason := None\<rparr>"

definition executeApprove :: "string \<Rightarrow> string \<Rightarrow> PawSessionState \<Rightarrow> files \<Rightarrow> PawApproveRetryResult throws \<times> files" where
  "executeApprove repo sid s fs =
     (let goes = (\<lambda>a. writeAs repo fs (s\<lparr>state_name := Member (Active a)\<rparr>)
                    (StepAdvanced sid (state_name s) (Member (Active a)))) in
      case (if isPawBlockedState (state_name s) then blocked_reason s else None) of
        Some br \<Rightarrow>
          if code br = Member NEEDS_USER_DECISION
          then writeAs repo fs (resumedState s br) (StepAdvanced sid (state_name s) (castName (resume_state br)))
          else (Inr (StepInvalidState sid (state_name s) approve_action
                 (''Cannot approve from state '' @ castString stateNameString (state_name s)
                   @ ''; expected SPEC_DRAFTED, PLAN_DRAFTED, or BLOCKED_NEEDS_USER_DECISION.'')), fs)
      | None \<Rightarrow>
          if state_name s = Member (Active SPEC_DRAFTED) then goes SPEC_APPROVED
          else if state_name s = Member (Active PLAN_DRAFTED) then
            (if length (pending_slice_ids s) = 0 then
               (Inr (StepNoOp sid (state_name s)
                 ''PLAN_DRAFTED has no pending slices; use paw approve-plan --slice <id>[:<title>]...''), fs)
             else goes PLAN_APPROVED)
          else if state_name s = Member (Active SLICE_DONE) \<and> length (pending_slice_ids s) = 0 then goes FINAL_REPORT
          else (Inr (StepInvalidState sid (state_name s) approve_action
                 (''Cannot approve from state '' @ castString stateNameString (state_name s)
                   @ ''; expected SPEC_DRAFTED, PLAN_DRAFTED, or BLOCKED_NEEDS_USER_DECISION.'')), fs))"

definition rejectTransition :: "string \<Rightarrow> string \<Rightarrow> PawSessionState \<Rightarrow> PawStateTransition" where
  "rejectTransition sid reason s =
     \<lparr>to_state = Blocked NEEDS_USER_DECISION, slice_ids = None,
      transition_reason = Some \<lparr>input_code = Some NEEDS_USER_DECISION, input_message = reason,
        input_suggested_action = ''paw approve '' @ sid @ ''  # to resume, or paw retry '' @ sid @ '' after fixing'',
        input_slice_id = current_slice_id s\<rparr>\<rparr>"

definition executeReject ::
  "string \<Rightarrow> string \<Rightarrow> string option \<Rightarrow> PawSessionState \<Rightarrow> files \<Rightarrow> PawApproveRetryResult throws \<times> files" where
  "executeReject repo sid why s fs =
     (let invalid = (\<lambda>m. (Inr (StepInvalidState sid (state_name s) reject_action m), fs));
          name = castString stateNameString (state_name s) in
      if isPawBlockedState (state_name s) then
        invalid (''Cannot reject from blocked state '' @ name @ ''; use paw retry to resume.'')
      else if state_name s = Member (Active FINAL_REPORT) \<or> state_name s = Member (Active IDLE) then
        invalid (''Cannot reject from terminal state '' @ name @ ''.'')
      else
        let reason = or_else why ''User rejected the current step.'' in
        case transitionPawSessionState s (rejectTransition sid reason s) of
          Invalid is \<Rightarrow> invalid (''Transition failed: '' @ join_with ''; '' (map (\<lambda>i. issue_path i @ '' '' @ issue_message i) is))
        | Ok s' \<Rightarrow> writeAs repo fs s' (StepRejected sid (state_name s) reason))"

definition executeRetry :: "string \<Rightarrow> string \<Rightarrow> PawSessionState \<Rightarrow> files \<Rightarrow> PawApproveRetryResult throws \<times> files" where
  "executeRetry repo sid s fs =
     (if isPawBlockedState (state_name s) then
        (case blocked_reason s of
           None \<Rightarrow> (Inr (StepInvalidState sid (state_name s) retry_action
             ''Blocked state has no blocked_reason; cannot determine resume_state.''), fs)
         | Some br \<Rightarrow> writeAs repo fs (resumedState s br) (StepRetried sid (state_name s) (castName (resume_state br))))
      else if state_name s \<in> {Member (Active SLICE_SELECT), Member (Active IMPLEMENTING), Member (Active REVIEWING),
               Member (Active VERIFYING)} then (Inr (StepRetried sid (state_name s) (state_name s)), fs)
      else (Inr (StepNoOp sid (state_name s) (''State '' @ castString stateNameString (state_name s)
             @ '' does not require retry; use paw approve or paw reject instead.'')), fs))"

fun executePawApproveRetry ::
  "string \<Rightarrow> string \<Rightarrow> string option \<Rightarrow> PawApproveRetryAction \<Rightarrow> PawSessionState \<Rightarrow> files \<Rightarrow>
     PawApproveRetryResult throws \<times> files" where
  "executePawApproveRetry repo sid why approve_action s fs = executeApprove repo sid s fs"
| "executePawApproveRetry repo sid why reject_action s fs = executeReject repo sid why s fs"
| "executePawApproveRetry repo sid why retry_action s fs = executeRetry repo sid s fs"

definition readPawSessionStateOrNull :: "string \<Rightarrow> files \<Rightarrow> string \<Rightarrow> PawSessionState option throws" where
  "readPawSessionStateOrNull repo fs sid =
     (case readPawSessionState repo fs sid of
        Inr s \<Rightarrow> Inr (Some s)
      | Inl e \<Rightarrow> if e = FileSystemError ''ENOENT'' then Inr None else Inl e)"

definition approveRetryOperation ::
  "string \<Rightarrow> string \<Rightarrow> string option \<Rightarrow> PawApproveRetryAction \<Rightarrow> 'o \<Rightarrow> files \<Rightarrow> PawApproveRetryResult throws \<times> files" where
  "approveRetryOperation repo sid why action reclaimed fs =
     (case readPawSessionStateOrNull repo fs sid of
        Inl e \<Rightarrow> (Inl e, fs)
      | Inr None \<Rightarrow> (Inr (StepMissingSession sid (repo @ ''/.paw/sessions/'' @ sid @ ''/state.json'')), fs)
      | Inr (Some s) \<Rightarrow> executePawApproveRetry repo sid why action s fs)"

text \<open>No directory is checked here, so a refusal can only be the lock.\<close>

definition createPawApproveRetryResult ::
  "process_env \<Rightarrow> string \<Rightarrow> PawSessionLockOptions \<Rightarrow> string \<Rightarrow> string option \<Rightarrow> PawApproveRetryAction \<Rightarrow> files \<Rightarrow>
     PawApproveRetryResult throws \<times> files" where
  "createPawApproveRetryResult env repo opts sid why action fs =
     commandResult
       (\<lambda>r. case r of CommandLocked i l \<Rightarrow> StepLocked i l | MissingSession i f \<Rightarrow> StepMissingSession i f
                    | MissingProject d \<Rightarrow> StepMissingSession sid d)
       (\<lambda>x released. x)
       (underLockFinally id (\<lambda>fs s. fs) env repo opts sid (approveRetryOperation repo sid why action) fs)"


end
