(* ===== verification/Paw_Cli_Laws.thy ===== *)
theory Paw_Cli_Laws
  imports Paw_Cli
begin

text \<open>
  What every command of \<open>Paw_Cli\<close> keeps. The locale \<open>files_part\<close> is the interface through which
  the lock is taken and released, \<open>session_operation\<close> the contract of what runs between; both
  are interpreted for every command. A command that returns leaves no lock of its own, and
  whatever commands run, stored sessions stay reachable.
\<close>

section \<open>Contracts\<close>

definition lawful :: "string \<Rightarrow> files \<Rightarrow> files \<Rightarrow> bool" where
  "lawful r fs fs' \<longleftrightarrow>
     (\<forall>k. validSessionId k \<longrightarrow> fs' (lockFile (sessionPaths r k)) = fs (lockFile (sessionPaths r k)))
     \<and> (store_inv r fs \<longrightarrow> store_inv r fs')"

lemma lawful_refl [simp]: "lawful r fs fs"
  by (simp add: lawful_def)

lemma lawful_trans: "lawful r fs fs1 \<Longrightarrow> lawful r fs1 fs2 \<Longrightarrow> lawful r fs fs2"
  by (simp add: lawful_def)

text \<open>A command on session \<open>sid\<close>: the first form for what runs under the lock, the second from outside.\<close>

definition other_locks_kept :: "string \<Rightarrow> string \<Rightarrow> files \<Rightarrow> files \<Rightarrow> bool" where
  "other_locks_kept r sid fs fs' \<longleftrightarrow>
     (\<forall>k. validSessionId k \<and> k \<noteq> sid \<longrightarrow> fs' (lockFile (sessionPaths r k)) = fs (lockFile (sessionPaths r k)))"

definition releases :: "string \<Rightarrow> string \<Rightarrow> files \<Rightarrow> files \<Rightarrow> bool \<Rightarrow> bool" where
  "releases r sid fs fs' returned \<longleftrightarrow> other_locks_kept r sid fs fs' \<and> (store_inv r fs \<longrightarrow> store_inv r fs')
     \<and> (returned \<longrightarrow> fs' (lockFile (sessionPaths r sid)) = None)"

definition leaves_no_lock :: "string \<Rightarrow> string \<Rightarrow> files \<Rightarrow> files \<Rightarrow> bool \<Rightarrow> bool" where
  "leaves_no_lock r sid fs fs' returned \<longleftrightarrow> other_locks_kept r sid fs fs' \<and> (store_inv r fs \<longrightarrow> store_inv r fs')
     \<and> (returned \<longrightarrow> fs' (lockFile (sessionPaths r sid)) \<in> {None, fs (lockFile (sessionPaths r sid))})"

lemma leaves_unchanged [simp]: "leaves_no_lock r sid fs fs returned"
  by (simp add: leaves_no_lock_def other_locks_kept_def)

section \<open>The lock around an operation\<close>

lemma lock_change_other:
  assumes "validSessionId sid"
  shows "other_locks_kept r sid fs (fs(lockFile (sessionPaths r sid) := f))"
  using assms by (simp add: other_locks_kept_def session_files_distinct)

lemma store_inv_lock_change:
  assumes "validSessionId sid"
  shows "store_inv r fs \<Longrightarrow> store_inv r (fs(lockFile (sessionPaths r sid) := f))"
  by (erule store_inv_same_reads) (rule read_after_lock_change [OF assms])

lemma acquire_live_same:
  assumes "acquirePawSessionLock env r fs sid opts = Inr (LiveLock l, fs')"
  shows "fs' = fs"
proof -
  have v: "validSessionId sid" using acquire_frame [OF assms] by blast
  have wf: "lock_wf (nextLock env opts)"
    using assms v by (auto simp: acquirePawSessionLock_def createPawSessionLock_def split: sum.splits)
  from assms [unfolded acquire_eq [OF v wf]] show ?thesis
    by (auto split: sum.splits option.splits)
qed

lemma holder_releases:
  assumes "validSessionId sid" "lockHolder r sid fs = Some l" "isCurrentOwner env l opts"
  shows "releasePawSessionLock env r fs sid opts = Inr (True, fs(lockFile (sessionPaths r sid) := None))"
  using assms by (auto simp: release_eq lockHolder_def split: sum.splits option.splits)

locale files_part =
  fixes get_files :: "'s \<Rightarrow> files" and put_files :: "files \<Rightarrow> 's \<Rightarrow> 's"
  assumes get_put [simp]: "get_files (put_files fs s) = fs"
    and put_get [simp]: "put_files (get_files s) s = s"
begin

lemma acquired_body:
  assumes run: "acquireThen get_files put_files env r opts sid body s = (res, s')"
    and body: "\<And>reclaimed s1 res1 s2 l. body reclaimed s1 = (res1, s2) \<Longrightarrow> validSessionId sid \<Longrightarrow>
      lockHolder r sid (get_files s1) = Some l \<Longrightarrow> isCurrentOwner env l opts \<Longrightarrow>
      releases r sid (get_files s1) (get_files s2) (\<not> isl res1)"
  shows "leaves_no_lock r sid (get_files s) (get_files s') (\<not> isl res)"
proof (cases "acquirePawSessionLock env r (get_files s) sid opts")
  case (Inl e)
  with run show ?thesis by (auto simp: acquireThen_def)
next
  case (Inr p)
  obtain x fs1 where p: "p = (x, fs1)" by fastforce
  note frame = acquire_frame [OF Inr [unfolded p]]
  show ?thesis
  proof (cases x)
    case (LiveLock l)
    have "fs1 = get_files s" using acquire_live_same [OF Inr [unfolded p LiveLock]] .
    with run Inr p LiveLock show ?thesis by (auto simp: acquireThen_def)
  next
    case (Acquired l reclaimed)
    obtain res1 s2 where b: "body reclaimed (put_files fs1 s) = (res1, s2)" by fastforce
    with run Inr p Acquired have res: "s' = s2" "isl res = isl res1"
      by (auto simp: acquireThen_def map_sum_def split: sum.splits)
    from acquire_holder [OF Inr [unfolded p Acquired]]
    have "lockHolder r sid (get_files (put_files fs1 s)) = Some l" "isCurrentOwner env l opts" by simp_all
    from body [OF b conjunct1 [OF frame] this] have "releases r sid fs1 (get_files s2) (\<not> isl res1)" by simp
    moreover from frame obtain f where "fs1 = (get_files s)(lockFile (sessionPaths r sid) := f)"
      and v: "validSessionId sid" by blast
    ultimately show ?thesis
      using lock_change_other [OF v, of r "get_files s" f] store_inv_lock_change [OF v, of r "get_files s" f]
      by (auto simp: releases_def leaves_no_lock_def other_locks_kept_def res)
  qed
qed

lemma releaseAfter_holder:
  assumes "validSessionId sid" "lockHolder r sid (get_files s) = Some l" "isCurrentOwner env l opts"
  shows "releaseAfter get_files put_files env r opts sid x s
    = (Inr (x, True), put_files ((get_files s)(lockFile (sessionPaths r sid) := None)) s)"
  by (simp add: releaseAfter_def holder_releases [OF assms])

end

text \<open>What runs under the lock neither touches a lock file nor leaves a stored session unreachable.\<close>

locale session_operation = files_part get_files put_files
    for get_files :: "'s \<Rightarrow> files" and put_files :: "files \<Rightarrow> 's \<Rightarrow> 's" +
  fixes r :: string
    and op :: "(PawSessionLockStaleReason \<times> PawSessionLock) option \<Rightarrow> 's \<Rightarrow> 'x throws \<times> 's"
  assumes op_lawful: "op reclaimed s = (res, s') \<Longrightarrow> lawful r (get_files s) (get_files s')"
begin

lemma holder_kept:
  assumes "op reclaimed s = (res, s')" "validSessionId sid" "lockHolder r sid (get_files s) = Some l"
  shows "lockHolder r sid (get_files s') = Some l"
  using op_lawful [OF assms(1)] assms(2,3) lockHolder_depends [of "get_files s'" r sid "get_files s"]
  by (simp add: lawful_def)

lemma released:
  assumes "lawful r (get_files s1) (get_files s2)" "validSessionId sid"
  shows "releases r sid (get_files s1) ((get_files s2)(lockFile (sessionPaths r sid) := None)) returned"
  using assms lock_change_other [OF assms(2), of r "get_files s2" None]
    store_inv_lock_change [OF assms(2), of r "get_files s2" None]
  by (auto simp: lawful_def releases_def other_locks_kept_def)

lemma thrown:
  assumes "lawful r (get_files s1) (get_files s2)"
  shows "releases r sid (get_files s1) (get_files s2) False"
  using assms by (auto simp: lawful_def releases_def other_locks_kept_def)

lemma unless_thrown:
  assumes "releaseUnlessThrown get_files put_files env r opts sid (op reclaimed s1) = (res, s2)"
    and "validSessionId sid" "lockHolder r sid (get_files s1) = Some l" "isCurrentOwner env l opts"
  shows "releases r sid (get_files s1) (get_files s2) (\<not> isl res)"
proof -
  obtain x s' where op: "op reclaimed s1 = (x, s')" by fastforce
  note rel = releaseAfter_holder [OF assms(2) holder_kept [OF op assms(2,3)] assms(4)]
  show ?thesis
    using assms(1) released [OF op_lawful [OF op] assms(2)] thrown [OF op_lawful [OF op]]
    by (cases x) (auto simp: op rel)
qed

lemma finally_released:
  assumes "releaseFinally get_files put_files env r opts sid (op reclaimed s1) = (res, s2)"
    and "validSessionId sid" "lockHolder r sid (get_files s1) = Some l" "isCurrentOwner env l opts"
  shows "releases r sid (get_files s1) (get_files s2) True"
proof -
  obtain x s' where op: "op reclaimed s1 = (x, s')" by fastforce
  note rel = releaseAfter_holder [OF assms(2) holder_kept [OF op assms(2,3)] assms(4)]
  show ?thesis
    using assms(1) released [OF op_lawful [OF op] assms(2)] by (cases x) (auto simp: op rel)
qed

lemma underLock_law:
  assumes "underLock get_files put_files env r opts sid op s = (res, s')"
  shows "leaves_no_lock r sid (get_files s) (get_files s') (\<not> isl res)"
  by (rule acquired_body [OF assms [unfolded underLock_def]]) (rule unless_thrown)

lemma underLockFinally_law:
  assumes "underLockFinally get_files put_files env r opts sid op s = (res, s')"
  shows "leaves_no_lock r sid (get_files s) (get_files s') (\<not> isl res)"
  by (rule acquired_body [OF assms [unfolded underLockFinally_def]])
    (auto simp: releases_def dest: finally_released)

lemma guarded_command_law:
  assumes "sessionCommand dirs r sid get_files (underLock get_files put_files env r opts sid op) s = (res, s')"
  shows "leaves_no_lock r sid (get_files s) (get_files s') (\<not> isl res)"
  using assms underLock_law by (auto simp: sessionCommand_def split: sum.splits option.splits)

end

lemma commandResult_run:
  assumes "commandResult refused mapped run = (res, s')"
  obtains res0 where "run = (res0, s')" "isl res = isl res0"
  using assms by (cases run) (auto simp: commandResult_def map_sum_def split: sum.splits)

section \<open>The operations are lawful\<close>

lemma write_keeps_locks:
  assumes "writePawSessionState r fs s = Inr fs'" "validSessionId k"
  shows "fs' (lockFile (sessionPaths r k)) = fs (lockFile (sessionPaths r k))"
proof -
  from assms(1) [unfolded write_Inr] have "validSessionId (session_id s)"
    "fs' = fs(stateFile (sessionPaths r (session_id s)) \<mapsto> JsonText (json_of_state s))" by auto
  then show ?thesis using session_files_distinct(3) [of "session_id s" k r] assms(2) by auto
qed

lemma lawful_transition:
  assumes "readPawSessionState r fs sid = Inr s" "transitionPawSessionState s t = Ok s'"
    and "writePawSessionState r fs s' = Inr fs'"
  shows "lawful r fs fs'"
proof -
  have "store_inv r fs'" if inv: "store_inv r fs"
  proof -
    from inv assms(1) have "session_id s = sid" "reached sid s" by (auto simp: store_inv_def)
    with assms(2) have "reached (session_id s') s'" by (simp add: transition_session_id reached_step)
    with store_inv_write [OF inv assms(3)] show ?thesis .
  qed
  then show ?thesis using write_keeps_locks [OF assms(3)] by (auto simp: lawful_def)
qed

lemma lawful_advance:
  assumes "advancePawTaskSession env r fs sid t opts = Inr (res, fs')"
  shows "lawful r fs fs'"
  using advance_cases [OF assms] lawful_transition by auto

lemma lawful_record:
  "guarded_record r env fs sid opts res fs' \<Longrightarrow> lawful r fs fs'"
  unfolding guarded_record_def by (auto intro: lawful_transition)

lemma lawful_on_files:
  assumes "onFiles f reclaimed fs = (res, fs')" "\<And>x fs1. f fs = Inr (x, fs1) \<Longrightarrow> lawful r fs fs1"
  shows "lawful r fs fs'"
  using assms by (auto simp: onFiles_def split: sum.splits)

text \<open>Two files of different name differ, wherever they are.\<close>

lemma joined_differ:
  assumes "take (min (length f) (length g)) (rev f) \<noteq> take (min (length f) (length g)) (rev g)"
  shows "pathJoin d f \<noteq> pathJoin e g"
proof
  assume "pathJoin d f = pathJoin e g"
  then have "rev (pathJoin d f) = rev (pathJoin e g)" by simp
  moreover have ends: "\<exists>x. rev (pathJoin d f) = rev f @ x" for d f :: string
    by (simp add: pathJoin_def)
  obtain x y where "rev (pathJoin d f) = rev f @ x" "rev (pathJoin e g) = rev g @ y"
    using ends [of d f] ends [of e g] by blast
  ultimately have "take (min (length f) (length g)) (rev f @ x) = take (min (length f) (length g)) (rev g @ y)"
    by simp
  with assms show False by simp
qed

lemma metadata_file_other:
  "metadataFile (checkpointPaths repo a b) \<notin> {stateFile (sessionPaths r k), lockFile (sessionPaths r k)}"
proof -
  have "metadataFile (checkpointPaths repo a b) \<noteq> stateFile (sessionPaths r k)"
    "metadataFile (checkpointPaths repo a b) \<noteq> lockFile (sessionPaths r k)"
    unfolding sessionPaths_files checkpointPaths_def Let_def PawCheckpointPaths.select_convs atomize_conj
    by (intro conjI joined_differ; simp)+
  then show ?thesis by simp
qed

lemma lawful_other_file:
  assumes "\<And>k. p \<notin> {stateFile (sessionPaths r k), lockFile (sessionPaths r k)}"
  shows "lawful r fs (fs(p \<mapsto> v))"
proof -
  have "readPawSessionState r (fs(p \<mapsto> v)) k = readPawSessionState r fs k" for k
    using assms [of k] by (intro read_depends) auto
  then show ?thesis
    unfolding lawful_def using assms store_inv_same_reads by (metis fun_upd_other insertCI)
qed

lemma lawful_prepare:
  assumes "preparePawSliceCheckpoint env senv r fs w sid inp opts = Inr (res, fs')"
  shows "lawful r fs fs'"
  using assms lawful_other_file metadata_file_other
  by (auto simp: preparePawSliceCheckpoint_def writePawCheckpointMetadata_def resolvePawCheckpointPaths_def
      writePawJsonAtomic_def Let_def split: sum.splits option.splits if_splits PawValidationResult.splits)


lemma lawful_report:
  assumes "validSessionId sid"
  shows "lawful r fs (report_written r sid report fs)"
proof -
  have "lockFile (sessionPaths r k) \<noteq> summaryFile (sessionPaths r sid)"
    "lockFile (sessionPaths r k) \<noteq> reportJsonFile (sessionPaths r sid)" for k
    unfolding sessionPaths_files report_paths atomize_conj by (intro conjI joined_differ; simp)+
  then show ?thesis
    unfolding lawful_def
    using store_inv_same_reads read_report_written(1) [OF assms] by (auto simp: report_written_def)
qed

lemma lawful_emission:
  assumes "emitPawFinalReport env r fs ev sid inp opts = (res, fs')"
  shows "lawful r fs fs'"
proof -
  consider "fs' = fs"
    | s s' report where "readPawSessionState r fs sid = Inr s" "transitionPawSessionState s (goto FINAL_REPORT) = Ok s'"
        "fs' = report_written r sid report fs
          \<or> writePawSessionState r (report_written r sid report fs) s' = Inr fs'"
    using emission_cases [OF assms] by blast
  then show ?thesis
  proof cases
    case 2
    have v: "validSessionId sid" by (rule read_valid [OF 2(1)])
    have "lawful r (report_written r sid report fs) fs'"
      using 2(3)
    proof
      assume "writePawSessionState r (report_written r sid report fs) s' = Inr fs'"
      moreover have "readPawSessionState r (report_written r sid report fs) sid = Inr s"
        using 2(1) read_report_written(1) [OF v] by simp
      ultimately show ?thesis using lawful_transition [OF _ 2(2)] by blast
    qed simp
    with lawful_report [OF v] show ?thesis by (rule lawful_trans)
  qed simp
qed

lemma lawful_worker_pass:
  assumes "completePawWorkerPass env penv views now r None d sid out opts ts = (res, d')"
  shows "lawful r (session_files d) (session_files d')"
proof (cases "\<exists>l s slice. accepts_worker env r (session_files d) sid opts out l s slice")
  case False
  with worker_pass_refused [OF _ assms] show ?thesis by auto
next
  case True
  then obtain l s slice where acc: "accepts_worker env r (session_files d) sid opts out l s slice" by blast
  have spares: "spares_paw r None out" by (simp add: spares_paw_def)
  obtain pres w' where p: "appliedPatches penv r None out (repo_files d) = (pres, w')" by fastforce
  note cases = worker_pass_accepted [OF acc assms p]
  have "lawful r (session_files d) (session_files (patchDisk views w' d))"
    unfolding lawful_def
    using patchDisk_spared(2) [OF spares _ p] store_inv_same_reads spared_reads [OF spares p] by blast
  moreover have "lawful r (session_files (patchDisk views w' d)) (session_files d')"
  proof (cases "\<exists>l' s1 s2 v. res = Inr (Recorded l' s1 s2 v)")
    case True
    with cases obtain s2 where "transitionPawSessionState s (goto REVIEWING) = Ok s2"
      "writePawSessionState r (session_files (patchDisk views w' d)) s2 = Inr (session_files d')" by auto
    moreover have "readPawSessionState r (session_files (patchDisk views w' d)) sid = Inr s"
      using acc spared_reads [OF spares p] by (simp add: accepts_worker_def)
    ultimately show ?thesis using lawful_transition by blast
  next
    case False
    with cases have "session_files d' = session_files (patchDisk views w' d)"
      by (auto split: sum.splits record_outcome.splits)
    then show ?thesis by simp
  qed
  ultimately show ?thesis by (rule lawful_trans)
qed

lemma lawful_verify:
  assumes "verifyOperation penv cfg env r opts sid executor st = (res, st')"
  shows "lawful r (fst st) (fst st')"
  using assms
  by (auto simp: verifyOperation_def Let_def split: sum.splits option.splits if_splits
      dest!: verification.guarded lawful_record)

section \<open>Approving and retrying follow the state machine\<close>

lemma resumed_is_transition:
  assumes "session_wf s" "isPawBlockedState (state_name s)" "blocked_reason s = Some br"
  shows "\<exists>a. resume_state br = Member a \<and> castName (resume_state br) = Member (Active a)
    \<and> transitionPawSessionState s (goto a) = Ok (resumedState s br)"
proof -
  obtain c where n: "state_name s = Member (Blocked c)"
    using assms(2) by (auto elim: isPawBlockedState.elims)
  obtain a where a: "resume_state br = Member a"
    using session_wf_blocked_reason [OF assms(1) n] assms(3) by auto
  have "transitionPawSessionState s (goto a) = Ok (resumedState s br)"
    unfolding transition_resume [OF assms(1) n] resume_Ok
    using assms(3) a by (simp add: resumedState_def castName_def goto_def)
  with a show ?thesis by (simp add: castName_def)
qed

lemma direct_is_transition:
  assumes "session_wf s" "state_name s = Member (Active a)" "b \<in> {SPEC_APPROVED, FINAL_REPORT}"
    and "b \<in> set (PAW_ALLOWED_ACTIVE_TRANSITIONS a)" "pending_slice_ids s = [] \<or> b = SPEC_APPROVED"
  shows "transitionPawSessionState s (goto b) = Ok (s\<lparr>state_name := Member (Active b)\<rparr>)"
proof -
  have "validateActiveTransitionGuard s a b None = []" using assms(3,5) by (auto simp: guard_Nil)
  with assms have "transitionPawSessionState s (goto b) = Ok (applyActiveTransition s b None)"
    by (intro transition_goto) auto
  then show ?thesis
    using assms(3) clear_reason_id [OF session_wf_active_reason [OF assms(1,2)]]
    by (auto simp: applyActiveTransition_def)
qed

lemma writeAs_cases:
  assumes "writeAs r fs s' out = (res, fs')"
  shows "res = Inr out \<and> writePawSessionState r fs s' = Inr fs' \<or> (\<exists>e. res = Inl e) \<and> fs' = fs"
  using assms by (auto simp: writeAs_def split: sum.splits)

text \<open>What an action writes is a transition of the machine, stored under the session's id.\<close>

definition follows_machine :: "string \<Rightarrow> string \<Rightarrow> PawSessionState \<Rightarrow> files \<Rightarrow> PawApproveRetryResult throws \<Rightarrow> files \<Rightarrow> bool" where
  "follows_machine r sid s fs res fs' \<longleftrightarrow>
     (\<exists>t s'. transitionPawSessionState s t = Ok s' \<and> fs' = stored_state r sid s' fs
        \<and> res \<in> {Inr (StepAdvanced sid (state_name s) (state_name s')), Inr (StepRetried sid (state_name s) (state_name s')),
            Inr (StepRejected sid (state_name s) (or_else (map_option reason_message (blocked_reason s')) ''''))})
     \<or> fs' = fs \<and> (\<exists>x. res = Inr x \<and> (\<forall>p q. x \<noteq> StepAdvanced sid p q) \<and> (\<forall>p q. p \<noteq> q \<longrightarrow> x \<noteq> StepRetried sid p q)
         \<and> (\<forall>p w. x \<noteq> StepRejected sid p w))"

lemma writes_transition:
  assumes "store_inv r fs" "readPawSessionState r fs sid = Inr s" "transitionPawSessionState s t = Ok s'"
  shows "writeAs r fs s' out = (Inr out, stored_state r sid s' fs)"
  by (simp add: writeAs_def write_transitioned [OF assms])

lemma follows_step:
  assumes "transitionPawSessionState s t = Ok s'"
    and "out \<in> {StepAdvanced sid (state_name s) (state_name s'), StepRetried sid (state_name s) (state_name s'),
      StepRejected sid (state_name s) (or_else (map_option reason_message (blocked_reason s')) '''')}"
  shows "follows_machine r sid s fs (Inr out) (stored_state r sid s' fs)"
  using assms unfolding follows_machine_def by blast

lemma follows_unmoved [simp]:
  "follows_machine r sid s fs (Inr (StepInvalidState i n act m)) fs"
  "follows_machine r sid s fs (Inr (StepNoOp i n m)) fs"
  "follows_machine r sid s fs (Inr (StepRetried i n n)) fs"
  by (auto simp: follows_machine_def)

lemma resumedState_name [simp]: "state_name (resumedState s br) = castName (resume_state br)"
  by (simp add: resumedState_def)

lemma reject_transition:
  "to_state (rejectTransition sid reason s) = Blocked NEEDS_USER_DECISION"
  "map_option input_message (transition_reason (rejectTransition sid reason s)) = Some reason"
  by (simp_all add: rejectTransition_def)

lemma approve_follows:
  assumes inv: "store_inv r fs" and read: "readPawSessionState r fs sid = Inr s"
  shows "case executeApprove r sid s fs of (res, fs') \<Rightarrow> follows_machine r sid s fs res fs'"
proof -
  note wf = read_wf [OF read] and phase = store_inv_phase [OF inv read] and writes = writes_transition [OF inv read]
  show ?thesis
  proof (cases "isPawBlockedState (state_name s)")
    case True
    then obtain c where "state_name s = Member (Blocked c)" by (auto elim: isPawBlockedState.elims)
    then obtain br where br: "blocked_reason s = Some br" using session_wf_blocked_reason [OF wf] by blast
    obtain a where a: "castName (resume_state br) = Member (Active a)"
      and t: "transitionPawSessionState s (goto a) = Ok (resumedState s br)"
      using resumed_is_transition [OF wf True br] by blast
    show ?thesis
    proof (cases "code br = Member NEEDS_USER_DECISION")
      case True
      then have "executeApprove r sid s fs
          = (Inr (StepAdvanced sid (state_name s) (state_name (resumedState s br))), stored_state r sid (resumedState s br) fs)"
        using \<open>isPawBlockedState (state_name s)\<close> br by (simp add: executeApprove_def writes [OF t])
      then show ?thesis by (simp add: follows_step [OF t])
    next
      case False
      with \<open>isPawBlockedState (state_name s)\<close> br show ?thesis
        by (simp add: executeApprove_def follows_machine_def)
    qed
  next
    case False
    then obtain a where n: "state_name s = Member (Active a)"
      using session_wf_name [OF wf] by (metis PawSessionStateName.exhaust isPawBlockedState.simps(1))
    have goes: "case writeAs r fs (s\<lparr>state_name := Member (Active b)\<rparr>)
          (StepAdvanced sid (state_name s) (Member (Active b))) of (res, fs') \<Rightarrow> follows_machine r sid s fs res fs'"
      if "transitionPawSessionState s (goto b) = Ok (s\<lparr>state_name := Member (Active b)\<rparr>)" for b
      unfolding writes [OF that] using follows_step [OF that] by simp
    have drafted: "a = PLAN_DRAFTED \<Longrightarrow> pending_slice_ids s = []"
      using phase n by (auto simp: phase_inv_def phase_def working_states_def)
    consider "a = SPEC_DRAFTED" | "a = SLICE_DONE" "pending_slice_ids s = []"
      | "a \<noteq> SPEC_DRAFTED" "a = SLICE_DONE \<longrightarrow> pending_slice_ids s \<noteq> []" by blast
    then show ?thesis
    proof cases
      case 1
      with goes [OF direct_is_transition [OF wf n]] n show ?thesis by (simp add: executeApprove_def Let_def)
    next
      case 2
      with goes [OF direct_is_transition [OF wf n]] n show ?thesis by (simp add: executeApprove_def Let_def)
    next
      case 3
      with n drafted show ?thesis by (auto simp: executeApprove_def Let_def)
    qed
  qed
qed

lemma retry_follows:
  assumes inv: "store_inv r fs" and read: "readPawSessionState r fs sid = Inr s"
  shows "case executeRetry r sid s fs of (res, fs') \<Rightarrow> follows_machine r sid s fs res fs'"
proof (cases "isPawBlockedState (state_name s)")
  case True
  note wf = read_wf [OF read]
  from True obtain c where "state_name s = Member (Blocked c)" by (auto elim: isPawBlockedState.elims)
  then obtain br where br: "blocked_reason s = Some br" using session_wf_blocked_reason [OF wf] by blast
  obtain a where "castName (resume_state br) = Member (Active a)"
    and t: "transitionPawSessionState s (goto a) = Ok (resumedState s br)"
    using resumed_is_transition [OF wf True br] by blast
  then have "executeRetry r sid s fs
      = (Inr (StepRetried sid (state_name s) (state_name (resumedState s br))), stored_state r sid (resumedState s br) fs)"
    using True br by (simp add: executeRetry_def writes_transition [OF inv read t])
  then show ?thesis by (simp add: follows_step [OF t])
qed (auto simp: executeRetry_def follows_machine_def)

lemma reject_follows:
  assumes inv: "store_inv r fs" and read: "readPawSessionState r fs sid = Inr s"
  shows "case executeReject r sid why s fs of (res, fs') \<Rightarrow> follows_machine r sid s fs res fs'"
proof -
  define reason where "reason = or_else why ''User rejected the current step.''"
  show ?thesis
  proof (cases "\<exists>s'. \<not> isPawBlockedState (state_name s) \<and> state_name s \<notin> {Member (Active FINAL_REPORT), Member (Active IDLE)}
      \<and> transitionPawSessionState s (rejectTransition sid reason s) = Ok s'")
    case True
    then obtain s' where n: "\<not> isPawBlockedState (state_name s)" "state_name s \<notin> {Member (Active FINAL_REPORT), Member (Active IDLE)}"
      and t: "transitionPawSessionState s (rejectTransition sid reason s) = Ok s'" by blast
    obtain a where a: "state_name s = Member (Active a)"
      using session_wf_name [OF read_wf [OF read]] n(1) by (metis PawSessionStateName.exhaust isPawBlockedState.simps(1))
    have "or_else (map_option reason_message (blocked_reason s')) '''' = reason"
      using t transition_block [OF read_wf [OF read] a reject_transition(1), of sid reason s]
        reject_transition(2) [of sid reason s]
      by (auto simp: enterBlocked_Ok blockedSession_def or_else_def)
    moreover have "executeReject r sid why s fs = (Inr (StepRejected sid (state_name s) reason), stored_state r sid s' fs)"
      using n t by (simp add: executeReject_def Let_def reason_def writes_transition [OF inv read t [unfolded reason_def]])
    ultimately show ?thesis by (simp add: follows_step [OF t])
  next
    case False
    then show ?thesis
      by (auto simp: executeReject_def follows_machine_def Let_def reason_def split: PawValidationResult.splits)
  qed
qed


lemma execute_follows:
  assumes "store_inv r fs" "readPawSessionState r fs sid = Inr s"
    and "executePawApproveRetry r sid why action s fs = (res, fs')"
  shows "follows_machine r sid s fs res fs'"
  using approve_follows [OF assms(1,2)] reject_follows [OF assms(1,2), of why] retry_follows [OF assms(1,2)] assms(3)
  by (cases action) auto

lemma execute_writes:
  assumes "executePawApproveRetry r sid why action s fs = (res, fs')"
  shows "fs' = fs \<or> (\<exists>s'. writePawSessionState r fs s' = Inr fs')"
  using assms writeAs_cases
  by (cases action)
    (fastforce simp: executeApprove_def executeReject_def executeRetry_def Let_def
      split: if_splits option.splits PawValidationResult.splits)+

lemma lawful_approve_retry:
  assumes "approveRetryOperation r sid why action reclaimed fs = (res, fs')"
  shows "lawful r fs fs'"
proof (cases "readPawSessionStateOrNull r fs sid")
  case (Inr m)
  show ?thesis
  proof (cases m)
    case (Some s)
    have read: "readPawSessionState r fs sid = Inr s"
      using Inr Some by (auto simp: readPawSessionStateOrNull_def split: sum.splits if_splits)
    have run: "executePawApproveRetry r sid why action s fs = (res, fs')"
      using assms Inr Some by (simp add: approveRetryOperation_def)
    have "store_inv r fs'" if "store_inv r fs"
      using execute_follows [OF that read run] write_transitioned [OF that read] lawful_transition [OF read] that
      unfolding follows_machine_def lawful_def by metis
    with execute_writes [OF run] write_keeps_locks show ?thesis unfolding lawful_def by metis
  qed (use assms Inr in \<open>simp add: approveRetryOperation_def\<close>)
qed (use assms in \<open>simp add: approveRetryOperation_def\<close>)

section \<open>Every command meets the contract\<close>

interpretation whole_files: files_part id "\<lambda>fs s. fs"
  by unfold_locales simp_all

interpretation disk_files: files_part session_files "\<lambda>fs d. d\<lparr>session_files := fs\<rparr>"
  by unfold_locales simp_all

interpretation store_files: files_part fst "\<lambda>fs st. (fs, snd st)"
  by unfold_locales simp_all

lemma select_lawful: "selectNextPawPlanSlice env r fs sid opts = (res, fs') \<Longrightarrow> lawful r fs fs'"
  by (auto simp: selectNextPawPlanSlice_def split: sum.splits dest: lawful_advance)

lemma begin_lawful: "beginPawSliceImplementation env r fs sid opts = (res, fs') \<Longrightarrow> lawful r fs fs'"
  by (auto simp: beginPawSliceImplementation_def split: sum.splits dest: lawful_advance)

lemma approve_lawful: "approvePawPlanSlices env r fs sid v opts = Inr (x, fs') \<Longrightarrow> lawful r fs fs'"
  by (auto simp: approvePawPlanSlices_def split: PawValidationResult.splits sum.splits dest: lawful_advance)

interpretation select_slice: session_operation id "\<lambda>fs s. fs" r "\<lambda>_ fs. selectNextPawPlanSlice env r fs sid opts"
  for r env sid opts
  by unfold_locales (simp add: select_lawful)

interpretation begin_slice: session_operation id "\<lambda>fs s. fs" r "\<lambda>_ fs. beginPawSliceImplementation env r fs sid opts"
  for r env sid opts
  by unfold_locales (simp add: begin_lawful)

interpretation approve_plan: session_operation id "\<lambda>fs s. fs" r
  "onFiles (\<lambda>fs. approvePawPlanSlices env r fs sid v opts)" for r env sid v opts
  by unfold_locales (auto elim: lawful_on_files dest: approve_lawful)

interpretation prepare_checkpoint: session_operation id "\<lambda>fs s. fs" r
  "onFiles (\<lambda>fs. preparePawSliceCheckpoint env senv r fs w sid inp opts)" for r env senv w sid inp opts
  by unfold_locales (auto elim: lawful_on_files dest: lawful_prepare)

text \<open>A recorder of results is an operation under the lock, so its interpretations need no other.\<close>

sublocale slice_recorder \<subseteq> recording: session_operation id "\<lambda>fs s. fs" r
  "onFiles (\<lambda>fs. rec_op env r fs sid i opts)" for r env sid i opts
proof unfold_locales
  fix reclaimed s res s'
  assume "onFiles (\<lambda>fs. rec_op env r fs sid i opts) reclaimed s = (res, s')"
  then show "lawful r (id s) (id s')"
    unfolding id_apply by (rule lawful_on_files) (erule lawful_record [OF guarded])
qed

interpretation worker_command: session_operation session_files "\<lambda>fs d. d\<lparr>session_files := fs\<rparr>" r
  "\<lambda>_ d. completePawWorkerPass env penv views now r None d sid out opts ts" for r env penv views now sid out opts ts
  by unfold_locales (simp add: lawful_worker_pass)

interpretation finalize_command: session_operation id "\<lambda>fs s. fs" r
  "\<lambda>_ fs. emitPawFinalReport env r fs ev sid inp opts" for r env ev sid inp opts
  by unfold_locales (simp add: lawful_emission)

interpretation verify_command: session_operation fst "\<lambda>fs st. (fs, snd st)" r
  "\<lambda>_ st. verifyOperation penv cfg env r opts sid executor st" for r penv cfg env opts sid executor
  by unfold_locales (rule lawful_verify)

interpretation approve_retry: session_operation id "\<lambda>fs s. fs" r
  "approveRetryOperation r sid why action" for r sid why action
  by unfold_locales (simp add: lawful_approve_retry)

context slice_recorder
begin

lemma recording_command_law:
  assumes "recordingCommand dirs env r opts sid file input out_of added (\<lambda>i fs. rec_op env r fs sid i opts) fs = (res, fs')"
  shows "leaves_no_lock r sid fs fs' (\<not> isl res)"
proof -
  have "leaves_no_lock r sid fs fs' (\<not> isl res)"
    if "commandResult RecordCommandRefused mapped
      (underLock id (\<lambda>fs s. fs) env r opts sid (onFiles (\<lambda>fs. rec_op env r fs sid i opts)) fs) = (res, fs')" for mapped i
    using that by (rule commandResult_run) (drule recording.underLock_law, simp)
  then show ?thesis
    using assms
    by (auto simp: recordingCommand_def fileCommand_def split: sum.splits option.splits file_read.splits)
qed

end

section \<open>All commands\<close>

record cli_surroundings =
  around :: surroundings
  cli_directories :: directories
  schema_texts :: schema_errors
  plan_probe :: plan_env
  snapshot_probe :: snapshot_env

datatype cli_command =
    CliStart string init_contents
  | CliSelect string
  | CliBegin string
  | CliApprovePlan string "string list"
  | CliPrepare string PawSliceCheckpointInput
  | CliCompleteWorker string string "string option"
  | CliCompleteReviewer string string
  | CliCompleteVerification string string
  | CliBlockWorker string string
  | CliBlockReviewer string string
  | CliBlockVerifier string string
  | CliVerify string "verify_settings throws" "PawNativeVerificationExecutor option"
  | CliFinalize string string "string list"
  | CliResume string
  | CliApproveRetry string "string option" PawApproveRetryAction

type_synonym cli_state = "disk \<times> evidence_files"

definition thrownBy :: "'r throws \<Rightarrow> js_error option" where
  "thrownBy x = (case x of Inl e \<Rightarrow> Some e | Inr y \<Rightarrow> None)"

definition onSessionFiles :: "(files \<Rightarrow> 'r throws \<times> files) \<Rightarrow> cli_state \<Rightarrow> js_error option \<times> cli_state" where
  "onSessionFiles f st = (case f (session_files (fst st)) of
     (x, fs') \<Rightarrow> (thrownBy x, (fst st)\<lparr>session_files := fs'\<rparr>, snd st))"

text \<open>One command of one process; the error if it throws. The command line passes no configuration to a worker pass.\<close>

fun run_cli :: "cli_surroundings \<Rightarrow> process_env \<times> PawSessionLockOptions \<Rightarrow> cli_command \<Rightarrow> cli_state \<Rightarrow>
    js_error option \<times> cli_state" where
  "run_cli w (env, opts) (CliStart sid c) st =
     onSessionFiles (createPawStartCommandResult env (root (around w)) c opts sid) st"
| "run_cli w (env, opts) (CliSelect sid) st =
     onSessionFiles (createPawSelectSliceCommandResult (cli_directories w) env (root (around w)) opts sid) st"
| "run_cli w (env, opts) (CliBegin sid) st =
     onSessionFiles (createPawBeginImplementationCommandResult (cli_directories w) env (root (around w)) opts sid) st"
| "run_cli w (env, opts) (CliApprovePlan sid vs) st =
     onSessionFiles (createPawApprovePlanCommandResult (cli_directories w) env (root (around w)) opts sid vs) st"
| "run_cli w (env, opts) (CliPrepare sid inp) st =
     onSessionFiles (createPawPrepareCheckpointCommandResult (cli_directories w) env (snapshot_probe w)
       (root (around w)) opts sid inp (repo_files (fst st))) st"
| "run_cli w (env, opts) (CliCompleteWorker sid f ts) st =
     (case createPawCompleteWorkerCommandResult (schema_texts w) (cli_directories w) (around w) env None opts sid f ts (fst st) of
        (x, d') \<Rightarrow> (thrownBy x, d', snd st))"
| "run_cli w (env, opts) (CliCompleteReviewer sid f) st =
     onSessionFiles (createPawCompleteReviewerCommandResult (schema_texts w) (cli_directories w) env (root (around w)) opts sid f) st"
| "run_cli w (env, opts) (CliCompleteVerification sid f) st =
     onSessionFiles (createPawCompleteVerificationCommandResult (cli_directories w) env (root (around w)) opts sid f) st"
| "run_cli w (env, opts) (CliBlockWorker sid f) st =
     onSessionFiles (createPawBlockWorkerCommandResult (schema_texts w) (cli_directories w) env (root (around w)) opts sid f) st"
| "run_cli w (env, opts) (CliBlockReviewer sid f) st =
     onSessionFiles (createPawBlockReviewerCommandResult (schema_texts w) (cli_directories w) env (root (around w)) opts sid f) st"
| "run_cli w (env, opts) (CliBlockVerifier sid f) st =
     onSessionFiles (createPawBlockVerifierCommandResult (cli_directories w) env (root (around w)) opts sid f) st"
| "run_cli w (env, opts) (CliVerify sid cfg executor) st =
     (case createPawVerifyCommandResult (cli_directories w) (plan_probe w) cfg env (root (around w)) opts sid executor
             (session_files (fst st), snd st) of
        (x, (fs', ev')) \<Rightarrow> (thrownBy x, (fst st)\<lparr>session_files := fs'\<rparr>, ev'))"
| "run_cli w (env, opts) (CliFinalize sid summary evidence) st =
     onSessionFiles (createPawFinalizeCommandResult (cli_directories w) env (root (around w)) opts sid summary evidence (snd st)) st"
| "run_cli w (env, opts) (CliResume sid) st =
     onSessionFiles (createPawResumeCommandResult (cli_directories w) env (root (around w)) opts sid) st"
| "run_cli w (env, opts) (CliApproveRetry sid why action) st =
     onSessionFiles (createPawApproveRetryResult env (root (around w)) opts sid why action) st"

definition command_law :: "string \<Rightarrow> files \<Rightarrow> files \<Rightarrow> bool \<Rightarrow> bool" where
  "command_law r fs fs' returned \<longleftrightarrow> (store_inv r fs \<longrightarrow> store_inv r fs')
     \<and> (returned \<longrightarrow> (\<forall>k. validSessionId k \<longrightarrow>
          fs' (lockFile (sessionPaths r k)) \<in> {None, fs (lockFile (sessionPaths r k))}))"

lemma command_law_refl [simp]: "command_law r fs fs returned"
  by (simp add: command_law_def)

lemma leaves_command: "leaves_no_lock r sid fs fs' returned \<Longrightarrow> command_law r fs fs' returned"
  unfolding leaves_no_lock_def command_law_def other_locks_kept_def by blast

lemma thrownBy_None [simp]: "thrownBy x = None \<longleftrightarrow> \<not> isl x"
  by (cases x) (simp_all add: thrownBy_def)

lemma onSessionFiles_law:
  assumes "onSessionFiles f st = (err, st')"
    and "\<And>fs x fs'. f fs = (x, fs') \<Longrightarrow> command_law r fs fs' (\<not> isl x)"
  shows "command_law r (session_files (fst st)) (session_files (fst st')) (err = None)"
  using assms(1) assms(2) [of "session_files (fst st)"] by (auto simp: onSessionFiles_def split: prod.splits)


context session_operation
begin

lemma command_run_law:
  assumes "commandResult refused mapped
      (sessionCommand dirs r sid get_files (underLock get_files put_files env r opts sid op) s) = (res, s')"
  shows "command_law r (get_files s) (get_files s') (\<not> isl res)"
  using assms by (rule commandResult_run) (drule guarded_command_law, simp add: leaves_command)

end

text \<open>Resuming and starting take the lock in their own ways.\<close>

lemma resume_law:
  assumes "createPawResumeCommandResult dirs env r opts sid fs = (res, fs')"
  shows "command_law r fs fs' (\<not> isl res)"
proof (cases "acquirePawSessionLock env r fs sid opts")
  case (Inl e)
  with assms show ?thesis
    by (auto simp: createPawResumeCommandResult_def split: sum.splits option.splits)
next
  case (Inr p)
  obtain x fs1 where p: "p = (x, fs1)" by fastforce
  note acq = Inr [unfolded p]
  show ?thesis
  proof (cases x)
    case (LiveLock l)
    have "fs1 = fs" using acquire_live_same [OF acq [unfolded LiveLock]] .
    with assms acq LiveLock show ?thesis
      by (auto simp: createPawResumeCommandResult_def split: sum.splits option.splits)
  next
    case (Acquired l reclaimed)
    obtain f where v: "validSessionId sid" and fs1: "fs1 = fs(lockFile (sessionPaths r sid) := f)"
      using acquire_frame [OF acq] by blast
    note held = acquire_holder [OF acq [unfolded Acquired]]
    have rel: "releasePawSessionLock env r fs1 sid opts = Inr (True, fs(lockFile (sessionPaths r sid) := None))"
      using holder_releases [OF v] held by (simp add: fs1)
    have "fs' \<in> {fs, fs(lockFile (sessionPaths r sid) := None)}"
      using assms acq Acquired rel
      by (auto simp: createPawResumeCommandResult_def releaseAfter_def Let_def split: sum.splits option.splits)
    then show ?thesis
      using lock_change_other [OF v, of r fs None] store_inv_lock_change [OF v, of r fs None]
      by (auto simp: command_law_def other_locks_kept_def)
  qed
qed

lemma init_keeps_locks:
  "snd (initializePawProject r c fs) (lockFile (sessionPaths r k)) = fs (lockFile (sessionPaths r k))"
proof -
  have "lockFile (sessionPaths r k) \<noteq> configFile (resolvePawProjectPaths r)"
    "lockFile (sessionPaths r k) \<noteq> versionFile (resolvePawProjectPaths r)"
    "lockFile (sessionPaths r k) \<noteq> memoriesFile (resolvePawProjectPaths r)"
    "lockFile (sessionPaths r k) \<noteq> gitignoreFile (resolvePawProjectPaths r)"
    unfolding sessionPaths_files resolvePawProjectPaths_def Let_def PawProjectPaths.select_convs atomize_conj
    by (intro conjI joined_differ; simp)+
  then show ?thesis by (simp add: initializePawProject_def Let_def writeMissing_frame)
qed


lemma start_law:
  assumes "createPawStartCommandResult env r c opts sid fs = (res, fs')"
  shows "command_law r fs fs' (\<not> isl res)"
proof -
  define fs1 where "fs1 = snd (initializePawProject r c fs)"
  obtain x fs2 where run: "startPawTaskSession env r c fs sid opts = (x, fs2)" by fastforce
  have inv: "store_inv r fs \<Longrightarrow> store_inv r fs2" by (rule store_inv_start [OF _ run])
  have init: "fs1 (lockFile (sessionPaths r k)) = fs (lockFile (sessionPaths r k))" for k
    by (simp add: fs1_def init_keeps_locks)
  have released: "command_law r fs fs' (\<not> isl res)"
    if acq: "acquirePawSessionLock env r fs1 sid opts = Inr (Acquired l p, fs3)"
      and kept: "\<And>k. validSessionId k \<Longrightarrow> fs2 (lockFile (sessionPaths r k)) = fs3 (lockFile (sessionPaths r k))"
      and rel: "releaseAfter id (\<lambda>fs s. fs) env r opts sid () fs2 = (rres, fs')" for l p fs3 rres
  proof -
    obtain f where v: "validSessionId sid" and fs3: "fs3 = fs1(lockFile (sessionPaths r sid) := f)"
      using acquire_frame [OF acq] by blast
    have "lockHolder r sid fs2 = Some l" "isCurrentOwner env l opts"
      using acquire_holder [OF acq] lockHolder_depends [of fs2 r sid fs3] kept [OF v] by simp_all
    then have fs': "fs' = fs2(lockFile (sessionPaths r sid) := None)"
      using rel whole_files.releaseAfter_holder [OF v, of r fs2 l env opts "()"] by simp
    show ?thesis
      using fs' kept init fs3 store_inv_lock_change [OF v, of r fs2 None] inv
        session_files_distinct(2) [OF _ v, of _ r]
      by (auto simp: command_law_def)
  qed
  from start_cases [OF run] show ?thesis
  proof (elim disjE exE conjE)
    fix e assume "x = Inl e"
    with assms run inv show ?thesis by (auto simp: createPawStartCommandResult_def command_law_def)
  next
    fix i l assume x: "x = Inr (StartLocked i l)"
      and "acquirePawSessionLock env r (snd (initializePawProject r c fs)) sid opts = Inr (LiveLock l, fs2)"
    then have "fs2 = fs1" using acquire_live_same by (simp add: fs1_def)
    with x assms run inv init show ?thesis by (auto simp: createPawStartCommandResult_def command_law_def)
  next
    fix i l p s assume x: "x = Inr (Existing i l p s)"
      and acq: "acquirePawSessionLock env r (snd (initializePawProject r c fs)) sid opts = Inr (Acquired l p, fs2)"
    obtain rres where "releaseAfter id (\<lambda>fs s. fs) env r opts sid () fs2 = (rres, fs')"
      using assms run x
      by (cases "releaseAfter id (\<lambda>fs s. fs) env r opts sid () fs2") (auto simp: createPawStartCommandResult_def)
    with acq show ?thesis by (intro released [of l p fs2]) (simp_all add: fs1_def)
  next
    fix i l p s fs3 assume x: "x = Inr (Started i l p s)"
      and acq: "acquirePawSessionLock env r (snd (initializePawProject r c fs)) sid opts = Inr (Acquired l p, fs3)"
      and w: "writePawSessionState r fs3 s = Inr fs2"
    obtain rres where "releaseAfter id (\<lambda>fs s. fs) env r opts sid () fs2 = (rres, fs')"
      using assms run x
      by (cases "releaseAfter id (\<lambda>fs s. fs) env r opts sid () fs2") (auto simp: createPawStartCommandResult_def)
    with acq show ?thesis
      by (intro released [of l p fs3]) (simp_all add: fs1_def write_keeps_locks [OF w])
  qed
qed

lemma retry_command_law:
  assumes "createPawApproveRetryResult env r opts sid why action fs = (res, fs')"
  shows "command_law r fs fs' (\<not> isl res)"
  using assms unfolding createPawApproveRetryResult_def
  by (rule commandResult_run) (drule approve_retry.underLockFinally_law, simp add: leaves_command)

lemma verify_law:
  assumes "createPawVerifyCommandResult dirs penv cfg env r opts sid executor st = (res, st')"
  shows "command_law r (fst st) (fst st') (\<not> isl res)"
proof -
  obtain res0 where run: "sessionCommand dirs r sid fst (acquireThen fst (\<lambda>fs st. (fs, snd st)) env r opts sid
      (\<lambda>_ st. case cfg of Inl e \<Rightarrow> (Inl e, st)
         | Inr c \<Rightarrow> releaseFinally fst (\<lambda>fs st. (fs, snd st)) env r opts sid
             (verifyOperation penv c env r opts sid executor st))) st = (res0, st')"
    and same: "isl res = isl res0"
    using assms unfolding createPawVerifyCommandResult_def by (rule commandResult_run)
  from run consider "st' = st" | "acquireThen fst (\<lambda>fs st. (fs, snd st)) env r opts sid
      (\<lambda>_ st. case cfg of Inl e \<Rightarrow> (Inl e, st)
         | Inr c \<Rightarrow> releaseFinally fst (\<lambda>fs st. (fs, snd st)) env r opts sid
             (verifyOperation penv c env r opts sid executor st)) st = (res0, st')"
    by (auto simp: sessionCommand_def split: sum.splits option.splits)
  then show ?thesis
  proof cases
    case 2
    have "leaves_no_lock r sid (fst st) (fst st') (\<not> isl res0)"
    proof (rule store_files.acquired_body [OF 2])
      fix reclaimed :: "(PawSessionLockStaleReason \<times> PawSessionLock) option" and s1 res1 s2 l
      assume body: "(case cfg of Inl e \<Rightarrow> (Inl e, s1)
         | Inr c \<Rightarrow> releaseFinally fst (\<lambda>fs st. (fs, snd st)) env r opts sid
             (verifyOperation penv c env r opts sid executor s1)) = (res1, s2)"
        and held: "validSessionId sid" "lockHolder r sid (fst s1) = Some l" "isCurrentOwner env l opts"
      show "releases r sid (fst s1) (fst s2) (\<not> isl res1)"
      proof (cases cfg)
        case (Inl e)
        with body show ?thesis by (auto simp: releases_def other_locks_kept_def)
      next
        case (Inr c)
        with body have "releaseFinally fst (\<lambda>fs st. (fs, snd st)) env r opts sid
          (verifyOperation penv c env r opts sid executor s1) = (res1, s2)" by simp
        from verify_command.finally_released [OF this held] show ?thesis by (auto simp: releases_def)
      qed
    qed
    then show ?thesis by (simp add: same leaves_command)
  qed simp
qed

text \<open>The session a command is about, and the union of the laws.\<close>

lemma run_cli_law:
  assumes "run_cli w (env, opts) cmd st = (err, st')"
  shows "command_law (root (around w)) (session_files (fst st)) (session_files (fst st')) (err = None)"
proof (cases cmd)
  case (CliStart sid c)
  from assms [unfolded CliStart run_cli.simps] show ?thesis
    by (rule onSessionFiles_law) (erule start_law)
next
  case (CliSelect sid)
  from assms [unfolded CliSelect run_cli.simps] show ?thesis
    by (rule onSessionFiles_law)
      (unfold createPawSelectSliceCommandResult_def filesCommand_def, drule select_slice.command_run_law, simp)
next
  case (CliBegin sid)
  from assms [unfolded CliBegin run_cli.simps] show ?thesis
    by (rule onSessionFiles_law)
      (unfold createPawBeginImplementationCommandResult_def filesCommand_def, drule begin_slice.command_run_law, simp)
next
  case (CliApprovePlan sid vs)
  from assms [unfolded CliApprovePlan run_cli.simps] show ?thesis
    by (rule onSessionFiles_law)
      (unfold createPawApprovePlanCommandResult_def filesCommand_def, drule approve_plan.command_run_law, simp)
next
  case (CliPrepare sid inp)
  from assms [unfolded CliPrepare run_cli.simps] show ?thesis
    by (rule onSessionFiles_law)
      (unfold createPawPrepareCheckpointCommandResult_def filesCommand_def, drule prepare_checkpoint.command_run_law, simp)
next
  case (CliCompleteWorker sid f ts)
  have "leaves_no_lock (root (around w)) sid (session_files d) (session_files d') (\<not> isl res)"
    if "commandResult RecordCommandRefused mapped
      (underLock session_files (\<lambda>fs d. d\<lparr>session_files := fs\<rparr>) env (root (around w)) opts sid
        (\<lambda>_ d. completePawWorkerPass env (patching (around w)) (disk_views (around w)) (now_text (around w))
          (root (around w)) None d sid out opts ts) d) = (res, d')" for mapped out d res d'
    using that by (rule commandResult_run) (drule worker_command.underLock_law, simp)
  note law = leaves_command [OF this]
  from CliCompleteWorker assms show ?thesis
    by (auto simp: createPawCompleteWorkerCommandResult_def fileCommand_def
        split: sum.splits option.splits file_read.splits prod.splits dest: law)
next
  case (CliCompleteReviewer sid f)
  from assms [unfolded CliCompleteReviewer run_cli.simps] show ?thesis
    by (rule onSessionFiles_law) (unfold createPawCompleteReviewerCommandResult_def, drule reviewer_pass.recording_command_law, erule leaves_command)
next
  case (CliCompleteVerification sid f)
  from assms [unfolded CliCompleteVerification run_cli.simps] show ?thesis
    by (rule onSessionFiles_law) (unfold createPawCompleteVerificationCommandResult_def, drule verification.recording_command_law, erule leaves_command)
next
  case (CliBlockWorker sid f)
  from assms [unfolded CliBlockWorker run_cli.simps] show ?thesis
    by (rule onSessionFiles_law) (unfold createPawBlockWorkerCommandResult_def, drule worker_blocked.recording_command_law, erule leaves_command)
next
  case (CliBlockReviewer sid f)
  from assms [unfolded CliBlockReviewer run_cli.simps] show ?thesis
    by (rule onSessionFiles_law) (unfold createPawBlockReviewerCommandResult_def, drule reviewer_blocked.recording_command_law, erule leaves_command)
next
  case (CliBlockVerifier sid f)
  from assms [unfolded CliBlockVerifier run_cli.simps] show ?thesis
    by (rule onSessionFiles_law) (unfold createPawBlockVerifierCommandResult_def, drule verifier_blocked.recording_command_law, erule leaves_command)
next
  case (CliVerify sid cfg executor)
  with assms show ?thesis by (auto split: prod.splits dest!: verify_law)
next
  case (CliFinalize sid summary evidence)
  from assms [unfolded CliFinalize run_cli.simps] show ?thesis
    by (rule onSessionFiles_law)
      (unfold createPawFinalizeCommandResult_def filesCommand_def, drule finalize_command.command_run_law, simp)
next
  case (CliResume sid)
  from assms [unfolded CliResume run_cli.simps] show ?thesis
    by (rule onSessionFiles_law) (erule resume_law)
next
  case (CliApproveRetry sid why action)
  from assms [unfolded CliApproveRetry run_cli.simps] show ?thesis
    by (rule onSessionFiles_law) (erule retry_command_law)
qed

lemma store_inv_cli:
  assumes "store_inv (root (around w)) (session_files (fst st))"
  shows "store_inv (root (around w)) (session_files (fst (foldl (\<lambda>st (a, c). snd (run_cli w a c st)) st cmds)))"
  using assms
proof (induction cmds arbitrary: st)
  case (Cons ac cmds)
  obtain env opts c where ac: "ac = ((env, opts), c)" by (metis surj_pair)
  obtain err st' where run: "run_cli w (env, opts) c st = (err, st')" by (metis surj_pair)
  have "store_inv (root (around w)) (session_files (fst st'))"
    using run_cli_law [OF run] Cons.prems by (simp add: command_law_def)
  with Cons.IH [OF this] show ?case by (simp add: ac run)
qed simp

text \<open>What a finished command on the session files has done.\<close>

lemma filesCommand_ran:
  assumes "filesCommand dirs env r opts sid op fs = (Inr (Inr (x, released)), fs')"
  obtains l reclaimed fs1 fs2 where "acquirePawSessionLock env r fs sid opts = Inr (Acquired l reclaimed, fs1)"
    and "op reclaimed fs1 = (Inr x, fs2)" and "releasePawSessionLock env r fs2 sid opts = Inr (released, fs')"
proof -
  from assms have "underLock id (\<lambda>fs s. fs) env r opts sid op fs = (Inr (Inr (x, released)), fs')"
    by (auto simp: filesCommand_def sessionCommand_def split: sum.splits option.splits)
  then obtain l reclaimed fs1 where acq: "acquirePawSessionLock env r fs sid opts = Inr (Acquired l reclaimed, fs1)"
    and rel: "releaseUnlessThrown id (\<lambda>fs s. fs) env r opts sid (op reclaimed fs1) = (Inr (x, released), fs')"
    by (auto simp: underLock_def acquireThen_def map_prod_def map_sum_def
        split: sum.splits prod.splits PawLockAcquireResult.splits)
  obtain y fs2 where op: "op reclaimed fs1 = (y, fs2)" by fastforce
  from rel have "y = Inr x \<and> releasePawSessionLock env r fs2 sid opts = Inr (released, fs')"
    by (cases y) (auto simp: op releaseAfter_def split: sum.splits)
  with acq op that show thesis by blast
qed

lemma report_file_kept:
  "reportJsonFile (sessionPaths r sid) \<noteq> stateFile (sessionPaths r sid')"
  "reportJsonFile (sessionPaths r sid) \<noteq> lockFile (sessionPaths r sid')"
  unfolding sessionPaths_files report_paths atomize_conj by (intro conjI joined_differ; simp)+

lemma finalize_report:
  assumes "createPawFinalReport sid (with_evidence r ev sid (finalizeReportInput summary evidence)) = Inr report"
  shows "final_status report = report_done \<and> verified_gates report = [] \<and> unverified_gates report = []
    \<and> native_verification_run_results report = or_else (ev (verificationEvidenceFile (sessionPaths r sid))) []"
  using assms
  by (auto simp: createPawFinalReport_def with_evidence_def finalizeReportInput_def or_else_def Let_def
      split: sum.splits option.splits)

section \<open>Properties\<close>


text \<open>
  (C18) A command that returns has released its lock: for every session the lock file is gone,
  or it is the one that was there before the command.
\<close>

theorem commands_release_lock:
  assumes "run_cli w actor cmd st = (None, st')" and "validSessionId k"
  shows "session_files (fst st') (lockFile (sessionPaths (root (around w)) k))
    \<in> {None, session_files (fst st) (lockFile (sessionPaths (root (around w)) k))}"
  using run_cli_law [of w "fst actor" "snd actor" cmd st None st'] assms by (simp add: command_law_def)

text \<open>
  (C19) Approving, rejecting and retrying write directly, and yet refine the state machine: on a
  stored session each of them either stores the result of an accepted transition, reports its
  state names and does not throw, or changes nothing and reports no move.
\<close>

theorem approve_retry_follows_machine:
  assumes "store_inv r fs" and "readPawSessionState r fs sid = Inr s"
    and "executePawApproveRetry r sid why action s fs = (res, fs')"
  shows "(\<exists>t s'. transitionPawSessionState s t = Ok s' \<and> readPawSessionState r fs' sid = Inr s'
        \<and> (\<forall>p. p \<noteq> stateFile (sessionPaths r sid) \<longrightarrow> fs' p = fs p)
        \<and> res \<in> {Inr (StepAdvanced sid (state_name s) (state_name s')), Inr (StepRetried sid (state_name s) (state_name s')),
            Inr (StepRejected sid (state_name s) (or_else (map_option reason_message (blocked_reason s')) ''''))})
     \<or> fs' = fs \<and> (\<exists>x. res = Inr x \<and> (\<forall>p q. x \<noteq> StepAdvanced sid p q) \<and> (\<forall>p q. p \<noteq> q \<longrightarrow> x \<noteq> StepRetried sid p q)
         \<and> (\<forall>p w. x \<noteq> StepRejected sid p w))"
  using execute_follows [OF assms] unfolding follows_machine_def
proof (elim disjE exE conjE)
  fix t s'
  assume t: "transitionPawSessionState s t = Ok s'" and fs': "fs' = stored_state r sid s' fs"
    and res: "res \<in> {Inr (StepAdvanced sid (state_name s) (state_name s')), Inr (StepRetried sid (state_name s) (state_name s')),
            Inr (StepRejected sid (state_name s) (or_else (map_option reason_message (blocked_reason s')) ''''))}"
  have "readPawSessionState r fs' sid = Inr s'"
    unfolding fs' by (rule read_stored [OF read_valid [OF assms(2)] transition_keeps_wf [OF t]])
  with t res fs' show ?thesis by auto
qed blast

text \<open>
  (C20) A completed finalize always reports \<open>done\<close> without any gate, verified or not, whatever the
  stored verification evidence of the session says: the command passes no decisions.
\<close>

theorem finalize_always_done:
  assumes "createPawFinalizeCommandResult dirs env r opts sid summary evidence ev fs
      = (Inr (FinalizeCompleted i m f j st n n' b), fs')"
  shows "st = report_done
    \<and> (\<exists>report. fs' (reportJsonFile (sessionPaths r sid)) = Some (JsonText (json_of_report report))
        \<and> final_status report = report_done \<and> verified_gates report = [] \<and> unverified_gates report = []
        \<and> native_verification_run_results report = or_else (ev (verificationEvidenceFile (sessionPaths r sid))) [])"
proof -
  define run where "run = filesCommand dirs env r opts sid
    (\<lambda>_ fs. emitPawFinalReport env r fs ev sid (finalizeReportInput summary evidence) opts) fs"
  have "commandResult FinalizeRefused (mapPawFinalizeEmissionResult sid summary) run
      = (Inr (FinalizeCompleted i m f j st n n' b), fs')"
    using assms by (simp add: createPawFinalizeCommandResult_def run_def)
  then obtain em released where run: "run = (Inr (Inr (em, released)), fs')"
    and completed: "mapPawFinalizeEmissionResult sid summary em released = FinalizeCompleted i m f j st n n' b"
    by (cases run) (auto simp: commandResult_def map_sum_def split: sum.splits command_refusal.splits)
  from completed obtain l s s' e where em: "em = EmissionCompleted l s s' e" and st: "st = final_status (emitted e)"
    by (cases "(sid, summary, em, released)" rule: mapPawFinalizeEmissionResult.cases) auto
  obtain l' reclaimed fs1 fs2
    where op: "emitPawFinalReport env r fs1 ev sid (finalizeReportInput summary evidence) opts = (Inr em, fs2)"
      and rel: "releasePawSessionLock env r fs2 sid opts = Inr (released, fs')"
    using filesCommand_ran [OF run [unfolded run_def]] by blast
  from emission_cases [OF op] em obtain report where report: "createPawFinalReport sid
      (with_evidence r ev sid (finalizeReportInput summary evidence)) = Inr report"
    and w: "writePawSessionState r (report_written r sid report fs1) s' = Inr fs2"
    and e: "e = emission r sid report" by auto
  have "fs2 (reportJsonFile (sessionPaths r sid)) = Some (JsonText (json_of_report report))"
    using w report_file_kept(1) by (auto simp: write_Inr report_written_def)
  then have "fs' (reportJsonFile (sessionPaths r sid)) = Some (JsonText (json_of_report report))"
    using release_frame [OF rel] report_file_kept(2) by auto
  with finalize_report [OF report] show ?thesis by (auto simp: st e emission_def)
qed

definition stored_only :: "PawSessionState \<Rightarrow> files" where
  "stored_only s = [stateFile (sessionPaths ''/repo'' ''s1'') \<mapsto> JsonText (json_of_state s)]"

definition sample_cli :: cli_surroundings where
  "sample_cli = \<lparr>around = sample_surroundings, cli_directories = (\<lambda>p. True), schema_texts = sample_errors,
     plan_probe = sample_plan_env, snapshot_probe = sample_snapshot_env\<rparr>"

lemma sample_cli_run:
  "map_prod id (\<lambda>st. readPawSessionState ''/repo'' (session_files (fst st)) ''s1'')
     (run_cli sample_cli (sample_actor 7) (CliStart ''s1'' sample_contents) (fresh_disk, Map.empty))
   = (None, Inr (sample_session (Active INTAKE) None [] []))"
  by code_simp


theorem commands_release_lock_witness:
  "session_files (fst (snd (run_cli sample_cli (sample_actor 7) (CliStart ''s1'' sample_contents) (fresh_disk, Map.empty))))
     (lockFile (sessionPaths ''/repo'' ''s1'')) = None"
proof -
  have "run_cli sample_cli (sample_actor 7) (CliStart ''s1'' sample_contents) (fresh_disk, Map.empty)
      = (None, snd (run_cli sample_cli (sample_actor 7) (CliStart ''s1'' sample_contents) (fresh_disk, Map.empty)))"
    using sample_cli_run by (auto simp: map_prod_def split: prod.splits)
  from commands_release_lock [OF this, of "''s1''"] show ?thesis
    by (simp add: sample_cli_def sample_surroundings_def fresh_disk_def validSessionId_def is_alnum_def)
qed

theorem approve_retry_follows_machine_witness:
  "\<exists>t. transitionPawSessionState done_session t
     = Ok (sample_session (Active FINAL_REPORT) None [] [''a''])"
proof -
  note drives = done_drives [unfolded drives_def]
  obtain res fs' where run: "executePawApproveRetry ''/repo'' ''s1'' None approve_action done_session (sample_store done_session)
      = (res, fs')" by fastforce
  have "fst (executePawApproveRetry ''/repo'' ''s1'' None approve_action done_session (sample_store done_session))
      = Inr (StepAdvanced ''s1'' (Member (Active SLICE_DONE)) (Member (Active FINAL_REPORT)))"
    and "readPawSessionState ''/repo''
        (snd (executePawApproveRetry ''/repo'' ''s1'' None approve_action done_session (sample_store done_session))) ''s1''
      = Inr (sample_session (Active FINAL_REPORT) None [] [''a''])" by code_simp+
  then have "res = Inr (StepAdvanced ''s1'' (Member (Active SLICE_DONE)) (Member (Active FINAL_REPORT)))"
    "readPawSessionState ''/repo'' fs' ''s1'' = Inr (sample_session (Active FINAL_REPORT) None [] [''a''])"
    unfolding run by simp_all
  with approve_retry_follows_machine [OF conjunct1 [OF drives] conjunct2 [OF conjunct2 [OF drives]] run]
  show ?thesis by auto
qed

text \<open>The evidence of a failed build, and the finalize that reports done over it.\<close>

theorem finalize_always_done_witness:
  "list_ex (\<lambda>e. case e of RunUnverified g (Some x) why \<Rightarrow> g = ''build'' | _ \<Rightarrow> False) sample_results
   \<and> fst (createPawFinalizeCommandResult (\<lambda>p. True) (sample_env 7) ''/repo'' no_options ''s1'' ''all done'' []
       [verificationEvidenceFile (sessionPaths ''/repo'' ''s1'') \<mapsto> sample_results] (stored_only done_session))
     = Inr (FinalizeCompleted ''s1'' ''all done'' ''/repo/.paw/sessions/s1/summary.md'' ''/repo/.paw/sessions/s1/report.json''
         report_done (Member (Active SLICE_DONE)) (Member (Active FINAL_REPORT)) True)"
proof -
  let ?run = "createPawFinalizeCommandResult (\<lambda>p. True) (sample_env 7) ''/repo'' no_options ''s1'' ''all done'' []
       [verificationEvidenceFile (sessionPaths ''/repo'' ''s1'') \<mapsto> sample_results] (stored_only done_session)"
  have "case fst ?run of Inl e \<Rightarrow> False | Inr (FinalizeCompleted i m f j st n n' b) \<Rightarrow>
      (i, m, f, j, n, n', b) = (''s1'', ''all done'', ''/repo/.paw/sessions/s1/summary.md'', ''/repo/.paw/sessions/s1/report.json'',
         Member (Active SLICE_DONE), Member (Active FINAL_REPORT), True) | Inr _ \<Rightarrow> False" by code_simp
  then obtain st where "fst ?run = Inr (FinalizeCompleted ''s1'' ''all done'' ''/repo/.paw/sessions/s1/summary.md''
      ''/repo/.paw/sessions/s1/report.json'' st (Member (Active SLICE_DONE)) (Member (Active FINAL_REPORT)) True)"
    by (auto split: sum.splits PawFinalizeCommandResult.splits)
  moreover from this have "?run = (Inr (FinalizeCompleted ''s1'' ''all done'' ''/repo/.paw/sessions/s1/summary.md''
      ''/repo/.paw/sessions/s1/report.json'' st (Member (Active SLICE_DONE)) (Member (Active FINAL_REPORT)) True), snd ?run)"
    by (simp add: prod_eq_iff)
  from finalize_always_done [OF this] have "st = report_done" by blast
  moreover have "list_ex (\<lambda>e. case e of RunUnverified g (Some x) why \<Rightarrow> g = ''build'' | _ \<Rightarrow> False) sample_results" by code_simp
  ultimately show ?thesis by simp
qed

section \<open>A command that throws\<close>

lemma unreadable_throws:
  assumes "holds_live_lock env r fs sid opts l" "readPawSessionState r fs sid = Inl e"
  shows "selectNextPawPlanSlice env r fs sid opts = (Inl e, fs)"
  by (simp add: selectNextPawPlanSlice_def advance_locked [OF assms(1)] assms(2))



end
