(* ===== verification/Paw_Orchestrate.thy ===== *)
theory Paw_Orchestrate
  imports Paw_Cli_Laws
begin

text \<open>
  One run of a worker or of a reviewer (\<open>worker-orchestrator.ts\<close>, \<open>reviewer-orchestrator.ts\<close>):
  under the lock of a session in the role's state, the sub-agent is asked at most twice for a
  usable output, which is then recorded as a pass or as a block. The two files differ in the
  role, the state and the recorders; what they share is defined once. The state of a run is the
  disk and the number of calls of the executor so far, by which the executor may answer
  differently. Results: the executor is asked at most twice and the retries always decide; a
  cooperative executor completes the step.
\<close>

section \<open>Results\<close>

type_synonym reclaimed_lock = "(PawSessionLockStaleReason \<times> PawSessionLock) option"

datatype once_result =
    OnceCompleted string string state_label state_label int nat bool reclaimed_lock
  | OnceBlocked string string state_label state_label int string string bool reclaimed_lock
  | OnceFailed string state_label output_status int bool reclaimed_lock
  | OnceInvalidState string state_label "PawValidationIssue list" bool reclaimed_lock
  | OnceNoSelectedSlice string state_label "PawValidationIssue list" bool reclaimed_lock
  | OnceInvalidOutput string state_label "PawValidationIssue list" bool reclaimed_lock
  | OnceInvalidReason string state_label "PawValidationIssue list" bool reclaimed_lock
  | OnceInvalidTransition string state_label "PawValidationIssue list" bool reclaimed_lock
  | OnceRefused command_refusal
  | OnceNotLocked string not_locked_reason bool reclaimed_lock
  | OnceLockedByOther string PawSessionLock bool reclaimed_lock

text \<open>
  The mapping of a recorder's outcome; \<open>recorded\<close> is what becomes of a recorded one. The outcome
  \<open>InvalidDecisions\<close> does not occur here.
\<close>

fun mapOnceResult ::
  "string \<Rightarrow> output_status \<Rightarrow> int \<Rightarrow> (PawSessionState \<Rightarrow> PawSessionState \<Rightarrow> 'a \<Rightarrow> bool \<Rightarrow> once_result) \<Rightarrow>
     reclaimed_lock \<Rightarrow> 'a record_outcome \<Rightarrow> bool \<Rightarrow> once_result" where
  "mapOnceResult sid st attempts fin rc (Recorded l s s' v) b = fin s s' v b"
| "mapOnceResult sid st attempts fin rc (InvalidState s is) b = OnceInvalidState sid (state_name s) is b rc"
| "mapOnceResult sid st attempts fin rc (NoSlice s is) b = OnceNoSelectedSlice sid (state_name s) is b rc"
| "mapOnceResult sid st attempts fin rc (InvalidOutput s is) b = OnceInvalidOutput sid (state_name s) is b rc"
| "mapOnceResult sid st attempts fin rc (OtherStatus s) b = OnceFailed sid (state_name s) st attempts b rc"
| "mapOnceResult sid st attempts fin rc (InvalidReason s is) b = OnceInvalidReason sid (state_name s) is b rc"
| "mapOnceResult sid st attempts fin rc (InvalidDecisions s is) b = OnceInvalidReason sid (state_name s) is b rc"
| "mapOnceResult sid st attempts fin rc (RecordInvalidTransition s is) b = OnceInvalidTransition sid (state_name s) is b rc"
| "mapOnceResult sid st attempts fin rc (RecordRefused (RefusedNotLocked why)) b = OnceNotLocked sid why b rc"
| "mapOnceResult sid st attempts fin rc (RecordRefused (RefusedOther l w)) b = OnceLockedByOther sid l b rc"

definition mapPassResult ::
  "string \<Rightarrow> ('a \<Rightarrow> nat) \<Rightarrow> output_status \<Rightarrow> int \<Rightarrow> reclaimed_lock \<Rightarrow> 'a record_outcome \<Rightarrow> bool \<Rightarrow> once_result" where
  "mapPassResult sid counted st attempts rc =
     mapOnceResult sid st attempts (\<lambda>s s' v b. OnceCompleted sid (or_else (current_slice_id s) '''') (state_name s)
       (state_name s') attempts (counted v) b rc) rc"

definition mapBlockedResult ::
  "string \<Rightarrow> output_status \<Rightarrow> int \<Rightarrow> reclaimed_lock \<Rightarrow> unit record_outcome \<Rightarrow> bool \<Rightarrow> once_result" where
  "mapBlockedResult sid st attempts rc =
     mapOnceResult sid st attempts (\<lambda>s s' v b. OnceBlocked sid (or_else (current_slice_id s) '''') (state_name s)
       (state_name s') attempts (fst (blockedReasonOf s')) (snd (blockedReasonOf s')) b rc) rc"

section \<open>The invocation\<close>

text \<open>The parts of the runtime configuration the orchestrators read, and the rest of their input.\<close>

record 'p once_config =
  once_routing :: "'p routing_config"
  once_context :: PawContextBudgetConfig
  once_edit :: PawEditPolicyConfig
  once_sandbox :: "string list"

record once_input =
  once_handoff :: "string option"
  once_preflight :: "PawSubAgentSandboxPreflightInput option"
  once_timestamp :: "string option"

text \<open>\<open>Math.ceil(n * 1.3)\<close>, with exact numbers.\<close>

definition estimatePawTokens :: "string \<Rightarrow> int" where
  "estimatePawTokens text = (let trimmed = js_trim text in
     if length trimmed = 0 then 0 else (13 * int (length (split_spaces trimmed)) + 9) div 10)"

text \<open>What the two orchestrators differ in.\<close>

record once_role =
  role_of :: PawSubAgentRole
  routing_role :: string
  role_state :: PawActiveStateName
  role_title :: string
  role_verb :: string

definition worker_role :: once_role where
  "worker_role = \<lparr>role_of = worker, routing_role = ''worker_simple'', role_state = IMPLEMENTING,
     role_title = ''Worker'', role_verb = ''Implement''\<rparr>"

definition reviewer_role :: once_role where
  "reviewer_role = \<lparr>role_of = reviewer, routing_role = ''reviewer'', role_state = REVIEWING,
     role_title = ''Reviewer'', role_verb = ''Review''\<rparr>"

definition handoffText :: "once_role \<Rightarrow> once_input \<Rightarrow> string \<Rightarrow> string \<Rightarrow> string" where
  "handoffText role inp sid slice =
     or_else (once_handoff inp) (role_verb role @ '' Paw slice '' @ slice @ '' for session '' @ sid @ ''.'')"

definition createInvocation ::
  "once_role \<Rightarrow> 'p once_config \<Rightarrow> once_input \<Rightarrow> string \<Rightarrow> string \<Rightarrow> int \<Rightarrow> PawSubAgentRuntimeInvocation throws" where
  "createInvocation role cfg inp sid slice attempt =
     (let handoff = handoffText role inp sid slice in
      map_sum id (\<lambda>route. \<lparr>inv_role = role_of role, inv_session_id = sid, inv_slice_id = Some (Some slice),
          inv_artifact_ref = ''.paw/artifacts/'' @ sid @ ''/'' @ roleString (role_of role) @ ''/report.md'',
          inv_handoff = handoff, handoff_token_estimate = estimatePawTokens handoff,
          max_handoff_tokens = getPawSubAgentHandoffCap (once_context cfg) (role_of role),
          attempt_number = attempt, inv_model_id = Some (Some (route_model route))\<rparr>)
        (resolvePawModelRoute (once_routing cfg) (routing_role role) standard))"

text \<open>The loop over the attempts 1 and 2; it counts the calls of the executor.\<close>

fun runtimeAttempts ::
  "schema_errors \<Rightarrow> once_role \<Rightarrow> 'p once_config \<Rightarrow> once_input \<Rightarrow> string \<Rightarrow> string \<Rightarrow> PawSubAgentRuntimeExecutor \<Rightarrow>
     int list \<Rightarrow> nat \<Rightarrow> PawSubAgentRuntimeDecision throws \<times> nat" where
  "runtimeAttempts errors role cfg inp sid slice executor [] n =
     (Inl (JsError (''Paw '' @ roleString (role_of role) @ '' runtime did not produce a terminal decision after retry.'')), n)"
| "runtimeAttempts errors role cfg inp sid slice executor (attempt # rest) n =
     (case createInvocation role cfg inp sid slice attempt of
        Inl e \<Rightarrow> (Inl e, n)
      | Inr ivk \<Rightarrow>
          (case evaluatePawSubAgentSandboxPreflight (once_sandbox cfg) ivk (once_preflight inp) of
             Some d \<Rightarrow> (Inr d, n)
           | None \<Rightarrow>
               (case runPawSubAgentRuntime errors ivk executor n of
                  (Inl e, n') \<Rightarrow> (Inl e, n')
                | (Inr d, n') \<Rightarrow>
                    (case runtime_decision d of
                       ResponseRetry k is m \<Rightarrow> runtimeAttempts errors role cfg inp sid slice executor rest n'
                     | _ \<Rightarrow> (Inr d, n')))))"

definition runRuntimeWithRetry ::
  "schema_errors \<Rightarrow> once_role \<Rightarrow> 'p once_config \<Rightarrow> once_input \<Rightarrow> string \<Rightarrow> string \<Rightarrow> PawSubAgentRuntimeExecutor \<Rightarrow>
     nat \<Rightarrow> PawSubAgentRuntimeDecision throws \<times> nat" where
  "runRuntimeWithRetry errors role cfg inp sid slice executor n =
     runtimeAttempts errors role cfg inp sid slice executor [1, 2] n"

text \<open>The output and the number of attempts of a decision that is not a retry.\<close>

fun decisionOutput :: "PawSubAgentResponseDecision \<Rightarrow> (PawSubAgentOutput \<times> int) option" where
  "decisionOutput (ResponseAccepted out k) = Some (out, k)"
| "decisionOutput (ResponseBlocked out k is) = Some (out, k)"
| "decisionOutput (ResponseRetry k is m) = None"

section \<open>One run\<close>

type_synonym once_state = "disk \<times> nat"

definition once_files :: "once_state \<Rightarrow> files" where
  "once_files st = session_files (fst st)"

definition put_once_files :: "files \<Rightarrow> once_state \<Rightarrow> once_state" where
  "put_once_files fs st = ((fst st)\<lparr>session_files := fs\<rparr>, snd st)"

text \<open>
  What runs between acquiring and releasing; its result waits for what the release returns.
  \<open>finish\<close> and \<open>block\<close> are the recorders of the role.
\<close>

definition onceOperation ::
  "schema_errors \<Rightarrow> once_role \<Rightarrow> 'p once_config \<Rightarrow> once_input \<Rightarrow> string \<Rightarrow> string \<Rightarrow> PawSubAgentRuntimeExecutor \<Rightarrow>
     ('a \<Rightarrow> nat) \<Rightarrow> (PawSubAgentOutput \<Rightarrow> disk \<Rightarrow> 'a record_outcome throws \<times> disk) \<Rightarrow>
     (PawSubAgentOutput \<Rightarrow> files \<Rightarrow> (unit record_outcome \<times> files) throws) \<Rightarrow>
     reclaimed_lock \<Rightarrow> once_state \<Rightarrow> (bool \<Rightarrow> once_result) throws \<times> once_state" where
  "onceOperation errors role cfg inp repo sid executor counted finish block rc st =
     (case readPawSessionState repo (once_files st) sid of
        Inl e \<Rightarrow> (Inl e, st)
      | Inr s \<Rightarrow>
          if state_name s \<noteq> Member (Active (role_state role)) then
            (Inr (\<lambda>b. OnceInvalidState sid (state_name s)
               [Issue ''/name'' (role_title role @ '' orchestration requires '' @ activeStateString (role_state role) @ '' state.'')] b rc), st)
          else (case current_slice_id s of
            None \<Rightarrow> (Inr (\<lambda>b. OnceNoSelectedSlice sid (state_name s)
               [Issue ''/current_slice_id'' (role_title role @ '' orchestration requires a current slice.'')] b rc), st)
          | Some slice \<Rightarrow>
              (case runRuntimeWithRetry errors role cfg inp sid slice executor (snd st) of
                 (Inl e, n') \<Rightarrow> (Inl e, (fst st, n'))
               | (Inr d, n') \<Rightarrow>
                   (case decisionOutput (runtime_decision d) of
                      None \<Rightarrow> (Inl (JsError (''Paw '' @ roleString (role_of role)
                                @ '' runtime did not produce a terminal decision after retry.'')), (fst st, n'))
                    | Some (out, attempts) \<Rightarrow>
                        if status out = pass then
                          (case finish out (fst st) of
                             (Inl e, d') \<Rightarrow> (Inl e, (d', n'))
                           | (Inr x, d') \<Rightarrow> (Inr (mapPassResult sid counted (status out) attempts rc x), (d', n')))
                        else if status out = blocked \<or> status out = needs_user_decision then
                          (case block out (session_files (fst st)) of
                             Inl e \<Rightarrow> (Inl e, (fst st, n'))
                           | Inr (x, fs') \<Rightarrow> (Inr (mapBlockedResult sid (status out) attempts rc x),
                               ((fst st)\<lparr>session_files := fs'\<rparr>, n')))
                        else (Inr (\<lambda>b. OnceFailed sid (state_name s) (status out) attempts b rc), (fst st, n'))))))"

definition onceResult ::
  "(command_refusal + (bool \<Rightarrow> once_result) \<times> bool) throws \<times> once_state \<Rightarrow> once_result throws \<times> once_state" where
  "onceResult = commandResult OnceRefused (\<lambda>result released. result released)"

text \<open>
  A sub-agent may run for minutes: \<open>env\<close> is the process when the lock is taken, \<open>env'\<close> the same
  process with its clock when the result is recorded. Releasing does not read the clock.
\<close>

definition runPawWorkerOnce ::
  "schema_errors \<Rightarrow> directories \<Rightarrow> surroundings \<Rightarrow> process_env \<Rightarrow> process_env \<Rightarrow> 'p once_config \<Rightarrow> once_input \<Rightarrow>
     PawSessionLockOptions \<Rightarrow> string \<Rightarrow> PawSubAgentRuntimeExecutor \<Rightarrow> once_state \<Rightarrow> once_result throws \<times> once_state" where
  "runPawWorkerOnce errors dirs w env env' cfg inp opts sid executor st =
     onceResult (sessionCommand dirs (root w) sid once_files
       (underLockFinally once_files put_once_files env (root w) opts sid
          (onceOperation errors worker_role cfg inp (root w) sid executor (\<lambda>(journal, changes). length journal)
             (\<lambda>out d. completePawWorkerPass env' (patching w) (disk_views w) (now_text w) (root w) (Some (once_edit cfg)) d sid
                out opts (once_timestamp inp))
             (\<lambda>out fs. blockPawWorkerResult env' (root w) fs sid out opts))) st)"

definition reviewerPassOnDisk ::
  "process_env \<Rightarrow> string \<Rightarrow> string \<Rightarrow> PawSessionLockOptions \<Rightarrow> PawSubAgentOutput \<Rightarrow> disk \<Rightarrow> PawReviewerPassResult throws \<times> disk" where
  "reviewerPassOnDisk env repo sid opts out d =
     (case completePawReviewerPass env repo (session_files d) sid out opts of
        Inl e \<Rightarrow> (Inl e, d)
      | Inr (x, fs') \<Rightarrow> (Inr x, d\<lparr>session_files := fs'\<rparr>))"

definition runPawReviewerOnce ::
  "schema_errors \<Rightarrow> directories \<Rightarrow> surroundings \<Rightarrow> process_env \<Rightarrow> process_env \<Rightarrow> 'p once_config \<Rightarrow> once_input \<Rightarrow>
     PawSessionLockOptions \<Rightarrow> string \<Rightarrow> PawSubAgentRuntimeExecutor \<Rightarrow> once_state \<Rightarrow> once_result throws \<times> once_state" where
  "runPawReviewerOnce errors dirs w env env' cfg inp opts sid executor st =
     onceResult (sessionCommand dirs (root w) sid once_files
       (underLockFinally once_files put_once_files env (root w) opts sid
          (onceOperation errors reviewer_role cfg inp (root w) sid executor (\<lambda>u. 0)
             (reviewerPassOnDisk env' (root w) sid opts)
             (\<lambda>out fs. blockPawReviewerResult env' (root w) fs sid out opts))) st)"

section \<open>Every run decides\<close>

lemma response_inr:
  assumes "expectedSessionId inp \<noteq> []" "artifactRefPattern (expectedArtifactRef inp)"
  obtains d where "evaluatePawSubAgentResponse errors inp = Inr d"
    and "\<And>k is m. d = ResponseRetry k is m \<Longrightarrow> attemptNumber inp < or_else (maxInvalidAttempts inp) 2"
    and "\<And>out k. decisionOutput d = Some (out, k) \<Longrightarrow> k = attemptNumber inp"
proof -
  define parsed where "parsed = parsePawSubAgentOutputJson errors (rawOutput inp)"
  have "\<exists>d. evaluatePawSubAgentResponse errors inp = Inr d
      \<and> (\<forall>k is m. d = ResponseRetry k is m \<longrightarrow> attemptNumber inp < or_else (maxInvalidAttempts inp) 2)
      \<and> (\<forall>out k. decisionOutput d = Some (out, k) \<longrightarrow> k = attemptNumber inp)"
    by (cases parsed) (auto simp: evaluatePawSubAgentResponse_def Let_def parsed_def [symmetric] blocked_output_made [OF assms])
  with that show thesis by blast
qed

lemma oversized_decided:
  assumes "inv_session_id ivk \<noteq> []" "artifactRefPattern (inv_artifact_ref ivk)"
  shows "\<exists>out. createOversizedHandoffDecision errors ivk issue
    = Inr \<lparr>runtime_decision = ResponseBlocked out (attempt_number ivk) [issue], executor_model_id = None, executor_degraded = None\<rparr>"
proof -
  define raw where "raw = syntheticBlockedOutput (inv_role ivk) (inv_session_id ivk) (nullish (inv_slice_id ivk))
    (inv_artifact_ref ivk) ''Sub-agent handoff exceeds the configured handoff token limit.''
    ''Reduce the handoff context before invoking the sub-agent.'' BUDGET_EXCEEDED (issue_message issue)
    ''Reduce handoff text or increase the sub-agent handoff token cap.'' False (nullish (inv_model_id ivk))"
  define out where "out = synthetic_output (inv_role ivk) (inv_session_id ivk) (nullish (inv_slice_id ivk))
    (inv_artifact_ref ivk) BUDGET_EXCEEDED (issue_message issue)
    ''Reduce handoff text or increase the sub-agent handoff token cap.''"
  define inp where "inp = createResponseInput ivk (nullish (inv_model_id ivk)) (JsonText raw)"
  have parsed: "parsePawSubAgentOutputJson errors (rawOutput inp) = Ok out"
    unfolding raw_def out_def inp_def
    by (simp add: parsePawSubAgentOutputJson_def createResponseInput_def synthetic_valid [OF assms])
  have "inv_slice_id ivk = Some e \<Longrightarrow> nullish (inv_slice_id ivk) = e" for e by (simp add: nullish_def or_else_def)
  then have "getMetadataIssues out inp = []"
    unfolding metadata_issues_Nil by (auto simp: inp_def createResponseInput_def out_def synthetic_output_def)
  then have "evaluatePawSubAgentResponse errors inp = Inr (ResponseAccepted out (attemptNumber inp))"
    by (simp add: evaluatePawSubAgentResponse_def parsed Let_def)
  then show ?thesis
    by (auto simp: createOversizedHandoffDecision_def raw_def [symmetric] inp_def [symmetric] Let_def)
qed

text \<open>One attempt for an invocation within its cap: the executor is asked once.\<close>

lemma runtime_once:
  assumes "inv_session_id ivk \<noteq> []" "artifactRefPattern (inv_artifact_ref ivk)"
    and "runPawSubAgentRuntime errors ivk executor n = (res, n')"
  shows "(n' = n \<or> n' = Suc n \<and> handoff_token_estimate ivk \<le> max_handoff_tokens ivk)
    \<and> (case res of
         Inl e \<Rightarrow> n' = Suc n \<and> executor n ivk = Inl e
       | Inr d \<Rightarrow> (\<forall>k is m. runtime_decision d = ResponseRetry k is m \<longrightarrow> attempt_number ivk < 2)
           \<and> (\<forall>out k. decisionOutput (runtime_decision d) = Some (out, k) \<longrightarrow> k = attempt_number ivk))"
proof (cases "getOversizedHandoffIssue ivk")
  case (Some issue)
  from oversized_decided [OF assms(1,2)] obtain out where "createOversizedHandoffDecision errors ivk issue
    = Inr \<lparr>runtime_decision = ResponseBlocked out (attempt_number ivk) [issue], executor_model_id = None, executor_degraded = None\<rparr>"
    by blast
  with assms(3) Some have "res = Inr \<lparr>runtime_decision = ResponseBlocked out (attempt_number ivk) [issue],
      executor_model_id = None, executor_degraded = None\<rparr>" "n' = n" by (simp_all add: runPawSubAgentRuntime_def)
  then show ?thesis by simp
next
  case None
  then have fits: "handoff_token_estimate ivk \<le> max_handoff_tokens ivk"
    by (simp add: getOversizedHandoffIssue_def split: if_splits)
  show ?thesis
  proof (cases "executor n ivk")
    case (Inl e)
    with assms(3) None fits show ?thesis by (auto simp: runPawSubAgentRuntime_def)
  next
    case (Inr x)
    define inp where "inp = createResponseInput ivk
      (case nullish (exec_model_id x) of Some m \<Rightarrow> Some m | None \<Rightarrow> nullish (inv_model_id ivk)) (raw_output x)"
    have inp: "expectedSessionId inp = inv_session_id ivk" "expectedArtifactRef inp = inv_artifact_ref ivk"
      "attemptNumber inp = attempt_number ivk" "maxInvalidAttempts inp = None"
      by (simp_all add: inp_def createResponseInput_def)
    obtain d where d: "evaluatePawSubAgentResponse errors inp = Inr d"
      and retry: "\<And>k is m. d = ResponseRetry k is m \<Longrightarrow> attempt_number ivk < 2"
      and attempts: "\<And>out k. decisionOutput d = Some (out, k) \<Longrightarrow> k = attempt_number ivk"
      using response_inr [of inp errors] assms(1,2) unfolding inp or_else_def by auto
    have "(res, n') = (Inr \<lparr>runtime_decision = d, executor_model_id = exec_model_id x, executor_degraded = exec_degraded x\<rparr>, Suc n)"
      using assms(3) None Inr d by (simp add: runPawSubAgentRuntime_def inp_def [symmetric])
    with fits retry attempts show ?thesis by auto
  qed
qed

lemma created_ref:
  assumes "validSessionId sid"
  shows "artifactRefPattern (''.paw/artifacts/'' @ sid @ ''/'' @ roleString r @ ''/report.md'')"
proof -
  have mid: "list_all (\<lambda>c. c \<noteq> CHR 0x0A \<and> c \<noteq> CHR 0x0D) sid" "sid \<noteq> []"
    using assms by (auto simp: validSessionId_def is_alnum_def list_all_iff)
  have mem: "roleString r \<in> set [''scout'', ''planner'', ''worker'', ''reviewer'']" by (cases r) simp_all
  have "ends_with (''/'' @ x @ ''/report.md'') (''.paw/artifacts/'' @ sid @ ''/'' @ x @ ''/report.md'')"
    "starts_with ''.paw/artifacts/'' (''.paw/artifacts/'' @ sid @ ''/'' @ x @ ''/report.md'')" for x
    by (simp_all add: ends_with_def starts_with_iff)
  with mid mem show ?thesis
    unfolding artifactRefPattern_def list_ex_iff Let_def by (intro bexI [of _ "roleString r"]) simp_all
qed

lemma invocation_fields:
  assumes "createInvocation role cfg inp sid slice attempt = Inr ivk"
  shows "inv_role ivk = role_of role" "inv_session_id ivk = sid" "inv_slice_id ivk = Some (Some slice)"
    "attempt_number ivk = attempt" "handoff_token_estimate ivk = estimatePawTokens (handoffText role inp sid slice)"
    "max_handoff_tokens ivk = getPawSubAgentHandoffCap (once_context cfg) (role_of role)"
    "validSessionId sid \<Longrightarrow> artifactRefPattern (inv_artifact_ref ivk)"
  using assms created_ref [of sid "role_of role"]
  by (auto simp: createInvocation_def Let_def map_sum_def split: sum.splits)

lemma preflight_decides:
  assumes "evaluatePawSubAgentSandboxPreflight preferred ivk preflight = Some d"
  shows "\<exists>out. decisionOutput (runtime_decision d) = Some (out, 0)"
  using assms
  by (auto simp: evaluatePawSubAgentSandboxPreflight_def blockedDecision_def split: option.splits PawSandboxDecision.splits)

text \<open>
  The retries: the executor is called at most once per attempt, only when the handoff fits, and
  a list of attempts that ends with the second one always decides.
\<close>

lemma attempts_decide:
  assumes "validSessionId sid" "runtimeAttempts errors role cfg inp sid slice executor attempts n = (res, n')"
    and "attempts \<noteq> []" "last attempts = 2" "set attempts \<subseteq> {1, 2}"
    and "\<And>attempt. \<exists>ivk. createInvocation role cfg inp sid slice attempt = Inr ivk"
  shows "n \<le> n' \<and> n' \<le> n + length attempts
    \<and> (n < n' \<longrightarrow> estimatePawTokens (handoffText role inp sid slice) \<le> getPawSubAgentHandoffCap (once_context cfg) (role_of role))
    \<and> (case res of
         Inl e \<Rightarrow> n < n' \<and> (\<exists>ivk. executor (n' - 1) ivk = Inl e \<and> inv_role ivk = role_of role \<and> inv_slice_id ivk = Some (Some slice))
       | Inr d \<Rightarrow> \<exists>out k. decisionOutput (runtime_decision d) = Some (out, k) \<and> 0 \<le> k \<and> k \<le> 2)"
  using assms
proof (induction attempts arbitrary: n)
  case (Cons attempt rest)
  obtain ivk where ivk: "createInvocation role cfg inp sid slice attempt = Inr ivk" using Cons.prems(6) by blast
  note fields = invocation_fields [OF ivk] and sid = Cons.prems(1)
  have attempt: "attempt \<in> {1, 2}" using Cons.prems(5) by simp
  show ?case
  proof (cases "evaluatePawSubAgentSandboxPreflight (once_sandbox cfg) ivk (once_preflight inp)")
    case (Some d)
    with Cons.prems(2) ivk have "res = Inr d" "n' = n" by simp_all
    with preflight_decides [OF Some] show ?thesis by auto
  next
    case None
    obtain res1 n1 where run: "runPawSubAgentRuntime errors ivk executor n = (res1, n1)" by fastforce
    have "inv_session_id ivk \<noteq> []" using sid fields(2) by (auto simp: validSessionId_def)
    note once = runtime_once [OF this fields(7) [OF sid] run]
    show ?thesis
    proof (cases res1)
      case (Inl e)
      with Cons.prems(2) ivk None run have "res = Inl e" "n' = n1" by simp_all
      with once Inl fields show ?thesis by auto
    next
      case (Inr d)
      show ?thesis
      proof (cases "decisionOutput (runtime_decision d)")
        case (Some oc)
        obtain out k where oc: "oc = (out, k)" by fastforce
        have "res = Inr d" "n' = n1"
          using Cons.prems(2) ivk None run Inr Some by (cases "runtime_decision d"; simp)+
        moreover have "k = attempt" using once Inr Some oc fields(4) by auto
        ultimately show ?thesis using once Some oc fields attempt by auto
      next
        case None': None
        then obtain k iss m where retry: "runtime_decision d = ResponseRetry k iss m"
          by (cases "runtime_decision d") auto
        with once Inr fields(4) have "attempt < 2" by auto
        with attempt Cons.prems(4) have rest: "rest \<noteq> []" "last rest = 2" by (auto split: if_splits)
        have "runtimeAttempts errors role cfg inp sid slice executor rest n1 = (res, n')"
          using Cons.prems(2) ivk None run Inr retry by simp
        note IH = Cons.IH [OF sid this rest _ Cons.prems(6)]
        show ?thesis using IH once fields Cons.prems(5) by (auto split: sum.splits)
      qed
    qed
  qed
qed simp

text \<open>
  (C15) A run of a worker or a reviewer asks the executor at most twice, and only when the
  estimated tokens of the handoff are within the role's cap. It always decides: it throws only
  what the executor threw, the error for missing decisions is never reached, and the decision
  names an output and one of the attempts.
\<close>

theorem agent_asked_at_most_twice:
  assumes "validSessionId sid"
    and "resolvePawModelRoute (once_routing cfg) (routing_role role) standard = Inr route"
    and "runRuntimeWithRetry errors role cfg inp sid slice executor n = (res, n')"
  shows "n \<le> n' \<and> n' \<le> n + 2
    \<and> (n < n' \<longrightarrow> estimatePawTokens (handoffText role inp sid slice) \<le> getPawSubAgentHandoffCap (once_context cfg) (role_of role))
    \<and> (case res of
         Inl e \<Rightarrow> n < n' \<and> (\<exists>ivk. executor (n' - 1) ivk = Inl e \<and> inv_role ivk = role_of role \<and> inv_slice_id ivk = Some (Some slice))
       | Inr d \<Rightarrow> \<exists>out k. decisionOutput (runtime_decision d) = Some (out, k) \<and> 0 \<le> k \<and> k \<le> 2)"
proof -
  have "\<exists>ivk. createInvocation role cfg inp sid slice attempt = Inr ivk" for attempt
    using assms(2) by (simp add: createInvocation_def Let_def)
  from attempts_decide [OF assms(1) assms(3) [unfolded runRuntimeWithRetry_def] _ _ _ this] show ?thesis by simp
qed

section \<open>A slow sub-agent\<close>

lemma stale_refused:
  assumes "validSessionId sid" "lockHolder r sid fs = Some l" "getPawSessionLockStaleReason env l opts = Some why"
  shows "enterSliceStage stage label env r fs sid opts = Inr (Inl (RecordRefused (RefusedNotLocked (NotLockedStale why l))))"
  using assms
  by (simp add: enterSliceStage_def enterLockedSession_def lockStatus_lock lockHolder_def split: sum.splits option.splits)

interpretation once_run: files_part once_files put_once_files
  by unfold_locales (simp_all add: once_files_def put_once_files_def)

text \<open>
  A run whose recorders both refuse because the lock is stale: the result of the sub-agent is
  dropped, and the session is as it was before, without a lock.
\<close>

lemma stale_operation:
  assumes "readPawSessionState r (once_files st) sid = Inr s"
    and "state_name s = Member (Active (role_state role))" "current_slice_id s = Some slice"
    and "runRuntimeWithRetry errors role cfg inp sid slice executor (snd st) = (Inr dec, n')"
    and "decisionOutput (runtime_decision dec) = Some (out, k)" "status out \<in> {pass, blocked, needs_user_decision}"
    and "finish out (fst st) = (Inr (RecordRefused (RefusedNotLocked why)), fst st)"
    and "block out (once_files st) = Inr (RecordRefused (RefusedNotLocked why), once_files st)"
  shows "\<exists>f. onceOperation errors role cfg inp r sid executor counted finish block rc st = (Inr f, (fst st, n'))
    \<and> f True = OnceNotLocked sid why True rc"
  using assms by (auto simp: onceOperation_def mapPassResult_def mapBlockedResult_def once_files_def)

lemma stale_once:
  assumes dirs: "dirs (pawDir (resolvePawProjectPaths r))"
    and read: "readPawSessionState r (session_files (d :: disk)) sid = Inr s"
    and acq: "acquirePawSessionLock env r (session_files d) sid opts = Inr (Acquired l rc, fs1)"
    and op: "\<And>d1 :: disk. session_files d1 = fs1 \<Longrightarrow> readPawSessionState r fs1 sid = Inr s \<Longrightarrow> lockHolder r sid fs1 = Some l \<Longrightarrow>
      \<exists>f. op rc (d1, n) = (Inr f, (d1, n')) \<and> f True = res"
  shows "onceResult (sessionCommand dirs r sid once_files (underLockFinally once_files put_once_files env r opts sid op) (d, n))
    = (Inr res, (d\<lparr>session_files := (session_files d)(lockFile (sessionPaths r sid) := None)\<rparr>, n'))"
proof -
  obtain f where v: "validSessionId sid" and fs1: "fs1 = (session_files d)(lockFile (sessionPaths r sid) := f)"
    using acquire_frame [OF acq] by blast
  have present: "session_files d (stateFile (sessionPaths r sid)) \<noteq> None"
    using read by (auto simp: readPawSessionState_def resolve_valid [OF v] readPawJson_def split: option.splits sum.splits)
  have target: "commandTarget dirs r (session_files d) sid = Inr None"
    using dirs present by (simp add: commandTarget_def Let_def pawCliIsDirectory_def pawCliIsFile_def resolve_valid [OF v])
  note held = acquire_holder [OF acq]
  have "readPawSessionState r fs1 sid = Inr s" using read by (simp add: fs1 read_after_lock_change [OF v])
  with op [of "d\<lparr>session_files := fs1\<rparr>"] held obtain f' where
    run: "op rc (d\<lparr>session_files := fs1\<rparr>, n) = (Inr f', (d\<lparr>session_files := fs1\<rparr>, n'))" "f' True = res"
    by auto
  have "lockHolder r sid (once_files (d\<lparr>session_files := fs1\<rparr>, n')) = Some l" using held by (simp add: once_files_def)
  from once_run.releaseAfter_holder [OF v this conjunct2 [OF held], of f']
  have rel: "releaseAfter once_files put_once_files env r opts sid f' (d\<lparr>session_files := fs1\<rparr>, n')
      = (Inr (f', True), (d\<lparr>session_files := fs1(lockFile (sessionPaths r sid) := None)\<rparr>, n'))"
    by (simp add: once_files_def put_once_files_def)
  have "sessionCommand dirs r sid once_files (underLockFinally once_files put_once_files env r opts sid op) (d, n)
      = (Inr (Inr (f', True)), (d\<lparr>session_files := fs1(lockFile (sessionPaths r sid) := None)\<rparr>, n'))"
    using run(1) by (simp add: sessionCommand_def underLockFinally_def acquireThen_def acq target rel
        once_files_def put_once_files_def)
  then show ?thesis using run(2) by (simp add: onceResult_def commandResult_def fs1)
qed

text \<open>
  (C14) The result of a slow worker is lost. The lock is taken before the sub-agent is asked and
  its heartbeat is never refreshed, so when the answer arrives after the lock's time to live the
  recorders refuse it: a passing or blocking output is dropped, nothing is recorded, and the run
  reports that the session is not locked.
\<close>

theorem slow_agent_loses_result:
  assumes "dirs (pawDir (resolvePawProjectPaths (root w)))"
    and "readPawSessionState (root w) (session_files d) sid = Inr s"
    and "state_name s = Member (Active IMPLEMENTING)" "current_slice_id s = Some slice"
    and "acquirePawSessionLock env (root w) (session_files d) sid opts = Inr (Acquired l rc, fs1)"
    and "runRuntimeWithRetry errors worker_role cfg inp sid slice executor n = (Inr dec, n')"
    and "decisionOutput (runtime_decision dec) = Some (out, k)" "status out \<in> {pass, blocked, needs_user_decision}"
    and "getPawSessionLockStaleReason env' l opts = Some why"
  shows "runPawWorkerOnce errors dirs w env env' cfg inp opts sid executor (d, n)
    = (Inr (OnceNotLocked sid (NotLockedStale why l) True rc),
       (d\<lparr>session_files := (session_files d)(lockFile (sessionPaths (root w) sid) := None)\<rparr>, n'))"
  unfolding runPawWorkerOnce_def
proof (rule stale_once [where dirs = dirs and d = d, OF assms(1,2,5)])
  fix d1 :: disk assume d1: "session_files d1 = fs1" "readPawSessionState (root w) fs1 sid = Inr s" "lockHolder (root w) sid fs1 = Some l"
  have v: "validSessionId sid" using acquire_frame [OF assms(5)] by blast
  note refused = stale_refused [OF v d1(3) assms(9)]
  let ?why = "NotLockedStale why l"
  let ?finish = "\<lambda>out d. completePawWorkerPass env' (patching w) (disk_views w) (now_text w) (root w) (Some (once_edit cfg)) d sid
         out opts (once_timestamp inp)"
  let ?block = "\<lambda>out fs. blockPawWorkerResult env' (root w) fs sid out opts"
  have st: "readPawSessionState (root w) (once_files (d1, n)) sid = Inr s"
    "state_name s = Member (Active (role_state worker_role))"
    "runRuntimeWithRetry errors worker_role cfg inp sid slice executor (snd (d1, n)) = (Inr dec, n')"
    using d1 assms(3,6) by (simp_all add: once_files_def worker_role_def)
  have finish: "?finish out (fst (d1, n)) = (Inr (RecordRefused (RefusedNotLocked ?why)), fst (d1, n))"
    by (simp add: completePawWorkerPass_def d1(1) refused)
  have block: "?block out (once_files (d1, n)) = Inr (RecordRefused (RefusedNotLocked ?why), once_files (d1, n))"
    by (simp add: blockPawWorkerResult_def blockAgentResult_def once_files_def d1(1) refused)
  show "\<exists>f. onceOperation errors worker_role cfg inp (root w) sid executor (\<lambda>(journal, changes). length journal)
      ?finish ?block rc (d1, n) = (Inr f, (d1, n')) \<and> f True = OnceNotLocked sid ?why True rc"
    using stale_operation [OF st(1,2) assms(4) st(3) assms(7,8), of ?finish ?why ?block] finish block by simp
qed

section \<open>Samples\<close>

definition sample_once_config :: "unit once_config" where
  "sample_once_config = \<lparr>once_routing = \<lparr>role_routing = (\<lambda>r. cheap),
       model_tiers = (\<lambda>t. \<lparr>tier_provider = ''p'', tier_model = ''m'', tier_thinking = False\<rparr>),
       failover_order = [''p''], providers = [(''p'', ())], thinking_classes = [], thinking_roles = []\<rparr>,
     once_context = \<lparr>class_cap_tokens = (\<lambda>c. 1000), subagent_handoff_max_tokens = (\<lambda>r. 100), file_read_max_bytes = 1000,
       tool_output_max_tokens = 100, drilldown = ''d'', required_span_recall_min = 1, assembly_order = []\<rparr>,
     once_edit = sample_edit_config, once_sandbox = []\<rparr>"

definition sample_once_input :: once_input where
  "sample_once_input = \<lparr>once_handoff = None, once_preflight = None, once_timestamp = None\<rparr>"

definition mute_executor :: PawSubAgentRuntimeExecutor where
  "mute_executor = (\<lambda>n ivk. Inr \<lparr>raw_output = BrokenText ''no json'', exec_model_id = None, exec_degraded = None\<rparr>)"

definition mute_run :: "PawSubAgentRuntimeDecision throws \<times> nat" where
  "mute_run = runRuntimeWithRetry sample_errors worker_role sample_once_config sample_once_input ''s1'' ''a'' mute_executor 0"

text \<open>An executor that never answers with JSON is asked twice, and blocks the slice.\<close>

lemma mute_blocks:
  "\<exists>d out. mute_run = (Inr d, 2) \<and> decisionOutput (runtime_decision d) = Some (out, 2) \<and> status out = blocked"
proof -
  have "case mute_run of
     (Inr d, n) \<Rightarrow> (case decisionOutput (runtime_decision d) of Some (out, k) \<Rightarrow> status out = blocked \<and> k = 2 \<and> n = 2 | None \<Rightarrow> False)
   | _ \<Rightarrow> False" by code_simp
  then show ?thesis by (auto split: prod.splits sum.splits option.splits)
qed

lemma sample_route: "\<exists>route. resolvePawModelRoute (once_routing sample_once_config) (routing_role worker_role) standard = Inr route"
  by (simp add: resolvePawModelRoute_def resolvePawProviderName_def getPawModelTier_def sample_once_config_def Let_def)

theorem agent_asked_at_most_twice_witness:
  "snd mute_run = 2 \<and> estimatePawTokens (handoffText worker_role sample_once_input ''s1'' ''a'') \<le> 100"
proof -
  obtain route where route: "resolvePawModelRoute (once_routing sample_once_config) (routing_role worker_role) standard = Inr route"
    using sample_route by blast
  have run: "runRuntimeWithRetry sample_errors worker_role sample_once_config sample_once_input ''s1'' ''a'' mute_executor 0
      = (fst mute_run, snd mute_run)" by (simp add: mute_run_def)
  have "snd mute_run = 2" using mute_blocks by (metis snd_conv)
  moreover have "getPawSubAgentHandoffCap (once_context sample_once_config) (role_of worker_role) = 100"
    by (simp add: getPawSubAgentHandoffCap_def sample_once_config_def)
  ultimately show ?thesis using agent_asked_at_most_twice [OF sample_id_valid route run] by simp
qed

text \<open>The same process three minutes later: the default time to live of a lock is two minutes.\<close>

definition late_env :: process_env where
  "late_env = (sample_env 7)\<lparr>date_now := Num 181000\<rparr>"

definition unlocked_disk :: disk where
  "unlocked_disk = (sample_disk implementing_session)\<lparr>session_files := stored_only implementing_session\<rparr>"

theorem slow_agent_loses_result_witness:
  "runPawWorkerOnce sample_errors (\<lambda>p. True) sample_surroundings (sample_env 7) late_env sample_once_config sample_once_input
      no_options ''s1'' mute_executor (unlocked_disk, 0)
   = (Inr (OnceNotLocked ''s1'' (NotLockedStale expired_heartbeat (nextLock (sample_env 7) no_options)) True None),
      (unlocked_disk, 2))"
proof -
  let ?l = "nextLock (sample_env 7) no_options" and ?fs = "session_files unlocked_disk"
  have wf: "session_wf implementing_session" unfolding sessionStateIssues_Nil [symmetric] by code_simp
  have read: "readPawSessionState (root sample_surroundings) ?fs ''s1'' = Inr implementing_session"
    unfolding unlocked_disk_def sample_surroundings_def stored_only_def
    by (simp add: read_stored [OF sample_id_valid wf])
  have name: "state_name implementing_session = Member (Active IMPLEMENTING)" "current_slice_id implementing_session = Some ''a''"
    by (simp_all add: implementing_session_def sample_session_def)
  have free: "readPawSessionLockIfExists ?fs (lockFile (sessionPaths ''/repo'' ''s1'')) = Inr None" by code_simp
  have acq: "acquirePawSessionLock (sample_env 7) (root sample_surroundings) ?fs ''s1'' no_options
      = Inr (Acquired ?l None, ?fs(lockFile (sessionPaths ''/repo'' ''s1'') \<mapsto> JsonText (json_of_lock ?l)))"
    using free by (simp add: acquire_eq [OF sample_id_valid sample_lock_wf] sample_surroundings_def)
  obtain d out k where run: "runRuntimeWithRetry sample_errors worker_role sample_once_config sample_once_input ''s1'' ''a''
      mute_executor 0 = (Inr d, 2)" and out: "decisionOutput (runtime_decision d) = Some (out, k)" "status out = blocked"
    using mute_blocks unfolding mute_run_def by blast
  have late: "getPawSessionLockStaleReason late_env ?l no_options = Some expired_heartbeat" by code_simp
  have "?fs(lockFile (sessionPaths ''/repo'' ''s1'') := None) = ?fs"
    unfolding unlocked_disk_def stored_only_def
    using session_files_distinct(3) [OF sample_id_valid sample_id_valid, of "''/repo''"] by (auto simp: fun_upd_def)
  then show ?thesis
    using slow_agent_loses_result [where dirs = "\<lambda>p. True" and d = unlocked_disk and w = sample_surroundings, OF _ read name acq run out(1) _ late] out(2)
    by (simp add: sample_surroundings_def)
qed


end
