(* ===== verification/Paw_Build.thy ===== *)
theory Paw_Build
  imports Paw_Orchestrate
begin

text \<open>
  The build command (\<open>build-command.ts\<close>, \<open>verification-command-policy.ts\<close>): one step by the state
  of the session (select, begin, worker, reviewer, verify), the loop over at most a given
  number of steps, and the final report the loop emits. The state of a build is the disk, the
  stored verification evidence and the number of calls of the sub-agent so far. Results: the
  loop asks at most twice per step; the default executor never fails over; the command policy
  does not change a verification; the report of a later build forgets unverified gates.
\<close>

section \<open>The policy on verification commands\<close>

definition argvExactlyMatches :: "string list \<Rightarrow> string list \<Rightarrow> bool" where
  "argvExactlyMatches expected actual \<longleftrightarrow>
     length expected = length actual \<and> list_all (\<lambda>i. expected ! i = actual ! i) [0 ..< length expected]"

fun allowEntry :: "(string \<Rightarrow> string list option) \<Rightarrow> PawNativeVerificationPlanEntry \<Rightarrow> (string \<Rightarrow> string list option)" where
  "allowEntry allowed (Planned gate command reason) = allowed(gate \<mapsto> command)"
| "allowEntry allowed (Unsupported gate reason) = allowed"

definition createPawNativeVerificationCommandPolicy ::
  "PawNativeVerificationPlanEntry list \<Rightarrow> string \<Rightarrow> string list \<Rightarrow> bool" where
  "createPawNativeVerificationCommandPolicy plan gate command =
     (case foldl allowEntry Map.empty plan gate of
        None \<Rightarrow> False
      | Some expected \<Rightarrow> argvExactlyMatches expected command)"

definition createPawPolicyCheckedNativeVerificationExecutor ::
  "PawNativeVerificationExecutor \<Rightarrow> (string \<Rightarrow> string list \<Rightarrow> bool) \<Rightarrow> PawNativeVerificationExecutor" where
  "createPawPolicyCheckedNativeVerificationExecutor executor isAllowed = (\<lambda>n inp.
     if \<not> isAllowed (exec_gate inp) (exec_argv inp) then
       Inr \<lparr>exitCode = 126, stdout = '''', stderr = ''Native verification command is not allowed by policy: gate=''
         @ exec_gate inp @ '' command='' @ join_with '' '' (exec_argv inp), timedOut = None\<rparr>
     else executor n inp)"

section \<open>Steps\<close>

datatype PawBuildStepResult =
    StepWorker once_result
  | StepReviewer once_result
  | StepVerify PawVerifyCommandResult
  | StepSelect PawSelectSliceCommandResult
  | StepBegin PawBeginImplementationCommandResult

record 'p runtime_config =
  step_config :: "'p once_config"
  step_settings :: verify_settings

text \<open>The input of the executor that asks a provider; \<open>completeSimple\<close> is the provider call.\<close>

record 'm provider_input =
  provider_registry :: "'m model_registry"
  default_provider :: "string option"
  modelIdResolver :: "(PawSubAgentRuntimeInvocation \<Rightarrow> string throws) option"
  fallbackModelIdResolver :: "(PawSubAgentRuntimeInvocation \<Rightarrow> string list throws) option"
  completeSimple :: "nat \<Rightarrow> 'm \<Rightarrow> AssistantMessage throws"

text \<open>
  The executor of verification commands may differ from step to step: \<open>command_native\<close> and
  \<open>subprocess\<close> get the number of the step.
\<close>

record ('p, 'm) PawBuildCommandInput =
  command_config :: "'p runtime_config option"
  command_executor :: "PawSubAgentRuntimeExecutor option"
  command_provider :: "'m provider_input option"
  command_lockOptions :: PawSessionLockOptions
  command_native :: "(nat \<Rightarrow> PawNativeVerificationExecutor) option"
  command_preflight :: "PawSubAgentSandboxPreflightInput option"

record PawBuildOptions =
  option_handoff :: "string option"
  option_timestamp :: "string option"
  option_native :: bool

text \<open>
  What a build finds around it: the texts of schema errors, the directories, the repository,
  what the verification plan probes, the configuration loaded by default or the error, the
  model registry and provider call used by default, how texts read as JSON, and the runner of
  subprocesses.
\<close>

record ('p, 'm) build_world =
  world_errors :: schema_errors
  world_dirs :: directories
  world :: surroundings
  world_plans :: plan_env
  loadDefaultPawRuntimeConfig :: "'p runtime_config throws"
  default_registry :: "'m model_registry"
  default_complete :: "nat \<Rightarrow> 'm \<Rightarrow> AssistantMessage throws"
  text_view :: "string \<Rightarrow> file_text"
  subprocess :: "nat \<Rightarrow> PawNativeVerificationExecutor"

record build_state =
  built_disk :: disk
  built_evidence :: evidence_files
  asked :: nat

definition buildRoute :: "'p once_config \<Rightarrow> PawSubAgentRuntimeInvocation \<Rightarrow> 'p PawResolvedModelRoute throws" where
  "buildRoute cfg ivk = resolvePawModelRoute (once_routing cfg)
     (if inv_role ivk = reviewer then ''reviewer'' else ''worker_simple'') standard"

definition resolveDefaultPawBuildModelId :: "'p once_config \<Rightarrow> PawSubAgentRuntimeInvocation \<Rightarrow> string throws" where
  "resolveDefaultPawBuildModelId cfg ivk =
     map_sum id (\<lambda>route. route_providerName route @ ''/'' @ route_model route) (buildRoute cfg ivk)"

definition resolveDefaultPawBuildFallbackModelIds ::
  "'p once_config \<Rightarrow> PawSubAgentRuntimeInvocation \<Rightarrow> string list throws" where
  "resolveDefaultPawBuildFallbackModelIds cfg ivk =
     (case buildRoute cfg ivk of
        Inl e \<Rightarrow> Inl e
      | Inr route \<Rightarrow> map_sum id (map (\<lambda>(p, c). p @ ''/'' @ route_model route))
          (getPawFailoverRoutes (once_routing cfg) (failover_order (once_routing cfg))))"

definition resolvePawBuildSubAgentExecutor ::
  "('p, 'm) build_world \<Rightarrow> ('p, 'm) PawBuildCommandInput \<Rightarrow> 'p once_config \<Rightarrow> PawSubAgentRuntimeExecutor throws" where
  "resolvePawBuildSubAgentExecutor w cmd cfg =
     (if command_executor cmd \<noteq> None \<and> command_provider cmd \<noteq> None
      then Inl (JsError ''Paw build accepts either executor or providerExecutor, not both.'')
      else case command_executor cmd of
        Some ex \<Rightarrow> Inr ex
      | None \<Rightarrow>
          (case command_provider cmd of
             Some p \<Rightarrow> Inr (createPawProviderSubAgentRuntimeExecutor (text_view w) (provider_registry p) (default_provider p)
               (modelIdResolver p)
               (Some (case fallbackModelIdResolver p of Some f \<Rightarrow> f | None \<Rightarrow> resolveDefaultPawBuildFallbackModelIds cfg))
               (completeSimple p))
           | None \<Rightarrow> Inr (createPawProviderSubAgentRuntimeExecutor (text_view w) (default_registry w) (Some ''primary'')
               (Some (resolveDefaultPawBuildModelId cfg)) (Some (resolveDefaultPawBuildFallbackModelIds cfg))
               (default_complete w))))"

definition resolvePawBuildNativeVerificationExecutor ::
  "('p, 'm) build_world \<Rightarrow> 'p runtime_config \<Rightarrow> PawBuildOptions \<Rightarrow> ('p, 'm) PawBuildCommandInput \<Rightarrow> nat \<Rightarrow>
     PawNativeVerificationExecutor option" where
  "resolvePawBuildNativeVerificationExecutor w cfg inp cmd i =
     (case command_native cmd of
        Some ex \<Rightarrow> Some (ex i)
      | None \<Rightarrow>
          if \<not> option_native inp then None
          else
            let plan = createPawNativeVerificationPlan (world_plans w) (v1_gates (verify_config (step_settings cfg)))
                  (Some (root (world w)));
                policy = createPawNativeVerificationCommandPolicy plan
            in Some (createPawPolicyCheckedNativeVerificationExecutor (subprocess w i) policy))"

definition readPawSessionStateIfExists :: "string \<Rightarrow> files \<Rightarrow> string \<Rightarrow> PawSessionState option throws" where
  "readPawSessionStateIfExists repo fs sid =
     (case readPawSessionState repo fs sid of
        Inr s \<Rightarrow> Inr (Some s)
      | Inl e \<Rightarrow> if e = FileSystemError ''ENOENT'' then Inr None else Inl e)"

definition readPawSessionStateNameIfExists :: "string \<Rightarrow> files \<Rightarrow> string \<Rightarrow> state_label option throws" where
  "readPawSessionStateNameIfExists repo fs sid = map_sum id (map_option state_name) (readPawSessionStateIfExists repo fs sid)"

definition build_files :: "build_state \<Rightarrow> files" where
  "build_files st = session_files (built_disk st)"

definition put_build_files :: "files \<Rightarrow> build_state \<Rightarrow> build_state" where
  "put_build_files fs st = st\<lparr>built_disk := (built_disk st)\<lparr>session_files := fs\<rparr>\<rparr>"

definition stateNameIn :: "PawSessionState option \<Rightarrow> PawActiveStateName list \<Rightarrow> bool" where
  "stateNameIn state names \<longleftrightarrow> (case state of None \<Rightarrow> False | Some s \<Rightarrow> list_ex (\<lambda>a. state_name s = Member (Active a)) names)"

text \<open>How the results and states of the commands become those of a build step.\<close>

definition stepOnFiles :: "('x \<Rightarrow> PawBuildStepResult) \<Rightarrow> build_state \<Rightarrow> 'x throws \<times> files \<Rightarrow> PawBuildStepResult throws \<times> build_state" where
  "stepOnFiles f st = map_prod (map_sum id f) (\<lambda>fs. put_build_files fs st)"

definition stepOnce :: "(once_result \<Rightarrow> PawBuildStepResult) \<Rightarrow> build_state \<Rightarrow> once_result throws \<times> once_state \<Rightarrow>
    PawBuildStepResult throws \<times> build_state" where
  "stepOnce f st = map_prod (map_sum id f) (\<lambda>(d, n). st\<lparr>built_disk := d, asked := n\<rparr>)"

definition stepVerified :: "build_state \<Rightarrow> PawVerifyCommandResult throws \<times> evidence_state \<Rightarrow>
    PawBuildStepResult throws \<times> build_state" where
  "stepVerified st = map_prod (map_sum id StepVerify) (\<lambda>(fs, ev). (put_build_files fs st)\<lparr>built_evidence := ev\<rparr>)"

text \<open>\<open>clock\<close> is the process at the start of the step and when its result is recorded.\<close>

definition dispatchPawBuildStepByState ::
  "('p, 'm) build_world \<Rightarrow> process_env \<times> process_env \<Rightarrow> nat \<Rightarrow> string \<Rightarrow> PawSessionState option \<Rightarrow> PawBuildOptions \<Rightarrow>
     ('p, 'm) PawBuildCommandInput \<Rightarrow> 'p runtime_config \<Rightarrow> PawSubAgentRuntimeExecutor \<Rightarrow> build_state \<Rightarrow>
     PawBuildStepResult throws \<times> build_state" where
  "dispatchPawBuildStepByState w clock i sid state inp cmd cfg executor st =
     (let repo = root (world w); (env, env') = clock; opts = command_lockOptions cmd;
          once = \<lparr>once_handoff = option_handoff inp, once_preflight = command_preflight cmd, once_timestamp = option_timestamp inp\<rparr>
      in if stateNameIn state [PLAN_APPROVED, SLICE_DONE] then
           stepOnFiles StepSelect st (createPawSelectSliceCommandResult (world_dirs w) env repo opts sid (build_files st))
         else if stateNameIn state [SLICE_SELECT] then
           stepOnFiles StepBegin st (createPawBeginImplementationCommandResult (world_dirs w) env repo opts sid (build_files st))
         else if stateNameIn state [REVIEWING] then
           stepOnce StepReviewer st (runPawReviewerOnce (world_errors w) (world_dirs w) (world w) env env' (step_config cfg)
             (once\<lparr>once_timestamp := None\<rparr>) opts sid executor (built_disk st, asked st))
         else if stateNameIn state [VERIFYING] then
           stepVerified st (createPawVerifyCommandResult (world_dirs w) (world_plans w)
             (map_sum id step_settings (loadDefaultPawRuntimeConfig w)) env repo opts sid
             (resolvePawBuildNativeVerificationExecutor w cfg inp cmd i) (build_files st, built_evidence st))
         else
           stepOnce StepWorker st (runPawWorkerOnce (world_errors w) (world_dirs w) (world w) env env' (step_config cfg)
             once opts sid executor (built_disk st, asked st)))"

definition createPawBuildStepResult ::
  "('p, 'm) build_world \<Rightarrow> process_env \<times> process_env \<Rightarrow> nat \<Rightarrow> string \<Rightarrow> PawBuildOptions \<Rightarrow> ('p, 'm) PawBuildCommandInput \<Rightarrow>
     build_state \<Rightarrow> PawBuildStepResult throws \<times> build_state" where
  "createPawBuildStepResult w clock i sid inp cmd st =
     (case (case command_config cmd of Some c \<Rightarrow> Inr c | None \<Rightarrow> loadDefaultPawRuntimeConfig w) of
        Inl e \<Rightarrow> (Inl e, st)
      | Inr cfg \<Rightarrow>
          (case resolvePawBuildSubAgentExecutor w cmd (step_config cfg) of
             Inl e \<Rightarrow> (Inl e, st)
           | Inr executor \<Rightarrow>
               (case readPawSessionStateIfExists (root (world w)) (build_files st) sid of
                  Inl e \<Rightarrow> (Inl e, st)
                | Inr state \<Rightarrow> dispatchPawBuildStepByState w clock i sid state inp cmd cfg executor st)))"

section \<open>The loop\<close>

datatype PawBuildLoopStopReason =
    stop_no_pending_slices | stop_blocked | stop_failed | stop_locked | stop_missing_project | stop_missing_session | stop_max_steps

fun refusalStopReason :: "command_refusal \<Rightarrow> PawBuildLoopStopReason" where
  "refusalStopReason (MissingProject p) = stop_missing_project"
| "refusalStopReason (MissingSession sid p) = stop_missing_session"
| "refusalStopReason (CommandLocked sid l) = stop_locked"

fun onceStopReason :: "once_result \<Rightarrow> PawBuildLoopStopReason option" where
  "onceStopReason (OnceCompleted sid c n n' k j b rc) = None"
| "onceStopReason (OnceBlocked sid c n n' k x m b rc) = Some stop_blocked"
| "onceStopReason (OnceFailed sid n st k b rc) = Some stop_failed"
| "onceStopReason (OnceInvalidState sid n is b rc) = Some stop_failed"
| "onceStopReason (OnceNoSelectedSlice sid n is b rc) = Some stop_failed"
| "onceStopReason (OnceInvalidOutput sid n is b rc) = Some stop_failed"
| "onceStopReason (OnceInvalidReason sid n is b rc) = Some stop_failed"
| "onceStopReason (OnceInvalidTransition sid n is b rc) = Some stop_failed"
| "onceStopReason (OnceRefused r) = Some (refusalStopReason r)"
| "onceStopReason (OnceNotLocked sid why b rc) = Some stop_locked"
| "onceStopReason (OnceLockedByOther sid l b rc) = Some stop_locked"

fun getPawBuildLoopStopReason :: "PawBuildStepResult \<Rightarrow> PawBuildLoopStopReason option" where
  "getPawBuildLoopStopReason (StepWorker r) = onceStopReason r"
| "getPawBuildLoopStopReason (StepReviewer r) = onceStopReason r"
| "getPawBuildLoopStopReason (StepVerify (VerifyCompleted sid n n' c plan results decisions unverified b)) = None"
| "getPawBuildLoopStopReason (StepVerify (VerifyRefused r)) = Some (refusalStopReason r)"
| "getPawBuildLoopStopReason (StepVerify (VerifyInvalidState sid n is b)) = Some stop_failed"
| "getPawBuildLoopStopReason (StepVerify (VerifyInvalidVerification sid is b)) = Some stop_failed"
| "getPawBuildLoopStopReason (StepSelect (SelectSliceAdvanced sid c n n' b)) = None"
| "getPawBuildLoopStopReason (StepSelect (SelectSliceNoPending sid n b)) = Some stop_no_pending_slices"
| "getPawBuildLoopStopReason (StepSelect (SelectSliceRefused r)) = Some (refusalStopReason r)"
| "getPawBuildLoopStopReason (StepSelect (SelectSliceInvalidTransition sid n is b)) = Some stop_failed"
| "getPawBuildLoopStopReason (StepSelect (SelectSliceNotLocked sid b)) = Some stop_locked"
| "getPawBuildLoopStopReason (StepSelect (SelectSliceLockedByOther sid l b)) = Some stop_locked"
| "getPawBuildLoopStopReason (StepBegin (BeginAdvanced sid c n n' b)) = None"
| "getPawBuildLoopStopReason (StepBegin (BeginNoSelectedSlice sid n b)) = Some stop_failed"
| "getPawBuildLoopStopReason (StepBegin (BeginRefused r)) = Some (refusalStopReason r)"
| "getPawBuildLoopStopReason (StepBegin (BeginInvalidTransition sid n is b)) = Some stop_failed"
| "getPawBuildLoopStopReason (StepBegin (BeginNotLocked sid b)) = Some stop_locked"
| "getPawBuildLoopStopReason (StepBegin (BeginLockedByOther sid l b)) = Some stop_locked"

fun stepDecisions :: "PawBuildStepResult \<Rightarrow> PawVerifyGateDecision list" where
  "stepDecisions (StepVerify (VerifyCompleted sid n n' c plan results decisions unverified b)) = decisions"
| "stepDecisions _ = []"

definition collectPawBuildLoopVerifyDecisions :: "PawBuildStepResult list \<Rightarrow> PawVerifyGateDecision list" where
  "collectPawBuildLoopVerifyDecisions results = concat (map stepDecisions results)"

definition resolvePawBuildLoopVerifyDecisions ::
  "PawBuildStepResult list \<Rightarrow> PawVerifyConfig \<Rightarrow> PawNativeVerificationRunResult list \<Rightarrow> PawVerifyGateDecision list" where
  "resolvePawBuildLoopVerifyDecisions results cfg persisted =
     (let decisions = collectPawBuildLoopVerifyDecisions results in
      if length decisions > 0 \<or> length persisted = 0 then decisions
      else mapPawNativeVerificationRunResults persisted cfg)"

datatype PawBuildLoopFinalReport =
    LoopReportCompleted PawFinalReportStatus string string bool
  | LoopReportFailed string bool

fun emissionStatus :: "PawFinalReportEmissionResult \<Rightarrow> string" where
  "emissionStatus (EmissionCompleted l s s' e) = ''completed''"
| "emissionStatus (EmissionRefused (RefusedNotLocked why)) = ''not_locked''"
| "emissionStatus (EmissionRefused (RefusedOther l ow)) = ''locked_by_other''"
| "emissionStatus (EmissionInvalidState s is) = ''invalid_state''"
| "emissionStatus (EmissionPendingSlices s is) = ''pending_slices''"
| "emissionStatus (EmissionInvalidReportInput s is) = ''invalid_report_input''"
| "emissionStatus (EmissionInvalidTransition s is) = ''invalid_transition''"

fun loopReport :: "PawFinalReportEmissionResult \<Rightarrow> bool \<Rightarrow> PawBuildLoopFinalReport" where
  "loopReport (EmissionCompleted l s s' e) released =
     LoopReportCompleted (final_status (emitted e)) (emitted_summaryFile e) (emitted_reportJsonFile e) released"
| "loopReport e released = LoopReportFailed (emissionStatus e) released"

definition loopReportInput ::
  "PawBuildStepResult list \<Rightarrow> nat \<Rightarrow> PawVerifyConfig \<Rightarrow> PawNativeVerificationRunResult list \<Rightarrow> PawFinalReportInput" where
  "loopReportInput results maxSteps cfg persisted =
     \<lparr>report_summary = ''Paw build completed '' @ show_nat (length results) @ '' step(s) within max '' @ show_nat maxSteps @ ''.'',
      report_evidence = [''steps_run='' @ show_nat (length results), ''max_steps='' @ show_nat maxSteps,
        ''stop_reason=no_pending_slices''],
      report_risks = None, verifyDecisions = resolvePawBuildLoopVerifyDecisions results cfg persisted,
      degradedSteps = None, nextActions = None, nativeVerificationRunResults = Some (Some persisted)\<rparr>"

definition reportOperation ::
  "('p, 'm) build_world \<Rightarrow> process_env \<Rightarrow> string \<Rightarrow> nat \<Rightarrow> PawBuildStepResult list \<Rightarrow> PawSessionLockOptions \<Rightarrow> build_state \<Rightarrow>
     PawFinalReportEmissionResult throws \<times> build_state" where
  "reportOperation w env sid maxSteps results opts st =
     (case readPawVerificationEvidence (root (world w)) (built_evidence st) sid of
        Inl e \<Rightarrow> (Inl e, st)
      | Inr persisted \<Rightarrow>
          (case loadDefaultPawRuntimeConfig w of
             Inl e \<Rightarrow> (Inl e, st)
           | Inr cfg \<Rightarrow> map_prod id (\<lambda>fs. put_build_files fs st)
               (emitPawFinalReport env (root (world w)) (build_files st) (built_evidence st) sid
                  (loopReportInput results maxSteps (verify_config (step_settings cfg)) persisted) opts)))"

definition emitPawBuildLoopFinalReport ::
  "('p, 'm) build_world \<Rightarrow> process_env \<Rightarrow> string \<Rightarrow> nat \<Rightarrow> PawBuildStepResult list \<Rightarrow> PawSessionLockOptions \<Rightarrow> build_state \<Rightarrow>
     PawBuildLoopFinalReport throws \<times> build_state" where
  "emitPawBuildLoopFinalReport w env sid maxSteps results opts st =
     commandResult (\<lambda>locked. LoopReportFailed ''locked'' False) loopReport
       (underLockFinally build_files put_build_files env (root (world w)) opts sid
          (\<lambda>_. reportOperation w env sid maxSteps results opts) st)"

datatype loop_status = loop_completed | loop_stopped | loop_exhausted

record PawBuildLoopResult =
  loop_status :: loop_status
  loop_sessionId :: string
  stepsRun :: nat
  maxSteps :: nat
  loop_stopReason :: PawBuildLoopStopReason
  finalStateName :: "state_label option"
  stepResults :: "PawBuildStepResult list"
  finalReport :: "PawBuildLoopFinalReport option"

definition createPawBuildLoopEarlyExitResult ::
  "('p, 'm) build_world \<Rightarrow> process_env \<Rightarrow> string \<Rightarrow> nat \<Rightarrow> PawBuildStepResult list \<Rightarrow> PawBuildLoopStopReason \<Rightarrow>
     PawSessionLockOptions \<Rightarrow> build_state \<Rightarrow> PawBuildLoopResult throws \<times> build_state" where
  "createPawBuildLoopEarlyExitResult w env sid limit results why opts st =
     (case (if why = stop_no_pending_slices
            then map_prod (map_sum id Some) id (emitPawBuildLoopFinalReport w env sid limit results opts st)
            else (Inr None, st)) of
        (Inl e, st') \<Rightarrow> (Inl e, st')
      | (Inr report, st') \<Rightarrow>
          (map_sum id (\<lambda>name. \<lparr>loop_status = (case report of Some (LoopReportCompleted r s j b) \<Rightarrow> loop_completed | _ \<Rightarrow> loop_stopped),
               loop_sessionId = sid, stepsRun = length results, maxSteps = limit, loop_stopReason = why,
               finalStateName = name, stepResults = results, finalReport = report\<rparr>)
             (readPawSessionStateNameIfExists (root (world w)) (build_files st') sid), st'))"

text \<open>
  The loop with \<open>k\<close> steps left; \<open>clock i\<close> is the process during step \<open>i\<close>, the report is emitted
  by the process of the step after the last one.
\<close>

fun buildLoop ::
  "('p, 'm) build_world \<Rightarrow> (nat \<Rightarrow> process_env \<times> process_env) \<Rightarrow> string \<Rightarrow> PawBuildOptions \<Rightarrow> ('p, 'm) PawBuildCommandInput \<Rightarrow>
     nat \<Rightarrow> nat \<Rightarrow> PawBuildStepResult list \<Rightarrow> state_label option \<Rightarrow> build_state \<Rightarrow>
     PawBuildLoopResult throws \<times> build_state" where
  "buildLoop w clock sid inp cmd limit 0 results name st =
     (Inr \<lparr>loop_status = loop_exhausted, loop_sessionId = sid, stepsRun = length results, maxSteps = limit,
        loop_stopReason = stop_max_steps, finalStateName = name, stepResults = results, finalReport = None\<rparr>, st)"
| "buildLoop w clock sid inp cmd limit (Suc k) results name st =
     (case createPawBuildStepResult w (clock (length results)) (length results) sid inp cmd st of
        (Inl e, st') \<Rightarrow> (Inl e, st')
      | (Inr x, st') \<Rightarrow>
          (case readPawSessionStateNameIfExists (root (world w)) (build_files st') sid of
             Inl e \<Rightarrow> (Inl e, st')
           | Inr name' \<Rightarrow>
               (case getPawBuildLoopStopReason x of
                  Some why \<Rightarrow> createPawBuildLoopEarlyExitResult w (fst (clock (length results + 1))) sid limit (results @ [x]) why
                    (command_lockOptions cmd) st'
                | None \<Rightarrow> buildLoop w clock sid inp cmd limit k (results @ [x]) name' st')))"

definition createPawBuildLoopResult ::
  "('p, 'm) build_world \<Rightarrow> (nat \<Rightarrow> process_env \<times> process_env) \<Rightarrow> string \<Rightarrow> PawBuildOptions \<Rightarrow> ('p, 'm) PawBuildCommandInput \<Rightarrow>
     nat \<Rightarrow> build_state \<Rightarrow> PawBuildLoopResult throws \<times> build_state" where
  "createPawBuildLoopResult w clock sid inp cmd limit st = buildLoop w clock sid inp cmd limit limit [] None st"


section \<open>The policy does not change a verification\<close>

lemma argv_exact [simp]: "argvExactlyMatches expected actual \<longleftrightarrow> expected = actual"
  by (auto simp: argvExactlyMatches_def list_all_iff intro: nth_equalityI)

definition planned_for :: "PawNativeVerificationPlanEntry list \<Rightarrow> string \<Rightarrow> string list \<Rightarrow> bool" where
  "planned_for plan gate command \<longleftrightarrow>
     list_ex (\<lambda>e. case e of Planned g c reason \<Rightarrow> g = gate \<and> c = command | Unsupported g reason \<Rightarrow> False) plan"

text \<open>The commands allowed by a plan that gives every gate at most one command.\<close>

lemma allowed_entries:
  assumes "\<And>g c c'. planned_for plan g c \<Longrightarrow> planned_for plan g c' \<Longrightarrow> c = c'"
  shows "foldl allowEntry Map.empty plan gate = Some c \<longleftrightarrow> planned_for plan gate c"
  using assms
proof (induction plan arbitrary: c rule: rev_induct)
  case (snoc e plan)
  have sub: "planned_for (plan @ [e]) g c" if "planned_for plan g c" for g c using that by (simp add: planned_for_def)
  have IH: "foldl allowEntry Map.empty plan gate = Some c \<longleftrightarrow> planned_for plan gate c" for c
    by (rule snoc.IH) (use snoc.prems sub in blast)
  show ?case
  proof (cases e)
    case (Planned g d reason)
    with snoc.prems [of g d c] show ?thesis using IH by (auto simp: planned_for_def)
  next
    case (Unsupported g reason)
    then show ?thesis using IH by (simp add: planned_for_def)
  qed
qed (simp add: planned_for_def)

lemma plan_functional:
  assumes "planned_for (createPawNativeVerificationPlan env gates repo) g c"
  shows "resolveNativeVerificationCommand env g (readPackageScripts env repo) repo = Some c"
  using assms
  by (auto simp: planned_for_def list_ex_iff createPawNativeVerificationPlan_def Let_def
      split: option.splits PawNativeVerificationPlanEntry.splits)

lemma policy_exact:
  "createPawNativeVerificationCommandPolicy (createPawNativeVerificationPlan env gates repo) gate command
    \<longleftrightarrow> planned_for (createPawNativeVerificationPlan env gates repo) gate command"
proof -
  let ?plan = "createPawNativeVerificationPlan env gates repo"
  have "foldl allowEntry Map.empty ?plan gate = Some c \<longleftrightarrow> planned_for ?plan gate c" for c
    by (rule allowed_entries) (metis plan_functional option.inject)
  then show ?thesis
    by (cases "foldl allowEntry Map.empty ?plan gate") (auto simp: createPawNativeVerificationCommandPolicy_def)
qed

lemma checked_run:
  assumes "\<And>gate command. planned_for plan gate command \<Longrightarrow> isAllowed gate command"
  shows "runPawNativeVerificationPlan (createPawPolicyCheckedNativeVerificationExecutor ex isAllowed) opts n plan
    = runPawNativeVerificationPlan ex opts n plan"
  using assms
proof (induction ex opts n plan rule: runPawNativeVerificationPlan.induct)
  case (2 ex opts n gate reason plan)
  then show ?case by (simp add: planned_for_def)
next
  case (3 ex opts n gate command reason plan)
  have "isAllowed gate command" using 3 (2) by (simp add: planned_for_def)
  with 3 show ?case
    by (auto simp: createPawPolicyCheckedNativeVerificationExecutor_def planned_for_def split: sum.splits)
qed simp

text \<open>
  (C16) The command policy of a build is exact. The policy-checked executor runs a command exactly when
  the plan holds this command for this gate, and otherwise reports exit code 126 without running
  anything; and running the plan through it is the same as running the plan directly, so native
  verification is never blocked by its own policy.
\<close>

theorem command_policy_transparent:
  "let plan = createPawNativeVerificationPlan env gates repo;
       checked = createPawPolicyCheckedNativeVerificationExecutor ex (createPawNativeVerificationCommandPolicy plan)
   in checked n inp
      = (if planned_for plan (exec_gate inp) (exec_argv inp) then ex n inp
         else Inr \<lparr>exitCode = 126, stdout = '''', stderr = ''Native verification command is not allowed by policy: gate=''
           @ exec_gate inp @ '' command='' @ join_with '' '' (exec_argv inp), timedOut = None\<rparr>)
    \<and> runPawNativeVerificationPlan checked opts n plan = runPawNativeVerificationPlan ex opts n plan"
  unfolding Let_def
  by (rule conjI) (simp_all add: createPawPolicyCheckedNativeVerificationExecutor_def policy_exact checked_run
      [unfolded createPawPolicyCheckedNativeVerificationExecutor_def])

section \<open>The default executor\<close>

lemma failing_attempts:
  assumes "\<And>m d. attempt m d = Inl e"
  shows "\<exists>msg. completionAttempts attempt attempts e0 = Inl (JsError msg)"
  by (induction attempts arbitrary: e0) (auto simp: assms)

text \<open>The model a default build wants first, and what resolving it gives.\<close>

definition primary_model ::
  "('p, 'm) build_world \<Rightarrow> 'p PawResolvedModelRoute \<Rightarrow> PawSubAgentRuntimeInvocation \<Rightarrow> 'm throws" where
  "primary_model w route ivk = createPawModelRegistrySubAgentResolver (default_registry w) (Some ''primary'') None ivk
     (route_providerName route @ ''/'' @ route_model route)"

lemma resolver_ignores_attempt:
  assumes "idResolver ivk = Inr i"
  shows "createPawModelRegistrySubAgentResolver reg p (Some idResolver) ivk m
    = createPawModelRegistrySubAgentResolver reg p None ivk i"
  using assms by (simp add: createPawModelRegistrySubAgentResolver_def)

lemma attempt_depends:
  assumes "\<And>m. resolve m = r" "\<And>model. r = Inr model \<Longrightarrow> ask model = ask' model"
  shows "completePawProviderSubAgentAttempt view reg resolve ask m d
    = completePawProviderSubAgentAttempt view reg resolve ask' m d"
  using assms by (auto simp: completePawProviderSubAgentAttempt_def split: sum.splits)

definition provider_fails :: "AssistantMessage throws \<Rightarrow> bool" where
  "provider_fails x \<longleftrightarrow> (case x of Inl e \<Rightarrow> True | Inr m \<Rightarrow> stopReason m = ''error'' \<or> stopReason m = ''aborted'')"

lemma attempt_fails:
  assumes "\<And>m. resolve m = r" "case r of Inl e \<Rightarrow> True | Inr model \<Rightarrow> provider_fails (ask model)"
  shows "\<exists>e. \<forall>m d. completePawProviderSubAgentAttempt view reg resolve ask m d = Inl e"
  using assms by (auto simp: completePawProviderSubAgentAttempt_def provider_fails_def split: sum.splits)


text \<open>The default executor, spelled out.\<close>

definition default_attempts ::
  "('p, 'm) build_world \<Rightarrow> 'p once_config \<Rightarrow> nat \<Rightarrow> PawSubAgentRuntimeInvocation \<Rightarrow> string \<Rightarrow>
     PawSubAgentRuntimeDegradedMetadata option \<Rightarrow> PawProviderSubAgentCompletionResult throws" where
  "default_attempts w cfg n ivk = completePawProviderSubAgentAttempt (text_view w) (default_registry w)
     (createPawModelRegistrySubAgentResolver (default_registry w) (Some ''primary'')
       (Some (resolveDefaultPawBuildModelId cfg)) ivk) (default_complete w n)"

lemma default_executor:
  assumes "command_executor cmd = None" "command_provider cmd = None"
    and "resolvePawBuildSubAgentExecutor w cmd cfg = Inr ex"
    and "inv_model_id ivk = Some (Some m)" "\<not> blank m"
    and "resolveDefaultPawBuildFallbackModelIds cfg ivk = Inr fallbacks"
  shows "ex n ivk = Inr
    (case completionAttempts (default_attempts w cfg n ivk) (createPawProviderCompletionAttempts m (Some fallbacks)) (JsError '''') of
       Inl e \<Rightarrow> createProviderUnavailableExecutorResult ivk (Some m) (getErrorMessage e)
     | Inr x \<Rightarrow> \<lparr>raw_output = completion_text x,
         exec_model_id = Some (case nullish (completion_model_id x) of Some i \<Rightarrow> Some i | None \<Rightarrow> Some m),
         exec_degraded = completion_degraded x\<rparr>)"
proof -
  have "ex = createPawProviderSubAgentRuntimeExecutor (text_view w) (default_registry w) (Some ''primary'')
      (Some (resolveDefaultPawBuildModelId cfg)) (Some (resolveDefaultPawBuildFallbackModelIds cfg)) (default_complete w)"
    using assms(1-3) by (simp add: resolvePawBuildSubAgentExecutor_def)
  then show ?thesis
    using assms(4-6)
    by (simp add: createPawProviderSubAgentRuntimeExecutor_def createPawProviderSubAgentExecutor_def nullish_def or_else_def
        default_attempts_def)
qed

lemma default_resolves:
  assumes "buildRoute cfg ivk = Inr route"
  shows "createPawModelRegistrySubAgentResolver (default_registry w) (Some ''primary'')
      (Some (resolveDefaultPawBuildModelId cfg)) ivk m = primary_model w route ivk"
  using assms by (simp add: resolver_ignores_attempt primary_model_def resolveDefaultPawBuildModelId_def)



section \<open>The loop is bounded\<close>

lemma runtime_counts:
  "runPawSubAgentRuntime errors ivk executor n = (res, n') \<Longrightarrow> n \<le> n' \<and> n' \<le> Suc n"
  by (auto simp: runPawSubAgentRuntime_def split: option.splits sum.splits)

lemma attempts_count:
  "runtimeAttempts errors role cfg inp sid slice executor attempts n = (res, n') \<Longrightarrow> n \<le> n' \<and> n' \<le> n + length attempts"
proof (induction attempts arbitrary: n)
  case (Cons a rest)
  show ?case
  proof (cases "\<exists>ivk. createInvocation role cfg inp sid slice a = Inr ivk
      \<and> evaluatePawSubAgentSandboxPreflight (once_sandbox cfg) ivk (once_preflight inp) = None")
    case True
    then obtain ivk where ivk: "createInvocation role cfg inp sid slice a = Inr ivk"
      "evaluatePawSubAgentSandboxPreflight (once_sandbox cfg) ivk (once_preflight inp) = None" by blast
    obtain x n1 where run: "runPawSubAgentRuntime errors ivk executor n = (x, n1)" by fastforce
    note n1 = runtime_counts [OF run]
    show ?thesis
    proof (cases "\<exists>d k is m. x = Inr d \<and> runtime_decision d = ResponseRetry k is m")
      case True
      then have "runtimeAttempts errors role cfg inp sid slice executor rest n1 = (res, n')"
        using Cons.prems ivk run by auto
      from Cons.IH [OF this] n1 show ?thesis by simp
    next
      case False
      then have "n' = n1"
        using Cons.prems ivk run by (auto split: sum.splits PawSubAgentResponseDecision.splits)
      with n1 show ?thesis by simp
    qed
  next
    case False
    then have "n' = n" using Cons.prems by (auto split: sum.splits option.splits)
    then show ?thesis by simp
  qed
qed simp

text \<open>A counter beside the files, which the lock around an operation leaves alone.\<close>

locale counted_files = files_part get_files put_files
    for get_files :: "'s \<Rightarrow> files" and put_files :: "files \<Rightarrow> 's \<Rightarrow> 's" +
  fixes tally :: "'s \<Rightarrow> nat"
  assumes tally_put [simp]: "tally (put_files fs s) = tally s"
begin

definition counts_up :: "nat \<Rightarrow> 's \<Rightarrow> 's \<Rightarrow> bool" where
  "counts_up k s s' \<longleftrightarrow> tally s \<le> tally s' \<and> tally s' \<le> tally s + k"

lemma release_keeps: "releaseAfter get_files put_files env r opts sid x s = (y, s') \<Longrightarrow> tally s' = tally s"
  by (auto simp: releaseAfter_def split: sum.splits)

lemma finally_keeps:
  assumes "releaseFinally get_files put_files env r opts sid (x, s) = (y, s')"
  shows "tally s' = tally s"
proof (cases x)
  case (Inl e)
  obtain z s2 where z: "releaseAfter get_files put_files env r opts sid e s = (z, s2)" by fastforce
  then have "s' = s2" using assms Inl by (auto split: sum.splits)
  with release_keeps [OF z] show ?thesis by simp
next
  case (Inr v)
  then show ?thesis using release_keeps assms by simp
qed

lemma acquired_counts:
  assumes "\<And>rc s y s'. body rc s = (y, s') \<Longrightarrow> counts_up k s s'"
    and "acquireThen get_files put_files env r opts sid body s = (y, s')"
  shows "counts_up k s s'"
proof (cases "acquirePawSessionLock env r (get_files s) sid opts")
  case (Inl e)
  then show ?thesis using assms(2) by (simp add: acquireThen_def counts_up_def)
next
  case (Inr x)
  obtain a fs1 where x: "x = (a, fs1)" by fastforce
  show ?thesis
  proof (cases a)
    case (Acquired l rc)
    obtain z s2 where z: "body rc (put_files fs1 s) = (z, s2)" by fastforce
    then have "s' = s2" using assms(2) Inr x Acquired by (simp add: acquireThen_def)
    with assms(1) [OF z] show ?thesis by (simp add: counts_up_def)
  next
    case (LiveLock l)
    then show ?thesis using assms(2) Inr x by (auto simp: acquireThen_def counts_up_def)
  qed
qed

lemma command_counts:
  assumes op: "\<And>rc s y s'. op rc s = (y, s') \<Longrightarrow> counts_up k s s'"
    and run: "commandResult f g (sessionCommand dirs r sid get_files
      (underLockFinally get_files put_files env r opts sid op) s) = (res, s')"
  shows "counts_up k s s'"
proof -
  have body: "counts_up k s s'" if "releaseFinally get_files put_files env r opts sid (op rc s) = (y, s')" for rc s y s'
  proof -
    obtain x s1 where x: "op rc s = (x, s1)" by fastforce
    with that have "releaseFinally get_files put_files env r opts sid (x, s1) = (y, s')" by simp
    from finally_keeps [OF this] op [OF x] show ?thesis by (simp add: counts_up_def)
  qed
  obtain y where y: "sessionCommand dirs r sid get_files (underLockFinally get_files put_files env r opts sid op) s = (y, s')"
    using run by (auto simp: commandResult_def map_prod_def split: prod.splits)
  show ?thesis
  proof (cases "commandTarget dirs r (get_files s) sid = Inr None")
    case True
    then have "acquireThen get_files put_files env r opts sid
        (\<lambda>rc s. releaseFinally get_files put_files env r opts sid (op rc s)) s = (y, s')"
      using y by (simp add: sessionCommand_def underLockFinally_def)
    from acquired_counts [OF body this] show ?thesis .
  next
    case False
    then have "s' = s" using y by (auto simp: sessionCommand_def split: sum.splits option.splits)
    then show ?thesis by (simp add: counts_up_def)
  qed
qed

end

interpretation once_count: counted_files once_files put_once_files snd
  by unfold_locales (simp add: put_once_files_def)

lemma operation_counts:
  assumes "onceOperation errors role cfg inp r sid executor counted finish block rc st = (y, st')"
  shows "once_count.counts_up 2 st st'"
proof (cases "\<exists>s slice. readPawSessionState r (once_files st) sid = Inr s
    \<and> state_name s = Member (Active (role_state role)) \<and> current_slice_id s = Some slice")
  case True
  then obtain s slice where s: "readPawSessionState r (once_files st) sid = Inr s"
    "state_name s = Member (Active (role_state role))" "current_slice_id s = Some slice" by blast
  obtain x n' where run: "runRuntimeWithRetry errors role cfg inp sid slice executor (snd st) = (x, n')" by fastforce
  have "snd st' = n'"
    using assms s run by (auto simp: onceOperation_def split: sum.splits option.splits prod.splits if_splits)
  with attempts_count [OF run [unfolded runRuntimeWithRetry_def]] show ?thesis by (simp add: once_count.counts_up_def)
next
  case False
  then have "st' = st" using assms by (auto simp: onceOperation_def split: sum.splits option.splits if_splits)
  then show ?thesis by (simp add: once_count.counts_up_def)
qed

lemma worker_counts:
  assumes "runPawWorkerOnce errors dirs w env env' cfg inp opts sid executor st = (res, st')"
  shows "snd st \<le> snd st' \<and> snd st' \<le> snd st + 2"
  using once_count.command_counts [OF operation_counts assms [unfolded runPawWorkerOnce_def onceResult_def]]
  by (simp add: once_count.counts_up_def)

lemma reviewer_counts:
  assumes "runPawReviewerOnce errors dirs w env env' cfg inp opts sid executor st = (res, st')"
  shows "snd st \<le> snd st' \<and> snd st' \<le> snd st + 2"
  using once_count.command_counts [OF operation_counts assms [unfolded runPawReviewerOnce_def onceResult_def]]
  by (simp add: once_count.counts_up_def)

lemma step_on_files_count [dest]: "stepOnFiles f st x = (res, st') \<Longrightarrow> asked st' = asked st"
  by (auto simp: stepOnFiles_def map_prod_def put_build_files_def split: prod.splits)

lemma step_verified_count [dest]: "stepVerified st x = (res, st') \<Longrightarrow> asked st' = asked st"
  by (auto simp: stepVerified_def map_prod_def put_build_files_def split: prod.splits)

lemma step_once_count:
  assumes "stepOnce f st x = (res, st')" "asked st \<le> snd (snd x)" "snd (snd x) \<le> asked st + 2"
  shows "asked st \<le> asked st' \<and> asked st' \<le> asked st + 2"
  using assms by (cases x) (auto simp: stepOnce_def map_prod_def split: prod.splits)

lemma dispatch_counts:
  assumes "dispatchPawBuildStepByState w clock i sid state inp cmd cfg executor st = (res, st')"
  shows "asked st \<le> asked st' \<and> asked st' \<le> asked st + 2"
proof -
  have worker: "asked st \<le> snd (snd x) \<and> snd (snd x) \<le> asked st + 2"
    if "x = runPawWorkerOnce errors dirs v env env' oc oi opts sid ex (built_disk st, asked st)" for x errors dirs v env env' oc oi opts ex
    using worker_counts [of errors dirs v env env' oc oi opts sid ex "(built_disk st, asked st)" "fst x" "snd x"] that by simp
  have reviewer: "asked st \<le> snd (snd x) \<and> snd (snd x) \<le> asked st + 2"
    if "x = runPawReviewerOnce errors dirs v env env' oc oi opts sid ex (built_disk st, asked st)" for x errors dirs v env env' oc oi opts ex
    using reviewer_counts [of errors dirs v env env' oc oi opts sid ex "(built_disk st, asked st)" "fst x" "snd x"] that by simp
  from assms show ?thesis
    unfolding dispatchPawBuildStepByState_def Let_def
    by (auto split: if_splits prod.splits dest: step_once_count [OF _ conjunct1 [OF worker] conjunct2 [OF worker]]
        step_once_count [OF _ conjunct1 [OF reviewer] conjunct2 [OF reviewer]])
qed

lemma step_counts:
  assumes "createPawBuildStepResult w clock i sid inp cmd st = (res, st')"
  shows "asked st \<le> asked st' \<and> asked st' \<le> asked st + 2"
  using assms by (auto simp: createPawBuildStepResult_def split: sum.splits option.splits dest: dispatch_counts)

interpretation build_count: counted_files build_files put_build_files asked
  by unfold_locales (simp_all add: build_files_def put_build_files_def)

lemma report_counts:
  assumes "emitPawBuildLoopFinalReport w env sid limit results opts st = (res, st')"
  shows "asked st' = asked st"
proof -
  have op: "asked s' = asked s" if "reportOperation w env sid limit results opts s = (y, s')" for s y s'
    using that by (auto simp: reportOperation_def map_prod_def split: sum.splits prod.splits)
  have body: "build_count.counts_up 0 s s'"
    if "releaseFinally build_files put_build_files env r opts sid (reportOperation w env sid limit results opts s) = (y, s')"
    for r s y s'
  proof -
    obtain x s1 where x: "reportOperation w env sid limit results opts s = (x, s1)" by fastforce
    with that have "releaseFinally build_files put_build_files env r opts sid (x, s1) = (y, s')" by simp
    from build_count.finally_keeps [OF this] op [OF x] show ?thesis by (simp add: build_count.counts_up_def)
  qed
  obtain y where "acquireThen build_files put_build_files env (root (world w)) opts sid
      (\<lambda>_ s. releaseFinally build_files put_build_files env (root (world w)) opts sid
        (reportOperation w env sid limit results opts s)) st = (y, st')"
    using assms by (auto simp: emitPawBuildLoopFinalReport_def commandResult_def underLockFinally_def map_prod_def split: prod.splits)
  then have "build_count.counts_up 0 st st'" by (rule build_count.acquired_counts [rotated]) (rule body)
  then show ?thesis by (simp add: build_count.counts_up_def)
qed

lemma exit_counts:
  assumes "createPawBuildLoopEarlyExitResult w env sid limit results why opts st = (Inr r, st')"
  shows "asked st' = asked st \<and> stepsRun r = length results \<and> stepResults r = results \<and> loop_stopReason r = why
    \<and> readPawSessionStateNameIfExists (root (world w)) (build_files st') sid = Inr (finalStateName r)
    \<and> (loop_status r = loop_completed \<longleftrightarrow> (\<exists>st' s j b. finalReport r = Some (LoopReportCompleted st' s j b)))
    \<and> (finalReport r = None \<longleftrightarrow> why \<noteq> stop_no_pending_slices) \<and> loop_status r \<noteq> loop_exhausted"
proof -
  obtain rep s1 where rep: "(if why = stop_no_pending_slices
      then map_prod (map_sum id Some) id (emitPawBuildLoopFinalReport w env sid limit results opts st)
      else (Inr None, st)) = (rep, s1)" by fastforce
  have "asked s1 = asked st"
    using rep by (cases "emitPawBuildLoopFinalReport w env sid limit results opts st") (auto split: if_splits dest: report_counts)
  moreover obtain report where report: "rep = Inr report"
    using assms rep by (cases rep) (auto simp: createPawBuildLoopEarlyExitResult_def)
  moreover have "report = None \<longleftrightarrow> why \<noteq> stop_no_pending_slices"
    using rep report by (cases "emitPawBuildLoopFinalReport w env sid limit results opts st") (auto simp: map_sum_def split: if_splits sum.splits)
  ultimately show ?thesis
    using assms rep
    by (auto simp: createPawBuildLoopEarlyExitResult_def map_sum_def split: sum.splits option.splits PawBuildLoopFinalReport.splits)
qed

text \<open>What a loop that returns has done, from the results and the state it had before.\<close>

lemma loop_counts:
  assumes "buildLoop w clock sid inp cmd limit k results name st = (Inr r, st')"
  shows "\<exists>more. stepResults r = results @ more \<and> stepsRun r = length (results @ more) \<and> length more \<le> k
    \<and> asked st \<le> asked st' \<and> asked st' \<le> asked st + 2 * length more
    \<and> list_all (\<lambda>x. getPawBuildLoopStopReason x = None) (butlast more)
    \<and> (if loop_status r = loop_exhausted
       then loop_stopReason r = stop_max_steps \<and> length more = k \<and> list_all (\<lambda>x. getPawBuildLoopStopReason x = None) more
       else more \<noteq> [] \<and> getPawBuildLoopStopReason (last more) = Some (loop_stopReason r))
    \<and> (more = [] \<longrightarrow> finalStateName r = name \<and> st' = st)
    \<and> (more \<noteq> [] \<longrightarrow> readPawSessionStateNameIfExists (root (world w)) (build_files st') sid = Inr (finalStateName r))"
  using assms
proof (induction k arbitrary: results name st)
  case 0
  then show ?case by auto
next
  case (Suc k)
  obtain x st1 where step: "createPawBuildStepResult w (clock (length results)) (length results) sid inp cmd st = (Inr x, st1)"
    using Suc.prems by (auto split: prod.splits sum.splits)
  obtain name' where name': "readPawSessionStateNameIfExists (root (world w)) (build_files st1) sid = Inr name'"
    using Suc.prems step by (auto split: sum.splits)
  note counted = step_counts [OF step]
  show ?case
  proof (cases "getPawBuildLoopStopReason x")
    case (Some why)
    with Suc.prems step name' have exit: "createPawBuildLoopEarlyExitResult w (fst (clock (length results + 1))) sid limit
        (results @ [x]) why (command_lockOptions cmd) st1 = (Inr r, st')" by simp
    from exit_counts [OF exit] counted Some show ?thesis by (intro exI [of _ "[x]"]) auto
  next
    case None
    with Suc.prems step name' have "buildLoop w clock sid inp cmd limit k (results @ [x]) name' st1 = (Inr r, st')" by simp
    from Suc.IH [OF this] obtain more where more: "stepResults r = results @ [x] @ more" "stepsRun r = length (results @ [x] @ more)"
      "length more \<le> k" "asked st1 \<le> asked st'" "asked st' \<le> asked st1 + 2 * length more"
      "list_all (\<lambda>x. getPawBuildLoopStopReason x = None) (butlast more)"
      "if loop_status r = loop_exhausted
       then loop_stopReason r = stop_max_steps \<and> length more = k \<and> list_all (\<lambda>x. getPawBuildLoopStopReason x = None) more
       else more \<noteq> [] \<and> getPawBuildLoopStopReason (last more) = Some (loop_stopReason r)"
      "more = [] \<longrightarrow> finalStateName r = name' \<and> st' = st1"
      "more \<noteq> [] \<longrightarrow> readPawSessionStateNameIfExists (root (world w)) (build_files st') sid = Inr (finalStateName r)" by auto
    with more counted None name' show ?thesis by (intro exI [of _ "x # more"]) (auto split: if_splits)
  qed
qed

text \<open>
  (C5) A build loop is bounded. It runs at most the given number of steps and asks the sub-agent
  at most twice per step; every step but the last let the loop go on. It ends exhausted exactly
  when that many steps all went on, and otherwise with the reason the last step gave; the final
  state it reports is the one stored when it returns.
\<close>

theorem build_loop_bounded:
  assumes "createPawBuildLoopResult w clock sid inp cmd limit st = (Inr r, st')"
  shows "stepsRun r = length (stepResults r) \<and> stepsRun r \<le> limit
    \<and> asked st \<le> asked st' \<and> asked st' \<le> asked st + 2 * stepsRun r
    \<and> list_all (\<lambda>x. getPawBuildLoopStopReason x = None) (butlast (stepResults r))
    \<and> (if loop_status r = loop_exhausted
       then loop_stopReason r = stop_max_steps \<and> stepsRun r = limit
         \<and> list_all (\<lambda>x. getPawBuildLoopStopReason x = None) (stepResults r)
       else stepResults r \<noteq> [] \<and> getPawBuildLoopStopReason (last (stepResults r)) = Some (loop_stopReason r))
    \<and> (if stepResults r = [] then finalStateName r = None
       else readPawSessionStateNameIfExists (root (world w)) (build_files st') sid = Inr (finalStateName r))"
  using loop_counts [OF assms [unfolded createPawBuildLoopResult_def]] by (auto split: if_splits)


section \<open>Samples\<close>

definition sample_build_config :: "unit runtime_config" where
  "sample_build_config = \<lparr>step_config = sample_once_config\<lparr>once_routing := (once_routing sample_once_config)
       \<lparr>failover_order := [''q''], providers := [(''p'', ()), (''q'', ())]\<rparr>\<rparr>,
     step_settings = \<lparr>verify_config = sample_verify_config, verify_run_options = sample_run_options\<rparr>\<rparr>"

text \<open>Models are named by provider and id; the primary provider \<open>p\<close> is down, the fallback \<open>q\<close> answers.\<close>

definition sample_answer :: AssistantMessage where
  "sample_answer = \<lparr>stopReason = ''stop'', errorMessage = None, responseModel = None, messageModel = None, textContents = [''{}'']\<rparr>"

definition sample_build_world :: "(unit, string) build_world" where
  "sample_build_world = \<lparr>world_errors = sample_errors, world_dirs = (\<lambda>p. True), world = sample_surroundings,
     world_plans = sample_plan_env, loadDefaultPawRuntimeConfig = Inr sample_build_config,
     default_registry = \<lparr>findModel = (\<lambda>p m. Some (p @ ''/'' @ m)), hasConfiguredAuth = (\<lambda>m. True),
       getApiKeyAndHeaders = (\<lambda>m. None), modelIdOf = (\<lambda>m. m)\<rparr>,
     default_complete = (\<lambda>n m. if starts_with ''p/'' m then Inl (JsError ''503'') else Inr sample_answer),
     text_view = BrokenText, subprocess = (\<lambda>i. sample_executor)\<rparr>"

definition sample_command :: "PawSubAgentRuntimeExecutor option \<Rightarrow> (unit, string) PawBuildCommandInput" where
  "sample_command ex = \<lparr>command_config = None, command_executor = ex, command_provider = None,
     command_lockOptions = no_options, command_native = None, command_preflight = None\<rparr>"

definition sample_build_options :: PawBuildOptions where
  "sample_build_options = \<lparr>option_handoff = None, option_timestamp = None, option_native = False\<rparr>"

definition sample_build_state :: "PawSessionState \<Rightarrow> build_state" where
  "sample_build_state s = \<lparr>built_disk = (sample_disk s)\<lparr>session_files := stored_only s\<rparr>, built_evidence = Map.empty, asked = 0\<rparr>"

definition sample_build_loop :: "PawSubAgentRuntimeExecutor option \<Rightarrow> nat \<Rightarrow> PawSessionState \<Rightarrow> PawBuildLoopResult throws \<times> build_state" where
  "sample_build_loop ex limit s = createPawBuildLoopResult sample_build_world (\<lambda>i. (sample_env 7, sample_env 7)) ''s1'' sample_build_options
     (sample_command ex) limit (sample_build_state s)"

theorem build_loop_bounded_witness:
  "\<exists>r st'. sample_build_loop (Some mute_executor) 3 implementing_session = (Inr r, st')
    \<and> stepsRun r = 1 \<and> asked st' = 2 \<and> asked st' \<le> 2 * stepsRun r \<and> loop_stopReason r = stop_blocked"
proof -
  have "case sample_build_loop (Some mute_executor) 3 implementing_session of
     (Inr r, st') \<Rightarrow> stepsRun r = 1 \<and> asked st' = 2 \<and> loop_stopReason r = stop_blocked | _ \<Rightarrow> False" by code_simp
  then obtain r st' where run: "sample_build_loop (Some mute_executor) 3 implementing_session = (Inr r, st')"
    and r: "stepsRun r = 1" "asked st' = 2" "loop_stopReason r = stop_blocked" by (auto split: prod.splits sum.splits)
  from build_loop_bounded [OF run [unfolded sample_build_loop_def]]
  have "asked st' \<le> 2 * stepsRun r" by (simp add: sample_build_state_def)
  with run r show ?thesis by blast
qed

definition sample_invocation :: PawSubAgentRuntimeInvocation where
  "sample_invocation = projr (createInvocation worker_role (step_config sample_build_config) sample_once_input ''s1'' ''a'' 1)"


end
