(* ===== verification/Paw_Build_Laws.thy ===== *)
theory Paw_Build_Laws
  imports Paw_Build
begin

text \<open>
  What a build loop achieves: with a sub-agent that passes, every step takes the lock, moves the
  session one state on and releases the lock, so a loop with enough steps completes the plan and
  emits the report; and what that report says of earlier builds.
\<close>

section \<open>One command on an idle session\<close>

text \<open>
  Between two commands nobody holds the lock. A process keeps the lock through a command when the
  lock it takes is still its own and not stale when the result is recorded.
\<close>

definition idle :: "string \<Rightarrow> files \<Rightarrow> string \<Rightarrow> PawSessionState \<Rightarrow> bool" where
  "idle r fs sid s \<longleftrightarrow> store_inv r fs \<and> validSessionId sid \<and> fs (lockFile (sessionPaths r sid)) = None
     \<and> readPawSessionState r fs sid = Inr s"

definition keeps_lock :: "process_env \<Rightarrow> process_env \<Rightarrow> PawSessionLockOptions \<Rightarrow> bool" where
  "keeps_lock env env' opts \<longleftrightarrow> lock_wf (nextLock env opts)
     \<and> getPawSessionLockStaleReason env (nextLock env opts) opts = None
     \<and> getPawSessionLockStaleReason env' (nextLock env opts) opts = None
     \<and> isCurrentOwner env' (nextLock env opts) opts"

abbreviation locked_files :: "process_env \<Rightarrow> PawSessionLockOptions \<Rightarrow> string \<Rightarrow> string \<Rightarrow> files \<Rightarrow> files" where
  "locked_files env opts r sid fs \<equiv> fs(lockFile (sessionPaths r sid) \<mapsto> JsonText (json_of_lock (nextLock env opts)))"

lemma idle_acquires:
  assumes "idle r fs sid s" "keeps_lock env env' opts"
  shows "acquirePawSessionLock env r fs sid opts = Inr (Acquired (nextLock env opts) None, locked_files env opts r sid fs)"
  using assms by (simp add: idle_def keeps_lock_def acquire_eq readPawSessionLockIfExists_def readPawJson_def)

lemma idle_drives:
  assumes "idle r fs sid s" "keeps_lock env env' opts"
  shows "drives env r (locked_files env opts r sid fs) sid opts (nextLock env opts) s"
    and "drives env' r (locked_files env opts r sid fs) sid opts (nextLock env opts) s"
proof -
  have v: "validSessionId sid" using assms(1) by (simp add: idle_def)
  have "lockHolder r sid (locked_files env opts r sid fs) = Some (nextLock env opts) \<and> isCurrentOwner env (nextLock env opts) opts"
    using acquire_holder [OF idle_acquires [OF assms]] .
  then show "drives env r (locked_files env opts r sid fs) sid opts (nextLock env opts) s"
    "drives env' r (locked_files env opts r sid fs) sid opts (nextLock env opts) s"
    using assms by (simp_all add: drives_def holds_live_lock_def idle_def keeps_lock_def store_inv_lock_change
        read_after_lock_change)
qed

lemma drives_idle:
  assumes "drives env r fs sid opts l s"
  shows "idle r (fs(lockFile (sessionPaths r sid) := None)) sid s"
  using assms by (simp add: drives_def holds_live_lock_def idle_def store_inv_lock_change read_after_lock_change)

lemma idle_present: "idle r fs sid s \<Longrightarrow> fs (stateFile (sessionPaths r sid)) \<noteq> None"
  by (auto simp: idle_def readPawSessionState_def resolve_valid readPawJson_def split: option.splits sum.splits)

context files_part
begin

text \<open>A command whose body drives the session on under the lock and then releases it.\<close>

lemma command_completes:
  assumes dirs: "dirs (pawDir (resolvePawProjectPaths r))"
    and idle: "idle r (get_files s) sid s0" and keeps: "keeps_lock env env' opts"
    and body: "body None (put_files (locked_files env opts r sid (get_files s)) s)
      = releaseAfter get_files put_files env r opts sid x s1"
    and drives: "drives env'' r (get_files s1) sid opts (nextLock env opts) s2"
  shows "commandResult f g (sessionCommand dirs r sid get_files (acquireThen get_files put_files env r opts sid body) s)
      = (Inr (g x True), put_files ((get_files s1)(lockFile (sessionPaths r sid) := None)) s1)"
    and "idle r ((get_files s1)(lockFile (sessionPaths r sid) := None)) sid s2"
proof -
  have v: "validSessionId sid" using idle by (simp add: idle_def)
  have target: "commandTarget dirs r (get_files s) sid = Inr None"
    using dirs idle_present [OF idle]
    by (simp add: commandTarget_def Let_def pawCliIsDirectory_def pawCliIsFile_def resolve_valid [OF v])
  have "isCurrentOwner env (nextLock env opts) opts"
    using idle_drives(1) [OF idle keeps] by (simp add: drives_def holds_live_lock_def)
  moreover have "lockHolder r sid (get_files s1) = Some (nextLock env opts)"
    using drives by (simp add: drives_def holds_live_lock_def)
  ultimately have "releaseAfter get_files put_files env r opts sid x s1
      = (Inr (x, True), put_files ((get_files s1)(lockFile (sessionPaths r sid) := None)) s1)"
    by (intro releaseAfter_holder [OF v])
  then show "commandResult f g (sessionCommand dirs r sid get_files (acquireThen get_files put_files env r opts sid body) s)
      = (Inr (g x True), put_files ((get_files s1)(lockFile (sessionPaths r sid) := None)) s1)"
    using idle_acquires [OF idle keeps] body by (simp add: sessionCommand_def target acquireThen_def commandResult_def)
  show "idle r ((get_files s1)(lockFile (sessionPaths r sid) := None)) sid s2" by (rule drives_idle [OF drives])
qed

end

lemma files_command_completes:
  assumes "dirs (pawDir (resolvePawProjectPaths r))" "idle r fs sid s0" "keeps_lock env env' opts"
    and "operation None (locked_files env opts r sid fs) = (Inr x, fs1)" "drives env'' r fs1 sid opts (nextLock env opts) s2"
  shows "commandResult f g (filesCommand dirs env r opts sid operation fs)
    = (Inr (g x True), fs1(lockFile (sessionPaths r sid) := None))"
  using whole_files.command_completes(1) [where s = fs and ?s1.0 = fs1 and dirs = dirs and f = f and g = g and x = x
      and body = "\<lambda>rc s. releaseUnlessThrown id (\<lambda>fs s. fs) env r opts sid (operation rc s)"] assms
  unfolding filesCommand_def underLock_def by simp

section \<open>The steps\<close>

text \<open>A build that can take steps: what it resolves to, and that the project is there.\<close>

definition ready ::
  "('p, 'm) build_world \<Rightarrow> ('p, 'm) PawBuildCommandInput \<Rightarrow> 'p runtime_config \<Rightarrow> PawSubAgentRuntimeExecutor \<Rightarrow> bool" where
  "ready w cmd cfg ex \<longleftrightarrow>
     (case command_config cmd of Some c \<Rightarrow> Inr c | None \<Rightarrow> loadDefaultPawRuntimeConfig w) = Inr cfg
     \<and> resolvePawBuildSubAgentExecutor w cmd (step_config cfg) = Inr ex
     \<and> world_dirs w (pawDir (resolvePawProjectPaths (root (world w))))"

definition build_idle :: "('p, 'm) build_world \<Rightarrow> string \<Rightarrow> build_state \<Rightarrow> PawSessionState \<Rightarrow> bool" where
  "build_idle w sid st s \<longleftrightarrow> idle (root (world w)) (build_files st) sid s
     \<and> journal_whole (root (world w)) (session_journals (built_disk st)) sid"

lemma ready_dispatches:
  assumes "ready w cmd cfg ex" "build_idle w sid st s"
  shows "createPawBuildStepResult w clock i sid inp cmd st
    = dispatchPawBuildStepByState w clock i sid (Some s) inp cmd cfg ex st"
  using assms by (simp add: createPawBuildStepResult_def ready_def build_idle_def idle_def readPawSessionStateIfExists_def)

lemma idle_wf: "build_idle w sid st s \<Longrightarrow> session_wf s"
  by (auto simp: build_idle_def idle_def intro: read_wf)

text \<open>The step goes on and leaves the session idle in the given state.\<close>

definition goes_on ::
  "('p, 'm) build_world \<Rightarrow> string \<Rightarrow> PawSessionState \<Rightarrow> PawBuildStepResult throws \<times> build_state \<Rightarrow> bool" where
  "goes_on w sid s' run \<longleftrightarrow> (\<exists>x st'. run = (Inr x, st') \<and> getPawBuildLoopStopReason x = None \<and> build_idle w sid st' s')"

lemma stepOnFiles_goes_on:
  assumes "getPawBuildLoopStopReason (f x) = None" "idle (root (world w)) fs sid s'" "build_idle w sid st s"
  shows "goes_on w sid s' (stepOnFiles f st (Inr x, fs))"
  using assms by (auto simp: goes_on_def stepOnFiles_def build_idle_def build_files_def put_build_files_def)

lemma select_step:
  assumes "ready w cmd cfg ex" "build_idle w sid st s" "keeps_lock env env' (command_lockOptions cmd)"
    and "state_name s = Member (Active a)" "a \<in> {PLAN_APPROVED, SLICE_DONE}" "pending_slice_ids s = x # xs"
  shows "goes_on w sid (s\<lparr>state_name := Member (Active SLICE_SELECT), current_slice_id := Some x, pending_slice_ids := xs\<rparr>)
    (createPawBuildStepResult w (env, env') i sid inp cmd st)"
proof -
  let ?s' = "s\<lparr>state_name := Member (Active SLICE_SELECT), current_slice_id := Some x, pending_slice_ids := xs\<rparr>"
  let ?r = "root (world w)" and ?opts = "command_lockOptions cmd"
  let ?fs = "build_files st"
  let ?l = "nextLock env ?opts" and ?fs1 = "locked_files env ?opts ?r sid ?fs"
  have idle: "idle ?r ?fs sid s" using assms(2) by (simp add: build_idle_def)
  note drives = idle_drives(1) [OF idle assms(3)]
  have t: "transitionPawSessionState s (goto SLICE_SELECT) = Ok ?s'"
    by (simp only: transition_select [OF idle_wf [OF assms(2)] assms(4)] assms(5,6) if_True list.case)
  have run: "selectNextPawPlanSlice env ?r ?fs1 sid ?opts
      = (Inr (SliceSelected x (Advanced ?l s ?s')), stored_state ?r sid ?s' ?fs1)"
    by (simp add: selectNextPawPlanSlice_def drives_advance [OF drives t] createPawSliceSelectionResult_def)
  have dirs: "world_dirs w (pawDir (resolvePawProjectPaths ?r))" using assms(1) by (simp add: ready_def)
  have "stateNameIn (Some s) [PLAN_APPROVED, SLICE_DONE]" using assms(4,5) by (auto simp: stateNameIn_def)
  then have "createPawBuildStepResult w (env, env') i sid inp cmd st
      = stepOnFiles StepSelect st (createPawSelectSliceCommandResult (world_dirs w) env ?r ?opts sid ?fs)"
    by (simp add: ready_dispatches [OF assms(1,2)] dispatchPawBuildStepByState_def Let_def)
  also have "createPawSelectSliceCommandResult (world_dirs w) env ?r ?opts sid ?fs =
      (Inr (SelectSliceAdvanced sid x (state_name s) (state_name ?s') True),
       (stored_state ?r sid ?s' ?fs1)(lockFile (sessionPaths ?r sid) := None))"
    unfolding createPawSelectSliceCommandResult_def
    using files_command_completes [where f = SelectSliceRefused and g = "mapPawSelectSliceResult sid" and dirs = "world_dirs w"
        and operation = "\<lambda>_ fs. selectNextPawPlanSlice env ?r fs sid ?opts"
        and ?fs1.0 = "stored_state ?r sid ?s' ?fs1", OF dirs idle assms(3) run drives_step(2) [OF drives t]] by simp
  finally show ?thesis
    using stepOnFiles_goes_on [of StepSelect, OF _ drives_idle [OF drives_step(2) [OF drives t]] assms(2)] by simp
qed

lemma begin_step:
  assumes "ready w cmd cfg ex" "build_idle w sid st s" "keeps_lock env env' (command_lockOptions cmd)"
    and "state_name s = Member (Active SLICE_SELECT)" "current_slice_id s = Some x"
  shows "goes_on w sid (s\<lparr>state_name := Member (Active IMPLEMENTING)\<rparr>)
    (createPawBuildStepResult w (env, env') i sid inp cmd st)"
proof -
  let ?s' = "s\<lparr>state_name := Member (Active IMPLEMENTING)\<rparr>"
  let ?r = "root (world w)" and ?opts = "command_lockOptions cmd"
  let ?fs = "build_files st"
  let ?l = "nextLock env ?opts" and ?fs1 = "locked_files env ?opts ?r sid ?fs"
  have idle: "idle ?r ?fs sid s" using assms(2) by (simp add: build_idle_def)
  note drives = idle_drives(1) [OF idle assms(3)]
  have t: "transitionPawSessionState s (goto IMPLEMENTING) = Ok ?s'"
    by (rule transition_goto_name(1) [OF idle_wf [OF assms(2)] assms(4)]) (simp_all add: assms(5))
  have run: "beginPawSliceImplementation env ?r ?fs1 sid ?opts
      = (Inr (ImplementationBegun x (Advanced ?l s ?s')), stored_state ?r sid ?s' ?fs1)"
    by (simp add: beginPawSliceImplementation_def drives_advance [OF drives t] createPawSliceImplementationResult_def assms(5))
  have dirs: "world_dirs w (pawDir (resolvePawProjectPaths ?r))" using assms(1) by (simp add: ready_def)
  have "createPawBuildStepResult w (env, env') i sid inp cmd st
      = stepOnFiles StepBegin st (createPawBeginImplementationCommandResult (world_dirs w) env ?r ?opts sid ?fs)"
    by (simp add: ready_dispatches [OF assms(1,2)] dispatchPawBuildStepByState_def Let_def stateNameIn_def assms(4))
  also have "createPawBeginImplementationCommandResult (world_dirs w) env ?r ?opts sid ?fs =
      (Inr (BeginAdvanced sid x (state_name s) (state_name ?s') True),
       (stored_state ?r sid ?s' ?fs1)(lockFile (sessionPaths ?r sid) := None))"
    unfolding createPawBeginImplementationCommandResult_def
    using files_command_completes [where f = BeginRefused and g = "mapPawBeginImplementationResult sid" and dirs = "world_dirs w"
        and operation = "\<lambda>_ fs. beginPawSliceImplementation env ?r fs sid ?opts"
        and ?fs1.0 = "stored_state ?r sid ?s' ?fs1", OF dirs idle assms(3) run drives_step(2) [OF drives t]] by simp
  finally show ?thesis
    using stepOnFiles_goes_on [of StepBegin, OF _ drives_idle [OF drives_step(2) [OF drives t]] assms(2)] by simp
qed

text \<open>A sub-agent that passes, with an output that has the property \<open>good\<close>.\<close>

definition agent_passes ::
  "schema_errors \<Rightarrow> once_role \<Rightarrow> 'p once_config \<Rightarrow> once_input \<Rightarrow> string \<Rightarrow> string \<Rightarrow> PawSubAgentRuntimeExecutor \<Rightarrow>
     (PawSubAgentOutput \<Rightarrow> bool) \<Rightarrow> bool" where
  "agent_passes errors role cfg inp sid slice ex good \<longleftrightarrow>
     (\<forall>n. \<exists>dec n' out k. runRuntimeWithRetry errors role cfg inp sid slice ex n = (Inr dec, n')
        \<and> decisionOutput (runtime_decision dec) = Some (out, k) \<and> status out = pass \<and> good out)"

text \<open>A passing run of either orchestrator, with a recorder that drives the session on.\<close>

lemma once_completes:
  assumes "dirs (pawDir (resolvePawProjectPaths r))" "idle r (session_files d) sid s" "keeps_lock env env' opts"
    and "state_name s = Member (Active (role_state role))" "current_slice_id s = Some x"
    and "agent_passes errors role cfg inp sid x ex good"
    and finish: "\<forall>out. status out = pass \<and> good out \<longrightarrow>
      (\<exists>d' v. finish out (d\<lparr>session_files := locked_files env opts r sid (session_files d)\<rparr>) = (Inr (Recorded (nextLock env opts) s s' v), d')
        \<and> drives env' r (session_files d') sid opts (nextLock env opts) s' \<and> P d')"
  shows "\<exists>k n' d' v. onceResult (sessionCommand dirs r sid once_files (underLockFinally once_files put_once_files env r opts sid
        (onceOperation errors role cfg inp r sid ex counted finish block)) (d, n))
      = (Inr (OnceCompleted sid x (state_name s) (state_name s') k (counted v) True None),
         (d'\<lparr>session_files := (session_files d')(lockFile (sessionPaths r sid) := None)\<rparr>, n'))
    \<and> idle r ((session_files d')(lockFile (sessionPaths r sid) := None)) sid s' \<and> P d'"
proof -
  let ?fs1 = "locked_files env opts r sid (session_files d)"
  let ?d1 = "d\<lparr>session_files := ?fs1\<rparr>"
  have read: "readPawSessionState r ?fs1 sid = Inr s"
    using idle_drives(1) [OF assms(2,3)] by (simp add: drives_def)
  obtain dec n' out k where run: "runRuntimeWithRetry errors role cfg inp sid x ex n = (Inr dec, n')"
    and out: "decisionOutput (runtime_decision dec) = Some (out, k)" "status out = pass" "good out"
    using assms(6) unfolding agent_passes_def by blast
  obtain d' v where d': "finish out ?d1 = (Inr (Recorded (nextLock env opts) s s' v), d')"
    and drives: "drives env' r (session_files d') sid opts (nextLock env opts) s'" and P: "P d'"
    using finish out(2,3) by blast
  let ?x = "\<lambda>b. OnceCompleted sid x (state_name s) (state_name s') k (counted v) b None"
  have op: "onceOperation errors role cfg inp r sid ex counted finish block None (?d1, n) = (Inr ?x, (d', n'))"
    using read assms(4,5) run out d'
    by (simp add: onceOperation_def once_files_def mapPassResult_def or_else_def fun_eq_iff)
  have idle: "idle r (once_files (d, n)) sid s" using assms(2) by (simp add: once_files_def)
  have body: "releaseFinally once_files put_once_files env r opts sid
      (onceOperation errors role cfg inp r sid ex counted finish block None
        (put_once_files (locked_files env opts r sid (once_files (d, n))) (d, n)))
    = releaseAfter once_files put_once_files env r opts sid ?x (d', n')"
    using op by (simp add: once_files_def put_once_files_def)
  have "drives env' r (once_files (d', n')) sid opts (nextLock env opts) s'" using drives by (simp add: once_files_def)
  note completes = once_run.command_completes(1) [where dirs = dirs and s = "(d, n)" and ?s1.0 = "(d', n')" and x = ?x
      and body = "\<lambda>rc s. releaseFinally once_files put_once_files env r opts sid
        (onceOperation errors role cfg inp r sid ex counted finish block rc s)",
      OF assms(1) idle assms(3) body this, of OnceRefused "\<lambda>result released. result released"]
  have "onceResult (sessionCommand dirs r sid once_files (underLockFinally once_files put_once_files env r opts sid
        (onceOperation errors role cfg inp r sid ex counted finish block)) (d, n))
      = (Inr (?x True), (d'\<lparr>session_files := (session_files d')(lockFile (sessionPaths r sid) := None)\<rparr>, n'))"
    unfolding onceResult_def underLockFinally_def
    using completes by (simp add: once_files_def put_once_files_def)
  with drives_idle [OF drives] P show ?thesis by blast
qed


lemma stepOnce_goes_on:
  assumes "getPawBuildLoopStopReason (f x) = None" "idle (root (world w)) (session_files d) sid s'"
    and "journal_whole (root (world w)) (session_journals d) sid"
  shows "goes_on w sid s' (stepOnce f st (Inr x, (d, n)))"
  using assms by (auto simp: goes_on_def stepOnce_def build_idle_def build_files_def)

text \<open>What a worker's output must be for the current slice: matching, and with patches that apply.\<close>

definition worker_good :: "('p, 'm) build_world \<Rightarrow> 'p runtime_config \<Rightarrow> string \<Rightarrow> string \<Rightarrow> PawSubAgentOutput \<Rightarrow> bool" where
  "worker_good w cfg sid x out \<longleftrightarrow> validateWorkerOutput out sid x = []
     \<and> spares_paw (root (world w)) (Some (once_edit (step_config cfg))) out
     \<and> (\<forall>ws. \<exists>changes ws'. appliedPatches (patching (world w)) (root (world w)) (Some (once_edit (step_config cfg))) out ws
           = (PatchApplied changes, ws'))"

definition build_once :: "PawBuildOptions \<Rightarrow> ('p, 'm) PawBuildCommandInput \<Rightarrow> once_input" where
  "build_once inp cmd = \<lparr>once_handoff = option_handoff inp, once_preflight = command_preflight cmd,
     once_timestamp = option_timestamp inp\<rparr>"

lemma appendEntries_whole:
  "journal_whole r js sid \<Longrightarrow> appendEntries r js es = (x, js') \<Longrightarrow> journal_whole r js' sid"
proof (induction es arbitrary: js)
  case (Cons e es)
  show ?case
  proof (cases "appendPawSliceJournalEntry r js (json_of_entry e)")
    case (Inr js1)
    then obtain p v where "js1 = appendLine js p v"
      by (auto simp: appendPawSliceJournalEntry_def split: sum.splits)
    with Cons.IH [OF whole_after_append [OF Cons.prems(1)]] Cons.prems(2) Inr show ?thesis by simp
  qed (use Cons.prems in auto)
qed simp

lemma worker_pass_whole:
  assumes "completePawWorkerPass env penv views now r config d sid out opts ts = (Inr (Recorded l s s' v), d')"
    and "appliedPatches penv r config out (repo_files d) = (PatchApplied changes, w')"
    and "journal_whole r (session_journals (patchDisk views w' d)) sid"
  shows "journal_whole r (session_journals d') sid"
proof -
  have "\<exists>es x. appendEntries r (session_journals (patchDisk views w' d)) es = (x, session_journals d')"
    using assms(1) unfolding completePawWorkerPass_def Let_def assms(2)
    by (fastforce split: sum.splits if_splits PawValidationResult.splits prod.splits option.splits dest: enterStage_refused)
  with appendEntries_whole assms(3) show ?thesis by blast
qed

lemma worker_step:
  assumes "ready w cmd cfg ex" "build_idle w sid st s" "keeps_lock env env' (command_lockOptions cmd)"
    and "state_name s = Member (Active IMPLEMENTING)" "current_slice_id s = Some x"
    and "agent_passes (world_errors w) worker_role (step_config cfg) (build_once inp cmd) sid x ex (worker_good w cfg sid x)"
    and "or_else (option_timestamp inp) (now_text (world w)) \<noteq> ''''"
  shows "goes_on w sid (s\<lparr>state_name := Member (Active REVIEWING)\<rparr>)
    (createPawBuildStepResult w (env, env') i sid inp cmd st)"
proof -
  let ?r = "root (world w)" and ?opts = "command_lockOptions cmd"
  let ?once = "build_once inp cmd" and ?edit = "Some (once_edit (step_config cfg))"
  let ?d = "built_disk st"
  let ?s' = "s\<lparr>state_name := Member (Active REVIEWING)\<rparr>"
  have idle: "idle ?r (session_files ?d) sid s" and whole: "journal_whole ?r (session_journals ?d) sid"
    using assms(2) by (simp_all add: build_idle_def build_files_def)
  note drives = idle_drives(2) [OF idle assms(3)]
  have dirs: "world_dirs w (pawDir (resolvePawProjectPaths ?r))" using assms(1) by (simp add: ready_def)
  have finish: "\<forall>out. status out = pass \<and> worker_good w cfg sid x out \<longrightarrow> (\<exists>d' v. completePawWorkerPass env' (patching (world w)) (disk_views (world w)) (now_text (world w)) ?r ?edit
        (?d\<lparr>session_files := locked_files env ?opts ?r sid (session_files ?d)\<rparr>) sid out ?opts (once_timestamp ?once)
      = (Inr (Recorded (nextLock env ?opts) s ?s' v), d')
      \<and> drives env' ?r (session_files d') sid ?opts (nextLock env ?opts) ?s' \<and> journal_whole ?r (session_journals d') sid)"
  proof (intro allI impI)
    fix out assume out: "status out = pass \<and> worker_good w cfg sid x out"
    let ?d1 = "?d\<lparr>session_files := locked_files env ?opts ?r sid (session_files ?d)\<rparr>"
    from out have good: "validateWorkerOutput out sid x = []" "spares_paw ?r ?edit out"
      and "\<exists>changes ws'. appliedPatches (patching (world w)) ?r ?edit out (repo_files ?d1) = (PatchApplied changes, ws')"
      unfolding worker_good_def by blast+
    then obtain changes ws' where patched: "appliedPatches (patching (world w)) ?r ?edit out (repo_files ?d1) = (PatchApplied changes, ws')"
      by blast
    have whole1: "journal_whole ?r (session_journals ?d1) sid" using whole by simp
    have drives1: "drives env' ?r (session_files ?d1) sid ?opts (nextLock env ?opts) s" using drives by simp
    have ts: "or_else (once_timestamp ?once) (now_text (world w)) \<noteq> ''''" using assms(7) by (simp add: build_once_def)
    note pass = worker_pass_succeeds [OF drives1 assms(4,5) good(1) conjunct1 [OF out] good(2) patched whole1 ts,
        where views = "disk_views (world w)"]
    then obtain d' v where d': "completePawWorkerPass env' (patching (world w)) (disk_views (world w)) (now_text (world w)) ?r ?edit ?d1 sid
          out ?opts (once_timestamp ?once) = (Inr (Recorded (nextLock env ?opts) s ?s' v), d')"
      "drives env' ?r (session_files d') sid ?opts (nextLock env ?opts) ?s'" by blast
    have "journal_whole ?r (session_journals d') sid"
      using worker_pass_whole [OF d'(1) patched] spared_journal(2) [OF good(2) patched, of sid "disk_views (world w)"] whole1
        idle by (simp add: idle_def)
    with d' show "\<exists>d' v. completePawWorkerPass env' (patching (world w)) (disk_views (world w)) (now_text (world w)) ?r ?edit ?d1
        sid out ?opts (once_timestamp ?once) = (Inr (Recorded (nextLock env ?opts) s ?s' v), d')
      \<and> drives env' ?r (session_files d') sid ?opts (nextLock env ?opts) ?s' \<and> journal_whole ?r (session_journals d') sid"
      by blast
  qed
  have state: "state_name s = Member (Active (role_state worker_role))" using assms(4) by (simp add: worker_role_def)
  note completes = once_completes [where role = worker_role and counted = "\<lambda>(journal, changes). length journal" and s' = ?s'
        and P = "\<lambda>d. journal_whole ?r (session_journals d) sid" and n = "asked st"
        and finish = "\<lambda>out d. completePawWorkerPass env' (patching (world w)) (disk_views (world w)) (now_text (world w)) ?r ?edit d sid
             out ?opts (once_timestamp ?once)"
        and block = "\<lambda>out fs. blockPawWorkerResult env' ?r fs sid out ?opts" and dirs = "world_dirs w",
      OF dirs idle assms(3) state assms(5,6) finish]
  have step: "createPawBuildStepResult w (env, env') i sid inp cmd st = stepOnce StepWorker st
      (runPawWorkerOnce (world_errors w) (world_dirs w) (world w) env env' (step_config cfg) ?once ?opts sid ex (?d, asked st))"
    by (simp add: ready_dispatches [OF assms(1,2)] dispatchPawBuildStepByState_def Let_def stateNameIn_def assms(4) build_once_def)
  show ?thesis
    unfolding step runPawWorkerOnce_def using completes by (elim exE conjE) (simp add: stepOnce_goes_on)
qed

lemma reviewer_step:
  assumes "ready w cmd cfg ex" "build_idle w sid st s" "keeps_lock env env' (command_lockOptions cmd)"
    and "state_name s = Member (Active REVIEWING)" "current_slice_id s = Some x"
    and "agent_passes (world_errors w) reviewer_role (step_config cfg) ((build_once inp cmd)\<lparr>once_timestamp := None\<rparr>) sid x ex
      (\<lambda>out. validateReviewerOutput out sid x = [])"
  shows "goes_on w sid (s\<lparr>state_name := Member (Active VERIFYING)\<rparr>)
    (createPawBuildStepResult w (env, env') i sid inp cmd st)"
proof -
  let ?r = "root (world w)" and ?opts = "command_lockOptions cmd"
  let ?once = "(build_once inp cmd)\<lparr>once_timestamp := None\<rparr>"
  let ?d = "built_disk st"
  let ?s' = "s\<lparr>state_name := Member (Active VERIFYING)\<rparr>"
  have idle: "idle ?r (session_files ?d) sid s" and whole: "journal_whole ?r (session_journals ?d) sid"
    using assms(2) by (simp_all add: build_idle_def build_files_def)
  note drives = idle_drives(2) [OF idle assms(3)]
  have dirs: "world_dirs w (pawDir (resolvePawProjectPaths ?r))" using assms(1) by (simp add: ready_def)
  have t: "transitionPawSessionState s (goto VERIFYING) = Ok ?s'"
    by (rule transition_goto_name(1) [OF idle_wf [OF assms(2)] assms(4)]) (simp_all add: assms(5))
  have finish: "\<forall>out. status out = pass \<and> validateReviewerOutput out sid x = [] \<longrightarrow>
      (\<exists>d' v. reviewerPassOnDisk env' ?r sid ?opts out (?d\<lparr>session_files := locked_files env ?opts ?r sid (session_files ?d)\<rparr>)
        = (Inr (Recorded (nextLock env ?opts) s ?s' v), d')
      \<and> drives env' ?r (session_files d') sid ?opts (nextLock env ?opts) ?s' \<and> journal_whole ?r (session_journals d') sid)"
    using drives_step(2) [OF drives t] whole
    by (simp add: reviewerPassOnDisk_def completePawReviewerPass_def drives_enters [OF drives assms(4,5)] drives_records [OF drives t])
  have state: "state_name s = Member (Active (role_state reviewer_role))" using assms(4) by (simp add: reviewer_role_def)
  note completes = once_completes [where role = reviewer_role and counted = "\<lambda>u. 0" and s' = ?s'
        and P = "\<lambda>d. journal_whole ?r (session_journals d) sid" and n = "asked st"
        and finish = "reviewerPassOnDisk env' ?r sid ?opts"
        and block = "\<lambda>out fs. blockPawReviewerResult env' ?r fs sid out ?opts" and dirs = "world_dirs w",
      OF dirs idle assms(3) state assms(5,6) finish]
  have step: "createPawBuildStepResult w (env, env') i sid inp cmd st = stepOnce StepReviewer st
      (runPawReviewerOnce (world_errors w) (world_dirs w) (world w) env env' (step_config cfg) ?once ?opts sid ex (?d, asked st))"
    by (simp add: ready_dispatches [OF assms(1,2)] dispatchPawBuildStepByState_def Let_def stateNameIn_def assms(4) build_once_def)
  show ?thesis
    unfolding step runPawReviewerOnce_def using completes by (elim exE conjE) (simp add: stepOnce_goes_on)
qed

text \<open>Verification: every gate of the plan gets a decision, and the executor of commands answers.\<close>

definition verifier_answers ::
  "('p, 'm) build_world \<Rightarrow> ('p, 'm) PawBuildCommandInput \<Rightarrow> 'p runtime_config \<Rightarrow> PawBuildOptions \<Rightarrow> bool" where
  "verifier_answers w cmd cfg inp \<longleftrightarrow>
     (\<exists>c. loadDefaultPawRuntimeConfig w = Inr c \<and> v1_gates (verify_config (step_settings c)) \<noteq> [])
     \<and> (\<forall>i ex. resolvePawBuildNativeVerificationExecutor w cfg inp cmd i = Some ex \<longrightarrow> (\<forall>n q. \<exists>r. ex n q = Inr r))"

lemma run_answers:
  assumes "\<And>n q. \<exists>r. ex n q = Inr r"
  shows "\<exists>rs. runPawNativeVerificationPlan ex opts n plan = Inr rs \<and> length rs = length plan"
proof (induction plan arbitrary: n)
  case (Cons e plan)
  show ?case
  proof (cases e)
    case (Planned gate command reason)
    obtain r where r: "ex n \<lparr>exec_gate = gate, exec_argv = command, exec_timeoutSec = timeoutSec opts\<rparr> = Inr r"
      using assms by blast
    from Cons [of "Suc n"] Planned r show ?thesis by auto
  qed (use Cons [of n] in auto)
qed simp

lemma verify_operation:
  assumes "drives env r (fst st) sid opts l s"
    and "state_name s = Member (Active VERIFYING)" "current_slice_id s = Some x"
    and "v1_gates (verify_config c) \<noteq> []"
    and "\<And>ex. executor = Some ex \<Longrightarrow> (\<forall>n q. \<exists>r. ex n q = Inr r)"
  shows "\<exists>plan results decisions unverified ev'.
    verifyOperation penv c env r opts sid executor st
      = (Inr (plan, results, decisions, Recorded l s (applyActiveTransition s SLICE_DONE None) unverified),
         (stored_state r sid (applyActiveTransition s SLICE_DONE None) (fst st), ev'))"
proof -
  let ?s' = "applyActiveTransition s SLICE_DONE None"
  have wf: "session_wf s" using drives_phase [OF assms(1)] by (simp add: phase_inv_def)
  have v: "validSessionId sid" using assms(1) by (simp add: drives_def holds_live_lock_def)
  define plan where "plan = createPawNativeVerificationPlan penv (v1_gates (verify_config c)) (Some r)"
  have plan: "plan \<noteq> []" using assms(4) by (simp add: plan_def createPawNativeVerificationPlan_def Let_def)
  have t: "transitionPawSessionState s (goto SLICE_DONE) = Ok ?s'"
    by (rule transition_goto [OF wf assms(2)]) (simp_all add: assms(3) guard_Nil)
  have recorded: "completePawVerification env r (fst st) sid ds opts
      = Inr (Recorded l s ?s' (filter isUnverified ds), stored_state r sid ?s' (fst st))" if "ds \<noteq> []" for ds
    using that by (simp add: completePawVerification_def drives_enters [OF assms(1-3)] drives_records [OF assms(1) t])
  show ?thesis
  proof (cases executor)
    case None
    with plan show ?thesis
      by (simp add: verifyOperation_def Let_def plan_def [symmetric] recorded writePawVerificationEvidence_def resolve_valid [OF v])
  next
    case (Some ex)
    obtain rs where rs: "runPawNativeVerificationPlan ex (verify_run_options c) 0 plan = Inr rs" "length rs = length plan"
      using run_answers assms(5) [OF Some] by blast
    then have "mapPawNativeVerificationRunResults rs (verify_config c) \<noteq> []"
      using plan by (auto simp: mapPawNativeVerificationRunResults_def)
    with Some rs(1) show ?thesis
      by (simp add: verifyOperation_def Let_def plan_def [symmetric] recorded writePawVerificationEvidence_def resolve_valid [OF v])
  qed
qed

lemma verify_step:
  assumes "ready w cmd cfg ex" "build_idle w sid st s" "keeps_lock env env' (command_lockOptions cmd)"
    and "state_name s = Member (Active VERIFYING)" "current_slice_id s = Some x"
    and "verifier_answers w cmd cfg inp"
  shows "goes_on w sid (applyActiveTransition s SLICE_DONE None) (createPawBuildStepResult w (env, env') i sid inp cmd st)"
proof -
  let ?s' = "applyActiveTransition s SLICE_DONE None"
  let ?r = "root (world w)" and ?opts = "command_lockOptions cmd"
  let ?st = "(build_files st, built_evidence st)"
  let ?l = "nextLock env ?opts" and ?fs1 = "locked_files env ?opts ?r sid (build_files st)"
  let ?ex = "resolvePawBuildNativeVerificationExecutor w cfg inp cmd i"
  obtain c where c: "loadDefaultPawRuntimeConfig w = Inr c" "v1_gates (verify_config (step_settings c)) \<noteq> []"
    and answers: "\<And>ex. ?ex = Some ex \<Longrightarrow> \<forall>n q. \<exists>r. ex n q = Inr r"
    using assms(6) unfolding verifier_answers_def by blast
  have idle: "idle ?r (build_files st) sid s" using assms(2) by (simp add: build_idle_def)
  have dirs: "world_dirs w (pawDir (resolvePawProjectPaths ?r))" using assms(1) by (simp add: ready_def)
  note drives = idle_drives(1) [OF idle assms(3)]
  then have "drives env ?r (fst (?fs1, built_evidence st)) sid ?opts ?l s" by simp
  note verify_operation [where penv = "world_plans w" and executor = ?ex, OF this assms(4,5) c(2) answers]
  then obtain plan results decisions unverified ev' where
    op: "verifyOperation (world_plans w) (step_settings c) env ?r ?opts sid ?ex (?fs1, built_evidence st)
      = (Inr (plan, results, decisions, Recorded ?l s ?s' unverified), (stored_state ?r sid ?s' ?fs1, ev'))" by auto
  have t: "transitionPawSessionState s (goto SLICE_DONE) = Ok ?s'"
    by (rule transition_goto [OF idle_wf [OF assms(2)] assms(4)]) (simp_all add: assms(5) guard_Nil)
  note after = drives_step(2) [OF drives t]
  have run: "createPawVerifyCommandResult (world_dirs w) (world_plans w) (map_sum id step_settings (loadDefaultPawRuntimeConfig w))
      env ?r ?opts sid ?ex ?st
    = (Inr (VerifyCompleted sid (state_name s) (state_name ?s') x plan results decisions unverified True),
       ((stored_state ?r sid ?s' ?fs1)(lockFile (sessionPaths ?r sid) := None), ev'))"
    unfolding createPawVerifyCommandResult_def
    using store_files.command_completes(1) [where dirs = "world_dirs w" and s = ?st and f = VerifyRefused and g = "mapVerification sid"
        and ?s1.0 = "(stored_state ?r sid ?s' ?fs1, ev')" and x = "(plan, results, decisions, Recorded ?l s ?s' unverified)"
        and body = "\<lambda>_ st. case map_sum id step_settings (loadDefaultPawRuntimeConfig w) of Inl e \<Rightarrow> (Inl e, st)
              | Inr c \<Rightarrow> releaseFinally fst (\<lambda>fs st. (fs, snd st)) env ?r ?opts sid
                  (verifyOperation (world_plans w) c env ?r ?opts sid ?ex st)",
        OF dirs _ assms(3)] idle op c(1) after by (simp add: or_else_def assms(5))
  have "createPawBuildStepResult w (env, env') i sid inp cmd st
      = stepVerified st (createPawVerifyCommandResult (world_dirs w) (world_plans w)
          (map_sum id step_settings (loadDefaultPawRuntimeConfig w)) env ?r ?opts sid ?ex ?st)"
    by (simp add: ready_dispatches [OF assms(1,2)] dispatchPawBuildStepByState_def Let_def stateNameIn_def assms(4))
  then show ?thesis
    unfolding run using drives_idle [OF after] assms(2)
    by (simp add: goes_on_def stepVerified_def build_idle_def build_files_def put_build_files_def)
qed


section \<open>The loop\<close>

text \<open>A build that stays ready: at every step the process keeps the lock it takes.\<close>

definition build_ready ::
  "('p, 'm) build_world \<Rightarrow> (nat \<Rightarrow> process_env \<times> process_env) \<Rightarrow> PawBuildOptions \<Rightarrow> ('p, 'm) PawBuildCommandInput \<Rightarrow>
     'p runtime_config \<Rightarrow> PawSubAgentRuntimeExecutor \<Rightarrow> bool" where
  "build_ready w clock inp cmd cfg ex \<longleftrightarrow> ready w cmd cfg ex
     \<and> (\<forall>i. keeps_lock (fst (clock i)) (snd (clock i)) (command_lockOptions cmd))
     \<and> or_else (option_timestamp inp) (now_text (world w)) \<noteq> ''''
     \<and> verifier_answers w cmd cfg inp"

text \<open>The sub-agent passes a slice, as worker and as reviewer.\<close>

definition slice_passes ::
  "('p, 'm) build_world \<Rightarrow> string \<Rightarrow> PawBuildOptions \<Rightarrow> ('p, 'm) PawBuildCommandInput \<Rightarrow> 'p runtime_config \<Rightarrow>
     PawSubAgentRuntimeExecutor \<Rightarrow> string \<Rightarrow> bool" where
  "slice_passes w sid inp cmd cfg ex x \<longleftrightarrow>
     agent_passes (world_errors w) worker_role (step_config cfg) (build_once inp cmd) sid x ex (worker_good w cfg sid x)
     \<and> agent_passes (world_errors w) reviewer_role (step_config cfg) ((build_once inp cmd)\<lparr>once_timestamp := None\<rparr>) sid x ex
         (\<lambda>out. validateReviewerOutput out sid x = [])"

text \<open>From any idle session in state \<open>s\<close>, \<open>j\<close> steps of a loop lead to an idle session in state \<open>s'\<close>.\<close>

definition leads ::
  "('p, 'm) build_world \<Rightarrow> (nat \<Rightarrow> process_env \<times> process_env) \<Rightarrow> string \<Rightarrow> PawBuildOptions \<Rightarrow> ('p, 'm) PawBuildCommandInput \<Rightarrow>
     nat \<Rightarrow> nat \<Rightarrow> PawSessionState \<Rightarrow> PawSessionState \<Rightarrow> bool" where
  "leads w clock sid inp cmd limit j s s' \<longleftrightarrow> (\<forall>results name st. build_idle w sid st s \<longrightarrow>
     (\<exists>results' name' st'. length results' = length results + j \<and> build_idle w sid st' s'
        \<and> (\<forall>k. buildLoop w clock sid inp cmd limit (j + k) results name st
             = buildLoop w clock sid inp cmd limit k results' name' st')))"

lemma leads_refl: "leads w clock sid inp cmd limit 0 s s"
  unfolding leads_def by (metis add_0 add_0_right)

lemma leads_trans:
  assumes "leads w clock sid inp cmd limit j s s'" "session_wf s' \<Longrightarrow> leads w clock sid inp cmd limit j' s' s''"
  shows "leads w clock sid inp cmd limit (j + j') s s''"
  unfolding leads_def
proof (intro allI impI)
  fix results name st assume "build_idle w sid st s"
  with assms(1) obtain results1 name1 st1 where 1: "length results1 = length results + j" "build_idle w sid st1 s'"
    "\<And>k. buildLoop w clock sid inp cmd limit (j + k) results name st = buildLoop w clock sid inp cmd limit k results1 name1 st1"
    unfolding leads_def by blast
  from assms(2) [OF idle_wf [OF 1(2)]] 1(2) obtain results2 name2 st2 where 2: "length results2 = length results1 + j'" "build_idle w sid st2 s''"
    "\<And>k. buildLoop w clock sid inp cmd limit (j' + k) results1 name1 st1 = buildLoop w clock sid inp cmd limit k results2 name2 st2"
    unfolding leads_def by blast
  have "buildLoop w clock sid inp cmd limit (j + j' + k) results name st = buildLoop w clock sid inp cmd limit k results2 name2 st2" for k
    using 1(3) [of "j' + k"] 2(3) [of k] by (simp add: add.assoc)
  with 1(1) 2(1,2) show "\<exists>results' name' st'. length results' = length results + (j + j') \<and> build_idle w sid st' s''
      \<and> (\<forall>k. buildLoop w clock sid inp cmd limit (j + j' + k) results name st
           = buildLoop w clock sid inp cmd limit k results' name' st')"
    by (intro exI [of _ results2] exI [of _ name2] exI [of _ st2]) simp
qed

lemma leads_step:
  assumes "\<And>i st. build_idle w sid st s \<Longrightarrow> goes_on w sid s' (createPawBuildStepResult w (clock i) i sid inp cmd st)"
  shows "leads w clock sid inp cmd limit 1 s s'"
  unfolding leads_def
proof (intro allI impI)
  fix results :: "PawBuildStepResult list" and name st assume "build_idle w sid st s"
  from assms [OF this, of "length results"] obtain x st' where
    x: "createPawBuildStepResult w (clock (length results)) (length results) sid inp cmd st = (Inr x, st')"
      "getPawBuildLoopStopReason x = None" and st': "build_idle w sid st' s'"
    unfolding goes_on_def by blast
  have "readPawSessionStateNameIfExists (root (world w)) (build_files st') sid = Inr (Some (state_name s'))"
    using st' by (simp add: readPawSessionStateNameIfExists_def readPawSessionStateIfExists_def build_idle_def idle_def)
  with x have "buildLoop w clock sid inp cmd limit (1 + k) results name st
      = buildLoop w clock sid inp cmd limit k (results @ [x]) (Some (state_name s')) st'" for k by simp
  with st' show "\<exists>results' name' st'. length results' = length results + 1 \<and> build_idle w sid st' s'
      \<and> (\<forall>k. buildLoop w clock sid inp cmd limit (1 + k) results name st
           = buildLoop w clock sid inp cmd limit k results' name' st')"
    by (intro exI [of _ "results @ [x]"]) auto
qed

definition slice_done :: "PawSessionState \<Rightarrow> string \<Rightarrow> string list \<Rightarrow> PawSessionState" where
  "slice_done s x xs = s\<lparr>state_name := Member (Active SLICE_DONE), current_slice_id := None, pending_slice_ids := xs,
     completed_slice_ids := completed_slice_ids s @ [x]\<rparr>"

text \<open>Five steps complete a slice.\<close>

lemma slice_leads:
  assumes "build_ready w clock inp cmd cfg ex" "slice_passes w sid inp cmd cfg ex x"
    and "session_wf s" "state_name s = Member (Active a)" "a \<in> {PLAN_APPROVED, SLICE_DONE}" "pending_slice_ids s = x # xs"
  shows "leads w clock sid inp cmd limit 5 s (slice_done s x xs)"
proof -
  let ?sel = "s\<lparr>state_name := Member (Active SLICE_SELECT), current_slice_id := Some x, pending_slice_ids := xs\<rparr>"
  let ?imp = "?sel\<lparr>state_name := Member (Active IMPLEMENTING)\<rparr>"
  let ?rev = "?imp\<lparr>state_name := Member (Active REVIEWING)\<rparr>"
  let ?ver = "?rev\<lparr>state_name := Member (Active VERIFYING)\<rparr>"
  have ready: "ready w cmd cfg ex" and ts: "or_else (option_timestamp inp) (now_text (world w)) \<noteq> ''''"
    and ver: "verifier_answers w cmd cfg inp"
    and keeps: "keeps_lock (fst (clock i)) (snd (clock i)) (command_lockOptions cmd)" for i
    using assms(1) by (simp_all add: build_ready_def)
  have worker: "agent_passes (world_errors w) worker_role (step_config cfg) (build_once inp cmd) sid x ex (worker_good w cfg sid x)"
    and reviewer: "agent_passes (world_errors w) reviewer_role (step_config cfg) ((build_once inp cmd)\<lparr>once_timestamp := None\<rparr>)
      sid x ex (\<lambda>out. validateReviewerOutput out sid x = [])"
    using assms(2) by (simp_all add: slice_passes_def)
  have 1: "leads w clock sid inp cmd limit 1 s ?sel"
    by (rule leads_step) (use select_step [OF ready _ keeps assms(4-6)] in simp)
  have 2: "leads w clock sid inp cmd limit 1 ?sel ?imp"
    by (rule leads_step) (use begin_step [OF ready _ keeps, where s = ?sel and x = x] in simp)
  have 3: "leads w clock sid inp cmd limit 1 ?imp ?rev"
    by (rule leads_step) (use worker_step [OF ready _ keeps _ _ worker ts, where s = ?imp] in simp)
  have 4: "leads w clock sid inp cmd limit 1 ?rev ?ver"
    by (rule leads_step) (use reviewer_step [OF ready _ keeps _ _ reviewer, where s = ?rev] in simp)
  have 5: "leads w clock sid inp cmd limit 1 ?ver (applyActiveTransition ?ver SLICE_DONE None)"
    by (rule leads_step) (use verify_step [OF ready _ keeps _ _ ver, where s = ?ver and x = x] in simp)
  have "x \<notin> set (completed_slice_ids s)" using assms(3,6) by (auto simp: session_wf_def plan_order_def)
  then have "applyActiveTransition ?ver SLICE_DONE None = slice_done s x xs"
    using session_wf_active_reason [OF assms(3,4)] by (cases s) (simp add: applyActiveTransition_def slice_done_def)
  with leads_trans [OF 1 leads_trans [OF 2 leads_trans [OF 3 leads_trans [OF 4 5]]]] show ?thesis by (simp add: eval_nat_numeral)
qed


text \<open>Five steps per slice complete the plan.\<close>

lemma plan_leads:
  assumes "build_ready w clock inp cmd cfg ex" "\<forall>x \<in> set (x # xs). slice_passes w sid inp cmd cfg ex x"
    and "session_wf s" "state_name s = Member (Active a)" "a \<in> {PLAN_APPROVED, SLICE_DONE}" "pending_slice_ids s = x # xs"
  shows "leads w clock sid inp cmd limit (5 * length (x # xs)) s
    (s\<lparr>state_name := Member (Active SLICE_DONE), current_slice_id := None, pending_slice_ids := [],
      completed_slice_ids := completed_slice_ids s @ x # xs\<rparr>)"
  using assms(2-)
proof (induction xs arbitrary: s a x)
  case Nil
  from slice_leads [OF assms(1) _ Nil(2-5), of sid limit] Nil(1) show ?case by (simp add: slice_done_def)
next
  case (Cons y ys)
  have first: "leads w clock sid inp cmd limit 5 s (slice_done s x (y # ys))"
    using slice_leads [OF assms(1) _ Cons.prems(2-5)] Cons.prems(1) by simp
  have rest: "leads w clock sid inp cmd limit (5 * length (y # ys)) (slice_done s x (y # ys))
      ((slice_done s x (y # ys))\<lparr>state_name := Member (Active SLICE_DONE), current_slice_id := None, pending_slice_ids := [],
        completed_slice_ids := completed_slice_ids (slice_done s x (y # ys)) @ y # ys\<rparr>)"
    if "session_wf (slice_done s x (y # ys))"
    by (rule Cons.IH [OF _ that, of y SLICE_DONE]) (use Cons.prems(1) in \<open>simp_all add: slice_done_def\<close>)
  from leads_trans [OF first rest] show ?case by (simp add: slice_done_def algebra_simps)
qed

section \<open>The report of a loop\<close>

text \<open>With nothing pending the step of a loop changes nothing, and the report is emitted.\<close>

lemma no_pending_step:
  assumes "ready w cmd cfg ex" "build_idle w sid st s" "keeps_lock env env' (command_lockOptions cmd)"
    and "state_name s = Member (Active SLICE_DONE)" "pending_slice_ids s = []"
  shows "createPawBuildStepResult w (env, env') i sid inp cmd st
    = (Inr (StepSelect (SelectSliceNoPending sid (state_name s) True)), st)"
proof -
  let ?r = "root (world w)" and ?opts = "command_lockOptions cmd"
  let ?fs = "build_files st"
  let ?fs1 = "locked_files env ?opts ?r sid ?fs"
  have idle: "idle ?r ?fs sid s" using assms(2) by (simp add: build_idle_def)
  note drives = idle_drives(1) [OF idle assms(3)]
  have dirs: "world_dirs w (pawDir (resolvePawProjectPaths ?r))" using assms(1) by (simp add: ready_def)
  have t: "transitionPawSessionState s (goto SLICE_SELECT)
      = Invalid [Issue ''/pending_slice_ids'' ''SLICE_SELECT requires at least one pending slice.'']"
    using transition_select [OF idle_wf [OF assms(2)] assms(4)] by (simp add: assms(5))
  have run: "selectNextPawPlanSlice env ?r ?fs1 sid ?opts = (Inr (NoPendingSlices s), ?fs1)"
    using advance_consistent [of ?r ?fs1 env sid ?opts "nextLock env ?opts" s "goto SLICE_SELECT"] drives
    by (simp add: drives_def selectNextPawPlanSlice_def t createPawSliceSelectionResult_def isNoPendingSliceSelection_def
        assms(4,5))
  have "?fs(lockFile (sessionPaths ?r sid) := None) = ?fs" using idle by (auto simp: idle_def)
  moreover have "createPawSelectSliceCommandResult (world_dirs w) env ?r ?opts sid ?fs =
      (Inr (SelectSliceNoPending sid (state_name s) True), ?fs1(lockFile (sessionPaths ?r sid) := None))"
    unfolding createPawSelectSliceCommandResult_def
    using files_command_completes [where f = SelectSliceRefused and g = "mapPawSelectSliceResult sid" and dirs = "world_dirs w"
        and operation = "\<lambda>_ fs. selectNextPawPlanSlice env ?r fs sid ?opts" and ?fs1.0 = ?fs1, OF dirs idle assms(3) run drives]
    by simp
  moreover have "stateNameIn (Some s) [PLAN_APPROVED, SLICE_DONE]" using assms(4) by (simp add: stateNameIn_def)
  moreover have "put_build_files ?fs st = st" by (simp add: build_files_def put_build_files_def)
  ultimately show ?thesis
    by (simp add: ready_dispatches [OF assms(1,2)] dispatchPawBuildStepByState_def Let_def stepOnFiles_def)
qed

lemma loop_report:
  assumes idle: "build_idle w sid st s" and keeps: "keeps_lock env env' opts"
    and name: "state_name s = Member (Active SLICE_DONE)" "pending_slice_ids s = []"
    and load: "loadDefaultPawRuntimeConfig w = Inr c"
    and persisted: "readPawVerificationEvidence (root (world w)) (built_evidence st) sid = Inr persisted"
    and report: "createPawFinalReport sid (loopReportInput results limit (verify_config (step_settings c)) persisted) = Inr report"
  shows "\<exists>st'. emitPawBuildLoopFinalReport w env sid limit results opts st
      = (Inr (LoopReportCompleted (final_status report) (summaryFile (sessionPaths (root (world w)) sid))
          (reportJsonFile (sessionPaths (root (world w)) sid)) True), st')
    \<and> idle (root (world w)) (build_files st') sid (applyActiveTransition s FINAL_REPORT None)
    \<and> build_files st' (reportJsonFile (sessionPaths (root (world w)) sid)) = Some (JsonText (json_of_report report))"
proof -
  let ?r = "root (world w)" and ?l = "nextLock env opts" and ?s' = "applyActiveTransition s FINAL_REPORT None"
  let ?p = "sessionPaths ?r sid"
  let ?fs1 = "locked_files env opts ?r sid (build_files st)"
  have i: "idle ?r (build_files st) sid s" using idle by (simp add: build_idle_def)
  then have v: "validSessionId sid" by (simp add: idle_def)
  note drives = idle_drives(1) [OF i keeps]
  note t = final_transition(1) [OF idle_wf [OF idle] name]
  define fs2 where "fs2 = stored_state ?r sid ?s' (report_written ?r sid report ?fs1)"
  define st2 where "st2 = put_build_files fs2 (put_build_files ?fs1 st)"
  let ?inp = "loopReportInput results limit (verify_config (step_settings c)) persisted"
  have "with_evidence ?r (built_evidence st) sid ?inp = ?inp" by (simp add: with_evidence_def loopReportInput_def)
  with emission_enters [OF drives name _ t, of "built_evidence st" ?inp report] report
  have emit: "emitPawFinalReport env ?r ?fs1 (built_evidence st) sid ?inp opts
      = (Inr (EmissionCompleted ?l s ?s' (emission ?r sid report)), fs2)" by (simp add: fs2_def)
  have op: "reportOperation w env sid limit results opts (put_build_files ?fs1 st)
      = (Inr (EmissionCompleted ?l s ?s' (emission ?r sid report)), st2)"
    using persisted load emit by (simp add: reportOperation_def put_build_files_def build_files_def st2_def)
  have after: "drives env ?r fs2 sid opts ?l ?s'"
    unfolding fs2_def by (rule drives_step(2) [OF report_written_drives [OF drives] t])
  have get: "build_files st2 = fs2" by (simp add: st2_def build_files_def put_build_files_def)
  have "lockHolder ?r sid (build_files st2) = Some ?l" "isCurrentOwner env ?l opts"
    using after by (simp_all add: get drives_def holds_live_lock_def)
  note rel = build_count.releaseAfter_holder [OF v this]
  let ?st' = "put_build_files (fs2(lockFile ?p := None)) st2"
  have "underLockFinally build_files put_build_files env ?r opts sid (\<lambda>_. reportOperation w env sid limit results opts) st
      = (Inr (Inr (EmissionCompleted ?l s ?s' (emission ?r sid report), True)), ?st')"
    using idle_acquires [OF i keeps] op by (simp add: underLockFinally_def acquireThen_def rel get)
  then have "emitPawBuildLoopFinalReport w env sid limit results opts st
      = (Inr (LoopReportCompleted (final_status report) (summaryFile ?p) (reportJsonFile ?p) True), ?st')"
    by (simp add: emitPawBuildLoopFinalReport_def commandResult_def emission_def)
  moreover have "build_files ?st' = fs2(lockFile ?p := None)" by (simp add: build_files_def put_build_files_def)
  moreover have "(fs2(lockFile ?p := None)) (reportJsonFile ?p) = Some (JsonText (json_of_report report))"
    by (simp add: fs2_def report_written_def sessionPaths_files report_paths session_file_eq v)
  ultimately show ?thesis using drives_idle [OF after] by auto
qed

text \<open>The last step of a loop with nothing pending, and its report.\<close>

lemma loop_finishes:
  assumes ready: "build_ready w clock inp cmd cfg ex" and idle: "build_idle w sid st s"
    and name: "state_name s = Member (Active SLICE_DONE)" "pending_slice_ids s = []"
    and load: "loadDefaultPawRuntimeConfig w = Inr c"
    and persisted: "readPawVerificationEvidence (root (world w)) (built_evidence st) sid = Inr persisted"
  shows "\<exists>r st' report. buildLoop w clock sid inp cmd limit (Suc k) results name0 st = (Inr r, st')
    \<and> createPawFinalReport sid (loopReportInput (results @ [StepSelect (SelectSliceNoPending sid (state_name s) True)]) limit
        (verify_config (step_settings c)) persisted) = Inr report
    \<and> loop_status r = loop_completed \<and> stepsRun r = length results + 1
    \<and> finalStateName r = Some (Member (Active FINAL_REPORT))
    \<and> finalReport r = Some (LoopReportCompleted (final_status report) (summaryFile (sessionPaths (root (world w)) sid))
        (reportJsonFile (sessionPaths (root (world w)) sid)) True)
    \<and> idle (root (world w)) (build_files st') sid (applyActiveTransition s FINAL_REPORT None)
    \<and> build_files st' (reportJsonFile (sessionPaths (root (world w)) sid)) = Some (JsonText (json_of_report report))"
proof -
  let ?opts = "command_lockOptions cmd" and ?x = "StepSelect (SelectSliceNoPending sid (state_name s) True)"
  have keeps: "keeps_lock (fst (clock i)) (snd (clock i)) ?opts" for i using ready by (simp add: build_ready_def)
  have v: "validSessionId sid" using idle by (simp add: build_idle_def idle_def)
  have step: "createPawBuildStepResult w (clock (length results)) (length results) sid inp cmd st = (Inr ?x, st)"
    using no_pending_step [OF _ idle keeps name, of cfg ex] ready by (simp add: build_ready_def)
  have stored: "readPawSessionStateNameIfExists (root (world w)) (build_files st) sid = Inr (Some (state_name s))"
    using idle by (simp add: readPawSessionStateNameIfExists_def readPawSessionStateIfExists_def build_idle_def idle_def)
  let ?in = "loopReportInput (results @ [?x]) limit (verify_config (step_settings c)) persisted"
  have "\<not> blank (report_summary ?in)" by (simp add: loopReportInput_def blank_iff_all_space js_space_def)
  then obtain report where report: "createPawFinalReport sid ?in = Inr report" using report_created [OF v] by blast
  from loop_report [OF idle keeps name load persisted report] obtain st' where
    emit: "emitPawBuildLoopFinalReport w (fst (clock (length results + 1))) sid limit (results @ [?x]) ?opts st
      = (Inr (LoopReportCompleted (final_status report) (summaryFile (sessionPaths (root (world w)) sid))
          (reportJsonFile (sessionPaths (root (world w)) sid)) True), st')"
    and after: "idle (root (world w)) (build_files st') sid (applyActiveTransition s FINAL_REPORT None)"
      "build_files st' (reportJsonFile (sessionPaths (root (world w)) sid)) = Some (JsonText (json_of_report report))" by blast
  have "readPawSessionStateNameIfExists (root (world w)) (build_files st') sid = Inr (Some (Member (Active FINAL_REPORT)))"
    using after(1) final_transition(2) [OF idle_wf [OF idle] name]
    by (simp add: readPawSessionStateNameIfExists_def readPawSessionStateIfExists_def idle_def)
  with emit after report show ?thesis
    by (simp add: step stored createPawBuildLoopEarlyExitResult_def)
qed

lemma final_slices:
  "completed_slice_ids (applyActiveTransition s FINAL_REPORT ids) = completed_slice_ids s"
  "pending_slice_ids (applyActiveTransition s FINAL_REPORT ids) = pending_slice_ids s"
  by (simp_all add: applyActiveTransition_def)

section \<open>Properties\<close>

text \<open>
  (C4) A build loop completes the plan. Take an idle session with an approved plan, or with slices
  left after a finished one, and a sub-agent that passes every pending slice: a loop of at least
  five steps per slice and one more completes all of them in order, emits the final report,
  leaves the session unlocked in \<open>FINAL_REPORT\<close> and stops there, whatever else the steps allow.
\<close>

theorem build_loop_completes:
  assumes "build_ready w clock inp cmd cfg ex" "build_idle w sid st s"
    and "state_name s = Member (Active a)" "a = SLICE_DONE \<or> a = PLAN_APPROVED \<and> pending_slice_ids s \<noteq> []"
    and "\<forall>x \<in> set (pending_slice_ids s). slice_passes w sid inp cmd cfg ex x"
    and "limit \<ge> 5 * length (pending_slice_ids s) + 1"
  shows "\<exists>r st' s'. createPawBuildLoopResult w clock sid inp cmd limit st = (Inr r, st')
    \<and> loop_status r = loop_completed \<and> stepsRun r = 5 * length (pending_slice_ids s) + 1
    \<and> finalStateName r = Some (Member (Active FINAL_REPORT))
    \<and> idle (root (world w)) (build_files st') sid s' \<and> state_name s' = Member (Active FINAL_REPORT)
    \<and> completed_slice_ids s' = completed_slice_ids s @ pending_slice_ids s \<and> pending_slice_ids s' = []"
proof -
  let ?n = "5 * length (pending_slice_ids s)"
  define k where "k = limit - ?n - 1"
  obtain c where load: "loadDefaultPawRuntimeConfig w = Inr c"
    using assms(1) by (auto simp: build_ready_def verifier_answers_def)
  obtain s1 where s1: "leads w clock sid inp cmd limit ?n s s1" "state_name s1 = Member (Active SLICE_DONE)"
    "pending_slice_ids s1 = []" "completed_slice_ids s1 = completed_slice_ids s @ pending_slice_ids s"
  proof (cases "pending_slice_ids s")
    case Nil
    with assms(3,4) leads_refl [of w clock sid inp cmd limit s] show ?thesis by (intro that [of s]) auto
  next
    case (Cons x xs)
    note plan = plan_leads [OF assms(1) _ idle_wf [OF assms(2)] assms(3) _ Cons, of sid limit]
    show ?thesis by (rule that [OF plan [folded Cons]]) (use assms(4,5) Cons in auto)
  qed
  from s1(1) assms(2) obtain results name st1 where led: "length results = ?n" "build_idle w sid st1 s1"
    "buildLoop w clock sid inp cmd limit (?n + Suc k) [] None st = buildLoop w clock sid inp cmd limit (Suc k) results name st1"
    unfolding leads_def by (metis add_0 list.size(3))
  obtain persisted where persisted: "readPawVerificationEvidence (root (world w)) (built_evidence st1) sid = Inr persisted"
    using led(2) by (auto simp: readPawVerificationEvidence_def resolve_valid build_idle_def idle_def)
  have n: "?n + Suc k = limit" using assms(6) by (simp add: k_def)
  have same: "createPawBuildLoopResult w clock sid inp cmd limit st = buildLoop w clock sid inp cmd limit (Suc k) results name st1"
    unfolding createPawBuildLoopResult_def using led(3) unfolding n .
  from loop_finishes [OF assms(1) led(2) s1(2,3) load persisted, of limit k results name]
  obtain r st' where "buildLoop w clock sid inp cmd limit (Suc k) results name st1 = (Inr r, st')" "loop_status r = loop_completed"
    "stepsRun r = length results + 1" "finalStateName r = Some (Member (Active FINAL_REPORT))"
    "idle (root (world w)) (build_files st') sid (applyActiveTransition s1 FINAL_REPORT None)" by blast
  with same led(1) final_transition(2) [OF idle_wf [OF led(2)] s1(2,3)] show ?thesis
    by (intro exI [of _ r] exI [of _ st'] exI [of _ "applyActiveTransition s1 FINAL_REPORT None"]) (simp add: final_slices s1(3,4))
qed

text \<open>
  (C7) A later build forgets what was not verified. A loop on a session whose slices are all done
  runs one step and emits a report; its gates come only from the results of this very loop, or from
  stored evidence of executed commands. When verification ran without executing commands, so that
  the stored evidence is empty, the report says \<open>done\<close> with no gate listed, although every gate
  of every slice was recorded as unverified when it was verified.
\<close>

theorem build_report_forgets_unverified:
  assumes "build_ready w clock inp cmd cfg ex" "build_idle w sid st s"
    and "state_name s = Member (Active SLICE_DONE)" "pending_slice_ids s = []"
    and "readPawVerificationEvidence (root (world w)) (built_evidence st) sid = Inr []"
  shows "\<exists>r st' report. createPawBuildLoopResult w clock sid inp cmd (Suc k) st = (Inr r, st')
    \<and> loop_status r = loop_completed \<and> stepsRun r = 1
    \<and> finalReport r = Some (LoopReportCompleted report_done (summaryFile (sessionPaths (root (world w)) sid))
        (reportJsonFile (sessionPaths (root (world w)) sid)) True)
    \<and> build_files st' (reportJsonFile (sessionPaths (root (world w)) sid)) = Some (JsonText (json_of_report report))
    \<and> final_status report = report_done \<and> verified_gates report = [] \<and> unverified_gates report = []"
proof -
  obtain c where load: "loadDefaultPawRuntimeConfig w = Inr c"
    using assms(1) by (auto simp: build_ready_def verifier_answers_def)
  let ?x = "StepSelect (SelectSliceNoPending sid (state_name s) True)"
  have "verifyDecisions (loopReportInput [?x] (Suc k) cf []) = []" for cf
    by (simp add: loopReportInput_def resolvePawBuildLoopVerifyDecisions_def collectPawBuildLoopVerifyDecisions_def Let_def)
  then have "final_status report = report_done \<and> verified_gates report = [] \<and> unverified_gates report = []"
    if "createPawFinalReport sid (loopReportInput [?x] (Suc k) cf []) = Inr report" for cf report
    using that by (auto simp: createPawFinalReport_def Let_def split: sum.splits)
  moreover obtain r st' report where
    "createPawFinalReport sid (loopReportInput [?x] (Suc k) (verify_config (step_settings c)) []) = Inr report"
    "buildLoop w clock sid inp cmd (Suc k) (Suc k) [] None st = (Inr r, st')"
    "loop_status r = loop_completed" "stepsRun r = 1"
    "finalReport r = Some (LoopReportCompleted (final_status report) (summaryFile (sessionPaths (root (world w)) sid))
        (reportJsonFile (sessionPaths (root (world w)) sid)) True)"
    "build_files st' (reportJsonFile (sessionPaths (root (world w)) sid)) = Some (JsonText (json_of_report report))"
    using loop_finishes [OF assms(1-4) load assms(5), of "Suc k" k "[]" None] by (simp del: buildLoop.simps) blast
  ultimately show ?thesis unfolding createPawBuildLoopResult_def by metis
qed

section \<open>Samples\<close>

text \<open>A sub-agent that passes: the reply echoes the invocation and changes nothing.\<close>

definition passing_reply :: "PawSubAgentRuntimeInvocation \<Rightarrow> json" where
  "passing_reply ivk = JObject
     [(''status'', JString ''pass''), (''confidence'', JString ''high''), (''agent'', JString (roleString (inv_role ivk))),
      (''session_id'', JString (inv_session_id ivk)), (''slice_id'', nullable (nullish (inv_slice_id ivk))),
      (''artifact_ref'', JString (inv_artifact_ref ivk)), (''changed_files'', JArray []), (''inspected_files'', JArray []),
      (''risks'', JArray []), (''next_actions'', JArray []), (''tokens_used'', JNumber (Num 0)), (''usd_cost'', JNumber (Num 0)),
      (''degraded'', JBool False)]"

definition passing_executor :: PawSubAgentRuntimeExecutor where
  "passing_executor = (\<lambda>n ivk. Inr \<lparr>raw_output = JsonText (passing_reply ivk), exec_model_id = None, exec_degraded = None\<rparr>)"

definition sample_pass :: "once_role \<Rightarrow> PawSubAgentRuntimeDecision throws \<times> nat" where
  "sample_pass role = runRuntimeWithRetry sample_errors role (step_config sample_build_config) sample_once_input ''s1'' ''a'' passing_executor 0"

definition passed_output :: "once_role \<Rightarrow> PawSubAgentOutput" where
  "passed_output role = fst (the (decisionOutput (runtime_decision (projr (fst (sample_pass role))))))"

lemma sample_passes:
  "\<not> isl (fst (sample_pass worker_role))" "\<not> isl (fst (sample_pass reviewer_role))"
  "decisionOutput (runtime_decision (projr (fst (sample_pass worker_role)))) \<noteq> None"
  "decisionOutput (runtime_decision (projr (fst (sample_pass reviewer_role)))) \<noteq> None"
  "status (passed_output worker_role) = pass" "status (passed_output reviewer_role) = pass"
  "changed_files (passed_output worker_role) = []"
  "validateWorkerOutput (passed_output worker_role) ''s1'' ''a'' = []"
  "validateReviewerOutput (passed_output reviewer_role) ''s1'' ''a'' = []"
  by code_simp+

text \<open>An executor that does not look at the number of the call decides the same from every count.\<close>

lemma steady_attempts:
  assumes "\<And>n. ex n = ex 0"
  shows "runtimeAttempts errors role cfg inp sid slice ex attempts n
    = (fst (runtimeAttempts errors role cfg inp sid slice ex attempts 0),
       n + snd (runtimeAttempts errors role cfg inp sid slice ex attempts 0))"
proof (induction attempts arbitrary: n)
  case (Cons a rest)
  have steady: "ex m = ex 0" for m by (rule assms)
  have run: "runPawSubAgentRuntime errors ivk ex n
      = (fst (runPawSubAgentRuntime errors ivk ex 0), n + snd (runPawSubAgentRuntime errors ivk ex 0))" for ivk n
    by (simp add: runPawSubAgentRuntime_def steady [of n] split: option.splits sum.splits)
  show ?case
  proof (cases "createInvocation role cfg inp sid slice a")
    case (Inr ivk)
    obtain x n1 where x: "runPawSubAgentRuntime errors ivk ex 0 = (x, n1)" by fastforce
    have x': "runPawSubAgentRuntime errors ivk ex n = (x, n + n1)" using run [of ivk n] x by simp
    note IH = Cons [of n1] Cons [of "n + n1"]
    show ?thesis
      using Inr x x' IH
      by (cases "evaluatePawSubAgentSandboxPreflight (once_sandbox cfg) ivk (once_preflight inp)"; cases x)
        (auto split: PawSubAgentResponseDecision.splits)
  qed simp
qed simp

lemma sample_agent:
  assumes "role = worker_role \<or> role = reviewer_role" "good (passed_output role)"
    and "inp = sample_once_input"
  shows "agent_passes sample_errors role (step_config sample_build_config) inp ''s1'' ''a'' passing_executor good"
  unfolding agent_passes_def
proof
  fix n
  have "runRuntimeWithRetry sample_errors role (step_config sample_build_config) inp ''s1'' ''a'' passing_executor n
      = (fst (sample_pass role), n + snd (sample_pass role))"
    unfolding sample_pass_def runRuntimeWithRetry_def assms(3)
    by (rule steady_attempts) (simp add: passing_executor_def)
  moreover have "fst (sample_pass role) = Inr (projr (fst (sample_pass role)))"
    using assms(1) sample_passes(1,2) by (cases "fst (sample_pass role)") auto
  moreover obtain out k where "decisionOutput (runtime_decision (projr (fst (sample_pass role)))) = Some (out, k)"
    using assms(1) sample_passes(3,4) by (cases "decisionOutput (runtime_decision (projr (fst (sample_pass role))))") auto
  moreover from this have "out = passed_output role" by (simp add: passed_output_def)
  moreover have "status (passed_output role) = pass" using assms(1) sample_passes(5,6) by auto
  ultimately show "\<exists>dec n' out k. runRuntimeWithRetry sample_errors role (step_config sample_build_config) inp ''s1'' ''a''
      passing_executor n = (Inr dec, n') \<and> decisionOutput (runtime_decision dec) = Some (out, k) \<and> status out = pass \<and> good out"
    using assms(2) by auto
qed

lemma sample_once: "build_once sample_build_options (sample_command ex) = sample_once_input"
  "sample_once_input\<lparr>once_timestamp := None\<rparr> = sample_once_input"
  by (simp_all add: build_once_def sample_build_options_def sample_command_def sample_once_input_def)

lemma sample_slice_passes:
  "slice_passes sample_build_world ''s1'' sample_build_options (sample_command (Some passing_executor)) sample_build_config
     passing_executor ''a''"
proof -
  have good: "worker_good sample_build_world sample_build_config ''s1'' ''a'' (passed_output worker_role)"
    by (simp add: worker_good_def sample_passes spares_paw_def appliedPatches_def applyPawWorkerOutputPatches_def Let_def)
  have w: "world_errors sample_build_world = sample_errors" by (simp add: sample_build_world_def)
  show ?thesis
    unfolding slice_passes_def sample_once w using sample_passes(9) good by (simp add: sample_agent)
qed

lemma sample_ready:
  "build_ready sample_build_world (\<lambda>i. (sample_env 7, sample_env 7)) sample_build_options (sample_command (Some passing_executor))
     sample_build_config passing_executor"
proof -
  have "ready sample_build_world (sample_command (Some passing_executor)) sample_build_config passing_executor"
    by (simp add: ready_def sample_command_def sample_build_world_def resolvePawBuildSubAgentExecutor_def)
  moreover have "getPawSessionLockStaleReason (sample_env 7) (nextLock (sample_env 7) no_options) no_options = None"
    "isCurrentOwner (sample_env 7) (nextLock (sample_env 7) no_options) no_options" by code_simp+
  then have "keeps_lock (sample_env 7) (sample_env 7) (command_lockOptions (sample_command (Some passing_executor)))"
    by (simp add: keeps_lock_def sample_lock_wf sample_command_def)
  moreover have "verifier_answers sample_build_world (sample_command (Some passing_executor)) sample_build_config sample_build_options"
    by (simp add: verifier_answers_def sample_build_world_def sample_build_config_def sample_verify_config_def sample_command_def
        sample_build_options_def resolvePawBuildNativeVerificationExecutor_def)
  moreover have "or_else (option_timestamp sample_build_options) (now_text (world sample_build_world)) \<noteq> ''''"
    by (simp add: sample_build_options_def sample_build_world_def sample_surroundings_def or_else_def)
  ultimately show ?thesis by (simp add: build_ready_def)
qed

lemma sample_idle:
  assumes "drives (sample_env 7) ''/repo'' (sample_store s) ''s1'' no_options (nextLock (sample_env 7) no_options) s"
  shows "build_idle sample_build_world ''s1'' (sample_build_state s) s"
proof -
  have "(sample_store s)(lockFile (sessionPaths ''/repo'' ''s1'') := None) = stored_only s"
    using session_files_distinct(3) [OF sample_id_valid sample_id_valid, of "''/repo''"]
    by (auto simp: sample_store_def stored_only_def)
  with drives_idle [OF assms] show ?thesis
    by (simp add: build_idle_def sample_build_state_def build_files_def sample_build_world_def sample_surroundings_def
        sample_disk_def journal_whole_def)
qed

definition one_slice :: PawSessionState where
  "one_slice = sample_session (Active PLAN_APPROVED) None [''a''] []"

lemma one_slice_drives:
  "drives (sample_env 7) ''/repo'' (sample_store one_slice) ''s1'' no_options (nextLock (sample_env 7) no_options) one_slice"
proof -
  have run: "run_steps transitionPawSessionState (createInitialPawSessionState ''s1'') (intake_to_plan [''a'']) = Ok one_slice"
    by code_simp
  have "session_wf one_slice" unfolding sessionStateIssues_Nil [symmetric] by code_simp
  then show ?thesis by (simp add: drives_def sample_store_inv [OF run] sample_store_locked sample_store_read)
qed

theorem build_loop_completes_witness:
  "\<exists>r st' s'. sample_build_loop (Some passing_executor) 20 one_slice = (Inr r, st')
    \<and> loop_status r = loop_completed \<and> stepsRun r = 6
    \<and> readPawSessionState ''/repo'' (build_files st') ''s1'' = Inr s' \<and> state_name s' = Member (Active FINAL_REPORT)
    \<and> completed_slice_ids s' = [''a'']"
proof -
  have one: "state_name one_slice = Member (Active PLAN_APPROVED)" "pending_slice_ids one_slice = [''a'']"
    "completed_slice_ids one_slice = []" by (simp_all add: one_slice_def sample_session_def)
  have root: "root (world sample_build_world) = ''/repo''" by (simp add: sample_build_world_def sample_surroundings_def)
  from build_loop_completes [OF sample_ready sample_idle [OF one_slice_drives] one(1), of 20] sample_slice_passes one(2,3)
  show ?thesis unfolding sample_build_loop_def root by (auto simp: idle_def)
qed

text \<open>The session was verified without executing anything, and the report of the next build is clean.\<close>

theorem build_report_forgets_unverified_witness:
  "\<exists>r st'. sample_build_loop (Some passing_executor) 1 done_session = (Inr r, st')
    \<and> finalReport r = Some (LoopReportCompleted report_done ''/repo/.paw/sessions/s1/summary.md''
        ''/repo/.paw/sessions/s1/report.json'' True)"
proof -
  have d: "state_name done_session = Member (Active SLICE_DONE)" "pending_slice_ids done_session = []"
    by (simp_all add: done_session_def sample_session_def)
  have root: "root (world sample_build_world) = ''/repo''" by (simp add: sample_build_world_def sample_surroundings_def)
  have "readPawVerificationEvidence (root (world sample_build_world)) (built_evidence (sample_build_state done_session)) ''s1'' = Inr []"
    by (simp add: readPawVerificationEvidence_def resolve_valid [OF sample_id_valid] sample_build_state_def or_else_def)
  note build_report_forgets_unverified [OF sample_ready sample_idle [OF done_drives] d this, of 0]
  moreover have "summaryFile (sessionPaths ''/repo'' ''s1'') = ''/repo/.paw/sessions/s1/summary.md''"
    "reportJsonFile (sessionPaths ''/repo'' ''s1'') = ''/repo/.paw/sessions/s1/report.json''" by code_simp+
  ultimately show ?thesis unfolding sample_build_loop_def root by auto
qed

end
