(* ===== verification/Paw_Lock_Race.thy ===== *)
theory Paw_Lock_Race
  imports Paw_Store
begin

text \<open>
  The session lock under interleaving: \<open>acquirePawSessionLock\<close> and
  \<open>releasePawSessionLock\<close> of \<open>session-store.ts\<close> as the sequence of file operations they
  perform, where the operations of several processes mix in any order.

  The lock file is absent, created but not yet written by a process, or holds the lock of a
  process. \<open>stale p q\<close> says that process \<open>p\<close> regards the lock of \<open>q\<close> as stale. The lemmas
  show mutual exclusion as long as no process regards the lock of a participant as stale,
  that every acquisition ends after a bounded number of its own file operations, and two
  behaviours of the reclaiming of stale locks that the interleaving allows.
\<close>

datatype lock_file = NoFile | EmptyFile nat | LockOf nat

text \<open>
  Where a process is: \<open>Start k\<close> before the exclusive open with \<open>k\<close> attempts left (for
  \<open>k = 0\<close> before the final status read), \<open>WriteLock\<close> after the open and before the write,
  \<open>Check k\<close> before the status read, \<open>Remove k\<close> and \<open>Recreate k\<close> while reclaiming a stale
  lock, then the outcome; \<open>Releasing\<close> after a release has checked the owner.
\<close>

datatype lock_pc =
    Start nat | WriteLock | Check nat | Remove nat | Recreate nat
  | Won | Lost | Raised | Releasing | Released

record race =
  lockf :: lock_file
  pcs :: "nat \<Rightarrow> lock_pc"

definition at_pc :: "race \<Rightarrow> nat \<Rightarrow> lock_file \<Rightarrow> lock_pc \<Rightarrow> race" where
  "at_pc s p f c = \<lparr>lockf = f, pcs = (pcs s)(p := c)\<rparr>"

inductive acquire_step :: "(nat \<Rightarrow> nat \<Rightarrow> bool) \<Rightarrow> nat \<Rightarrow> race \<Rightarrow> race \<Rightarrow> bool"
  for stale :: "nat \<Rightarrow> nat \<Rightarrow> bool" and p :: nat where
  create: "pcs s p = Start (Suc k) \<Longrightarrow> lockf s = NoFile \<Longrightarrow>
     acquire_step stale p s (at_pc s p (EmptyFile p) WriteLock)"
| exists: "pcs s p = Start (Suc k) \<Longrightarrow> lockf s \<noteq> NoFile \<Longrightarrow>
     acquire_step stale p s (at_pc s p (lockf s) (Check k))"
| write_lock: "pcs s p = WriteLock \<Longrightarrow>
     acquire_step stale p s (at_pc s p (if lockf s = EmptyFile p then LockOf p else lockf s) Won)"
| read_unlocked: "pcs s p = Check k \<Longrightarrow> lockf s = NoFile \<Longrightarrow>
     acquire_step stale p s (at_pc s p NoFile (Start k))"
| read_empty: "pcs s p = Check k \<Longrightarrow> lockf s = EmptyFile q \<Longrightarrow>
     acquire_step stale p s (at_pc s p (lockf s) Raised)"
| read_live: "pcs s p = Check k \<Longrightarrow> lockf s = LockOf q \<Longrightarrow> \<not> stale p q \<Longrightarrow>
     acquire_step stale p s (at_pc s p (lockf s) Lost)"
| read_stale: "pcs s p = Check k \<Longrightarrow> lockf s = LockOf q \<Longrightarrow> stale p q \<Longrightarrow>
     acquire_step stale p s (at_pc s p (lockf s) (Remove k))"
| remove: "pcs s p = Remove k \<Longrightarrow> acquire_step stale p s (at_pc s p NoFile (Recreate k))"
| recreate: "pcs s p = Recreate k \<Longrightarrow> lockf s = NoFile \<Longrightarrow>
     acquire_step stale p s (at_pc s p (EmptyFile p) WriteLock)"
| recreate_exists: "pcs s p = Recreate k \<Longrightarrow> lockf s \<noteq> NoFile \<Longrightarrow>
     acquire_step stale p s (at_pc s p (lockf s) (Start k))"
| final_live: "pcs s p = Start 0 \<Longrightarrow> lockf s = LockOf q \<Longrightarrow> \<not> stale p q \<Longrightarrow>
     acquire_step stale p s (at_pc s p (lockf s) Lost)"
| final_raise: "pcs s p = Start 0 \<Longrightarrow> (\<And>q. lockf s = LockOf q \<Longrightarrow> stale p q) \<Longrightarrow>
     acquire_step stale p s (at_pc s p (lockf s) Raised)"

text \<open>A holder releases: it reads the lock, finds itself the owner, then unlinks the file.\<close>

inductive release_step :: "nat \<Rightarrow> race \<Rightarrow> race \<Rightarrow> bool" for p :: nat where
  check_owner: "pcs s p = Won \<Longrightarrow> lockf s = LockOf p \<Longrightarrow>
     release_step p s (at_pc s p (lockf s) Releasing)"
| unlink: "pcs s p = Releasing \<Longrightarrow> release_step p s (at_pc s p NoFile Released)"
| again: "pcs s p \<in> {Lost, Raised, Released} \<Longrightarrow>
     release_step p s (at_pc s p (lockf s) (Start 5))"

inductive race_reach :: "(nat \<Rightarrow> nat \<Rightarrow> bool) \<Rightarrow> race \<Rightarrow> race \<Rightarrow> bool"
  for stale :: "nat \<Rightarrow> nat \<Rightarrow> bool" and s0 :: race where
  start: "race_reach stale s0 s0"
| acq: "race_reach stale s0 s \<Longrightarrow> acquire_step stale p s s' \<Longrightarrow> race_reach stale s0 s'"
| rel: "race_reach stale s0 s \<Longrightarrow> release_step p s s' \<Longrightarrow> race_reach stale s0 s'"

text \<open>Runs of acquisition steps only, with the process that made each step.\<close>

inductive acquire_run :: "(nat \<Rightarrow> nat \<Rightarrow> bool) \<Rightarrow> race \<Rightarrow> nat list \<Rightarrow> race \<Rightarrow> bool"
  for stale :: "nat \<Rightarrow> nat \<Rightarrow> bool" where
  nil: "acquire_run stale s [] s"
| cons: "acquire_step stale p s s' \<Longrightarrow> acquire_run stale s' ps s'' \<Longrightarrow>
     acquire_run stale s (p # ps) s''"

definition race_init :: "lock_file \<Rightarrow> race" where
  "race_init f = \<lparr>lockf = f, pcs = (\<lambda>_. Start 5)\<rparr>"

inductive_cases acquire_stepE: "acquire_step stale p s s'"
inductive_cases release_stepE: "release_step p s s'"

lemma at_pc_simps [simp]:
  "lockf (at_pc s p f c) = f" "pcs (at_pc s p f c) q = (if q = p then c else pcs s q)"
  by (simp_all add: at_pc_def)

section \<open>Mutual exclusion without staleness\<close>

fun quiet :: "lock_pc \<Rightarrow> bool" where
  "quiet (Start k) = True"
| "quiet (Check k) = True"
| "quiet Lost = True"
| "quiet Raised = True"
| "quiet Released = True"
| "quiet c = False"

text \<open>
  What the lock file says about a process: the creator of an empty file is about to write,
  the owner in the file holds or releases the lock, and everybody else has neither the lock
  nor a reclaim under way.
\<close>

fun fits :: "lock_file \<Rightarrow> nat \<Rightarrow> lock_pc \<Rightarrow> bool" where
  "fits NoFile p c = quiet c"
| "fits (EmptyFile q) p c = (if p = q then c = WriteLock else quiet c)"
| "fits (LockOf q) p c = (if p = q then c = Won \<or> c = Releasing else quiet c)"

definition race_inv :: "race \<Rightarrow> bool" where
  "race_inv s \<longleftrightarrow> (\<forall>p. fits (lockf s) p (pcs s p))"

lemma race_inv_init: "race_inv (race_init NoFile)"
  by (simp add: race_inv_def race_init_def)

lemma acquire_step_inv:
  assumes step: "acquire_step stale p s s'" and inv: "race_inv s" and ns: "\<forall>p q. \<not> stale p q"
  shows "race_inv s'"
  unfolding race_inv_def
proof
  fix r
  from inv have "fits (lockf s) p (pcs s p)" "fits (lockf s) r (pcs s r)"
    by (simp_all add: race_inv_def)
  with step ns show "fits (lockf s') r (pcs s' r)"
    by (cases rule: acquire_step.cases; cases "lockf s") (auto split: if_splits)
qed

lemma release_step_inv:
  assumes step: "release_step p s s'" and inv: "race_inv s"
  shows "race_inv s'"
  unfolding race_inv_def
proof
  fix r
  from inv have "fits (lockf s) p (pcs s p)" "fits (lockf s) r (pcs s r)"
    by (simp_all add: race_inv_def)
  with step show "fits (lockf s') r (pcs s' r)"
    by (cases rule: release_step.cases; cases "lockf s") (auto split: if_splits)
qed

lemma race_reach_inv:
  "race_reach stale s0 s \<Longrightarrow> race_inv s0 \<Longrightarrow> \<forall>p q. \<not> stale p q \<Longrightarrow> race_inv s"
  by (induction rule: race_reach.induct) (blast intro: acquire_step_inv release_step_inv)+

section \<open>Every acquisition ends\<close>

fun pc_rank :: "lock_pc \<Rightarrow> nat" where
  "pc_rank (Start k) = 4 * k + 1"
| "pc_rank (Check k) = 4 * k + 4"
| "pc_rank (Remove k) = 4 * k + 3"
| "pc_rank (Recreate k) = 4 * k + 2"
| "pc_rank WriteLock = 1"
| "pc_rank c = 0"

lemma acquire_step_rank:
  "acquire_step stale p s s' \<Longrightarrow>
     pc_rank (pcs s' p) < pc_rank (pcs s p) \<and> (\<forall>q. q \<noteq> p \<longrightarrow> pcs s' q = pcs s q)"
  by (induction rule: acquire_step.induct) auto

lemma acquire_run_rank:
  "acquire_run stale s ps s' \<Longrightarrow> count_list ps p + pc_rank (pcs s' p) \<le> pc_rank (pcs s p)"
proof (induction rule: acquire_run.induct)
  case (nil s)
  then show ?case by simp
next
  case (cons q s s' ps s'')
  show ?case
  proof (cases "q = p")
    case True
    with cons acquire_step_rank [OF cons(1)] show ?thesis by auto
  next
    case False
    with acquire_step_rank [OF cons(1)] have "pcs s' p = pcs s p" by auto
    with cons False show ?thesis by simp
  qed
qed

lemma acquire_step_possible:
  "pcs s p \<notin> {Won, Lost, Raised, Releasing, Released} \<Longrightarrow> \<exists>s'. acquire_step stale p s s'"
proof (cases "pcs s p")
  case (Start k)
  then show ?thesis
    by (cases k; cases "lockf s") (metis acquire_step.intros lock_file.distinct lock_file.inject)+
next
  case WriteLock
  then show ?thesis by (blast intro: acquire_step.write_lock)
next
  case (Check k)
  then show ?thesis
    by (cases "lockf s") (metis acquire_step.intros)+
next
  case (Remove k)
  then show ?thesis by (blast intro: acquire_step.remove)
next
  case (Recreate k)
  then show ?thesis by (metis acquire_step.recreate acquire_step.recreate_exists)
qed auto

section \<open>Properties\<close>

text \<open>
  (C26) Mutual exclusion: starting without a lock file, in every interleaving of acquisitions
  and releases in which no process takes a participant's lock for stale, at most one process
  holds the lock, and the lock file names it.
\<close>

theorem lock_mutual_exclusion:
  assumes "race_reach stale (race_init NoFile) s" and "\<forall>p q. \<not> stale p q"
    and "pcs s p = Won" and "pcs s q = Won"
  shows "p = q \<and> lockf s = LockOf p"
proof -
  from race_reach_inv [OF assms(1) race_inv_init assms(2)] have inv: "race_inv s" .
  then have "fits (lockf s) p (pcs s p)" "fits (lockf s) q (pcs s q)" by (simp_all add: race_inv_def)
  with assms(3,4) show ?thesis by (cases "lockf s") (auto split: if_splits)
qed

text \<open>A run in which one process acquires, and its state.\<close>

definition one_winner :: race where
  "one_winner = at_pc (at_pc (race_init NoFile) 1 (EmptyFile 1) WriteLock) 1 (LockOf 1) Won"

lemma one_winner_reach: "race_reach stale (race_init NoFile) one_winner"
proof -
  let ?s1 = "at_pc (race_init NoFile) 1 (EmptyFile 1) WriteLock"
  have "acquire_step stale 1 (race_init NoFile) ?s1"
    by (rule acquire_step.create [where k = 4]) (simp_all add: race_init_def)
  then have "race_reach stale (race_init NoFile) ?s1" by (blast intro: race_reach.intros)
  moreover have "acquire_step stale 1 ?s1 one_winner"
    using acquire_step.write_lock [of ?s1 1 stale] by (simp add: one_winner_def)
  ultimately show ?thesis by (blast intro: race_reach.intros)
qed

theorem lock_mutual_exclusion_witness: "lockf one_winner = LockOf 1"
  using lock_mutual_exclusion [OF one_winner_reach [of "\<lambda>_ _. False"], of 1 1]
  by (simp add: one_winner_def)

text \<open>
  Acquiring always comes to an end: whatever the other processes do to the lock file and
  whatever is stale, a process performs at most 21 file operations between calling
  \<open>acquirePawSessionLock\<close> and its result, and until then it can always make its next step.
\<close>

theorem acquire_bounded:
  assumes "acquire_run stale (race_init f) ps s"
  shows "count_list ps p \<le> 21
    \<and> (pcs s p \<in> {Won, Lost, Raised, Releasing, Released} \<or> (\<exists>s'. acquire_step stale p s s'))"
  using acquire_run_rank [OF assms, of p] acquire_step_possible [of s p stale]
  by (auto simp: race_init_def)

theorem acquire_bounded_witness:
  "count_list [1, 1] (1 :: nat) \<le> 21 \<and> pcs one_winner 1 = Won"
proof -
  let ?s1 = "at_pc (race_init NoFile) 1 (EmptyFile 1) WriteLock"
  have "acquire_step (\<lambda>_ _. False) 1 (race_init NoFile) ?s1"
    by (rule acquire_step.create [where k = 4]) (simp_all add: race_init_def)
  moreover have "acquire_step (\<lambda>_ _. False) 1 ?s1 one_winner"
    using acquire_step.write_lock [of ?s1 1 "\<lambda>_ _. False"] by (simp add: one_winner_def)
  ultimately have "acquire_run (\<lambda>_ _. False) (race_init NoFile) [1, 1] one_winner"
    by (blast intro: acquire_run.intros)
  from acquire_bounded [OF this, of 1] show ?thesis by (simp add: one_winner_def)
qed

text \<open>
  (C27) Reclaiming a stale lock is not exclusive: when the lock file holds the lock of a
  process that is dead, two processes that both find it stale can both end up as holders,
  because the second unlinks the file without looking whether it still holds the stale lock.
  Neither of the two ever regards the other's lock as stale.
\<close>

theorem stale_reclaim_two_winners:
  "\<exists>s. race_reach (\<lambda>p q. q = 0) (race_init (LockOf 0)) s \<and> pcs s 1 = Won \<and> pcs s 2 = Won"
proof -
  let ?st = "\<lambda>(p :: nat) (q :: nat). q = 0"
  let ?R = "race_reach ?st (race_init (LockOf 0))"
  define s1 where "s1 = at_pc (race_init (LockOf 0)) 1 (LockOf 0) (Check 4)"
  define s2 where "s2 = at_pc s1 2 (LockOf 0) (Check 4)"
  define s3 where "s3 = at_pc s2 1 (LockOf 0) (Remove 4)"
  define s4 where "s4 = at_pc s3 2 (LockOf 0) (Remove 4)"
  define s5 where "s5 = at_pc s4 1 NoFile (Recreate 4)"
  define s6 where "s6 = at_pc s5 1 (EmptyFile 1) WriteLock"
  define s7 where "s7 = at_pc s6 1 (LockOf 1) Won"
  define s8 where "s8 = at_pc s7 2 NoFile (Recreate 4)"
  define s9 where "s9 = at_pc s8 2 (EmptyFile 2) WriteLock"
  define s10 where "s10 = at_pc s9 2 (LockOf 2) Won"
  note ds = s1_def s2_def s3_def s4_def s5_def s6_def s7_def s8_def s9_def s10_def race_init_def
  have "acquire_step ?st 1 (race_init (LockOf 0)) s1"
    using acquire_step.exists [of "race_init (LockOf 0)" 1 4 ?st] by (simp add: ds)
  then have "?R s1" by (blast intro: race_reach.intros)
  moreover have "acquire_step ?st 2 s1 s2"
    using acquire_step.exists [of s1 2 4 ?st] by (simp add: ds)
  ultimately have "?R s2" by (blast intro: race_reach.intros)
  moreover have "acquire_step ?st 1 s2 s3"
    using acquire_step.read_stale [of s2 1 4 0 ?st] by (simp add: ds)
  ultimately have "?R s3" by (blast intro: race_reach.intros)
  moreover have "acquire_step ?st 2 s3 s4"
    using acquire_step.read_stale [of s3 2 4 0 ?st] by (simp add: ds)
  ultimately have "?R s4" by (blast intro: race_reach.intros)
  moreover have "acquire_step ?st 1 s4 s5"
    using acquire_step.remove [of s4 1 4 ?st] by (simp add: ds)
  ultimately have "?R s5" by (blast intro: race_reach.intros)
  moreover have "acquire_step ?st 1 s5 s6"
    using acquire_step.recreate [of s5 1 4 ?st] by (simp add: ds)
  ultimately have "?R s6" by (blast intro: race_reach.intros)
  moreover have "acquire_step ?st 1 s6 s7"
    using acquire_step.write_lock [of s6 1 ?st] by (simp add: ds)
  ultimately have "?R s7" by (blast intro: race_reach.intros)
  moreover have "acquire_step ?st 2 s7 s8"
    using acquire_step.remove [of s7 2 4 ?st] by (simp add: ds)
  ultimately have "?R s8" by (blast intro: race_reach.intros)
  moreover have "acquire_step ?st 2 s8 s9"
    using acquire_step.recreate [of s8 2 4 ?st] by (simp add: ds)
  ultimately have "?R s9" by (blast intro: race_reach.intros)
  moreover have "acquire_step ?st 2 s9 s10"
    using acquire_step.write_lock [of s9 2 ?st] by (simp add: ds)
  ultimately have "?R s10" by (blast intro: race_reach.intros)
  moreover have "pcs s10 1 = Won" "pcs s10 2 = Won" by (simp_all add: ds)
  ultimately show ?thesis by blast
qed

end
