(* ===== verification/Paw_Regex.thy ===== *)
theory Paw_Regex
  imports Paw_Prelude
begin

text \<open>
  The regular expressions the sources use, with the order in which JavaScript tries matches: a
  matcher that lists the ends of all matches from a position, the first being the one
  \<open>exec\<close> returns; its relational meaning; and \<open>test\<close>, \<open>match\<close> and the global \<open>match\<close> on top of it.
  A position is the text before it, reversed, and the text after it.
\<close>

type_synonym rx_pos = "string \<times> string"

datatype rx =
    RxEmpty
  | RxClass "char \<Rightarrow> bool"
  | RxSeq rx rx
  | RxAlt rx rx
  | RxStar rx
  | RxStart
  | RxEnd
  | RxWordBoundary

section \<open>Character classes\<close>

definition char_code :: "char \<Rightarrow> nat" where
  "char_code c = of_char c"

definition is_upper :: "char \<Rightarrow> bool" where
  "is_upper c \<longleftrightarrow> 65 \<le> char_code c \<and> char_code c \<le> 90"

definition is_lower :: "char \<Rightarrow> bool" where
  "is_lower c \<longleftrightarrow> 97 \<le> char_code c \<and> char_code c \<le> 122"

definition is_digit :: "char \<Rightarrow> bool" where
  "is_digit c \<longleftrightarrow> 48 \<le> char_code c \<and> char_code c \<le> 57"

definition alphanumeric :: "char \<Rightarrow> bool" where
  "alphanumeric c \<longleftrightarrow> is_upper c \<or> is_lower c \<or> is_digit c"

text \<open>The class \<open>\w\<close>, and \<open>.\<close>, which no line terminator below 256 but these two escapes.\<close>

definition is_word :: "char \<Rightarrow> bool" where
  "is_word c \<longleftrightarrow> alphanumeric c \<or> c = CHR ''_''"

definition no_newline :: "char \<Rightarrow> bool" where
  "no_newline c \<longleftrightarrow> char_code c \<notin> {10, 13}"

definition lower :: "char \<Rightarrow> char" where
  "lower c = (if is_upper c then char_of (char_code c + 32) else c)"

text \<open>A character under the flag \<open>i\<close>.\<close>

definition same_letter :: "char \<Rightarrow> char \<Rightarrow> bool" where
  "same_letter a c \<longleftrightarrow> lower a = lower c"

section \<open>The matcher\<close>

text \<open>
  An iteration of a star that consumes nothing is rejected, so the number of iterations is
  bounded by the rest of the text.
\<close>

fun star_ends :: "(rx_pos \<Rightarrow> rx_pos list) \<Rightarrow> nat \<Rightarrow> rx_pos \<Rightarrow> rx_pos list" where
  "star_ends f 0 p = [p]"
| "star_ends f (Suc n) p =
     concat (map (star_ends f n) (filter (\<lambda>q. length (snd q) < length (snd p)) (f p))) @ [p]"

definition at_boundary :: "rx_pos \<Rightarrow> bool" where
  "at_boundary p \<longleftrightarrow> (fst p \<noteq> [] \<and> is_word (hd (fst p))) \<noteq> (snd p \<noteq> [] \<and> is_word (hd (snd p)))"

primrec rx_ends :: "rx \<Rightarrow> rx_pos \<Rightarrow> rx_pos list" where
  "rx_ends RxEmpty = (\<lambda>p. [p])"
| "rx_ends (RxClass f) = (\<lambda>p. case snd p of [] \<Rightarrow> [] | c # s \<Rightarrow> if f c then [(c # fst p, s)] else [])"
| "rx_ends (RxSeq a b) = (\<lambda>p. concat (map (rx_ends b) (rx_ends a p)))"
| "rx_ends (RxAlt a b) = (\<lambda>p. rx_ends a p @ rx_ends b p)"
| "rx_ends (RxStar a) = (\<lambda>p. star_ends (rx_ends a) (length (snd p)) p)"
| "rx_ends RxStart = (\<lambda>p. if fst p = [] then [p] else [])"
| "rx_ends RxEnd = (\<lambda>p. if snd p = [] then [p] else [])"
| "rx_ends RxWordBoundary = (\<lambda>p. if at_boundary p then [p] else [])"

definition rx_at :: "string \<Rightarrow> nat \<Rightarrow> rx_pos" where
  "rx_at s k = (rev (take k s), drop k s)"

text \<open>\<open>r.test(s)\<close>, and the first match from an index on: its start and its end.\<close>

definition rx_test :: "rx \<Rightarrow> string \<Rightarrow> bool" where
  "rx_test r s \<longleftrightarrow> list_ex (\<lambda>k. rx_ends r (rx_at s k) \<noteq> []) [0..<Suc (length s)]"

definition rx_exec :: "rx \<Rightarrow> string \<Rightarrow> nat \<Rightarrow> (nat \<times> nat) option" where
  "rx_exec r s from =
     map_option (\<lambda>k. (k, length (fst (hd (rx_ends r (rx_at s k))))))
       (find (\<lambda>k. rx_ends r (rx_at s k) \<noteq> []) [from..<Suc (length s)])"

definition rx_match :: "rx \<Rightarrow> string \<Rightarrow> string option" where
  "rx_match r s = map_option (\<lambda>(i, j). take (j - i) (drop i s)) (rx_exec r s 0)"

text \<open>The global \<open>match\<close>: from the end of each match on, one further after an empty match.\<close>

fun rx_matches :: "rx \<Rightarrow> string \<Rightarrow> nat \<Rightarrow> nat \<Rightarrow> string list" where
  "rx_matches r s 0 from = []"
| "rx_matches r s (Suc n) from =
     (case rx_exec r s from of
        None \<Rightarrow> []
      | Some (i, j) \<Rightarrow> take (j - i) (drop i s) # rx_matches r s n (if j = i then j + 1 else j))"

definition rx_match_all :: "rx \<Rightarrow> string \<Rightarrow> string list" where
  "rx_match_all r s = rx_matches r s (length s + 2) 0"

section \<open>Notation for the expressions of the sources\<close>

definition rx_char :: "char \<Rightarrow> rx" where
  "rx_char c = RxClass (\<lambda>x. x = c)"

definition rx_text :: "string \<Rightarrow> rx" where
  "rx_text s = foldr (\<lambda>c. RxSeq (rx_char c)) s RxEmpty"

definition rx_text_i :: "string \<Rightarrow> rx" where
  "rx_text_i s = foldr (\<lambda>c. RxSeq (RxClass (same_letter c))) s RxEmpty"

definition rx_seq :: "rx list \<Rightarrow> rx" where
  "rx_seq rs = foldr RxSeq rs RxEmpty"

fun rx_any :: "rx list \<Rightarrow> rx" where
  "rx_any [] = RxClass (\<lambda>_. False)"
| "rx_any [r] = r"
| "rx_any (r # q # rs) = RxAlt r (rx_any (q # rs))"

definition rx_opt :: "rx \<Rightarrow> rx" where
  "rx_opt r = RxAlt r RxEmpty"

definition rx_plus :: "rx \<Rightarrow> rx" where
  "rx_plus r = RxSeq r (RxStar r)"

text \<open>\<open>r{n,}\<close>.\<close>

definition rx_at_least :: "nat \<Rightarrow> rx \<Rightarrow> rx" where
  "rx_at_least n r = RxSeq (rx_seq (replicate n r)) (RxStar r)"

section \<open>What the matcher decides\<close>

inductive rx_step :: "rx \<Rightarrow> rx_pos \<Rightarrow> rx_pos \<Rightarrow> bool" where
  step_empty: "rx_step RxEmpty p p"
| step_class: "f c \<Longrightarrow> rx_step (RxClass f) (l, c # s) (c # l, s)"
| step_seq: "rx_step a p q \<Longrightarrow> rx_step b q r \<Longrightarrow> rx_step (RxSeq a b) p r"
| step_alt1: "rx_step a p q \<Longrightarrow> rx_step (RxAlt a b) p q"
| step_alt2: "rx_step b p q \<Longrightarrow> rx_step (RxAlt a b) p q"
| step_star0: "rx_step (RxStar a) p p"
| step_star: "rx_step a p q \<Longrightarrow> rx_step (RxStar a) q r \<Longrightarrow> rx_step (RxStar a) p r"
| step_start: "rx_step RxStart ([], s) ([], s)"
| step_end: "rx_step RxEnd (l, []) (l, [])"
| step_boundary: "at_boundary p \<Longrightarrow> rx_step RxWordBoundary p p"

inductive_simps rx_step_simps [simp]:
  "rx_step RxEmpty p q" "rx_step (RxClass f) p q" "rx_step (RxSeq a b) p q" "rx_step (RxAlt a b) p q"
  "rx_step RxStart p q" "rx_step RxEnd p q" "rx_step RxWordBoundary p q"

text \<open>A match consumes a part of the text.\<close>

lemma rx_step_consumes:
  "rx_step r p q \<Longrightarrow> \<exists>w. snd p = w @ snd q \<and> fst q = rev w @ fst p"
proof (induction rule: rx_step.induct)
  case (step_seq a p q b r)
  then show ?case by force
next
  case (step_star a p q r)
  then show ?case by force
qed auto

lemma rx_step_progress: "rx_step r p q \<Longrightarrow> q = p \<or> length (snd q) < length (snd p)"
  by (drule rx_step_consumes) (auto simp: prod_eq_iff)

lemma star_ends_sound:
  "(\<And>p q. q \<in> set (f p) \<Longrightarrow> rx_step a p q) \<Longrightarrow> q \<in> set (star_ends f n p) \<Longrightarrow> rx_step (RxStar a) p q"
proof (induction f n p rule: star_ends.induct)
  case (1 f p)
  then show ?case by (auto intro: step_star0)
next
  case (2 f n p)
  from "2.prems"(2) consider m where "m \<in> set (f p)" "length (snd m) < length (snd p)" "q \<in> set (star_ends f n m)"
    | "q = p" by auto
  then show ?case
  proof cases
    case 1
    with "2.IH" [of m] "2.prems"(1) have "rx_step a p m" "rx_step (RxStar a) m q" by auto
    then show ?thesis by (rule step_star)
  qed (auto intro: step_star0)
qed

lemma rx_ends_sound: "q \<in> set (rx_ends r p) \<Longrightarrow> rx_step r p q"
proof (induction r arbitrary: p q)
  case (RxStar a)
  then show ?case by (simp) (rule star_ends_sound [where f = "rx_ends a"])
next
  case (RxSeq a b)
  from RxSeq.prems obtain m where "m \<in> set (rx_ends a p)" "q \<in> set (rx_ends b m)" by auto
  with RxSeq.IH have "rx_step a p m" "rx_step b m q" by blast+
  then show ?case by (rule step_seq)
qed (auto split: list.splits if_splits simp: prod_eq_iff)

lemma star_ends_complete:
  assumes "rx_step (RxStar a) p q" and "\<And>p q. rx_step a p q \<Longrightarrow> q \<in> set (f p)"
    and "length (snd p) \<le> n"
  shows "q \<in> set (star_ends f n p)"
  using assms
proof (induction "RxStar a" p q arbitrary: n rule: rx_step.induct)
  case (step_star0 p)
  show ?case by (cases n) auto
next
  case (step_star p q r)
  show ?case
  proof (cases "q = p")
    case True
    with step_star show ?thesis by blast
  next
    case False
    with step_star.hyps(1) have less: "length (snd q) < length (snd p)" using rx_step_progress by blast
    with step_star.prems(2) obtain m where n: "n = Suc m" "length (snd q) \<le> m" by (cases n) auto
    moreover have "r \<in> set (star_ends f m q)" using step_star.hyps(4) [OF step_star.prems(1) n(2)] by simp
    moreover have "q \<in> set (f p)" by (rule step_star.prems(1) [OF step_star.hyps(1)])
    ultimately show ?thesis using less n(1) by (cases q) (auto intro!: bexI [of _ q])
  qed
qed

lemma rx_ends_complete: "rx_step r p q \<Longrightarrow> q \<in> set (rx_ends r p)"
proof (induction r arbitrary: p q)
  case (RxStar a)
  then show ?case using star_ends_complete [where f = "rx_ends a"] by auto
next
  case (RxSeq a b)
  from RxSeq.prems obtain m where "rx_step a p m" "rx_step b m q" by (cases rule: rx_step.cases) auto
  with RxSeq.IH have "m \<in> set (rx_ends a p)" "q \<in> set (rx_ends b m)" by blast+
  then show ?case by auto
qed (auto split: list.splits)

lemma rx_ends_iff [simp]: "q \<in> set (rx_ends r p) \<longleftrightarrow> rx_step r p q"
  using rx_ends_sound rx_ends_complete by blast

lemma rx_ends_ne: "rx_ends r p \<noteq> [] \<longleftrightarrow> (\<exists>q. rx_step r p q)"
  by (metis list.set_intros(1) neq_Nil_conv empty_iff list.set(1) rx_ends_iff)

lemma rx_test_iff: "rx_test r s \<longleftrightarrow> (\<exists>a b q. s = a @ b \<and> rx_step r (rev a, b) q)"
proof
  assume "rx_test r s"
  then obtain k q where "k \<le> length s" "rx_step r (rx_at s k) q"
    unfolding rx_test_def list_ex_iff rx_ends_ne by (metis atLeastLessThan_iff less_Suc_eq_le set_upt)
  then have "s = take k s @ drop k s" "rx_step r (rev (take k s), drop k s) q" by (simp_all add: rx_at_def)
  then show "\<exists>a b q. s = a @ b \<and> rx_step r (rev a, b) q" by blast
next
  assume "\<exists>a b q. s = a @ b \<and> rx_step r (rev a, b) q"
  then obtain a b q where "s = a @ b" "rx_step r (rev a, b) q" by blast
  then have "rx_ends r (rx_at s (length a)) \<noteq> []" "length a < Suc (length s)"
    unfolding rx_ends_ne by (cases q; auto simp: rx_at_def)+
  then show "rx_test r s" unfolding rx_test_def list_ex_iff set_upt by (intro bexI [of _ "length a"]) auto
qed

lemma rx_test_mono:
  assumes "rx_test r s" and "\<And>p q. rx_step r p q \<Longrightarrow> \<exists>p' q'. rev (fst p') @ snd p' = rev (fst p) @ snd p \<and> rx_step t p' q'"
  shows "rx_test t s"
proof -
  from assms(1) obtain a b q where s: "s = a @ b" "rx_step r (rev a, b) q" by (auto simp: rx_test_iff)
  from assms(2) [OF s(2)] obtain p' q' where "rev (fst p') @ snd p' = a @ b" "rx_step t p' q'" by auto
  then have "s = rev (fst p') @ snd p'" "rx_step t (rev (rev (fst p')), snd p') q'" using s(1) by simp_all
  then show ?thesis unfolding rx_test_iff by blast
qed

lemma rx_match_some: "rx_test r s \<longleftrightarrow> rx_match r s \<noteq> None"
  by (auto simp: rx_test_def rx_match_def rx_exec_def list_ex_iff find_None_iff)

lemma rx_match_all_some: "rx_test r s \<longleftrightarrow> rx_match_all r s \<noteq> []"
proof -
  have "rx_match_all r s \<noteq> [] \<longleftrightarrow> rx_exec r s 0 \<noteq> None"
    by (auto simp: rx_match_all_def split: option.splits)
  then show ?thesis by (simp add: rx_match_some rx_match_def)
qed

lemma rx_step_text [simp]:
  "rx_step (rx_text w) p q \<longleftrightarrow> snd p = w @ snd q \<and> fst q = rev w @ fst p"
proof (induction w arbitrary: p)
  case Nil
  then show ?case by (auto simp: rx_text_def prod_eq_iff)
next
  case (Cons c w)
  have "rx_step (rx_text (c # w)) p q \<longleftrightarrow> (\<exists>m. rx_step (rx_char c) p m \<and> rx_step (rx_text w) m q)"
    by (simp add: rx_text_def)
  also have "\<dots> \<longleftrightarrow> snd p = c # w @ snd q \<and> fst q = rev w @ c # fst p"
    by (cases p) (auto simp: Cons.IH rx_char_def)
  finally show ?case by simp
qed

lemma rx_step_star_class:
  "rx_step (RxStar (RxClass f)) p q \<longleftrightarrow> (\<exists>w. snd p = w @ snd q \<and> fst q = rev w @ fst p \<and> list_all f w)"
proof
  assume "rx_step (RxStar (RxClass f)) p q"
  then show "\<exists>w. snd p = w @ snd q \<and> fst q = rev w @ fst p \<and> list_all f w"
  proof (induction "RxStar (RxClass f)" p q rule: rx_step.induct)
    case (step_star p q r)
    then obtain c l s w where "p = (l, c # s)" "q = (c # l, s)" "f c"
      and "snd q = w @ snd r" "fst r = rev w @ fst q" "list_all f w" by auto
    then show ?case by (intro exI [of _ "c # w"]) auto
  qed simp
next
  assume "\<exists>w. snd p = w @ snd q \<and> fst q = rev w @ fst p \<and> list_all f w"
  then obtain w where "snd p = w @ snd q" "fst q = rev w @ fst p" "list_all f w" by blast
  then show "rx_step (RxStar (RxClass f)) p q"
  proof (induction w arbitrary: p)
    case Nil
    then have "q = p" by (simp add: prod_eq_iff)
    then show ?case by (simp add: step_star0)
  next
    case (Cons c w)
    from Cons.prems have "rx_step (RxClass f) p (c # fst p, w @ snd q)"
      by (cases p) auto
    moreover have "rx_step (RxStar (RxClass f)) (c # fst p, w @ snd q) q"
      using Cons.prems by (intro Cons.IH) auto
    ultimately show ?case by (rule step_star)
  qed
qed

lemma rx_step_seq: "rx_step (rx_seq []) p q \<longleftrightarrow> q = p"
  "rx_step (rx_seq (r # rs)) p q \<longleftrightarrow> (\<exists>m. rx_step r p m \<and> rx_step (rx_seq rs) m q)"
  by (auto simp: rx_seq_def)

lemma rx_step_opt [simp]: "rx_step (rx_opt r) p q \<longleftrightarrow> rx_step r p q \<or> q = p"
  by (auto simp: rx_opt_def)

lemma rx_step_any: "rs \<noteq> [] \<Longrightarrow> rx_step (rx_any rs) p q \<longleftrightarrow> (\<exists>r \<in> set rs. rx_step r p q)"
  by (induction rs rule: rx_any.induct) auto

lemma rx_step_replicate_class:
  "rx_step (rx_seq (replicate n (RxClass f))) p q \<longleftrightarrow>
     (\<exists>w. length w = n \<and> snd p = w @ snd q \<and> fst q = rev w @ fst p \<and> list_all f w)"
proof (induction n arbitrary: p)
  case 0
  then show ?case by (auto simp: rx_step_seq prod_eq_iff)
next
  case (Suc n)
  show ?case
  proof
    assume "rx_step (rx_seq (replicate (Suc n) (RxClass f))) p q"
    then obtain c l s w where "p = (l, c # s)" "f c" "length w = n" "s = w @ snd q"
        "fst q = rev w @ (c # l)" "list_all f w"
      by (auto simp: rx_step_seq Suc.IH)
    then show "\<exists>w. length w = Suc n \<and> snd p = w @ snd q \<and> fst q = rev w @ fst p \<and> list_all f w"
      by (intro exI [of _ "c # w"]) auto
  next
    assume "\<exists>w. length w = Suc n \<and> snd p = w @ snd q \<and> fst q = rev w @ fst p \<and> list_all f w"
    then obtain c w where w: "length w = n" "snd p = c # w @ snd q" "fst q = rev w @ (c # fst p)" "f c" "list_all f w"
      by (auto simp: length_Suc_conv)
    then have "rx_step (RxClass f) p (c # fst p, w @ snd q)" by (cases p) auto
    moreover from w have "rx_step (rx_seq (replicate n (RxClass f))) (c # fst p, w @ snd q) q"
      by (auto simp: Suc.IH)
    ultimately show "rx_step (rx_seq (replicate (Suc n) (RxClass f))) p q"
      by (auto simp only: replicate_Suc rx_step_seq)
  qed
qed

lemma rx_step_at_least_class:
  "rx_step (rx_at_least n (RxClass f)) p q \<longleftrightarrow>
     (\<exists>w. n \<le> length w \<and> snd p = w @ snd q \<and> fst q = rev w @ fst p \<and> list_all f w)"
proof
  assume "rx_step (rx_at_least n (RxClass f)) p q"
  then obtain u v m where "length u = n" "snd p = u @ snd m" "fst m = rev u @ fst p" "list_all f u"
      "snd m = v @ snd q" "fst q = rev v @ fst m" "list_all f v"
    by (auto simp: rx_at_least_def rx_step_replicate_class rx_step_star_class)
  then show "\<exists>w. n \<le> length w \<and> snd p = w @ snd q \<and> fst q = rev w @ fst p \<and> list_all f w"
    by (intro exI [of _ "u @ v"]) auto
next
  assume "\<exists>w. n \<le> length w \<and> snd p = w @ snd q \<and> fst q = rev w @ fst p \<and> list_all f w"
  then obtain w where w: "n \<le> length w" "snd p = w @ snd q" "fst q = rev w @ fst p" "list_all f w" by blast
  let ?m = "(rev (take n w) @ fst p, drop n w @ snd q)"
  have "list_all f (take n w)" "list_all f (drop n w)"
    using w(4) by (auto simp: list_all_iff dest: in_set_takeD in_set_dropD)
  moreover have "rev w = rev (drop n w) @ rev (take n w)" by (metis append_take_drop_id rev_append)
  ultimately have "rx_step (rx_seq (replicate n (RxClass f))) p ?m" "rx_step (RxStar (RxClass f)) ?m q"
    using w(1-3) by (auto simp: rx_step_replicate_class rx_step_star_class intro: exI [of _ "take n w"])
  then show "rx_step (rx_at_least n (RxClass f)) p q" by (auto simp: rx_at_least_def)
qed

end
