(* ===== verification/Paw_Security.thy ===== *)
theory Paw_Security
  imports Paw_Subagent Paw_Regex
begin

text \<open>
  The rest of \<open>security-policy.ts\<close> (the choice of a sandbox is in \<open>Paw_Subagent\<close>): which paths are
  secret, what is redacted and which sources are trusted; and the findings of
  \<open>secret-scanner.ts\<close> for the text of one file.
\<close>

section \<open>Secret paths\<close>

record PawSecretsConfig =
  read_plane_exclude :: "string list"
  redact_at_io_write :: bool
  redact_patterns :: "string list"
  flag_high_entropy :: bool

definition normalizePath :: "string \<Rightarrow> string" where
  "normalizePath path =
     (let p = replace_char (CHR 0x5C) (CHR ''/'') path in
      if starts_with ''./'' p then dropWhile (\<lambda>c. c = CHR ''/'') (drop 2 p) else p)"

definition basename :: "string \<Rightarrow> string" where
  "basename path = last (split_on (CHR ''/'') path)"

fun globSource :: "string \<Rightarrow> rx" where
  "globSource [] = RxEnd"
| "globSource (c # cs) =
     (if c = CHR ''*'' then
        (case cs of
           d # ds \<Rightarrow>
             if d = CHR ''*'' then RxSeq (RxStar (RxClass no_newline)) (globSource ds)
             else RxSeq (RxStar (RxClass (\<lambda>x. x \<noteq> CHR ''/''))) (globSource cs)
         | [] \<Rightarrow> RxSeq (RxStar (RxClass (\<lambda>x. x \<noteq> CHR ''/''))) (globSource cs))
      else RxSeq (rx_char c) (globSource cs))"

definition globPatternToRegExp :: "string \<Rightarrow> rx" where
  "globPatternToRegExp p = RxSeq RxStart (globSource p)"

definition matchesSecretPattern :: "string \<Rightarrow> string \<Rightarrow> bool" where
  "matchesSecretPattern path pattern =
     (let p = normalizePath pattern; base = basename path in
      if p = ''**/secrets/**'' then
        path = ''secrets'' \<or> starts_with ''secrets/'' path \<or> includes_str ''/secrets/'' path
      else if p = ''**/*.pem'' then ends_with ''.pem'' base
      else if p = ''**/*.key'' then ends_with ''.key'' base
      else if p = ''.env*'' then starts_with ''.env'' base
      else if p = ''id_rsa*'' then starts_with ''id_rsa'' base
      else rx_test (globPatternToRegExp p) path)"

definition isPawSecretPath :: "string \<Rightarrow> PawSecretsConfig \<Rightarrow> bool" where
  "isPawSecretPath path cfg = list_ex (matchesSecretPattern (normalizePath path)) (read_plane_exclude cfg)"

section \<open>Redaction\<close>

datatype PawRedactionPattern =
  env_values | api_keys | tokens | cookies | auth_headers | private_keys | high_entropy

fun redactionPatternString :: "PawRedactionPattern \<Rightarrow> string" where
  "redactionPatternString env_values = ''env_values''"
| "redactionPatternString api_keys = ''api_keys''"
| "redactionPatternString tokens = ''tokens''"
| "redactionPatternString cookies = ''cookies''"
| "redactionPatternString auth_headers = ''auth_headers''"
| "redactionPatternString private_keys = ''private_keys''"
| "redactionPatternString high_entropy = ''high_entropy''"

text \<open>The parts the expressions share: white space, the start of a line, an optional quote, a separator.\<close>

definition rx_spaces :: rx where
  "rx_spaces = RxStar (RxClass js_space)"

definition rx_line_start :: rx where
  "rx_line_start = RxAlt RxStart (rx_char (CHR 10))"

definition is_quote :: "char \<Rightarrow> bool" where
  "is_quote c \<longleftrightarrow> c = CHR 34 \<or> c = CHR 39"

definition rx_quote :: rx where
  "rx_quote = rx_opt (RxClass is_quote)"

definition rx_separator :: rx where
  "rx_separator = RxClass (\<lambda>c. c = CHR '':'' \<or> c = CHR ''='')"

text \<open>\<open>[A-Za-z0-9._-]\<close> and \<open>[A-Za-z0-9_-]\<close>.\<close>

definition is_secret_char :: "char \<Rightarrow> bool" where
  "is_secret_char c \<longleftrightarrow> alphanumeric c \<or> c = CHR ''.'' \<or> c = CHR ''_'' \<or> c = CHR ''-''"

definition is_key_char :: "char \<Rightarrow> bool" where
  "is_key_char c \<longleftrightarrow> alphanumeric c \<or> c = CHR ''_'' \<or> c = CHR ''-''"

definition rx_private_key :: rx where
  "rx_private_key = rx_seq [rx_text ''-----BEGIN '', RxStar (RxClass (\<lambda>c. is_upper c \<or> c = CHR '' '')),
     rx_text ''PRIVATE KEY-----'']"

definition rx_header :: "string list \<Rightarrow> rx" where
  "rx_header names = rx_seq [rx_line_start, rx_spaces, rx_any (map rx_text_i names), rx_spaces, rx_char (CHR '':'')]"

definition rx_auth_header :: rx where
  "rx_auth_header = rx_header [''authorization'', ''proxy-authorization'']"

definition rx_cookie :: rx where
  "rx_cookie = rx_header [''cookie'', ''set-cookie'']"

definition rx_env_value :: rx where
  "rx_env_value = rx_seq [rx_line_start, rx_spaces,
     RxClass (\<lambda>c. is_upper c \<or> is_lower c \<or> c = CHR ''_''), RxStar (RxClass is_word), rx_spaces,
     rx_char (CHR ''=''), rx_spaces, rx_quote, RxClass (\<lambda>c. \<not> js_space c \<and> \<not> is_quote c),
     RxStar (RxClass (\<lambda>c. c \<noteq> CHR 10))]"

text \<open>\<open>first[_-]?second\<close>, the names of keys and tokens, and what follows them.\<close>

definition rx_compound :: "string \<Rightarrow> string \<Rightarrow> rx" where
  "rx_compound a b = rx_seq [rx_text_i a, rx_opt (RxClass (\<lambda>c. c = CHR ''_'' \<or> c = CHR ''-'')), rx_text_i b]"

definition rx_assigned :: rx where
  "rx_assigned = rx_seq [rx_spaces, rx_separator, rx_spaces, rx_quote, rx_at_least 12 (RxClass is_secret_char)]"

definition rx_key_name :: rx where
  "rx_key_name = rx_any [rx_compound ''api'' ''key'', rx_text_i ''apikey'', rx_compound ''secret'' ''key'']"

definition rx_token_name :: rx where
  "rx_token_name = rx_any [rx_compound ''access'' ''token'', rx_compound ''refresh'' ''token'',
     rx_compound ''id'' ''token'', rx_text_i ''token'']"

text \<open>The prefixes of provider keys, exactly and under the flag \<open>i\<close>.\<close>

definition rx_key_prefix :: "(string \<Rightarrow> rx) \<Rightarrow> rx" where
  "rx_key_prefix f = f ''sk-''"

definition rx_token_prefix :: "(string \<Rightarrow> rx) \<Rightarrow> rx" where
  "rx_token_prefix f = RxSeq
     (rx_any ([f ''ghp'', f ''github_pat'', f ''glpat''] @ map f [''xoxb'', ''xoxa'', ''xoxp'', ''xoxr'', ''xoxs'']))
     (rx_char (CHR ''_''))"

definition rx_provider_value :: "rx \<Rightarrow> nat \<Rightarrow> rx" where
  "rx_provider_value prefix n = rx_seq [RxWordBoundary, prefix, rx_at_least n (RxClass is_key_char), RxWordBoundary]"

definition hasApiKeyLikeValue :: "string \<Rightarrow> bool" where
  "hasApiKeyLikeValue v \<longleftrightarrow> rx_test (RxSeq rx_key_name rx_assigned) v
     \<or> rx_test (rx_provider_value (rx_key_prefix rx_text) 12) v"

definition rx_token_start :: rx where
  "rx_token_start = RxAlt RxStart (RxClass (\<lambda>c. js_space c \<or> c = CHR 123 \<or> c = CHR '',''))"

definition hasTokenLikeValue :: "string \<Rightarrow> bool" where
  "hasTokenLikeValue v \<longleftrightarrow> rx_test (RxSeq rx_token_start (RxSeq rx_token_name rx_assigned)) v
     \<or> rx_test (rx_provider_value (rx_token_prefix rx_text) 16) v"

definition HIGH_ENTROPY_MIN_LENGTH :: nat where
  "HIGH_ENTROPY_MIN_LENGTH = 32"

definition HIGH_ENTROPY_MIN_BITS_PER_CHAR :: real where
  "HIGH_ENTROPY_MIN_BITS_PER_CHAR = 7 / 2"

definition is_token_char :: "char \<Rightarrow> bool" where
  "is_token_char c \<longleftrightarrow> alphanumeric c \<or> c \<in> {CHR ''+'', CHR ''/'', CHR ''='', CHR ''_'', CHR ''-''}"

definition isHighEntropyCandidate :: "string \<Rightarrow> bool" where
  "isHighEntropyCandidate token \<longleftrightarrow> \<not> length token < HIGH_ENTROPY_MIN_LENGTH
     \<and> token \<noteq> [] \<and> list_all is_token_char token
     \<and> list_ex is_upper token \<and> list_ex is_lower token \<and> list_ex is_digit token"

text \<open>The map of counts, in the order of first occurrence.\<close>

fun count_char :: "char \<Rightarrow> (char \<times> nat) list \<Rightarrow> (char \<times> nat) list" where
  "count_char c [] = [(c, 1)]"
| "count_char c ((d, n) # m) = (if d = c then (d, n + 1) # m else (d, n) # count_char c m)"

definition char_counts :: "string \<Rightarrow> (char \<times> nat) list" where
  "char_counts v = foldl (\<lambda>m c. count_char c m) [] v"

definition shannonEntropy :: "string \<Rightarrow> real" where
  "shannonEntropy v =
     foldl (\<lambda>entropy (c, n). let probability = real n / real (length v) in entropy - probability * log 2 probability)
       0 (char_counts v)"

definition hasHighEntropyToken :: "string \<Rightarrow> bool" where
  "hasHighEntropyToken v \<longleftrightarrow> list_ex
     (\<lambda>token. isHighEntropyCandidate token \<and> shannonEntropy token \<ge> HIGH_ENTROPY_MIN_BITS_PER_CHAR) (split_spaces v)"

definition isConfiguredRedactionPattern :: "PawRedactionPattern \<Rightarrow> PawSecretsConfig \<Rightarrow> bool" where
  "isConfiguredRedactionPattern p cfg \<longleftrightarrow> redactionPatternString p \<in> set (redact_patterns cfg)"

definition appendPawRedactionPatternIfMatched ::
  "PawRedactionPattern list \<Rightarrow> PawRedactionPattern \<Rightarrow> PawSecretsConfig \<Rightarrow> bool \<Rightarrow> PawRedactionPattern list" where
  "appendPawRedactionPatternIfMatched patterns p cfg matches =
     (if isConfiguredRedactionPattern p cfg \<and> matches then patterns @ [p] else patterns)"

definition collectConfiguredRedactionPatterns :: "string \<Rightarrow> PawSecretsConfig \<Rightarrow> PawRedactionPattern list" where
  "collectConfiguredRedactionPatterns v cfg =
     (let p1 = appendPawRedactionPatternIfMatched [] private_keys cfg (rx_test rx_private_key v);
          p2 = appendPawRedactionPatternIfMatched p1 auth_headers cfg (rx_test rx_auth_header v);
          p3 = appendPawRedactionPatternIfMatched p2 cookies cfg (rx_test rx_cookie v);
          p4 = appendPawRedactionPatternIfMatched p3 env_values cfg (rx_test rx_env_value v) in
      appendPawRedactionPatternIfMatched p4 api_keys cfg (hasApiKeyLikeValue v))"

definition appendOptionalPawRedactionPatterns ::
  "PawRedactionPattern list \<Rightarrow> string \<Rightarrow> PawSecretsConfig \<Rightarrow> PawRedactionPattern list" where
  "appendOptionalPawRedactionPatterns patterns v cfg =
     (let p = appendPawRedactionPatternIfMatched patterns tokens cfg (hasTokenLikeValue v) in
      if p = [] \<and> flag_high_entropy cfg \<and> hasHighEntropyToken v then p @ [high_entropy] else p)"

datatype PawRedactionDecision = NoRedaction "PawRedactionPattern list" | Redact "PawRedactionPattern list" string

definition classifyPawRedaction :: "string \<Rightarrow> PawSecretsConfig \<Rightarrow> PawRedactionDecision" where
  "classifyPawRedaction v cfg =
     (if \<not> redact_at_io_write cfg then NoRedaction []
      else
        let patterns = appendOptionalPawRedactionPatterns (collectConfiguredRedactionPatterns v cfg) v cfg in
        if patterns = [] then NoRedaction patterns
        else Redact patterns (''Value matched Paw redaction pattern(s): ''
               @ join_with '', '' (map redactionPatternString patterns) @ ''.''))"

section \<open>Untrusted sources\<close>

record PawInjectionConfig =
  untrusted_sources :: "string list"
  handling :: string

datatype PawUntrustedSourceDecision = ReadOnlySummary string | Trusted

definition evaluatePawUntrustedSource :: "string \<Rightarrow> PawInjectionConfig \<Rightarrow> PawUntrustedSourceDecision" where
  "evaluatePawUntrustedSource source cfg =
     (if source \<in> set (untrusted_sources cfg) then ReadOnlySummary (handling cfg) else Trusted)"

section \<open>The findings of the secret scanner\<close>

fun secretPatternToRegex :: "PawRedactionPattern \<Rightarrow> rx" where
  "secretPatternToRegex api_keys =
     RxAlt (rx_provider_value (rx_key_prefix rx_text_i) 12) (RxSeq rx_key_name rx_assigned)"
| "secretPatternToRegex tokens =
     RxAlt (rx_provider_value (rx_token_prefix rx_text_i) 16) (RxSeq rx_token_name rx_assigned)"
| "secretPatternToRegex private_keys = rx_private_key"
| "secretPatternToRegex auth_headers = rx_auth_header"
| "secretPatternToRegex cookies = rx_cookie"
| "secretPatternToRegex env_values = rx_env_value"
| "secretPatternToRegex high_entropy = rx_at_least 32 (RxClass is_token_char)"

datatype PawSecretScanSeverity = secret_info | secret_warn | secret_block

text \<open>
  A preview is kept by its parts: nothing of the match, the mark of a dummy, or its first six and
  last four characters and its length.
\<close>

datatype secret_preview = PreviewRedacted | PreviewDummy | PreviewParts string string nat

record PawSecretScanFinding =
  finding_pattern :: PawRedactionPattern
  finding_severity :: PawSecretScanSeverity
  finding_preview :: secret_preview
  finding_path :: string
  finding_occurrences :: nat

definition ALLOWED_DUMMY_KEYS :: "string list" where
  "ALLOWED_DUMMY_KEYS =
     [''PAW_PLACEHOLDER_OPENAI_KEY_xxxxxxxxxxxx'', ''PAW_PLACEHOLDER_GITHUB_TOKEN_xxxxxxxx'',
      ''PAW_PLACEHOLDER_SLACK_TOKEN_xxxxxx'']"

definition detectPawSecretPatterns :: "string \<Rightarrow> PawSecretsConfig \<Rightarrow> PawRedactionPattern list" where
  "detectPawSecretPatterns content cfg =
     (case classifyPawRedaction content cfg of Redact patterns message \<Rightarrow> patterns | NoRedaction _ \<Rightarrow> [])"

definition countPawSecretOccurrences :: "string \<Rightarrow> PawRedactionPattern \<Rightarrow> nat" where
  "countPawSecretOccurrences content p = length (rx_match_all (secretPatternToRegex p) content)"

definition previewSecretMatch :: "string \<Rightarrow> PawRedactionPattern \<Rightarrow> secret_preview" where
  "previewSecretMatch content p =
     (case rx_match (secretPatternToRegex p) content of
        None \<Rightarrow> PreviewRedacted
      | Some v \<Rightarrow>
          if v \<in> set ALLOWED_DUMMY_KEYS then PreviewDummy
          else PreviewParts (take 6 v) (drop (length v - 4) v) (length v))"

definition scanContent :: "string \<Rightarrow> string \<Rightarrow> PawSecretsConfig \<Rightarrow> PawSecretScanFinding list" where
  "scanContent content entryRel cfg =
     map (\<lambda>p. \<lparr>finding_pattern = p, finding_severity = (if p = private_keys then secret_block else secret_warn),
            finding_preview = previewSecretMatch content p, finding_path = entryRel,
            finding_occurrences = countPawSecretOccurrences content p\<rparr>)
       (detectPawSecretPatterns content cfg)"

section \<open>Patterns of paths\<close>

text \<open>
  What a glob means: \<open>**\<close> stands for any text without line terminators, \<open>*\<close> for any text
  within one segment, every other character for itself.
\<close>

inductive globs :: "string \<Rightarrow> string \<Rightarrow> bool" where
  globs_Nil: "globs [] []"
| globs_char: "c \<noteq> CHR ''*'' \<Longrightarrow> globs cs s \<Longrightarrow> globs (c # cs) (c # s)"
| globs_deep: "list_all no_newline u \<Longrightarrow> globs cs s \<Longrightarrow> globs (CHR ''*'' # CHR ''*'' # cs) (u @ s)"
| globs_flat: "\<not> starts_with ''*'' cs \<Longrightarrow> list_all (\<lambda>x. x \<noteq> CHR ''/'') u \<Longrightarrow> globs cs s \<Longrightarrow>
    globs (CHR ''*'' # cs) (u @ s)"

inductive_simps globs_Nil_iff: "globs [] s"

lemma globs_char_iff: "c \<noteq> CHR ''*'' \<Longrightarrow> globs (c # cs) s \<longleftrightarrow> (\<exists>t. s = c # t \<and> globs cs t)"
  by (auto elim: globs.cases intro: globs_char)

lemma globs_deep_iff:
  "globs (CHR ''*'' # CHR ''*'' # cs) s \<longleftrightarrow> (\<exists>u t. s = u @ t \<and> list_all no_newline u \<and> globs cs t)"
  by (subst globs.simps) auto

lemma globs_flat_iff:
  "\<not> starts_with ''*'' cs \<Longrightarrow>
     globs (CHR ''*'' # cs) s \<longleftrightarrow> (\<exists>u t. s = u @ t \<and> list_all (\<lambda>x. x \<noteq> CHR ''/'') u \<and> globs cs t)"
  by (subst globs.simps) auto

lemma star_then:
  assumes "\<And>p. rx_step r p q \<longleftrightarrow> G (snd p) \<and> q = (rev (snd p) @ fst p, [])"
  shows "rx_step (RxSeq (RxStar (RxClass f)) r) p q \<longleftrightarrow>
     (\<exists>u t. snd p = u @ t \<and> list_all f u \<and> G t) \<and> q = (rev (snd p) @ fst p, [])"
proof
  assume "rx_step (RxSeq (RxStar (RxClass f)) r) p q"
  then obtain m u where "snd p = u @ snd m" "fst m = rev u @ fst p" "list_all f u" "rx_step r m q"
    by (auto simp: rx_step_star_class)
  with assms show "(\<exists>u t. snd p = u @ t \<and> list_all f u \<and> G t) \<and> q = (rev (snd p) @ fst p, [])" by auto
next
  assume "(\<exists>u t. snd p = u @ t \<and> list_all f u \<and> G t) \<and> q = (rev (snd p) @ fst p, [])"
  then obtain u t where u: "snd p = u @ t" "list_all f u" "G t" and q: "q = (rev (snd p) @ fst p, [])" by blast
  have "rx_step (RxStar (RxClass f)) p (rev u @ fst p, t)" using u by (simp add: rx_step_star_class)
  moreover have "rx_step r (rev u @ fst p, t) q" using u q by (intro iffD2 [OF assms]) simp
  ultimately show "rx_step (RxSeq (RxStar (RxClass f)) r) p q" by (rule step_seq)
qed

lemma globSource_step:
  "rx_step (globSource g) p q \<longleftrightarrow> globs g (snd p) \<and> q = (rev (snd p) @ fst p, [])"
proof (induction g arbitrary: p rule: globSource.induct)
  case 1
  show ?case by (cases p) (auto simp: globs_Nil_iff)
next
  case (2 c cs)
  consider "c \<noteq> CHR ''*''" | ds where "c = CHR ''*''" "cs = CHR ''*'' # ds"
    | "c = CHR ''*''" "\<not> starts_with ''*'' cs" by (cases cs) auto
  then show ?case
  proof cases
    case 1
    from 1 "2.IH" show ?thesis by (cases p) (auto simp: globs_char_iff rx_char_def)
  next
    case 2
    with "2.IH" have "\<And>p. rx_step (globSource ds) p q \<longleftrightarrow> globs ds (snd p) \<and> q = (rev (snd p) @ fst p, [])" by simp
    from star_then [where G = "globs ds", OF this] 2 show ?thesis by (simp add: globs_deep_iff del: rx_step_simps)
  next
    case 3
    then have "\<And>p. rx_step (globSource cs) p q \<longleftrightarrow> globs cs (snd p) \<and> q = (rev (snd p) @ fst p, [])"
      using "2.IH" by (cases cs) auto
    from star_then [where G = "globs cs", OF this] 3 show ?thesis
      by (cases cs) (auto simp add: globs_flat_iff simp del: rx_step_simps)
  qed
qed

lemma globPatternToRegExp_test: "rx_test (globPatternToRegExp g) s \<longleftrightarrow> globs g s"
proof -
  have "rx_test (globPatternToRegExp g) s \<longleftrightarrow> (\<exists>q. rx_step (globSource g) ([], s) q)"
    by (auto simp: rx_test_iff globPatternToRegExp_def)
  then show ?thesis by (simp add: globSource_step)
qed

section \<open>Segments\<close>

lemma join_with_append:
  "xs \<noteq> [] \<Longrightarrow> ys \<noteq> [] \<Longrightarrow> join_with sep (xs @ ys) = join_with sep xs @ sep @ join_with sep ys"
proof (induction sep xs rule: join_with.induct)
  case (2 sep x)
  then show ?case by (cases ys) simp_all
qed auto

lemma segment_iff:
  assumes "d \<notin> set w"
  shows "w \<in> set (butlast (split_on d s)) \<longleftrightarrow> starts_with (w @ [d]) s \<or> includes_str ([d] @ w @ [d]) s"
proof
  assume "w \<in> set (butlast (split_on d s))"
  then obtain xs ys where "butlast (split_on d s) = xs @ w # ys" by (meson split_list)
  then obtain zs where zs: "split_on d s = xs @ w # zs" "zs \<noteq> []"
    by (metis append.assoc append_Cons append_butlast_last_id not_Cons_self2 snoc_eq_iff_butlast split_on_ne)
  then have s: "s = join_with [d] (xs @ w # zs)" by (metis join_split_on)
  have tl: "join_with [d] (w # zs) = w @ [d] @ join_with [d] zs" using zs(2) by (cases zs) auto
  show "starts_with (w @ [d]) s \<or> includes_str ([d] @ w @ [d]) s"
  proof (cases "xs = []")
    case True
    with s tl show ?thesis by (auto simp: starts_with_iff)
  next
    case False
    with s tl have "s = join_with [d] xs @ ([d] @ w @ [d]) @ join_with [d] zs"
      by (simp add: join_with_append)
    then show ?thesis unfolding includes_str_iff by blast
  qed
next
  have front: "w \<in> set (butlast (split_on d (w @ d # t)))" for t
    using split_on_single [OF assms] by (simp add: split_on_append butlast_append)
  assume "starts_with (w @ [d]) s \<or> includes_str ([d] @ w @ [d]) s"
  then consider t where "s = w @ d # t" | a b where "s = a @ d # w @ d # b"
    by (auto simp: starts_with_iff includes_str_iff)
  then show "w \<in> set (butlast (split_on d s))"
  proof cases
    case 2
    with front [of b] show ?thesis by (simp add: split_on_append butlast_append)
  qed (simp add: front)
qed

section \<open>Findings occur\<close>

lemma rx_text_i_step: "rx_step (rx_text w) p q \<Longrightarrow> rx_step (rx_text_i w) p q"
proof (induction w arbitrary: p)
  case Nil
  then show ?case by (simp add: rx_text_i_def prod_eq_iff)
next
  case (Cons c w)
  then obtain l where p: "p = (l, c # w @ snd q)" "fst q = rev w @ c # l" by (cases p) auto
  then have "rx_step (rx_text_i w) (c # l, w @ snd q) q" by (intro Cons.IH) simp
  with p show ?case by (auto simp: rx_text_i_def same_letter_def)
qed

lemma rx_test_seq_mono:
  assumes "rx_test (rx_provider_value r n) s" and "\<And>p q. rx_step r p q \<Longrightarrow> rx_step t p q"
  shows "rx_test (RxAlt (rx_provider_value t n) u) s"
proof (rule rx_test_mono [OF assms(1)])
  fix p q
  assume "rx_step (rx_provider_value r n) p q"
  with assms(2) have "rx_step (rx_provider_value t n) p q"
    by (fastforce simp: rx_provider_value_def rx_step_seq)
  then show "\<exists>p' q'. rev (fst p') @ snd p' = rev (fst p) @ snd p \<and> rx_step (RxAlt (rx_provider_value t n) u) p' q'"
    by (intro exI [of _ p] exI [of _ q]) simp
qed

lemma rx_test_alt2: "rx_test r s \<Longrightarrow> rx_test (RxAlt t r) s"
  by (erule rx_test_mono) (metis step_alt2)

lemma rx_test_seq2: "rx_test (RxSeq t r) s \<Longrightarrow> rx_test r s"
proof (erule rx_test_mono)
  fix p q
  assume "rx_step (RxSeq t r) p q"
  then obtain m where m: "rx_step t p m" "rx_step r m q" by (cases rule: rx_step.cases) auto
  from rx_step_consumes [OF m(1)] have "rev (fst m) @ snd m = rev (fst p) @ snd p" by auto
  with m(2) show "\<exists>p' q'. rev (fst p') @ snd p' = rev (fst p) @ snd p \<and> rx_step r p' q'" by blast
qed

lemma key_prefix_i: "rx_step (rx_key_prefix rx_text) p q \<Longrightarrow> rx_step (rx_key_prefix rx_text_i) p q"
  unfolding rx_key_prefix_def by (rule rx_text_i_step)

lemma rx_any_mono:
  assumes "\<And>w p q. rx_step (f w) p q \<Longrightarrow> rx_step (g w) p q"
  shows "rx_step (rx_any (map f names)) p q \<Longrightarrow> rx_step (rx_any (map g names)) p q"
proof (cases "names = []")
  case False
  assume "rx_step (rx_any (map f names)) p q"
  with False obtain w where "w \<in> set names" "rx_step (f w) p q" by (auto simp: rx_step_any)
  with False assms [of w p q] show ?thesis by (auto simp: rx_step_any)
qed simp

lemma token_prefix_i: "rx_step (rx_token_prefix rx_text) p q \<Longrightarrow> rx_step (rx_token_prefix rx_text_i) p q"
proof -
  define names where "names = [''ghp'', ''github_pat'', ''glpat''] @ [''xoxb'', ''xoxa'', ''xoxp'', ''xoxr'', ''xoxs'']"
  have prefix: "rx_token_prefix f = RxSeq (rx_any (map f names)) (rx_char (CHR ''_''))" for f
    by (simp add: rx_token_prefix_def names_def)
  assume "rx_step (rx_token_prefix rx_text) p q"
  then show ?thesis
    unfolding prefix rx_step_simps using rx_any_mono [where f = rx_text and g = rx_text_i, OF rx_text_i_step] by blast
qed

lemma split_spaces_part: "t \<in> set (split_spaces s) \<Longrightarrow> \<exists>a b. s = a @ t @ b"
proof (induction s rule: split_spaces.induct)
  case (1 s)
  define rest where "rest = dropWhile (\<lambda>c. \<not> js_space c) s"
  have s: "s = takeWhile (\<lambda>c. \<not> js_space c) s @ rest" by (simp add: rest_def)
  from "1.prems" consider "t = takeWhile (\<lambda>c. \<not> js_space c) s"
    | "rest \<noteq> []" "t \<in> set (split_spaces (dropWhile js_space rest))"
    by (subst (asm) split_spaces.simps) (auto simp: Let_def rest_def split: if_splits)
  then show ?case
  proof cases
    case 1
    with s show ?thesis by (metis append_Nil)
  next
    case 2
    from "1.IH" [OF refl rest_def 2] obtain a b where "dropWhile js_space rest = a @ t @ b" by blast
    then have "s = (takeWhile (\<lambda>c. \<not> js_space c) s @ takeWhile js_space rest @ a) @ t @ b"
      using s by (metis append.assoc takeWhile_dropWhile_id)
    then show ?thesis by blast
  qed
qed

lemma high_entropy_found: "hasHighEntropyToken v \<Longrightarrow> rx_test (secretPatternToRegex high_entropy) v"
proof -
  assume "hasHighEntropyToken v"
  then obtain t where t: "t \<in> set (split_spaces v)" "isHighEntropyCandidate t"
    by (auto simp: hasHighEntropyToken_def list_ex_iff)
  from split_spaces_part [OF t(1)] obtain a b where v: "v = a @ t @ b" by blast
  from t(2) have "32 \<le> length t" "list_all is_token_char t"
    by (auto simp: isHighEntropyCandidate_def HIGH_ENTROPY_MIN_LENGTH_def)
  then have "rx_step (rx_at_least 32 (RxClass is_token_char)) (rev a, t @ b) (rev t @ rev a, b)"
    unfolding rx_step_at_least_class by (intro exI [of _ t]) simp
  with v show ?thesis unfolding secretPatternToRegex.simps rx_test_iff by blast
qed

lemma detected_pattern_found:
  assumes "p \<in> set (detectPawSecretPatterns content cfg)"
  shows "rx_test (secretPatternToRegex p) content"
proof -
  from assms have "(p = private_keys \<and> rx_test rx_private_key content) \<or> (p = auth_headers \<and> rx_test rx_auth_header content)
     \<or> (p = cookies \<and> rx_test rx_cookie content) \<or> (p = env_values \<and> rx_test rx_env_value content)
     \<or> (p = api_keys \<and> hasApiKeyLikeValue content) \<or> (p = tokens \<and> hasTokenLikeValue content)
     \<or> (p = high_entropy \<and> hasHighEntropyToken content)"
    by (simp add: detectPawSecretPatterns_def classifyPawRedaction_def appendOptionalPawRedactionPatterns_def
        collectConfiguredRedactionPatterns_def appendPawRedactionPatternIfMatched_def Let_def split: if_splits)
      auto
  then show ?thesis
    by (auto simp: hasApiKeyLikeValue_def hasTokenLikeValue_def
        dest: rx_test_alt2 [OF rx_test_seq2] rx_test_alt2 high_entropy_found rx_test_seq_mono [OF _ key_prefix_i] rx_test_seq_mono [OF _ token_prefix_i])
qed


section \<open>Entropy\<close>

lemma count_char_keys: "map fst (count_char c m) = (if c \<in> fst ` set m then map fst m else map fst m @ [c])"
  by (induction c m rule: count_char.induct) auto

lemma count_char_lookup:
  "map_of (count_char c m) d = (if d = c then Some (case map_of m c of Some n \<Rightarrow> n + 1 | None \<Rightarrow> 1) else map_of m d)"
  by (induction c m rule: count_char.induct) auto

lemma char_counts_snoc: "char_counts (v @ [c]) = count_char c (char_counts v)"
  by (simp add: char_counts_def)

lemma char_counts_keys: "distinct (map fst (char_counts v)) \<and> fst ` set (char_counts v) = set v"
proof (induction v rule: rev_induct)
  case Nil
  then show ?case by (simp add: char_counts_def)
next
  case (snoc c v)
  have "fst ` set (count_char c (char_counts v)) = insert c (set v)"
    using snoc.IH count_char_keys [of c "char_counts v"] by (metis insert_absorb list.set_map set_append list.simps(15) empty_set Un_insert_right Un_empty_right)
  with snoc.IH show ?case by (auto simp: char_counts_snoc count_char_keys)
qed

lemma char_counts_lookup: "map_of (char_counts v) c = (if c \<in> set v then Some (count_list v c) else None)"
proof (induction v rule: rev_induct)
  case Nil
  then show ?case by (simp add: char_counts_def)
next
  case (snoc d v)
  then show ?case by (auto simp: char_counts_snoc count_char_lookup count_list_0_iff)
qed

lemma foldl_minus: "foldl (\<lambda>e x. e - g x) (a :: real) xs = a - sum_list (map g xs)"
  by (induction xs arbitrary: a) auto

text \<open>The entropy as a sum over the distinct characters.\<close>

lemma shannonEntropy_sum:
  "shannonEntropy v = - (\<Sum>c \<in> set v. real (count_list v c) / real (length v) * log 2 (real (count_list v c) / real (length v)))"
proof -
  let ?g = "\<lambda>n. real n / real (length v) * log 2 (real n / real (length v))"
  let ?m = "char_counts v"
  have d: "distinct (map fst ?m)" "fst ` set ?m = set v" using char_counts_keys by auto
  have val: "snd x = count_list v (fst x)" if "x \<in> set ?m" for x
  proof -
    have "map_of ?m (fst x) = Some (snd x)" using d(1) that by simp
    then show ?thesis by (simp add: char_counts_lookup split: if_splits)
  qed
  have "shannonEntropy v = - sum_list (map (\<lambda>x. ?g (snd x)) ?m)"
    unfolding shannonEntropy_def Let_def case_prod_beta using foldl_minus [of "\<lambda>x. ?g (snd x)" 0 ?m] by simp
  also have "sum_list (map (\<lambda>x. ?g (snd x)) ?m) = sum_list (map (\<lambda>c. ?g (count_list v c)) (map fst ?m))"
    using val by (auto intro!: arg_cong [where f = sum_list])
  also have "\<dots> = (\<Sum>c \<in> set v. ?g (count_list v c))"
    using d by (metis (no_types, lifting) list.set_map sum_list_distinct_conv_sum_set)
  finally show ?thesis .
qed

lemma entropy_summand:
  fixes p k :: real
  assumes "0 < p" "0 < k"
  shows "- (p * log 2 p) \<le> p * log 2 k + (1 / k - p) / ln 2"
proof -
  have "ln (1 / (p * k)) \<le> 1 / (p * k) - 1" using assms by (intro ln_le_minus_one) simp
  then have "p * ln (1 / (p * k)) \<le> p * (1 / (p * k) - 1)" using assms(1) by (intro mult_left_mono) auto
  also have "\<dots> = 1 / k - p" using assms by (simp add: field_simps)
  finally have "(p * ln (1 / (p * k))) / ln 2 \<le> (1 / k - p) / ln 2" by (intro divide_right_mono) auto
  moreover have "(p * ln (1 / (p * k))) / ln 2 = - (p * log 2 p) - p * log 2 k"
    using assms by (simp add: log_def ln_div ln_mult field_simps)
  ultimately show ?thesis by simp
qed

lemma shannonEntropy_le: "v \<noteq> [] \<Longrightarrow> shannonEntropy v \<le> log 2 (real (card (set v)))"
proof -
  assume v: "v \<noteq> []"
  define p where "p c = real (count_list v c) / real (length v)" for c
  define k where "k = real (card (set v))"
  have k: "0 < k" using v by (simp add: k_def card_gt_0_iff)
  have pos: "0 < p c" if "c \<in> set v" for c
    using that v count_list_0_iff [of v c] by (simp add: p_def)
  have one: "(\<Sum>c \<in> set v. p c) = 1"
    using v sum_count_set [of v "set v"] by (simp add: p_def flip: sum_divide_distrib of_nat_sum)
  have "shannonEntropy v = (\<Sum>c \<in> set v. - (p c * log 2 (p c)))"
    by (simp add: shannonEntropy_sum p_def sum_negf)
  also have "\<dots> \<le> (\<Sum>c \<in> set v. p c * log 2 k + (1 / k - p c) / ln 2)"
    by (intro sum_mono entropy_summand pos k)
  also have "\<dots> = (\<Sum>c \<in> set v. p c) * log 2 k + (k * (1 / k) - (\<Sum>c \<in> set v. p c)) / ln 2"
    by (simp add: sum.distrib sum_distrib_right sum_subtractf sum_divide_distrib [symmetric] k_def)
  also have "\<dots> = log 2 k" using k by (simp add: one)
  finally show ?thesis by (simp add: k_def)
qed

lemma log2_11: "log 2 11 < (7 / 2 :: real)"
proof -
  have "2 * log 2 11 = log 2 (11 ^ 2 :: real)" by (subst log_nat_power) simp_all
  also have "\<dots> < log 2 (2 ^ 7)" by (subst log_less_cancel_iff) simp_all
  also have "\<dots> = 7" by (subst log_nat_power) simp_all
  finally show ?thesis by simp
qed

lemma entropy_needs_characters:
  assumes "shannonEntropy v \<ge> HIGH_ENTROPY_MIN_BITS_PER_CHAR" "v \<noteq> []"
  shows "12 \<le> card (set v)"
proof (rule ccontr)
  assume "\<not> 12 \<le> card (set v)"
  then have "real (card (set v)) \<le> 11" by simp
  moreover have "0 < real (card (set v))" using assms(2) by (simp add: card_gt_0_iff)
  ultimately have "log 2 (real (card (set v))) \<le> log 2 11" by (subst log_le_cancel_iff) auto
  with log2_11 shannonEntropy_le [OF assms(2)] assms(1) show False
    by (simp add: HIGH_ENTROPY_MIN_BITS_PER_CHAR_def)
qed

section \<open>Properties\<close>

definition DEFAULT_READ_PLANE_EXCLUDE :: "string list" where
  "DEFAULT_READ_PLANE_EXCLUDE = [''.env*'', ''**/secrets/**'', ''**/*.pem'', ''**/*.key'', ''id_rsa*'']"

text \<open>
  (C12) Which paths are secret under the default exclusions: those whose last segment is an environment
  or key file, and everything below a directory called \<open>secrets\<close>, at any depth. The directory
  itself is secret only at the top of the repository.
\<close>

theorem default_secret_paths:
  "isPawSecretPath path (cfg\<lparr>read_plane_exclude := DEFAULT_READ_PLANE_EXCLUDE\<rparr>) \<longleftrightarrow>
     (let p = normalizePath path; segments = split_on (CHR ''/'') p; base = last segments in
      starts_with ''.env'' base \<or> starts_with ''id_rsa'' base \<or> ends_with ''.pem'' base \<or> ends_with ''.key'' base
      \<or> segments = [''secrets''] \<or> ''secrets'' \<in> set (butlast segments))"
proof -
  define p where "p = normalizePath path"
  have seg: "starts_with ''secrets/'' p \<or> includes_str ''/secrets/'' p \<longleftrightarrow>
      ''secrets'' \<in> set (butlast (split_on (CHR ''/'') p))"
    using segment_iff [of "CHR ''/''" "''secrets''" p] by simp
  have one: "p = ''secrets'' \<longleftrightarrow> split_on (CHR ''/'') p = [''secrets'']"
  proof
    assume "split_on (CHR ''/'') p = [''secrets'']"
    then have "join_with [CHR ''/''] (split_on (CHR ''/'') p) = ''secrets''" by simp
    then show "p = ''secrets''" by (simp add: join_split_on)
  qed simp
  have norm: "normalizePath g = g" if "g \<in> set DEFAULT_READ_PLANE_EXCLUDE" for g
    using that by (auto simp: DEFAULT_READ_PLANE_EXCLUDE_def normalizePath_def replace_char_def)
  then have "isPawSecretPath path (cfg\<lparr>read_plane_exclude := DEFAULT_READ_PLANE_EXCLUDE\<rparr>) \<longleftrightarrow>
      starts_with ''.env'' (basename p) \<or> (p = ''secrets'' \<or> starts_with ''secrets/'' p \<or> includes_str ''/secrets/'' p)
      \<or> ends_with ''.pem'' (basename p) \<or> ends_with ''.key'' (basename p) \<or> starts_with ''id_rsa'' (basename p)"
    by (simp add: isPawSecretPath_def matchesSecretPattern_def DEFAULT_READ_PLANE_EXCLUDE_def p_def [symmetric] Let_def)
  then show ?thesis unfolding seg one p_def [symmetric] by (auto simp: Let_def basename_def)
qed

text \<open>
  Every finding of a scan is there: whatever pattern a file is flagged for, the expression that
  counts and previews it occurs in the file at least once; private keys, and only they, block.
\<close>

theorem scan_findings_occur:
  assumes "f \<in> set (scanContent content rel cfg)"
  shows "1 \<le> finding_occurrences f \<and> finding_preview f \<noteq> PreviewRedacted
    \<and> (finding_severity f = secret_block \<longleftrightarrow> finding_pattern f = private_keys)"
proof -
  from assms obtain p where p: "p \<in> set (detectPawSecretPatterns content cfg)" and f:
    "finding_pattern f = p" "finding_severity f = (if p = private_keys then secret_block else secret_warn)"
    "finding_preview f = previewSecretMatch content p" "finding_occurrences f = countPawSecretOccurrences content p"
    by (auto simp: scanContent_def)
  from detected_pattern_found [OF p] have "rx_match_all (secretPatternToRegex p) content \<noteq> []"
      "rx_match (secretPatternToRegex p) content \<noteq> None"
    by (simp_all only: rx_match_all_some [symmetric] rx_match_some [symmetric])
  then show ?thesis
    by (auto simp: f countPawSecretOccurrences_def previewSecretMatch_def Suc_le_eq split: if_splits)
qed

definition sample_secrets :: PawSecretsConfig where
  "sample_secrets = \<lparr>read_plane_exclude = DEFAULT_READ_PLANE_EXCLUDE, redact_at_io_write = True,
     redact_patterns = [''cookies''], flag_high_entropy = True\<rparr>"

lemma sample_cookie: "rx_test rx_cookie ''cookie:''"
  by code_simp

theorem scan_findings_occur_witness:
  "\<exists>f \<in> set (scanContent ''cookie:'' ''a.txt'' sample_secrets). 1 \<le> finding_occurrences f"
proof -
  have "cookies \<in> set (detectPawSecretPatterns ''cookie:'' sample_secrets)"
    by (simp add: detectPawSecretPatterns_def classifyPawRedaction_def appendOptionalPawRedactionPatterns_def
        collectConfiguredRedactionPatterns_def appendPawRedactionPatternIfMatched_def Let_def sample_cookie
        isConfiguredRedactionPattern_def sample_secrets_def)
  then obtain f where "f \<in> set (scanContent ''cookie:'' ''a.txt'' sample_secrets)"
    by (auto simp: scanContent_def)
  with scan_findings_occur [of f] show ?thesis by blast
qed

text \<open>
  Only varied tokens are flagged for entropy: the entropy of a text never exceeds the logarithm of
  the number of its distinct characters, so asking for twelve distinct characters in addition
  would change nothing.
\<close>

theorem high_entropy_needs_variety:
  "shannonEntropy v \<le> log 2 (real (card (set v)))
   \<and> hasHighEntropyToken v = list_ex (\<lambda>t. 12 \<le> card (set t) \<and> isHighEntropyCandidate t
       \<and> shannonEntropy t \<ge> HIGH_ENTROPY_MIN_BITS_PER_CHAR) (split_spaces v)"
proof
  show "shannonEntropy v \<le> log 2 (real (card (set v)))"
    using shannonEntropy_le [of v] by (cases "v = []") (simp_all add: shannonEntropy_def char_counts_def log_def)
  have "12 \<le> card (set t)" if "isHighEntropyCandidate t" "shannonEntropy t \<ge> HIGH_ENTROPY_MIN_BITS_PER_CHAR" for t
    using that entropy_needs_characters by (simp add: isHighEntropyCandidate_def)
  then show "hasHighEntropyToken v = list_ex (\<lambda>t. 12 \<le> card (set t) \<and> isHighEntropyCandidate t
       \<and> shannonEntropy t \<ge> HIGH_ENTROPY_MIN_BITS_PER_CHAR) (split_spaces v)"
    by (auto simp: hasHighEntropyToken_def list_ex_iff)
qed

end
