(* ===== verification/Paw_Tools.thy ===== *)
theory Paw_Tools
  imports Paw_Security
begin

text \<open>
  The runtime of tools: \<open>tool-runtime.ts\<close> (which requests are allowed, and which plans an injected
  executor is given), \<open>command-allowlist.ts\<close>, and \<open>tool-executor.ts\<close> (the local subprocess behind
  an executor, with \<open>verification-executor.ts\<close>, which shares its bounded output).

  An executor is a function on the state of the world outside, which it may change.
\<close>

section \<open>Requests, plans and decisions\<close>

datatype PawToolRuntimeBlockCode =
    ApprovalCode PawApprovalBlockCode
  | SANDBOX_UNAVAILABLE_TOOL
  | SECRET_PATH
  | UNTRUSTED_SOURCE
  | EXECUTE_AUTHORIZATION_REQUIRED
  | EXECUTE_AUTHORIZATION_MISMATCH
  | EXECUTOR_REQUIRED
  | EXECUTOR_FAILED

record PawToolRuntimeSandboxInput =
  sandbox_primitives :: "string list"
  sandbox_override :: "bool option"

record PawToolRuntimeRequest =
  req_toolName :: string
  req_riskLevel :: PawRiskLevel
  req_runMode :: PawRunMode
  req_readOnly :: "bool option"
  req_allowedRiskLevels :: "PawRiskLevel list option"
  req_sandbox :: "PawToolRuntimeSandboxInput option"
  req_paths :: "string list option"
  req_source :: "string option"

text \<open>The parts of the configuration the runtime reads.\<close>

record PawToolRuntimeConfig =
  tool_approval :: PawApprovalPolicyConfig
  tool_preferred :: "string list"
  tool_secrets :: PawSecretsConfig
  tool_injection :: PawInjectionConfig

record PawToolExecutionPlan =
  plan_request :: PawToolRuntimeRequest
  plan_description :: string
  expectedFilesChanged :: bool

datatype PawToolExecutionAuthorizationSource = automatic_policy | explicit_allow | human_approval

text \<open>The status is a literal of the type, but is compared at run time.\<close>

record PawToolExecutionAuthorization =
  auth_status :: string
  auth_toolName :: string
  auth_riskLevel :: PawRiskLevel
  auth_source :: PawToolExecutionAuthorizationSource
  auth_reason :: string

record PawToolExecutorInput =
  input_plan :: PawToolExecutionPlan
  approvedRequest :: PawToolRuntimeRequest
  input_primitive :: "string option"
  input_degraded :: bool

record PawToolExecutorResult =
  tool_exitCode :: int
  tool_stdout :: "string option"
  tool_stderr :: "string option"
  tool_filesChanged :: bool

type_synonym 'w PawToolExecutor = "PawToolExecutorInput \<Rightarrow> 'w \<Rightarrow> PawToolExecutorResult throws \<times> 'w"

record PawToolRuntimeDryRunAllowedDecision =
  dry_toolName :: string
  dry_riskLevel :: PawRiskLevel
  dry_message :: string
  dry_primitive :: "string option"
  dry_degraded :: bool

record PawToolRuntimeExecutedDecision =
  done_toolName :: string
  done_riskLevel :: PawRiskLevel
  done_filesChanged :: bool
  done_message :: string
  done_primitive :: "string option"
  done_degraded :: bool
  done_exitCode :: int
  done_stdout :: "string option"
  done_stderr :: "string option"

record PawToolRuntimeBlockedDecision =
  blocked_code :: PawToolRuntimeBlockCode
  blocked_toolName :: string
  blocked_riskLevel :: PawRiskLevel
  blocked_executed :: bool
  blocked_filesChanged :: bool
  blocked_message :: string
  blocked_suggestedAction :: string
  blocked_issues :: "PawValidationIssue list"
  blocked_exitCode :: "int option"
  blocked_stdout :: "string option"
  blocked_stderr :: "string option"

text \<open>
  What denies a request, what a request without execution yields, and what an execution yields.
\<close>

datatype tool_denial = ToolBlocked PawToolRuntimeBlockedDecision | ToolInvalid string "PawValidationIssue list"

datatype PawToolRuntimeDecision = DryRunAllowed PawToolRuntimeDryRunAllowedDecision | DryRunDenied tool_denial

datatype PawToolRuntimeExecutionResult = ToolExecuted PawToolRuntimeExecutedDecision | ToolDenied tool_denial

section \<open>The preflight\<close>

record execution_report =
  report_executed :: bool
  report_filesChanged :: bool
  report_exitCode :: "int option"
  report_stdout :: "string option"
  report_stderr :: "string option"

definition blocked ::
  "PawToolRuntimeRequest \<Rightarrow> PawToolRuntimeBlockCode \<Rightarrow> string \<Rightarrow> string \<Rightarrow> PawValidationIssue list \<Rightarrow>
     execution_report option \<Rightarrow> PawToolRuntimeBlockedDecision" where
  "blocked req bcode message action issues execution =
     \<lparr>blocked_code = bcode, blocked_toolName = req_toolName req, blocked_riskLevel = req_riskLevel req,
      blocked_executed = (case execution of None \<Rightarrow> False | Some e \<Rightarrow> report_executed e),
      blocked_filesChanged = (case execution of None \<Rightarrow> False | Some e \<Rightarrow> report_filesChanged e),
      blocked_message = message, blocked_suggestedAction = action, blocked_issues = issues,
      blocked_exitCode = Option.bind execution report_exitCode,
      blocked_stdout = Option.bind execution report_stdout,
      blocked_stderr = Option.bind execution report_stderr\<rparr>"

definition validatePawToolRuntimeRequest :: "PawToolRuntimeRequest \<Rightarrow> PawValidationIssue list" where
  "validatePawToolRuntimeRequest req =
     (if js_trim (req_toolName req) = [] then [Issue ''/toolName'' ''Expected non-empty tool name.''] else [])
     @ concat (map (\<lambda>(i, p). if js_trim p = [] then [Issue (''/paths/'' @ show_nat i) ''Expected non-empty path.''] else [])
         (entries (or_else (req_paths req) [])))"

definition evaluatePawToolRuntimeInvalidRequestDecision :: "PawToolRuntimeRequest \<Rightarrow> tool_denial option" where
  "evaluatePawToolRuntimeInvalidRequestDecision req =
     (let issues = validatePawToolRuntimeRequest req in
      if issues = [] then None else Some (ToolInvalid ''Paw tool runtime request is invalid.'' issues))"

definition evaluatePawToolRuntimeSecretPathDecision ::
  "PawToolRuntimeConfig \<Rightarrow> PawToolRuntimeRequest \<Rightarrow> tool_denial option" where
  "evaluatePawToolRuntimeSecretPathDecision cfg req =
     (case Option.bind (req_paths req) (find (\<lambda>p. isPawSecretPath p (tool_secrets cfg))) of
        None \<Rightarrow> None
      | Some p \<Rightarrow> Some (ToolBlocked (blocked req SECRET_PATH (''Paw tool request touches secret path '' @ p @ ''.'')
          ''Use a non-secret path or provide a redacted artifact reference.''
          [Issue ''/paths'' (''Secret path is excluded from Paw tool runtime: '' @ p @ ''.'')] None)))"

definition evaluatePawToolRuntimeUntrustedSourceDecision ::
  "PawToolRuntimeConfig \<Rightarrow> PawToolRuntimeRequest \<Rightarrow> tool_denial option" where
  "evaluatePawToolRuntimeUntrustedSourceDecision cfg req =
     (case req_source req of
        None \<Rightarrow> None
      | Some source \<Rightarrow>
          (case evaluatePawUntrustedSource source (tool_injection cfg) of
             Trusted \<Rightarrow> None
           | ReadOnlySummary how \<Rightarrow>
               if req_readOnly req = Some True then None
               else Some (ToolBlocked (blocked req UNTRUSTED_SOURCE
                 (''Paw tool request from untrusted source '' @ source @ '' cannot perform write-capable work.'')
                 ''Convert untrusted content into a read-only structured summary before requesting tools.''
                 [Issue ''/source'' how] None))))"

definition toolApproval :: "PawToolRuntimeConfig \<Rightarrow> PawToolRuntimeRequest \<Rightarrow> PawApprovalDecision" where
  "toolApproval cfg req = evaluatePawToolApproval
     \<lparr>riskLevel = req_riskLevel req, runMode = req_runMode req, approval_config = Some (tool_approval cfg),
      readOnly = (req_readOnly req = Some True), allowedRiskLevels = or_else (req_allowedRiskLevels req) []\<rparr>"

definition evaluatePawToolRuntimeApprovalDecision ::
  "PawToolRuntimeConfig \<Rightarrow> PawToolRuntimeRequest \<Rightarrow> PawToolExecutionAuthorization option \<Rightarrow> tool_denial option" where
  "evaluatePawToolRuntimeApprovalDecision cfg req auth =
     (case toolApproval cfg req of
        BlockedBy bcode message action l \<Rightarrow>
          Some (ToolBlocked (blocked req (ApprovalCode bcode) message action [Issue ''/riskLevel'' message] None))
      | NeedsApproval message action l \<Rightarrow>
          if map_option auth_source auth \<noteq> Some human_approval then
            Some (ToolBlocked (blocked req (ApprovalCode NEEDS_USER_DECISION_BLOCK) message action
              [Issue ''/riskLevel'' message] None))
          else None
      | Allow \<Rightarrow> None)"

record tool_allowance =
  allow_message :: string
  allow_primitive :: "string option"
  allow_degraded :: bool

definition evaluatePawToolRuntimeMutatingSandboxAllow ::
  "PawToolRuntimeConfig \<Rightarrow> PawToolRuntimeRequest \<Rightarrow> tool_denial + tool_allowance" where
  "evaluatePawToolRuntimeMutatingSandboxAllow cfg req =
     (case evaluatePawSandbox (tool_preferred cfg)
        (case req_sandbox req of None \<Rightarrow> [] | Some s \<Rightarrow> sandbox_primitives s)
        (req_riskLevel req) (Option.bind (req_sandbox req) sandbox_override) of
        SandboxAllow p degraded message \<Rightarrow>
          Inr \<lparr>allow_message = message, allow_primitive = Some p, allow_degraded = degraded\<rparr>
      | SandboxUnsafe message \<Rightarrow>
          Inr \<lparr>allow_message = message, allow_primitive = None, allow_degraded = True\<rparr>
      | SandboxReadOnly message action \<Rightarrow>
          Inl (ToolBlocked (blocked req SANDBOX_UNAVAILABLE_TOOL message action [Issue ''/sandbox'' message] None))
      | SandboxBlocked l message action \<Rightarrow>
          Inl (ToolBlocked (blocked req SANDBOX_UNAVAILABLE_TOOL message action [Issue ''/sandbox'' message] None)))"

definition evaluatePawToolRuntimeSandboxOrDryRunAllow ::
  "PawToolRuntimeConfig \<Rightarrow> PawToolRuntimeRequest \<Rightarrow> tool_denial + tool_allowance" where
  "evaluatePawToolRuntimeSandboxOrDryRunAllow cfg req =
     (if req_readOnly req \<noteq> Some True then evaluatePawToolRuntimeMutatingSandboxAllow cfg req
      else Inr \<lparr>allow_message = ''Paw tool request is allowed for dry-run inspection only.'',
                allow_primitive = None, allow_degraded = False\<rparr>)"

definition evaluatePawToolRuntimePreflight ::
  "PawToolRuntimeConfig \<Rightarrow> PawToolRuntimeRequest \<Rightarrow> PawToolExecutionAuthorization option \<Rightarrow>
     tool_denial + tool_allowance" where
  "evaluatePawToolRuntimePreflight cfg req auth =
     (case evaluatePawToolRuntimeInvalidRequestDecision req of
        Some d \<Rightarrow> Inl d
      | None \<Rightarrow>
     (case evaluatePawToolRuntimeSecretPathDecision cfg req of
        Some d \<Rightarrow> Inl d
      | None \<Rightarrow>
     (case evaluatePawToolRuntimeUntrustedSourceDecision cfg req of
        Some d \<Rightarrow> Inl d
      | None \<Rightarrow>
     (case evaluatePawToolRuntimeApprovalDecision cfg req auth of
        Some d \<Rightarrow> Inl d
      | None \<Rightarrow> evaluatePawToolRuntimeSandboxOrDryRunAllow cfg req))))"

definition evaluatePawToolRuntimeRequest ::
  "PawToolRuntimeConfig \<Rightarrow> PawToolRuntimeRequest \<Rightarrow> PawToolRuntimeDecision" where
  "evaluatePawToolRuntimeRequest cfg req =
     (case evaluatePawToolRuntimePreflight cfg req None of
        Inl d \<Rightarrow> DryRunDenied d
      | Inr a \<Rightarrow> DryRunAllowed \<lparr>dry_toolName = req_toolName req, dry_riskLevel = req_riskLevel req,
          dry_message = allow_message a, dry_primitive = allow_primitive a, dry_degraded = allow_degraded a\<rparr>)"

section \<open>Execution\<close>

definition isAutoExecutableRisk :: "PawRiskLevel \<Rightarrow> bool" where
  "isAutoExecutableRisk l \<longleftrightarrow> \<not> isPawRiskAtLeast l R3"

definition isExplicitAllowExecutableRisk :: "PawRiskLevel \<Rightarrow> bool" where
  "isExplicitAllowExecutableRisk l \<longleftrightarrow> isPawRiskAtLeast l R3 \<and> \<not> isPawRiskAtLeast l R7"

definition validatePawToolExecutionAuthorization ::
  "PawToolRuntimeRequest \<Rightarrow> PawToolExecutionAuthorization \<Rightarrow> PawValidationIssue list" where
  "validatePawToolExecutionAuthorization req auth =
     (if auth_status auth \<noteq> ''execute_authorized''
      then [Issue ''/authorization/status'' ''Expected execute_authorized status.''] else [])
     @ (if auth_toolName auth \<noteq> req_toolName req
        then [Issue ''/authorization/toolName'' ''Authorization tool name must match the plan.''] else [])
     @ (if auth_riskLevel auth \<noteq> req_riskLevel req
        then [Issue ''/authorization/riskLevel'' ''Authorization risk level must match the plan.''] else [])
     @ (if js_trim (auth_reason auth) = []
        then [Issue ''/authorization/reason'' ''Expected non-empty execute authorization reason.''] else [])
     @ (if req_riskLevel req = R7 \<and> auth_source auth \<noteq> human_approval
        then [Issue ''/authorization/source'' ''R7 execution requires human approval.''] else [])
     @ (if auth_source auth = automatic_policy \<and> \<not> isAutoExecutableRisk (req_riskLevel req)
        then [Issue ''/authorization/source'' ''Automatic execution authorization is limited to R0-R2.''] else [])
     @ (if auth_source auth = explicit_allow \<and> \<not> isExplicitAllowExecutableRisk (req_riskLevel req)
        then [Issue ''/authorization/source'' ''Explicit allow execution authorization is limited to R3-R6.''] else [])"

definition js_error_text :: "js_error \<Rightarrow> string" where
  "js_error_text e = (case e of JsError m \<Rightarrow> m | FileSystemError c \<Rightarrow> c)"

text \<open>
  A blocked decision for a missing or throwing executor, or the result of the executor.
\<close>

definition runInjectedExecutor ::
  "PawToolExecutionPlan \<Rightarrow> 'w PawToolExecutor option \<Rightarrow> tool_allowance \<Rightarrow> 'w \<Rightarrow>
     (PawToolRuntimeBlockedDecision + PawToolExecutorResult) \<times> 'w" where
  "runInjectedExecutor plan executor a w =
     (case executor of
        None \<Rightarrow>
          (Inl (blocked (plan_request plan) EXECUTOR_REQUIRED
             ''Paw tool execution requires an explicitly injected executor; the default runtime path is non-mutating.''
             ''Provide a safe executor from a caller that owns sandboxed command execution.''
             [Issue ''/executor'' ''Missing injected executor.''] None), w)
      | Some f \<Rightarrow>
          (case f \<lparr>input_plan = plan, approvedRequest = plan_request plan, input_primitive = allow_primitive a,
                  input_degraded = allow_degraded a\<rparr> w of
             (Inr result, w') \<Rightarrow> (Inr result, w')
           | (Inl e, w') \<Rightarrow>
               (Inl (blocked (plan_request plan) EXECUTOR_FAILED
                  ''Injected Paw tool executor threw before reporting an execution result.''
                  ''Inspect executor output and retry only after resolving the failure.''
                  [Issue ''/executor'' (js_error_text e)]
                  (Some \<lparr>report_executed = True, report_filesChanged = False, report_exitCode = None,
                     report_stdout = None, report_stderr = Some (js_error_text e)\<rparr>)), w')))"

text \<open>
  The cast \<open>executorResult as PawToolExecutorResult\<close>: the fields of a blocked decision are read as
  those of a result. A missing exit code prints as \<open>undefined\<close>.
\<close>

definition readExecutorResult ::
  "PawToolRuntimeBlockedDecision + PawToolExecutorResult \<Rightarrow> int option \<times> string option \<times> string option \<times> bool" where
  "readExecutorResult r =
     (case r of
        Inl d \<Rightarrow> (blocked_exitCode d, blocked_stdout d, blocked_stderr d, blocked_filesChanged d)
      | Inr x \<Rightarrow> (Some (tool_exitCode x), tool_stdout x, tool_stderr x, tool_filesChanged x))"

definition show_exit :: "int option \<Rightarrow> string" where
  "show_exit c = (case c of None \<Rightarrow> ''undefined'' | Some i \<Rightarrow> show_int i)"

definition reportExecution ::
  "PawToolRuntimeRequest \<Rightarrow> tool_allowance \<Rightarrow> PawToolRuntimeBlockedDecision + PawToolExecutorResult \<Rightarrow>
     PawToolRuntimeExecutionResult" where
  "reportExecution req a r =
     (case readExecutorResult r of (ec, out, err, changed) \<Rightarrow>
        if ec \<noteq> Some 0 then
          ToolDenied (ToolBlocked (blocked req EXECUTOR_FAILED
            (''Injected Paw tool executor failed with exit code '' @ show_exit ec @ ''.'')
            ''Inspect executor output and retry only after resolving the failure.''
            [Issue ''/executor/exitCode'' (''Expected exit code 0, received '' @ show_exit ec @ ''.'')]
            (Some \<lparr>report_executed = True, report_filesChanged = changed, report_exitCode = ec,
               report_stdout = out, report_stderr = err\<rparr>)))
        else
          ToolExecuted \<lparr>done_toolName = req_toolName req, done_riskLevel = req_riskLevel req,
            done_filesChanged = changed,
            done_message = ''Paw tool plan executed by injected executor after runtime approval, sandbox, secret, and untrusted-source gates passed.'',
            done_primitive = allow_primitive a, done_degraded = allow_degraded a,
            done_exitCode = the ec, done_stdout = out, done_stderr = err\<rparr>)"

definition executePawToolRuntimePlan ::
  "PawToolRuntimeConfig \<Rightarrow> PawToolExecutionPlan \<Rightarrow> PawToolExecutionAuthorization option \<Rightarrow>
     'w PawToolExecutor option \<Rightarrow> 'w \<Rightarrow> PawToolRuntimeExecutionResult \<times> 'w" where
  "executePawToolRuntimePlan cfg plan auth executor w =
     (let req = plan_request plan in
      case evaluatePawToolRuntimePreflight cfg req auth of
        Inl d \<Rightarrow> (ToolDenied d, w)
      | Inr a \<Rightarrow>
          (case auth of
             None \<Rightarrow>
               (ToolDenied (ToolBlocked (blocked req EXECUTE_AUTHORIZATION_REQUIRED
                  ''Paw tool execution requires a distinct execute authorization; dry-run approval is not execution approval.''
                  ''Create an execute authorization after approval gates pass, then retry with an injected executor.''
                  [Issue ''/authorization'' ''Missing execute authorization.''] None)), w)
           | Some au \<Rightarrow>
               let issues = validatePawToolExecutionAuthorization req au in
               if issues \<noteq> [] then
                 (ToolDenied (ToolBlocked (blocked req EXECUTE_AUTHORIZATION_MISMATCH
                    ''Paw tool execution authorization does not match the requested tool plan.''
                    ''Issue a fresh execute authorization for the exact tool name, risk level, and approval source.''
                    issues None)), w)
               else
                 (case runInjectedExecutor plan executor a w of
                    (Inl d, w') \<Rightarrow>
                      if \<not> blocked_executed d then (ToolDenied (ToolBlocked d), w')
                      else (reportExecution req a (Inl d), w')
                  | (Inr x, w') \<Rightarrow> (reportExecution req a (Inr x), w'))))"

section \<open>The allowlist of commands\<close>

text \<open>A pattern of arguments: the source of the expression, and the expression.\<close>

record PawArgPattern =
  pattern_source :: string
  pattern_regexp :: rx

record PawCommandAllowlistEntry =
  entry_command :: string
  entry_argPattern :: "PawArgPattern option"
  entry_riskLevel :: PawRiskLevel
  entry_allowed :: bool

record PawCommandAllowlistConfig =
  allowlist_entries :: "PawCommandAllowlistEntry list"
  blockedByDefault :: bool

record PawCommandAllowlistDecision =
  allowlist_allowed :: bool
  matchedEntry :: "PawCommandAllowlistEntry option"
  allowlist_reason :: string

definition exactly :: "string \<Rightarrow> PawArgPattern" where
  "exactly arg = \<lparr>pattern_source = ''^'' @ arg @ ''$'', pattern_regexp = rx_seq [RxStart, rx_text arg, RxEnd]\<rparr>"

definition entry :: "string \<Rightarrow> string option \<Rightarrow> PawRiskLevel \<Rightarrow> bool \<Rightarrow> PawCommandAllowlistEntry" where
  "entry command arg l allowed = \<lparr>entry_command = command, entry_argPattern = map_option exactly arg,
     entry_riskLevel = l, entry_allowed = allowed\<rparr>"

definition DEFAULT_PAW_COMMAND_ALLOWLIST :: PawCommandAllowlistConfig where
  "DEFAULT_PAW_COMMAND_ALLOWLIST = \<lparr>allowlist_entries =
     [entry ''ls'' None R0 True, entry ''cat'' None R0 True, entry ''head'' None R0 True,
      entry ''tail'' None R0 True, entry ''grep'' None R0 True, entry ''find'' None R0 True,
      entry ''git'' (Some ''status'') R0 True, entry ''git'' (Some ''diff'') R0 True,
      entry ''git'' (Some ''log'') R0 True, entry ''git'' (Some ''show'') R0 True,
      entry ''git'' (Some ''add'') R1 True, entry ''npm'' (Some ''test'') R2 True,
      entry ''npm'' (Some ''run'') R2 True, entry ''npm'' (Some ''ci'') R3 True,
      entry ''npm'' (Some ''install'') R3 True, entry ''npx'' None R2 True, entry ''node'' None R2 True,
      entry ''python3?'' None R2 True, entry ''cargo'' None R2 True, entry ''go'' None R2 True,
      entry ''docker'' None R5 False, entry ''kubectl'' None R5 False, entry ''aws'' None R5 False,
      entry ''rm'' None R6 False, entry ''rmdir'' None R6 False, entry ''sudo'' None R7 False],
     blockedByDefault = True\<rparr>"

definition normalizeCommandName :: "string \<Rightarrow> string" where
  "normalizeCommandName command =
     (let base = basename command in
      if base \<in> {''python3.12'', ''python3.11'', ''python3.10'', ''python3''} then ''python3'' else base)"

definition decisionForAllowlistEntry :: "PawCommandAllowlistEntry \<Rightarrow> string \<Rightarrow> string \<Rightarrow> PawCommandAllowlistDecision" where
  "decisionForAllowlistEntry e allowReason denyReason =
     \<lparr>allowlist_allowed = entry_allowed e, matchedEntry = Some e,
      allowlist_reason = (if entry_allowed e then allowReason else denyReason)\<rparr>"

definition matchPawAllowlistEntry ::
  "string \<Rightarrow> string list \<Rightarrow> PawCommandAllowlistEntry \<Rightarrow> PawCommandAllowlistDecision option" where
  "matchPawAllowlistEntry command args e =
     (let entryCommand = (if ends_with ''?'' (entry_command e) then butlast (entry_command e) else entry_command e) in
      if command \<noteq> entryCommand then None
      else
        (case entry_argPattern e of
           None \<Rightarrow> Some (decisionForAllowlistEntry e (''Matched '' @ entry_command e @ '' allowlist entry'')
             (''Command '' @ entry_command e @ '' is denied ('' @ riskLevelString (entry_riskLevel e) @ '')''))
         | Some pat \<Rightarrow>
             let firstArg = (case args of [] \<Rightarrow> [] | a # _ \<Rightarrow> a) in
             if \<not> rx_test (pattern_regexp pat) firstArg then None
             else Some (decisionForAllowlistEntry e
               (''Matched '' @ entry_command e @ '' '' @ pattern_source pat)
               (''Command '' @ entry_command e @ '' '' @ pattern_source pat @ '' is denied''))))"

definition defaultPawAllowlistDecision :: "string \<Rightarrow> bool \<Rightarrow> PawCommandAllowlistDecision" where
  "defaultPawAllowlistDecision command byDefault =
     (if byDefault
      then \<lparr>allowlist_allowed = False, matchedEntry = None,
            allowlist_reason = ''Command '' @ command @ '' is not in the allowlist''\<rparr>
      else \<lparr>allowlist_allowed = True, matchedEntry = None,
            allowlist_reason = ''Command '' @ command @ '' accepted by default (allowlist not enforced)''\<rparr>)"

fun firstAllowlistMatch ::
  "string \<Rightarrow> string list \<Rightarrow> PawCommandAllowlistEntry list \<Rightarrow> PawCommandAllowlistDecision option" where
  "firstAllowlistMatch command args [] = None"
| "firstAllowlistMatch command args (e # es) =
     (case matchPawAllowlistEntry command args e of
        Some d \<Rightarrow> Some d
      | None \<Rightarrow> firstAllowlistMatch command args es)"

definition evaluatePawCommandAllowlist ::
  "string \<Rightarrow> string list \<Rightarrow> PawCommandAllowlistConfig \<Rightarrow> PawCommandAllowlistDecision" where
  "evaluatePawCommandAllowlist command args cfg =
     (let name = normalizeCommandName command in
      case firstAllowlistMatch name args (allowlist_entries cfg) of
        Some d \<Rightarrow> d
      | None \<Rightarrow> defaultPawAllowlistDecision name (blockedByDefault cfg))"

section \<open>What passes the preflight\<close>

lemma preflight_allows:
  assumes "evaluatePawToolRuntimePreflight cfg req auth = Inr a"
  shows "validatePawToolRuntimeRequest req = []"
    and "\<forall>p \<in> set (or_else (req_paths req) []). \<not> isPawSecretPath p (tool_secrets cfg)"
    and "\<And>s. req_source req = Some s \<Longrightarrow> s \<in> set (untrusted_sources (tool_injection cfg)) \<Longrightarrow> req_readOnly req = Some True"
    and "toolApproval cfg req = Allow \<or>
      (\<exists>m act l. toolApproval cfg req = NeedsApproval m act l) \<and> map_option auth_source auth = Some human_approval"
    and "evaluatePawToolRuntimeSandboxOrDryRunAllow cfg req = Inr a"
  using assms
  by (auto simp: evaluatePawToolRuntimePreflight_def evaluatePawToolRuntimeInvalidRequestDecision_def
      evaluatePawToolRuntimeSecretPathDecision_def evaluatePawToolRuntimeUntrustedSourceDecision_def
      evaluatePawToolRuntimeApprovalDecision_def evaluatePawUntrustedSource_def or_else_def find_None_iff Let_def
      Option.bind_eq_None_conv dest!: sym [of "Some _"]
      split: option.splits if_splits PawUntrustedSourceDecision.splits PawApprovalDecision.splits)

lemma read_only_approval:
  assumes "toolApproval cfg req = Allow \<or> (\<exists>m act l. toolApproval cfg req = NeedsApproval m act l)"
    and "req_readOnly req = Some True"
  shows "req_riskLevel req = R0"
proof -
  have "\<not> R1 \<le> req_riskLevel req"
    using assms by (auto simp: toolApproval_def evaluatePawToolApproval_def Let_def)
  then show ?thesis by (cases "req_riskLevel req") (simp_all add: less_eq_PawRiskLevel_def)
qed

lemma find_some_in: "find P xs = Some x \<Longrightarrow> x \<in> set xs \<and> P x"
  by (auto simp: find_Some_iff)

lemma sandbox_allows:
  assumes "evaluatePawToolRuntimeMutatingSandboxAllow cfg req = Inr a"
  shows "case allow_primitive a of
      Some p \<Rightarrow> p \<in> set (tool_preferred cfg) \<and> (\<exists>s. req_sandbox req = Some s \<and> p \<in> set (sandbox_primitives s))
    | None \<Rightarrow> Option.bind (req_sandbox req) sandbox_override = Some True"
proof (cases "req_sandbox req")
  case None
  with assms show ?thesis
    by (auto simp: evaluatePawToolRuntimeMutatingSandboxAllow_def evaluatePawSandbox_def
        split: option.splits if_splits PawSandboxDecision.splits dest: find_some_in)
next
  case (Some s)
  with assms show ?thesis
    by (auto simp: evaluatePawToolRuntimeMutatingSandboxAllow_def evaluatePawSandbox_def
        split: option.splits if_splits PawSandboxDecision.splits dest: find_some_in)
qed

text \<open>An executor is asked only behind the gates, and what it did is reported as executed.\<close>

lemma execute_cases:
  assumes "executePawToolRuntimePlan cfg plan auth executor w = (res, w')"
  obtains (stopped) d where "w' = w" "res = ToolDenied d" "\<And>b. d = ToolBlocked b \<Longrightarrow> \<not> blocked_executed b"
  | (asked) f au a r where "executor = Some f" "auth = Some au"
      "evaluatePawToolRuntimePreflight cfg (plan_request plan) auth = Inr a"
      "validatePawToolExecutionAuthorization (plan_request plan) au = []"
      "f \<lparr>input_plan = plan, approvedRequest = plan_request plan, input_primitive = allow_primitive a,
          input_degraded = allow_degraded a\<rparr> w = (r, w')"
      "res = reportExecution (plan_request plan) a (fst (runInjectedExecutor plan executor a w))"
proof -
  let ?req = "plan_request plan"
  show ?thesis
  proof (cases "evaluatePawToolRuntimePreflight cfg ?req auth")
    case (Inl d)
    have "\<not> blocked_executed b" if "d = ToolBlocked b" for b
      using Inl that
      by (auto simp: evaluatePawToolRuntimePreflight_def evaluatePawToolRuntimeInvalidRequestDecision_def
          evaluatePawToolRuntimeSecretPathDecision_def evaluatePawToolRuntimeUntrustedSourceDecision_def
          evaluatePawToolRuntimeApprovalDecision_def evaluatePawToolRuntimeSandboxOrDryRunAllow_def
          evaluatePawToolRuntimeMutatingSandboxAllow_def blocked_def Let_def
          split: option.splits if_splits PawUntrustedSourceDecision.splits PawApprovalDecision.splits PawSandboxDecision.splits)
    with Inl assms show ?thesis by (intro stopped [of d]) (auto simp: executePawToolRuntimePlan_def Let_def)
  next
    case (Inr a)
    show ?thesis
    proof (cases "\<exists>au. auth = Some au \<and> validatePawToolExecutionAuthorization ?req au = [] \<and> executor \<noteq> None")
      case True
      then obtain au f where au: "auth = Some au" "validatePawToolExecutionAuthorization ?req au = []" and f: "executor = Some f"
        by auto
      let ?input = "\<lparr>input_plan = plan, approvedRequest = ?req, input_primitive = allow_primitive a,
          input_degraded = allow_degraded a\<rparr>"
      obtain r w1 where r: "f ?input w = (r, w1)" by (cases "f ?input w")
      have "w1 = w'" "res = reportExecution ?req a (fst (runInjectedExecutor plan executor a w))"
        using assms Inr au f r
        by (cases r; simp add: executePawToolRuntimePlan_def runInjectedExecutor_def blocked_def Let_def)+
      with r Inr au f show ?thesis by (intro asked [of f au a r]) auto
    next
      case False
      with Inr assms show ?thesis
        by (intro stopped [of "case res of ToolDenied d \<Rightarrow> d"])
          (auto simp: executePawToolRuntimePlan_def runInjectedExecutor_def blocked_def Let_def
            split: option.split_asm if_split_asm)
    qed
  qed
qed

section \<open>Properties\<close>

text \<open>
  (C8) Nothing happens behind the back of the gates: if the world changed, a plan was executed with an
  authorization for its exact tool and risk level, it touches no secret path, a request from an
  untrusted source was at level R0, R7 was approved by a human, and from R1 on the executor was
  given a sandbox that is configured and available, unless the request overrides the sandbox.
\<close>

theorem tool_execution_guarded:
  assumes "executePawToolRuntimePlan cfg plan auth executor w = (res, w')" and "w' \<noteq> w"
    and req: "req = plan_request plan"
  shows "\<exists>f au i. executor = Some f \<and> auth = Some au \<and> w' = snd (f i w) \<and> input_plan i = plan
    \<and> auth_toolName au = req_toolName req \<and> auth_riskLevel au = req_riskLevel req
    \<and> (\<forall>p \<in> set (or_else (req_paths req) []). \<not> isPawSecretPath p (tool_secrets cfg))
    \<and> (\<forall>s. req_source req = Some s \<and> s \<in> set (untrusted_sources (tool_injection cfg)) \<longrightarrow> req_riskLevel req = R0)
    \<and> (req_riskLevel req = R7 \<longrightarrow> auth_source au = human_approval)
    \<and> (R1 \<le> req_riskLevel req \<longrightarrow>
        (case input_primitive i of
           Some p \<Rightarrow> p \<in> set (tool_preferred cfg) \<and> (\<exists>s. req_sandbox req = Some s \<and> p \<in> set (sandbox_primitives s))
         | None \<Rightarrow> Option.bind (req_sandbox req) sandbox_override = Some True))"
  using assms(1)
proof (cases rule: execute_cases)
  case (asked f au a r)
  let ?i = "\<lparr>input_plan = plan, approvedRequest = plan_request plan, input_primitive = allow_primitive a,
          input_degraded = allow_degraded a\<rparr>"
  note pre = preflight_allows [OF asked(3), folded req]
  have au: "auth_toolName au = req_toolName req" "auth_riskLevel au = req_riskLevel req"
    "req_riskLevel req = R7 \<Longrightarrow> auth_source au = human_approval"
    using asked(4) by (auto simp: validatePawToolExecutionAuthorization_def req split: if_splits)
  have r0: "req_readOnly req = Some True \<Longrightarrow> req_riskLevel req = R0"
    using pre(4) read_only_approval [of cfg req] by blast
  have box: "R1 \<le> req_riskLevel req \<Longrightarrow> (case allow_primitive a of
      Some p \<Rightarrow> p \<in> set (tool_preferred cfg) \<and> (\<exists>s. req_sandbox req = Some s \<and> p \<in> set (sandbox_primitives s))
    | None \<Rightarrow> Option.bind (req_sandbox req) sandbox_override = Some True)"
  proof (rule sandbox_allows)
    assume "R1 \<le> req_riskLevel req"
    then have "req_readOnly req \<noteq> Some True" using r0 by (auto simp: less_eq_PawRiskLevel_def)
    with pre(5) show "evaluatePawToolRuntimeMutatingSandboxAllow cfg req = Inr a"
      by (simp add: evaluatePawToolRuntimeSandboxOrDryRunAllow_def)
  qed
  show ?thesis
    using asked(1,2,5) au pre(2,3) r0 box
    by (intro exI [of _ f] exI [of _ au] exI [of _ ?i]) auto
qed (use assms(2) in simp)

definition sample_request :: PawToolRuntimeRequest where
  "sample_request = \<lparr>req_toolName = ''edit'', req_riskLevel = R1, req_runMode = ci, req_readOnly = None,
     req_allowedRiskLevels = None,
     req_sandbox = Some \<lparr>sandbox_primitives = [''bubblewrap''], sandbox_override = None\<rparr>,
     req_paths = Some [''src/a.ts''], req_source = None\<rparr>"

definition sample_tool_plan :: PawToolExecutionPlan where
  "sample_tool_plan = \<lparr>plan_request = sample_request, plan_description = ''edit'', expectedFilesChanged = True\<rparr>"

definition sample_tool_config :: PawToolRuntimeConfig where
  "sample_tool_config = \<lparr>tool_approval = \<lparr>risk_levels = (\<lambda>_. ''x''), matrix_auto = [R0, R1, R2],
       matrix_require_approval = [R3, R4, R5, R6], matrix_always_human_never_auto = [R7]\<rparr>,
     tool_preferred = [''bubblewrap''], tool_secrets = sample_secrets,
     tool_injection = \<lparr>untrusted_sources = [''web''], handling = ''summary''\<rparr>\<rparr>"

definition sample_authorization :: PawToolExecutionAuthorization where
  "sample_authorization = \<lparr>auth_status = ''execute_authorized'', auth_toolName = ''edit'', auth_riskLevel = R1,
     auth_source = automatic_policy, auth_reason = ''ok''\<rparr>"

definition sample_tool_executor :: "nat PawToolExecutor" where
  "sample_tool_executor i w = (Inr \<lparr>tool_exitCode = 0, tool_stdout = None, tool_stderr = None, tool_filesChanged = True\<rparr>, w + 1)"

definition throwing_executor :: "nat PawToolExecutor" where
  "throwing_executor i w = (Inl (JsError ''disk full''), w + 1)"

lemma sample_preflight:
  "evaluatePawToolRuntimePreflight sample_tool_config sample_request (Some sample_authorization) =
     Inr \<lparr>allow_message = ''Selected preferred sandbox primitive bubblewrap.'', allow_primitive = Some ''bubblewrap'', allow_degraded = False\<rparr>"
  by code_simp

lemma sample_authorized: "validatePawToolExecutionAuthorization sample_request sample_authorization = []"
  by code_simp

theorem tool_execution_guarded_witness:
  "snd (executePawToolRuntimePlan sample_tool_config sample_tool_plan (Some sample_authorization) (Some sample_tool_executor) 0) = 1
   \<and> auth_toolName sample_authorization = req_toolName sample_request"
proof -
  obtain res w' where run: "executePawToolRuntimePlan sample_tool_config sample_tool_plan (Some sample_authorization)
      (Some sample_tool_executor) 0 = (res, w')" by (cases "executePawToolRuntimePlan sample_tool_config sample_tool_plan (Some sample_authorization)
      (Some sample_tool_executor) 0")
  then have "w' = 1"
    by (auto simp: executePawToolRuntimePlan_def sample_tool_plan_def sample_preflight sample_authorized
        runInjectedExecutor_def sample_tool_executor_def)
  with tool_execution_guarded [OF run _ refl] have "auth_toolName sample_authorization = req_toolName sample_request"
    by (auto simp: sample_tool_plan_def)
  with run \<open>w' = 1\<close> show ?thesis by simp
qed

text \<open>
  (C9) What a throwing executor threw is lost in the report: every decision after an execution that did not
  succeed carries the issue and the message of a failed exit code, never the issue written for
  a thrown error; after a throw that exit code is \<open>undefined\<close>.
\<close>

theorem thrown_executor_misreported:
  assumes "executePawToolRuntimePlan cfg plan auth executor w = (ToolDenied (ToolBlocked d), w')"
    and "blocked_executed d"
  shows "blocked_code d = EXECUTOR_FAILED \<and> map issue_path (blocked_issues d) = [''/executor/exitCode'']
    \<and> blocked_message d = ''Injected Paw tool executor failed with exit code '' @ show_exit (blocked_exitCode d) @ ''.''"
  using assms(1)
proof (cases rule: execute_cases)
  case (asked f au a r)
  then show ?thesis
    by (auto simp: reportExecution_def blocked_def split: prod.splits if_splits)
qed (use assms(2) in auto)

theorem thrown_executor_misreported_witness:
  "\<exists>d w'. executePawToolRuntimePlan sample_tool_config sample_tool_plan (Some sample_authorization)
      (Some throwing_executor) 0 = (ToolDenied (ToolBlocked d), w')
    \<and> blocked_message d = ''Injected Paw tool executor failed with exit code undefined.''
    \<and> blocked_stderr d = Some ''disk full'' \<and> map issue_path (blocked_issues d) = [''/executor/exitCode'']"
proof -
  obtain d w' where run: "executePawToolRuntimePlan sample_tool_config sample_tool_plan (Some sample_authorization)
      (Some throwing_executor) 0 = (ToolDenied (ToolBlocked d), w')" and d: "blocked_executed d"
      "blocked_stderr d = Some ''disk full''" "blocked_exitCode d = None"
    by (auto simp: executePawToolRuntimePlan_def sample_tool_plan_def sample_preflight sample_authorized
        runInjectedExecutor_def throwing_executor_def reportExecution_def readExecutorResult_def blocked_def js_error_text_def)
  with thrown_executor_misreported [OF run d(1)] show ?thesis by (simp add: show_exit_def)
qed


section \<open>The default allowlist\<close>

lemma exactly_test [simp]: "rx_test (pattern_regexp (exactly w)) s \<longleftrightarrow> s = w"
  by (force simp: exactly_def rx_test_iff rx_step_seq)

definition first_arg :: "string list \<Rightarrow> string" where
  "first_arg args = (case args of [] \<Rightarrow> [] | a # _ \<Rightarrow> a)"

lemma match_entry:
  "map_option allowlist_allowed (matchPawAllowlistEntry n args (entry c arg l al)) =
     (if n = (if ends_with ''?'' c then butlast c else c) \<and> (\<forall>a. arg = Some a \<longrightarrow> first_arg args = a) then Some al else None)"
  by (auto simp: matchPawAllowlistEntry_def entry_def decisionForAllowlistEntry_def first_arg_def Let_def
      split: option.splits)

definition verdict :: "string \<Rightarrow> string list \<Rightarrow> PawCommandAllowlistEntry list \<Rightarrow> bool option" where
  "verdict n args es = map_option allowlist_allowed (firstAllowlistMatch n args es)"

lemma verdict_Nil: "verdict n args [] = None"
  by (simp add: verdict_def)

lemma verdict_Cons:
  "verdict n args (entry c arg l al # es) =
     (if n = (if ends_with ''?'' c then butlast c else c) \<and> (\<forall>a. arg = Some a \<longrightarrow> first_arg args = a) then Some al
      else verdict n args es)"
  using match_entry [of n args c arg l al] by (auto simp: verdict_def split: option.splits if_splits)

text \<open>
  What the default allowlist lets through: a fixed set of programs by the last segment of their
  path, git and npm by their first argument, everything else not. The entry \<open>python3?\<close> stands
  for \<open>python3\<close> alone, so \<open>python\<close> is refused.
\<close>

theorem default_allowlist_exact:
  "allowlist_allowed (evaluatePawCommandAllowlist command args DEFAULT_PAW_COMMAND_ALLOWLIST) \<longleftrightarrow>
     (let n = basename command in
      n \<in> {''ls'', ''cat'', ''head'', ''tail'', ''grep'', ''find'', ''npx'', ''node'', ''cargo'', ''go'',
           ''python3'', ''python3.10'', ''python3.11'', ''python3.12''}
      \<or> n = ''git'' \<and> first_arg args \<in> {''status'', ''diff'', ''log'', ''show'', ''add''}
      \<or> n = ''npm'' \<and> first_arg args \<in> {''test'', ''run'', ''ci'', ''install''})"
proof -
  define n where "n = normalizeCommandName command"
  have "allowlist_allowed (evaluatePawCommandAllowlist command args DEFAULT_PAW_COMMAND_ALLOWLIST) \<longleftrightarrow>
      verdict n args (allowlist_entries DEFAULT_PAW_COMMAND_ALLOWLIST) = Some True"
    by (auto simp: verdict_def evaluatePawCommandAllowlist_def n_def Let_def defaultPawAllowlistDecision_def
        DEFAULT_PAW_COMMAND_ALLOWLIST_def split: option.splits)
  also have "\<dots> \<longleftrightarrow> n \<in> {''ls'', ''cat'', ''head'', ''tail'', ''grep'', ''find'', ''npx'', ''node'', ''cargo'', ''go'', ''python3''}
      \<or> n = ''git'' \<and> first_arg args \<in> {''status'', ''diff'', ''log'', ''show'', ''add''}
      \<or> n = ''npm'' \<and> first_arg args \<in> {''test'', ''run'', ''ci'', ''install''}"
    by (simp add: DEFAULT_PAW_COMMAND_ALLOWLIST_def verdict_Cons verdict_Nil ends_with_def)
  finally show ?thesis by (simp add: n_def normalizeCommandName_def Let_def)
qed

end
