(* ===== verification/Paw_Subprocess.thy ===== *)
theory Paw_Subprocess
  imports Paw_Tools Paw_Report
begin

text \<open>
  The two executors that start child processes: \<open>verification-executor.ts\<close>, behind the verification
  runner, and \<open>tool-executor.ts\<close>, behind the tool runtime. A child is the sequence of events its
  listeners receive; bytes are characters, and their decoding as UTF-8 is a parameter.
\<close>

section \<open>Bounded output\<close>

record ChunkAccumulator =
  chunks :: "string list"
  bytes :: int

definition noChunks :: ChunkAccumulator where
  "noChunks = \<lparr>chunks = [], bytes = 0\<rparr>"

definition collectChunk :: "ChunkAccumulator \<Rightarrow> string \<Rightarrow> int \<Rightarrow> ChunkAccumulator" where
  "collectChunk acc data maxBytes =
     (let remaining = maxBytes - bytes acc in
      if remaining \<le> 0 then acc
      else if int (length data) > remaining then
        \<lparr>chunks = chunks acc @ [take (nat remaining) data], bytes = maxBytes\<rparr>
      else \<lparr>chunks = chunks acc @ [data], bytes = bytes acc + int (length data)\<rparr>)"

definition resolveBufferedOutput :: "(string \<Rightarrow> string) \<Rightarrow> ChunkAccumulator \<Rightarrow> string" where
  "resolveBufferedOutput utf8 acc = utf8 (concat (chunks acc))"

section \<open>Children\<close>

text \<open>
  What a child process does to its listeners: data on its two streams, the timer of the executor,
  an error, or the close of the process and its streams with an exit code or none.
\<close>

datatype child_event =
    StdoutData string
  | StderrData string
  | TimerFires
  | ChildError string
  | ChildClose "int option"

fun stdoutPart :: "child_event \<Rightarrow> string option" where
  "stdoutPart (StdoutData d) = Some d"
| "stdoutPart _ = None"

fun stderrPart :: "child_event \<Rightarrow> string option" where
  "stderrPart (StderrData d) = Some d"
| "stderrPart _ = None"

definition TIMEOUT_EXIT_CODE :: int where "TIMEOUT_EXIT_CODE = 124"

definition COMMAND_NOT_FOUND_EXIT_CODE :: int where "COMMAND_NOT_FOUND_EXIT_CODE = 127"

definition DEFAULT_MAX_OUTPUT_BYTES :: int where "DEFAULT_MAX_OUTPUT_BYTES = 1048576"

section \<open>The executor of verification commands\<close>

text \<open>The first call of \<open>resolve\<close> decides the promise; later calls have no effect.\<close>

record native_run =
  native_out :: ChunkAccumulator
  native_err :: ChunkAccumulator
  native_timedOut :: bool
  native_armed :: bool
  native_result :: "PawNativeVerificationExecutorResult option"

definition settleNative :: "native_run \<Rightarrow> PawNativeVerificationExecutorResult \<Rightarrow> native_run" where
  "settleNative st r = st\<lparr>native_armed := False,
     native_result := (case native_result st of None \<Rightarrow> Some r | Some q \<Rightarrow> Some q)\<rparr>"

fun nativeEvent :: "(string \<Rightarrow> string) \<Rightarrow> int \<Rightarrow> native_run \<Rightarrow> child_event \<Rightarrow> native_run" where
  "nativeEvent utf8 maxOutputBytes st (StdoutData d) = st\<lparr>native_out := collectChunk (native_out st) d maxOutputBytes\<rparr>"
| "nativeEvent utf8 maxOutputBytes st (StderrData d) = st\<lparr>native_err := collectChunk (native_err st) d maxOutputBytes\<rparr>"
| "nativeEvent utf8 maxOutputBytes st TimerFires =
     (if native_armed st then st\<lparr>native_timedOut := True, native_armed := False\<rparr> else st)"
| "nativeEvent utf8 maxOutputBytes st (ChildError message) =
     settleNative st \<lparr>exitCode = COMMAND_NOT_FOUND_EXIT_CODE, stdout = resolveBufferedOutput utf8 (native_out st),
       stderr = message, timedOut = None\<rparr>"
| "nativeEvent utf8 maxOutputBytes st (ChildClose c) =
     settleNative st \<lparr>exitCode = (if native_timedOut st then TIMEOUT_EXIT_CODE else case c of None \<Rightarrow> 1 | Some n \<Rightarrow> n),
       stdout = resolveBufferedOutput utf8 (native_out st), stderr = resolveBufferedOutput utf8 (native_err st),
       timedOut = (if native_timedOut st then Some True else None)\<rparr>"

text \<open>
  An execution of a command whose child has the given events; no result means that the promise
  is still pending after them.
\<close>

definition runNativeSubprocess ::
  "(string \<Rightarrow> string) \<Rightarrow> int option \<Rightarrow> string list \<Rightarrow> child_event list \<Rightarrow> PawNativeVerificationExecutorResult option" where
  "runNativeSubprocess utf8 maxOutputBytes command es =
     (case command of
        [] \<Rightarrow> Some \<lparr>exitCode = COMMAND_NOT_FOUND_EXIT_CODE, stdout = '''', stderr = ''Cannot execute an empty command.'',
                 timedOut = None\<rparr>
      | executable # args \<Rightarrow>
          native_result (foldl (nativeEvent utf8 (or_else maxOutputBytes DEFAULT_MAX_OUTPUT_BYTES))
            \<lparr>native_out = noChunks, native_err = noChunks, native_timedOut = False, native_armed = True,
             native_result = None\<rparr> es))"

section \<open>The local subprocess of a tool\<close>

record tool_run =
  tool_out :: ChunkAccumulator
  tool_err :: ChunkAccumulator
  tool_timedOut :: bool
  tool_armed :: bool
  tool_settled :: "(int \<times> string \<times> string) option"

definition appendTimeoutMessage :: "string \<Rightarrow> string \<Rightarrow> string" where
  "appendTimeoutMessage err secs =
     (let message = ''Paw local subprocess timed out after '' @ secs @ '' seconds.'' in
      if length err = 0 then message else err @ [CHR 10] @ message)"

fun toolEvent :: "(string \<Rightarrow> string) \<Rightarrow> string \<Rightarrow> int \<Rightarrow> tool_run \<Rightarrow> child_event \<Rightarrow> tool_run" where
  "toolEvent utf8 secs maxOutputBytes st (StdoutData d) =
     st\<lparr>tool_out := collectChunk (tool_out st) d maxOutputBytes\<rparr>"
| "toolEvent utf8 secs maxOutputBytes st (StderrData d) =
     st\<lparr>tool_err := collectChunk (tool_err st) d maxOutputBytes\<rparr>"
| "toolEvent utf8 secs maxOutputBytes st TimerFires =
     (if tool_armed st then st\<lparr>tool_timedOut := True, tool_armed := False\<rparr> else st)"
| "toolEvent utf8 secs maxOutputBytes st (ChildError message) =
     (if tool_settled st \<noteq> None then st
      else st\<lparr>tool_armed := False,
        tool_settled := Some (COMMAND_NOT_FOUND_EXIT_CODE, resolveBufferedOutput utf8 (tool_out st), message)\<rparr>)"
| "toolEvent utf8 secs maxOutputBytes st (ChildClose c) =
     (if tool_settled st \<noteq> None then st
      else
        let err = resolveBufferedOutput utf8 (tool_err st) in
        st\<lparr>tool_armed := False,
          tool_settled := Some (if tool_timedOut st then TIMEOUT_EXIT_CODE else case c of None \<Rightarrow> 1 | Some n \<Rightarrow> n,
            resolveBufferedOutput utf8 (tool_out st),
            if tool_timedOut st then appendTimeoutMessage err secs else err)\<rparr>)"

definition runArgvOnlySubprocess ::
  "(string \<Rightarrow> string) \<Rightarrow> string list \<Rightarrow> string \<Rightarrow> int \<Rightarrow> child_event list \<Rightarrow> (int \<times> string \<times> string) option" where
  "runArgvOnlySubprocess utf8 argv secs maxOutputBytes es =
     (case argv of
        [] \<Rightarrow> Some (COMMAND_NOT_FOUND_EXIT_CODE, '''', ''Cannot execute an empty argv array.'')
      | executable # args \<Rightarrow>
          tool_settled (foldl (toolEvent utf8 secs maxOutputBytes)
            \<lparr>tool_out = noChunks, tool_err = noChunks, tool_timedOut = False, tool_armed = True, tool_settled = None\<rparr> es))"

text \<open>The environment of the child: only what is allowed.\<close>

definition addAllowedVariable ::
  "string list option \<Rightarrow> (string \<rightharpoonup> string) \<Rightarrow> string \<times> string option \<Rightarrow> (string \<rightharpoonup> string)" where
  "addAllowedVariable envAllowlist result binding =
     (case binding of (name, v) \<Rightarrow>
        (case v of
           Some x \<Rightarrow> if envAllowlist = None \<or> name \<in> set (the envAllowlist) then result(name \<mapsto> x) else result
         | None \<Rightarrow> result))"

definition createAllowedEnvironment ::
  "(string \<rightharpoonup> string) \<Rightarrow> (string \<times> string option) list option \<Rightarrow> string list option \<Rightarrow> (string \<rightharpoonup> string)" where
  "createAllowedEnvironment processEnv env envAllowlist =
     foldl (addAllowedVariable envAllowlist)
       (case envAllowlist of
          None \<Rightarrow> Map.empty
        | Some allowed \<Rightarrow> (\<lambda>name. if name \<in> set allowed then processEnv name else None))
       (or_else env [])"

section \<open>Changes of declared files\<close>

datatype path_kind = file_kind | directory_kind | other_kind

datatype PathSnapshot = Absent | Snapshot path_kind int js_number "string option"

text \<open>What \<open>stat\<close> says of a path that exists: kind, size and modification time; and its content.\<close>

record path_entry =
  stat_kind :: path_kind
  stat_size :: int
  stat_mtimeMs :: js_number
  stat_content :: string

record 'w outside =
  entryOf :: "'w \<Rightarrow> path \<Rightarrow> path_entry option"
  digest :: "string \<Rightarrow> string"
  childOf :: "string list \<Rightarrow> path \<Rightarrow> (string \<rightharpoonup> string) \<Rightarrow> js_number \<Rightarrow> 'w \<Rightarrow> child_event list \<times> 'w"
  decodeUtf8 :: "string \<Rightarrow> string"
  showNumber :: "js_number \<Rightarrow> string"

definition resolveDeclaredPath :: "path \<Rightarrow> string \<Rightarrow> path throws" where
  "resolveDeclaredPath cwd p =
     (let resolvedPath = resolvePath cwd p in
      if pathString resolvedPath \<noteq> pathString cwd \<and> \<not> starts_with (pathString cwd @ ''/'') (pathString resolvedPath)
      then Inl (JsError (''Declared expected file path escapes the executor working directory: '' @ p @ ''.''))
      else Inr resolvedPath)"

definition snapshotPath :: "'w outside \<Rightarrow> 'w \<Rightarrow> path \<Rightarrow> PathSnapshot" where
  "snapshotPath sys w p =
     (case entryOf sys w p of
        None \<Rightarrow> Absent
      | Some e \<Rightarrow> Snapshot (stat_kind e) (stat_size e) (stat_mtimeMs e)
          (if stat_kind e = file_kind then Some (digest sys (stat_content e)) else None))"

fun snapshotExpectedPaths :: "'w outside \<Rightarrow> 'w \<Rightarrow> path \<Rightarrow> string list \<Rightarrow> PathSnapshot list throws" where
  "snapshotExpectedPaths sys w cwd [] = Inr []"
| "snapshotExpectedPaths sys w cwd (p # ps) =
     (case resolveDeclaredPath cwd p of
        Inl e \<Rightarrow> Inl e
      | Inr r \<Rightarrow> map_sum id (Cons (snapshotPath sys w r)) (snapshotExpectedPaths sys w cwd ps))"

text \<open>Modification times are compared as numbers, so \<open>NaN\<close> differs from itself.\<close>

fun snapshotsEqual :: "PathSnapshot option \<Rightarrow> PathSnapshot option \<Rightarrow> bool" where
  "snapshotsEqual (Some (Snapshot k s m h)) (Some (Snapshot k' s' m' h')) =
     (k = k' \<and> s = s' \<and> m = m' \<and> m \<noteq> NaN \<and> h = h')"
| "snapshotsEqual l r = (l = r)"

definition didExpectedPathsChange ::
  "'w outside \<Rightarrow> 'w \<Rightarrow> path \<Rightarrow> string list \<Rightarrow> PathSnapshot list \<Rightarrow> bool throws" where
  "didExpectedPathsChange sys w cwd ps before =
     map_sum id (\<lambda>after. list_ex (\<lambda>(i, s). \<not> snapshotsEqual (if i < length before then Some (before ! i) else None) (Some s))
       (entries after)) (snapshotExpectedPaths sys w cwd ps)"

section \<open>The local subprocess executor\<close>

type_synonym 'w file_change_detector =
  "path \<Rightarrow> string list \<Rightarrow> PawToolExecutionPlan \<Rightarrow> PawToolRuntimeRequest \<Rightarrow> 'w \<Rightarrow> bool throws"

record 'w PawLocalSubprocessToolExecutorOptions =
  local_cwd :: string
  local_argv :: "string list"
  local_timeoutSec :: js_number
  local_env :: "(string \<times> string option) list option"
  local_envAllowlist :: "string list option"
  detectFilesChanged :: "'w file_change_detector option"
  local_maxOutputBytes :: "js_number option"

text \<open>
  The checks when an executor is created, and the settings they give: working directory,
  arguments, timeout, bytes and environment. \<open>processCwd\<close> is the directory of the process.
\<close>

record local_settings =
  set_cwd :: path
  set_argv :: "string list"
  set_timeoutSec :: js_number
  set_maxOutputBytes :: int
  set_env :: "string \<rightharpoonup> string"

definition resolveRequiredCwd :: "path \<Rightarrow> string \<Rightarrow> path throws" where
  "resolveRequiredCwd processCwd cwd =
     (if length (js_trim cwd) = 0
      then Inl (JsError ''Paw local subprocess tool executor requires an explicit working directory.'')
      else Inr (resolvePath processCwd cwd))"

definition createPawLocalSubprocessToolExecutor ::
  "path \<Rightarrow> (string \<rightharpoonup> string) \<Rightarrow> 'w PawLocalSubprocessToolExecutorOptions \<Rightarrow> local_settings throws" where
  "createPawLocalSubprocessToolExecutor processCwd processEnv opts =
     (case resolveRequiredCwd processCwd (local_cwd opts) of
        Inl e \<Rightarrow> Inl e
      | Inr cwd \<Rightarrow>
          let maxOutputBytes = or_else (local_maxOutputBytes opts) (Num (of_int DEFAULT_MAX_OUTPUT_BYTES)) in
          if local_argv opts = [] \<or> length (js_trim (hd (local_argv opts))) = 0 then
            Inl (JsError ''Paw local subprocess tool executor requires a non-empty argv array.'')
          else if \<not> js_isFinite (local_timeoutSec opts) \<or> \<not> js_gt (local_timeoutSec opts) (Num 0) then
            Inl (JsError ''Paw local subprocess tool executor requires a positive timeoutSec.'')
          else if \<not> js_isInteger maxOutputBytes \<or> js_gt (Num 0) maxOutputBytes then
            Inl (JsError ''Paw local subprocess tool executor requires a non-negative integer maxOutputBytes.'')
          else
            Inr \<lparr>set_cwd = cwd, set_argv = local_argv opts, set_timeoutSec = local_timeoutSec opts,
              set_maxOutputBytes = js_integer maxOutputBytes,
              set_env = createAllowedEnvironment processEnv (local_env opts) (local_envAllowlist opts)\<rparr>)"

text \<open>
  One call of the executor: snapshots, the child, and what changed. No value means that the
  child never settles.
\<close>

definition localSubprocessExecution ::
  "'w outside \<Rightarrow> local_settings \<Rightarrow> 'w file_change_detector option \<Rightarrow> PawToolExecutorInput \<Rightarrow> 'w \<Rightarrow>
     (PawToolExecutorResult throws \<times> 'w) option" where
  "localSubprocessExecution sys s detect input w =
     (let expectedPaths = or_else (req_paths (plan_request (input_plan input))) [] in
      case (if detect = None then snapshotExpectedPaths sys w (set_cwd s) expectedPaths else Inr []) of
        Inl e \<Rightarrow> Some (Inl e, w)
      | Inr before \<Rightarrow>
          (case childOf sys (set_argv s) (set_cwd s) (set_env s) (set_timeoutSec s) w of (es, w') \<Rightarrow>
             (case runArgvOnlySubprocess (decodeUtf8 sys) (set_argv s) (showNumber sys (set_timeoutSec s)) (set_maxOutputBytes s) es of
                None \<Rightarrow> None
              | Some (ec, out, err) \<Rightarrow>
                  Some (map_sum id (\<lambda>changed. \<lparr>tool_exitCode = ec, tool_stdout = Some out, tool_stderr = Some err,
                      tool_filesChanged = changed\<rparr>)
                    (case detect of
                       None \<Rightarrow> didExpectedPathsChange sys w' (set_cwd s) expectedPaths before
                     | Some f \<Rightarrow> f (set_cwd s) expectedPaths (input_plan input) (approvedRequest input) w'), w'))))"

section \<open>What a collector keeps\<close>

definition heard :: "(child_event \<Rightarrow> string option) \<Rightarrow> child_event list \<Rightarrow> string" where
  "heard part es = concat (map (\<lambda>e. or_else (part e) []) es)"

text \<open>
  The contract of a listener: whatever the event, its accumulator grows by the part of the event
  that belongs to its stream. Then it holds exactly the first bytes of the stream.
\<close>

locale output_collector =
  fixes event :: "'st \<Rightarrow> child_event \<Rightarrow> 'st"
    and acc :: "'st \<Rightarrow> ChunkAccumulator"
    and part :: "child_event \<Rightarrow> string option"
    and maxBytes :: int
  assumes collects: "acc (event st e) = (case part e of None \<Rightarrow> acc st | Some d \<Rightarrow> collectChunk (acc st) d maxBytes)"
begin

definition holds :: "'st \<Rightarrow> string \<Rightarrow> bool" where
  "holds st s \<longleftrightarrow> concat (chunks (acc st)) = take (nat maxBytes) s
     \<and> bytes (acc st) = int (length (concat (chunks (acc st))))"

lemma holds_collected: "holds st s \<Longrightarrow> holds (event st e) (s @ or_else (part e) [])"
proof (cases "part e")
  case None
  then show "holds st s \<Longrightarrow> holds (event st e) (s @ or_else (part e) [])"
    by (simp add: holds_def collects or_else_def)
next
  case (Some d)
  assume h: "holds st s"
  show ?thesis
  proof (cases "length s \<ge> nat maxBytes")
    case True
    with h have "bytes (acc st) = int (nat maxBytes)" by (simp add: holds_def)
    then have "acc (event st e) = acc st" by (simp add: collects Some collectChunk_def)
    with True h show ?thesis by (simp add: holds_def)
  next
    case False
    with h have "bytes (acc st) = int (length s)" "concat (chunks (acc st)) = s" "int (length s) < maxBytes"
      by (auto simp: holds_def)
    with Some show ?thesis
      by (auto simp: holds_def collects collectChunk_def or_else_def Let_def nat_diff_distrib)
  qed
qed

lemma holds_run: "holds st s \<Longrightarrow> holds (foldl event st es) (s @ heard part es)"
proof (induction es arbitrary: st s)
  case Nil
  then show ?case by (simp add: heard_def)
next
  case (Cons e es)
  from Cons.IH [OF holds_collected [OF Cons.prems]] show ?case by (simp add: heard_def)
qed

lemma collected:
  "acc st = noChunks \<Longrightarrow> resolveBufferedOutput utf8 (acc (foldl event st es)) = utf8 (take (nat maxBytes) (heard part es))"
  using holds_run [of st "[]" es] by (simp add: holds_def noChunks_def resolveBufferedOutput_def)

end

interpretation native_stdout: output_collector "nativeEvent utf8 m" native_out stdoutPart m for utf8 m
proof
  show "native_out (nativeEvent utf8 m st e) =
      (case stdoutPart e of None \<Rightarrow> native_out st | Some d \<Rightarrow> collectChunk (native_out st) d m)" for st e
    by (cases e) (simp_all add: settleNative_def)
qed

interpretation native_stderr: output_collector "nativeEvent utf8 m" native_err stderrPart m for utf8 m
proof
  show "native_err (nativeEvent utf8 m st e) =
      (case stderrPart e of None \<Rightarrow> native_err st | Some d \<Rightarrow> collectChunk (native_err st) d m)" for st e
    by (cases e) (simp_all add: settleNative_def)
qed

interpretation tool_stdout: output_collector "toolEvent utf8 secs m" tool_out stdoutPart m for utf8 secs m
proof
  show "tool_out (toolEvent utf8 secs m st e) =
      (case stdoutPart e of None \<Rightarrow> tool_out st | Some d \<Rightarrow> collectChunk (tool_out st) d m)" for st e
    by (cases e) (simp_all add: Let_def)
qed

interpretation tool_stderr: output_collector "toolEvent utf8 secs m" tool_err stderrPart m for utf8 secs m
proof
  show "tool_err (toolEvent utf8 secs m st e) =
      (case stderrPart e of None \<Rightarrow> tool_err st | Some d \<Rightarrow> collectChunk (tool_err st) d m)" for st e
    by (cases e) (simp_all add: Let_def)
qed

section \<open>When an execution settles\<close>

fun settles :: "child_event \<Rightarrow> bool" where
  "settles (ChildError message) = True"
| "settles (ChildClose c) = True"
| "settles _ = False"

abbreviation before_settling :: "child_event list \<Rightarrow> child_event list" where
  "before_settling es \<equiv> takeWhile (\<lambda>e. \<not> settles e) es"

text \<open>Before it settles, an execution only notes whether the timer fired.\<close>

lemma native_pending:
  assumes "list_all (\<lambda>e. \<not> settles e) es" "native_result st = None"
  shows "native_result (foldl (nativeEvent utf8 m) st es) = None
    \<and> native_timedOut (foldl (nativeEvent utf8 m) st es) =
        (native_timedOut st \<or> native_armed st \<and> TimerFires \<in> set es)
    \<and> native_armed (foldl (nativeEvent utf8 m) st es) = (native_armed st \<and> TimerFires \<notin> set es)"
  using assms
proof (induction es arbitrary: st)
  case (Cons e es)
  have "native_result (nativeEvent utf8 m st e) = None" using Cons.prems by (cases e) auto
  with Cons.IH [OF _ this] Cons.prems(1) show ?case by (cases e) auto
qed simp

lemma native_settled:
  "native_result st = Some r \<Longrightarrow> native_result (foldl (nativeEvent utf8 m) st es) = Some r"
proof (induction es arbitrary: st)
  case (Cons e es)
  have "native_result (nativeEvent utf8 m st e) = Some r" using Cons.prems by (cases e) (auto simp: settleNative_def)
  with Cons.IH show ?case by simp
qed simp

lemma tool_pending:
  assumes "list_all (\<lambda>e. \<not> settles e) es" "tool_settled st = None"
  shows "tool_settled (foldl (toolEvent utf8 secs m) st es) = None
    \<and> tool_timedOut (foldl (toolEvent utf8 secs m) st es) = (tool_timedOut st \<or> tool_armed st \<and> TimerFires \<in> set es)
    \<and> tool_armed (foldl (toolEvent utf8 secs m) st es) = (tool_armed st \<and> TimerFires \<notin> set es)"
  using assms
proof (induction es arbitrary: st)
  case (Cons e es)
  have "tool_settled (toolEvent utf8 secs m st e) = None" using Cons.prems by (cases e) auto
  with Cons.IH [OF _ this] Cons.prems(1) show ?case by (cases e) auto
qed simp

lemma tool_stays_settled:
  "tool_settled st = Some r \<Longrightarrow> tool_settled (foldl (toolEvent utf8 secs m) st es) = Some r"
proof (induction es arbitrary: st)
  case (Cons e es)
  have "tool_settled (toolEvent utf8 secs m st e) = Some r" using Cons.prems by (cases e) auto
  with Cons.IH show ?case by simp
qed simp

lemma settling_split:
  obtains (pending) "list_all (\<lambda>e. \<not> settles e) es" "dropWhile (\<lambda>e. \<not> settles e) es = []" "before_settling es = es"
  | (settled) e rest where "dropWhile (\<lambda>e. \<not> settles e) es = e # rest" "settles e"
      "es = before_settling es @ e # rest" "list_all (\<lambda>e. \<not> settles e) (before_settling es)"
proof (cases "dropWhile (\<lambda>e. \<not> settles e) es")
  case Nil
  then show ?thesis by (intro pending) (auto simp: dropWhile_eq_Nil_conv list_all_iff takeWhile_eq_all_conv)
next
  case (Cons e rest)
  then have "settles e" using hd_dropWhile [of "\<lambda>e. \<not> settles e" es] by simp
  moreover have "es = before_settling es @ e # rest" by (metis Cons takeWhile_dropWhile_id)
  ultimately show ?thesis using Cons by (intro settled) (auto simp: list_all_iff dest: set_takeWhileD)
qed

text \<open>The result of a verification command that settles with the given event.\<close>

fun nativeOutcome :: "bool \<Rightarrow> string \<Rightarrow> string \<Rightarrow> child_event \<Rightarrow> PawNativeVerificationExecutorResult option" where
  "nativeOutcome late out err (ChildError message) =
     Some \<lparr>exitCode = 127, stdout = out, stderr = message, timedOut = None\<rparr>"
| "nativeOutcome late out err (ChildClose c) =
     Some \<lparr>exitCode = (if late then 124 else case c of None \<Rightarrow> 1 | Some n \<Rightarrow> n), stdout = out, stderr = err,
       timedOut = (if late then Some True else None)\<rparr>"
| "nativeOutcome late out err _ = None"

fun toolOutcome :: "string \<Rightarrow> bool \<Rightarrow> string \<Rightarrow> string \<Rightarrow> child_event \<Rightarrow> (int \<times> string \<times> string) option" where
  "toolOutcome secs late out err (ChildError message) = Some (127, out, message)"
| "toolOutcome secs late out err (ChildClose c) =
     Some (if late then 124 else case c of None \<Rightarrow> 1 | Some n \<Rightarrow> n, out,
       if late then appendTimeoutMessage err secs else err)"
| "toolOutcome secs late out err _ = None"

lemma tool_subprocess_outcome:
  "runArgvOnlySubprocess utf8 (cmd # args) secs m es =
     (case dropWhile (\<lambda>e. \<not> settles e) es of
        [] \<Rightarrow> None
      | e # _ \<Rightarrow> toolOutcome secs (TimerFires \<in> set (before_settling es))
          (utf8 (take (nat m) (heard stdoutPart (before_settling es))))
          (utf8 (take (nat m) (heard stderrPart (before_settling es)))) e)"
proof -
  let ?init = "\<lparr>tool_out = noChunks, tool_err = noChunks, tool_timedOut = False, tool_armed = True, tool_settled = None\<rparr>"
  show ?thesis
  proof (cases rule: settling_split [of es])
    case pending
    with tool_pending [of es ?init utf8 secs m] show ?thesis
      by (simp add: runArgvOnlySubprocess_def pending(2) del: dropWhile_eq_Nil_conv)
  next
    case (settled e rest)
    let ?st = "foldl (toolEvent utf8 secs m) ?init (before_settling es)"
    have st: "tool_settled ?st = None" "tool_timedOut ?st = (TimerFires \<in> set (before_settling es))"
      using tool_pending [OF settled(4), of ?init utf8 secs m] by auto
    have out: "resolveBufferedOutput utf8 (tool_out ?st) = utf8 (take (nat m) (heard stdoutPart (before_settling es)))"
      "resolveBufferedOutput utf8 (tool_err ?st) = utf8 (take (nat m) (heard stderrPart (before_settling es)))"
      by (intro tool_stdout.collected tool_stderr.collected, simp)+
    have "tool_settled (toolEvent utf8 secs m ?st e) = toolOutcome secs (TimerFires \<in> set (before_settling es))
          (utf8 (take (nat m) (heard stdoutPart (before_settling es))))
          (utf8 (take (nat m) (heard stderrPart (before_settling es)))) e" (is "_ = ?r")
      using settled(2) by (cases e) (auto simp: st out Let_def COMMAND_NOT_FOUND_EXIT_CODE_def TIMEOUT_EXIT_CODE_def)
    moreover have "?r \<noteq> None" using settled(2) by (cases e) auto
    ultimately have "tool_settled (foldl (toolEvent utf8 secs m) (toolEvent utf8 secs m ?st e) rest) = ?r"
      using tool_stays_settled by fastforce
    then have "tool_settled (foldl (toolEvent utf8 secs m) ?init (before_settling es @ e # rest)) = ?r" by simp
    with settled(1) settled(3) [symmetric] show ?thesis by (simp add: runArgvOnlySubprocess_def)
  qed
qed

section \<open>Declared files and the environment\<close>

lemma allowed_environment:
  assumes "createAllowedEnvironment processEnv env (Some allowed) name = Some v"
  shows "name \<in> set allowed"
proof -
  have "dom (foldl (addAllowedVariable (Some allowed)) m es) \<subseteq> dom m \<union> set allowed" for m es
  proof (induction es arbitrary: m)
    case (Cons x es)
    have "dom (addAllowedVariable (Some allowed) m x) \<subseteq> dom m \<union> set allowed"
      by (auto simp: addAllowedVariable_def split: option.splits prod.splits if_splits)
    with Cons.IH [of "addAllowedVariable (Some allowed) m x"] show ?case by auto
  qed simp
  from this [of "\<lambda>name. if name \<in> set allowed then processEnv name else None" "or_else env []"] assms
  show ?thesis by (auto simp: createAllowedEnvironment_def dom_def split: if_splits)
qed

lemma declared_path_below:
  assumes "\<forall>s \<in> set cwd. plain_segment s"
  shows "resolveDeclaredPath cwd p = Inr t \<Longrightarrow> t = resolvePath cwd p \<and> (\<exists>rest. t = cwd @ rest)"
proof -
  assume r: "resolveDeclaredPath cwd p = Inr t"
  then have t: "t = resolvePath cwd p" by (auto simp: resolveDeclaredPath_def Let_def split: if_splits)
  have plain: "\<forall>s \<in> set t. plain_segment s" unfolding t by (rule resolvePath_plain [OF assms])
  from r consider "pathString t = pathString cwd" | rest where "pathString t = pathString cwd @ CHR ''/'' # rest"
    by (auto simp: resolveDeclaredPath_def Let_def starts_with_iff split: if_splits)
  then have "\<exists>rest. t = cwd @ rest"
  proof cases
    case 1
    then have "join_with ''/'' t = join_with ''/'' cwd" by (simp add: pathString_def)
    then have "t = cwd"
      using plain assms split_join [of t "CHR ''/''"] split_join [of cwd "CHR ''/''"]
      by (cases t; cases cwd) (auto simp: plain_segment_def join_with.simps(2-) elim!: join_with.elims)
    then show ?thesis by simp
  next
    case 2
    then have eq: "join_with ''/'' t = join_with ''/'' cwd @ CHR ''/'' # rest" by (simp add: pathString_def)
    then have "t \<noteq> []" by (cases t) auto
    with plain have ts: "t = split_on CHR ''/'' (join_with ''/'' cwd @ CHR ''/'' # rest)"
      unfolding eq [symmetric] by (subst split_join) (auto simp: plain_segment_def)
    show ?thesis
    proof (cases "cwd = []")
      case False
      have "t = cwd @ split_on CHR ''/'' rest"
        unfolding ts split_on_append using assms False by (subst split_join) (auto simp: plain_segment_def)
      then show ?thesis by blast
    qed simp
  qed
  with t show ?thesis by blast
qed


lemma native_subprocess_outcome:
  "runNativeSubprocess utf8 m (cmd # args) es =
     (case dropWhile (\<lambda>e. \<not> settles e) es of
        [] \<Rightarrow> None
      | e # _ \<Rightarrow> nativeOutcome (TimerFires \<in> set (before_settling es))
          (utf8 (take (nat (or_else m DEFAULT_MAX_OUTPUT_BYTES)) (heard stdoutPart (before_settling es))))
          (utf8 (take (nat (or_else m DEFAULT_MAX_OUTPUT_BYTES)) (heard stderrPart (before_settling es)))) e)"
proof -
  let ?m = "or_else m DEFAULT_MAX_OUTPUT_BYTES"
  let ?init = "\<lparr>native_out = noChunks, native_err = noChunks, native_timedOut = False, native_armed = True, native_result = None\<rparr>"
  show ?thesis
  proof (cases rule: settling_split [of es])
    case pending
    with native_pending [of es ?init utf8 ?m] show ?thesis
      by (simp add: runNativeSubprocess_def pending(2) del: dropWhile_eq_Nil_conv)
  next
    case (settled e rest)
    let ?st = "foldl (nativeEvent utf8 ?m) ?init (before_settling es)"
    have st: "native_result ?st = None" "native_timedOut ?st = (TimerFires \<in> set (before_settling es))"
      using native_pending [OF settled(4), of ?init utf8 ?m] by auto
    have out: "resolveBufferedOutput utf8 (native_out ?st) = utf8 (take (nat ?m) (heard stdoutPart (before_settling es)))"
      "resolveBufferedOutput utf8 (native_err ?st) = utf8 (take (nat ?m) (heard stderrPart (before_settling es)))"
      by (intro native_stdout.collected native_stderr.collected, simp)+
    have "native_result (nativeEvent utf8 ?m ?st e) = nativeOutcome (TimerFires \<in> set (before_settling es))
          (utf8 (take (nat ?m) (heard stdoutPart (before_settling es))))
          (utf8 (take (nat ?m) (heard stderrPart (before_settling es)))) e" (is "_ = ?r")
      using settled(2)
      by (cases e) (auto simp: st out settleNative_def COMMAND_NOT_FOUND_EXIT_CODE_def TIMEOUT_EXIT_CODE_def)
    moreover have "?r \<noteq> None" using settled(2) by (cases e) auto
    ultimately have "native_result (foldl (nativeEvent utf8 ?m) (nativeEvent utf8 ?m ?st e) rest) = ?r"
      using native_settled by fastforce
    then have "native_result (foldl (nativeEvent utf8 ?m) ?init (before_settling es @ e # rest)) = ?r" by simp
    with settled(1) settled(3) [symmetric] show ?thesis by (simp add: runNativeSubprocess_def)
  qed
qed

section \<open>Properties\<close>

text \<open>
  (C10) Output is bounded, time is not: of each stream an execution keeps exactly the first bytes up to
  the limit, among those that arrive before the child closes or fails. The timer only changes the
  exit code: an execution whose child does neither, whatever the timer does, stays pending.
\<close>

theorem subprocess_output_bounded:
  "runNativeSubprocess utf8 m (cmd # args) es =
     (let heard_before = before_settling es; limit = nat (or_else m 1048576);
          out = utf8 (take limit (heard stdoutPart heard_before)); err = utf8 (take limit (heard stderrPart heard_before)) in
      case find settles es of
        None \<Rightarrow> None
      | Some e \<Rightarrow> nativeOutcome (TimerFires \<in> set heard_before) out err e)"
proof -
  have "find settles es = (case dropWhile (\<lambda>e. \<not> settles e) es of [] \<Rightarrow> None | e # _ \<Rightarrow> Some e)"
    by (induction es) auto
  then show ?thesis
    by (cases "dropWhile (\<lambda>e. \<not> settles e) es")
      (simp_all add: native_subprocess_outcome DEFAULT_MAX_OUTPUT_BYTES_def Let_def del: dropWhile_eq_Nil_conv)
qed

text \<open>
  (C11) A verified gate has a command that ended well and in time: if the execution of a command is
  recorded as verified, its child closed with exit code 0, and before that neither failed, nor
  closed otherwise, nor ran into the timer.
\<close>

theorem verified_command_closed_in_time:
  assumes "runNativeSubprocess utf8 m (cmd # args) es = Some x"
    and "executedResult opts gate (cmd # args) x = RunVerified gate y"
  shows "\<exists>pre post. es = pre @ ChildClose (Some 0) # post \<and> list_all (\<lambda>e. \<not> settles e) pre \<and> TimerFires \<notin> set pre"
proof (cases rule: settling_split [of es])
  case pending
  with assms(1) show ?thesis by (simp add: native_subprocess_outcome pending(2) del: dropWhile_eq_Nil_conv)
next
  case (settled e rest)
  from assms(2) have x: "exitCode x = 0" "timedOut x \<noteq> Some True"
    by (auto simp: executedResult_def Let_def split: if_splits)
  from assms(1) settled(1) have "nativeOutcome (TimerFires \<in> set (before_settling es))
      (utf8 (take (nat (or_else m DEFAULT_MAX_OUTPUT_BYTES)) (heard stdoutPart (before_settling es))))
      (utf8 (take (nat (or_else m DEFAULT_MAX_OUTPUT_BYTES)) (heard stderrPart (before_settling es)))) e = Some x"
    by (simp add: native_subprocess_outcome)
  with x have "e = ChildClose (Some 0)" "TimerFires \<notin> set (before_settling es)"
    by (cases e; auto split: option.splits if_splits)+
  with settled(3,4) show ?thesis by metis
qed

theorem verified_command_closed_in_time_witness:
  "\<exists>pre post. [StdoutData ''ok'', ChildClose (Some 0), TimerFires] = pre @ ChildClose (Some 0) # post
    \<and> list_all (\<lambda>e. \<not> settles e) pre \<and> TimerFires \<notin> set pre"
proof -
  define es where "es = [StdoutData ''ok'', ChildClose (Some 0), TimerFires]"
  have run: "runNativeSubprocess (\<lambda>s. s) None [''npm''] es =
      Some \<lparr>exitCode = 0, stdout = ''ok'', stderr = [], timedOut = None\<rparr>"
    by (simp add: es_def native_subprocess_outcome heard_def or_else_def DEFAULT_MAX_OUTPUT_BYTES_def)
  have "executedResult \<lparr>timeoutSec = 1, outputMaxChars = 10\<rparr> ''test'' [''npm'']
      \<lparr>exitCode = 0, stdout = ''ok'', stderr = [], timedOut = None\<rparr> =
    RunVerified ''test'' \<lparr>ran_command = [''npm''], ran_exitCode = 0, ran_stdout = ''ok'', ran_stderr = []\<rparr>"
    by (simp add: executedResult_def summarizeNativeVerificationOutput_def Let_def)
  from verified_command_closed_in_time [OF run this] show ?thesis unfolding es_def .
qed

text \<open>
  The default detection of changes: a declared path outside the working directory stops the
  execution before the child starts, and otherwise files changed exactly if the snapshot of a
  declared path differs after the child; changes of other paths are not seen.
\<close>

lemma snapshots_paths:
  "snapshotExpectedPaths sys w cwd ps = Inr ss \<Longrightarrow>
     (\<forall>p \<in> set ps. \<exists>t. resolveDeclaredPath cwd p = Inr t) \<and> ss = map (\<lambda>p. snapshotPath sys w (projr (resolveDeclaredPath cwd p))) ps"
proof (induction ps arbitrary: ss)
  case (Cons p ps)
  from Cons.prems obtain t rest where "resolveDeclaredPath cwd p = Inr t" "snapshotExpectedPaths sys w cwd ps = Inr rest"
      "ss = snapshotPath sys w t # rest"
    by (cases "resolveDeclaredPath cwd p"; cases "snapshotExpectedPaths sys w cwd ps") auto
  with Cons.IH show ?case by auto
qed simp

lemma snapshots_total:
  "(\<forall>p \<in> set ps. \<exists>t. resolveDeclaredPath cwd p = Inr t) \<Longrightarrow>
     snapshotExpectedPaths sys w cwd ps = Inr (map (\<lambda>p. snapshotPath sys w (projr (resolveDeclaredPath cwd p))) ps)"
  by (induction ps) auto

lemma changed_entries:
  "list_ex (\<lambda>(i, s). \<not> snapshotsEqual (if i < length (map f ps) then Some (map f ps ! i) else None) (Some s)) (entries (map g ps)) \<longleftrightarrow>
     (\<exists>p \<in> set ps. \<not> snapshotsEqual (Some (f p)) (Some (g p)))"
  by (fastforce simp: list_ex_iff set_entries in_set_conv_nth)

theorem local_execution_detects_declared:
  assumes "localSubprocessExecution sys s None input w = Some (result, w')"
    and ps: "ps = or_else (req_paths (plan_request (input_plan input))) []"
  shows "case result of
      Inl e \<Rightarrow> w' = w \<and> (\<exists>p \<in> set ps. resolveDeclaredPath (set_cwd s) p = Inl e)
    | Inr r \<Rightarrow> (\<forall>p \<in> set ps. \<exists>t. resolveDeclaredPath (set_cwd s) p = Inr t)
        \<and> w' = snd (childOf sys (set_argv s) (set_cwd s) (set_env s) (set_timeoutSec s) w)
        \<and> tool_filesChanged r = (\<exists>p \<in> set ps. let t = projr (resolveDeclaredPath (set_cwd s) p) in
            \<not> snapshotsEqual (Some (snapshotPath sys w t)) (Some (snapshotPath sys w' t)))"
proof (cases "snapshotExpectedPaths sys w (set_cwd s) ps")
  case (Inl e)
  have "\<exists>p \<in> set ps. resolveDeclaredPath cwd p = Inl e" if "snapshotExpectedPaths sys w cwd ps = Inl e" for cwd
    using that
  proof (induction ps)
    case (Cons p ps)
    then show ?case
      by (cases "resolveDeclaredPath cwd p"; cases "snapshotExpectedPaths sys w cwd ps") auto
  qed simp
  with Inl assms show ?thesis by (auto simp: localSubprocessExecution_def Let_def)
next
  case (Inr before)
  let ?f = "\<lambda>w p. snapshotPath sys w (projr (resolveDeclaredPath (set_cwd s) p))"
  note paths = snapshots_paths [OF Inr]
  obtain es w1 where child: "childOf sys (set_argv s) (set_cwd s) (set_env s) (set_timeoutSec s) w = (es, w1)"
    by (cases "childOf sys (set_argv s) (set_cwd s) (set_env s) (set_timeoutSec s) w")
  have "didExpectedPathsChange sys w1 (set_cwd s) ps before =
      Inr (\<exists>p \<in> set ps. \<not> snapshotsEqual (Some (?f w p)) (Some (?f w1 p)))"
    unfolding didExpectedPathsChange_def snapshots_total [OF paths [THEN conjunct1]] paths [THEN conjunct2]
    by (simp only: map_sum.simps changed_entries)
  with assms Inr child paths show ?thesis
    by (auto simp: localSubprocessExecution_def Let_def split: option.splits)
qed


end
