(* ===== verification/Paw_Retention.thy ===== *)
theory Paw_Retention
  imports Paw_Checkpoint
begin

text \<open>
  Two policies over time: \<open>retention-policy.ts\<close> (which sessions and artifacts are kept), with the
  dry run of \<open>clean-command.ts\<close> that feeds it, and \<open>active-time.ts\<close> (how much of a session's time
  counts as active). The parsing and printing of dates and the collation of the locale are an
  environment; a time is in milliseconds, and \<open>None\<close> is the time of an invalid date.
\<close>

record time_env =
  parseTime :: "string \<Rightarrow> int option"
  isoString :: "int \<Rightarrow> string"
  localeCompare :: "string \<Rightarrow> string \<Rightarrow> int"

section \<open>The retention plan\<close>

record PawRetentionConfig =
  keep_last_sessions :: js_number
  artifact_days :: js_number

record PawRetentionSessionRecord =
  ret_session_id :: string
  ret_session_path :: string
  last_activity_at :: string

record PawRetentionArtifactRecord =
  artifact_name :: string
  ret_artifact_path :: string
  artifact_created_at :: string

datatype removal_kind = session_removal | artifact_removal

record PawRetentionRemoval =
  removal_kind :: removal_kind
  removal_id :: string
  removal_path :: string
  removal_reason :: string

record PawRetentionPlan =
  keep_sessions :: "PawRetentionSessionRecord list"
  remove_sessions :: "PawRetentionRemoval list"
  keep_artifacts :: "PawRetentionArtifactRecord list"
  remove_artifacts :: "PawRetentionRemoval list"

definition MS_PER_DAY :: int where
  "MS_PER_DAY = 24 * 60 * 60 * 1000"

definition validateNonNegativeInteger :: "js_number \<Rightarrow> string \<Rightarrow> string \<Rightarrow> PawValidationIssue list" where
  "validateNonNegativeInteger v path message =
     (if \<not> js_isInteger v \<or> js_gt (Num 0) v then [Issue path message] else [])"

definition validateNonEmptyString :: "string \<Rightarrow> string \<Rightarrow> string \<Rightarrow> PawValidationIssue list" where
  "validateNonEmptyString v path message = (if js_trim v = [] then [Issue path message] else [])"

definition timeOf :: "time_env \<Rightarrow> js_date \<Rightarrow> int option" where
  "timeOf env d = (case d of DateObject t \<Rightarrow> t | DateText s \<Rightarrow> parseTime env s)"

definition parseTimestamp :: "time_env \<Rightarrow> js_date \<Rightarrow> string \<Rightarrow> string \<Rightarrow> PawValidationIssue list \<times> int option" where
  "parseTimestamp env v path message =
     (case timeOf env v of None \<Rightarrow> ([Issue path message], None) | Some t \<Rightarrow> ([], Some t))"

text \<open>The records of a list with their times, and the issues of all of them, from an index on.\<close>

fun validateSessions ::
  "time_env \<Rightarrow> nat \<Rightarrow> PawRetentionSessionRecord list \<Rightarrow>
     PawValidationIssue list \<times> (PawRetentionSessionRecord \<times> int) list" where
  "validateSessions env i [] = ([], [])"
| "validateSessions env i (s # ss) =
     (let base = ''/sessions/'' @ show_nat i;
          idIssues = validateNonEmptyString (ret_session_id s) (base @ ''/session_id'') ''Session id is required.'';
          pathIssues = validateNonEmptyString (ret_session_path s) (base @ ''/path'') ''Session path is required.'';
          (timeIssues, t) = parseTimestamp env (DateText (last_activity_at s)) (base @ ''/last_activity_at'')
            ''Session last_activity_at must be a valid timestamp.'';
          (restIssues, rest) = validateSessions env (Suc i) ss in
      (idIssues @ pathIssues @ timeIssues @ restIssues,
       (if t \<noteq> None \<and> js_trim (ret_session_id s) \<noteq> [] \<and> js_trim (ret_session_path s) \<noteq> []
        then [(s, the t)] else []) @ rest))"

fun validateArtifacts ::
  "time_env \<Rightarrow> nat \<Rightarrow> PawRetentionArtifactRecord list \<Rightarrow>
     PawValidationIssue list \<times> (PawRetentionArtifactRecord \<times> int) list" where
  "validateArtifacts env i [] = ([], [])"
| "validateArtifacts env i (a # as) =
     (let base = ''/artifacts/'' @ show_nat i;
          nameIssues = validateNonEmptyString (artifact_name a) (base @ ''/artifact_name'') ''Artifact name is required.'';
          pathIssues = validateNonEmptyString (ret_artifact_path a) (base @ ''/path'') ''Artifact path is required.'';
          (timeIssues, t) = parseTimestamp env (DateText (artifact_created_at a)) (base @ ''/created_at'')
            ''Artifact created_at must be a valid timestamp.'';
          (restIssues, rest) = validateArtifacts env (Suc i) as in
      (nameIssues @ pathIssues @ timeIssues @ restIssues,
       (if t \<noteq> None \<and> js_trim (artifact_name a) \<noteq> [] \<and> js_trim (ret_artifact_path a) \<noteq> []
        then [(a, the t)] else []) @ rest))"

text \<open>Most recent first; the name decides between equal times.\<close>

definition compareRecent :: "time_env \<Rightarrow> ('r \<Rightarrow> string) \<Rightarrow> 'r \<times> int \<Rightarrow> 'r \<times> int \<Rightarrow> int" where
  "compareRecent env name l r =
     (if snd r - snd l \<noteq> 0 then snd r - snd l else localeCompare env (name (fst l)) (name (fst r)))"

definition sessionRemoval :: "int \<Rightarrow> PawRetentionSessionRecord \<Rightarrow> PawRetentionRemoval" where
  "sessionRemoval keep s = \<lparr>removal_kind = session_removal, removal_id = ret_session_id s, removal_path = ret_session_path s,
     removal_reason = ''exceeds keep_last_sessions='' @ show_int keep\<rparr>"

definition artifactRemoval :: "int \<Rightarrow> PawRetentionArtifactRecord \<Rightarrow> PawRetentionRemoval" where
  "artifactRemoval days a = \<lparr>removal_kind = artifact_removal, removal_id = artifact_name a, removal_path = ret_artifact_path a,
     removal_reason = ''older than artifact_days='' @ show_int days\<rparr>"

definition createPawRetentionPlan ::
  "time_env \<Rightarrow> PawRetentionConfig \<Rightarrow> PawRetentionSessionRecord list \<Rightarrow> PawRetentionArtifactRecord list \<Rightarrow> js_date \<Rightarrow>
     PawRetentionPlan PawValidationResult" where
  "createPawRetentionPlan env cfg sessions artifacts now =
     (let keepIssues = validateNonNegativeInteger (keep_last_sessions cfg) ''/config/keep_last_sessions''
            ''keep_last_sessions must be an integer greater than or equal to 0.'';
          dayIssues = validateNonNegativeInteger (artifact_days cfg) ''/config/artifact_days''
            ''artifact_days must be an integer greater than or equal to 0.'';
          (nowIssues, nowTime) = parseTimestamp env now ''/now'' ''now must be a valid timestamp.'';
          (sessionIssues, parsedSessions) = validateSessions env 0 sessions;
          (artifactIssues, parsedArtifacts) = validateArtifacts env 0 artifacts;
          issues = keepIssues @ dayIssues @ nowIssues @ sessionIssues @ artifactIssues in
      if length issues > 0 \<or> nowTime = None then Invalid issues
      else
        let keep = js_integer (keep_last_sessions cfg); days = js_integer (artifact_days cfg);
            sortedSessions = sort_by (compareRecent env ret_session_id) parsedSessions;
            artifactThreshold = the nowTime - days * MS_PER_DAY;
            sortedArtifacts = sort_by (compareRecent env artifact_name) parsedArtifacts in
        Ok \<lparr>keep_sessions = map fst (take (nat keep) sortedSessions),
            remove_sessions = map (sessionRemoval keep \<circ> fst) (drop (nat keep) sortedSessions),
            keep_artifacts = map fst (filter (\<lambda>a. \<not> snd a < artifactThreshold) sortedArtifacts),
            remove_artifacts = map (artifactRemoval days \<circ> fst) (filter (\<lambda>a. snd a < artifactThreshold) sortedArtifacts)\<rparr>)"

section \<open>The dry run of the clean command\<close>

text \<open>
  The directory tree: whether a path is a directory, and the entries of one, each with its name,
  whether it is a directory and its modification time; a missing directory has none.
\<close>

record clean_env =
  isDirectoryAt :: "string \<Rightarrow> bool"
  directoryEntries :: "string \<Rightarrow> (string \<times> bool \<times> int) list option"
  retentionConfig :: "string \<Rightarrow> PawRetentionConfig throws"

record PawCleanDryRunReport =
  clean_initialized :: bool
  clean_pawDir :: string
  clean_retention :: PawRetentionConfig
  sessionCandidateCount :: nat
  artifactCandidateCount :: nat
  clean_plan :: PawRetentionPlan

definition formatIssuesForError :: "string \<Rightarrow> PawValidationIssue list \<Rightarrow> js_error" where
  "formatIssuesForError prefix issues =
     JsError (prefix @ '':'' @ [CHR 10] @ join_with [CHR 10] (map (\<lambda>i. ''  - '' @ issue_path i @ '': '' @ issue_message i) issues))"

definition readRetentionDirectoryEntries :: "clean_env \<Rightarrow> string \<Rightarrow> string \<Rightarrow> (string \<times> string \<times> int) list" where
  "readRetentionDirectoryEntries ce repoRoot rel =
     map (\<lambda>(name, d, mtime). (name, rel @ ''/'' @ name, mtime))
       (filter (\<lambda>(name, d, mtime). d) (or_else (directoryEntries ce (repoRoot @ ''/'' @ rel)) []))"

definition scanSessionRecords :: "time_env \<Rightarrow> clean_env \<Rightarrow> string \<Rightarrow> PawRetentionSessionRecord list" where
  "scanSessionRecords env ce repoRoot =
     map (\<lambda>(name, path, mtime). \<lparr>ret_session_id = name, ret_session_path = path, last_activity_at = isoString env mtime\<rparr>)
       (readRetentionDirectoryEntries ce repoRoot ''.paw/sessions'')"

definition scanArtifactRecords :: "time_env \<Rightarrow> clean_env \<Rightarrow> string \<Rightarrow> PawRetentionArtifactRecord list" where
  "scanArtifactRecords env ce repoRoot =
     map (\<lambda>(name, path, mtime). \<lparr>artifact_name = name, ret_artifact_path = path, artifact_created_at = isoString env mtime\<rparr>)
       (readRetentionDirectoryEntries ce repoRoot ''.paw/artifacts'')"

definition createPawCleanDryRunReport ::
  "time_env \<Rightarrow> clean_env \<Rightarrow> string \<Rightarrow> int option \<Rightarrow> PawCleanDryRunReport throws" where
  "createPawCleanDryRunReport env ce repoRoot now =
     (case retentionConfig ce repoRoot of
        Inl e \<Rightarrow> Inl e
      | Inr retention \<Rightarrow>
          let initialized = isDirectoryAt ce (repoRoot @ ''/.paw'');
              sessions = (if initialized then scanSessionRecords env ce repoRoot else []);
              artifacts = (if initialized then scanArtifactRecords env ce repoRoot else []) in
          (case createPawRetentionPlan env retention sessions artifacts (DateObject now) of
             Invalid issues \<Rightarrow> Inl (formatIssuesForError ''Invalid Paw retention plan'' issues)
           | Ok plan \<Rightarrow> Inr \<lparr>clean_initialized = initialized, clean_pawDir = ''.paw'', clean_retention = retention,
               sessionCandidateCount = length sessions, artifactCandidateCount = length artifacts, clean_plan = plan\<rparr>))"

definition formatRemovals :: "PawRetentionRemoval list \<Rightarrow> string list" where
  "formatRemovals = map (\<lambda>r. ''  remove '' @ removal_id r @ '' ('' @ removal_path r @ ''): '' @ removal_reason r)"

definition formatPawCleanDryRunReport :: "PawCleanDryRunReport \<Rightarrow> string" where
  "formatPawCleanDryRunReport r =
     (let plan = clean_plan r in
      join_with [CHR 10]
        ([''Paw clean dry-run'', ''.paw path: '' @ clean_pawDir r,
          ''retention: keep_last_sessions='' @ show_int (js_integer (keep_last_sessions (clean_retention r)))
            @ '', artifact_days='' @ show_int (js_integer (artifact_days (clean_retention r))),
          ''candidates: '' @ show_nat (sessionCandidateCount r) @ '' sessions, ''
            @ show_nat (artifactCandidateCount r) @ '' artifacts'']
         @ (if clean_initialized r then [] else [''.paw is missing; no sessions or artifacts were scanned.''])
         @ [''sessions: keep '' @ show_nat (length (keep_sessions plan)) @ '', remove '' @ show_nat (length (remove_sessions plan))]
         @ map (\<lambda>s. ''  keep '' @ ret_session_id s @ '' ('' @ ret_session_path s @ '')'') (keep_sessions plan)
         @ formatRemovals (remove_sessions plan)
         @ [''artifacts: keep '' @ show_nat (length (keep_artifacts plan)) @ '', remove '' @ show_nat (length (remove_artifacts plan))]
         @ map (\<lambda>a. ''  keep '' @ artifact_name a @ '' ('' @ ret_artifact_path a @ '')'') (keep_artifacts plan)
         @ formatRemovals (remove_artifacts plan)
         @ [''No files were deleted.'']))"

section \<open>Active time\<close>

record PawActiveTimeConfig =
  active_enabled :: bool
  pause_states :: "string list"

record PawStateTimingSegment =
  seg_state :: PawSessionStateName
  started_at :: string
  ended_at :: "string option"

record PawPausedTimingSegment =
  paused_state :: PawSessionStateName
  paused_started_at :: string
  paused_ended_at :: string
  duration_ms :: int

record PawActiveTimeResult =
  active_ms :: int
  paused_ms :: int
  total_ms :: int
  paused_segments :: "PawPausedTimingSegment list"

record ParsedTimingSegment =
  parsed_segment :: PawStateTimingSegment
  startedAtMs :: int
  endedAtMs :: int
  endedAtValue :: string

definition parseSegmentTimestamp :: "time_env \<Rightarrow> string \<Rightarrow> string \<Rightarrow> PawValidationIssue list \<times> int option" where
  "parseSegmentTimestamp env v path =
     (case parseTime env v of None \<Rightarrow> ([Issue path ''Invalid timestamp.''], None) | Some ms \<Rightarrow> ([], Some ms))"

definition parseOptionalNow :: "time_env \<Rightarrow> js_date option \<Rightarrow> PawValidationIssue list \<times> (int \<times> string) option" where
  "parseOptionalNow env now =
     (case now of
        None \<Rightarrow> ([], None)
      | Some (DateObject None) \<Rightarrow> ([Issue ''/now'' ''Invalid timestamp.''], None)
      | Some (DateObject (Some ms)) \<Rightarrow> ([], Some (ms, isoString env ms))
      | Some (DateText s) \<Rightarrow> (case parseSegmentTimestamp env s ''/now'' of (issues, ms) \<Rightarrow> (issues, map_option (\<lambda>t. (t, s)) ms)))"

definition resolveEndedAt ::
  "time_env \<Rightarrow> PawStateTimingSegment \<Rightarrow> nat \<Rightarrow> (int \<times> string) option \<Rightarrow> js_date option \<Rightarrow>
     PawValidationIssue list \<times> (int \<times> string) option" where
  "resolveEndedAt env seg i now inputNow =
     (case ended_at seg of
        Some e \<Rightarrow> (case parseSegmentTimestamp env e (''/segments/'' @ show_nat i @ ''/ended_at'') of
          (issues, ms) \<Rightarrow> (issues, map_option (\<lambda>t. (t, e)) ms))
      | None \<Rightarrow>
          if inputNow = None then ([Issue (''/segments/'' @ show_nat i @ ''/ended_at'') ''Open segment requires now.''], None)
          else ([], now))"

fun parseSegments ::
  "time_env \<Rightarrow> (int \<times> string) option \<Rightarrow> js_date option \<Rightarrow> nat \<Rightarrow> PawStateTimingSegment list \<Rightarrow>
     PawValidationIssue list \<times> ParsedTimingSegment list" where
  "parseSegments env now inputNow i [] = ([], [])"
| "parseSegments env now inputNow i (seg # segs) =
     (let (startIssues, start) = parseSegmentTimestamp env (started_at seg) (''/segments/'' @ show_nat i @ ''/started_at'');
          (endIssues, fin) = resolveEndedAt env seg i now inputNow;
          (restIssues, rest) = parseSegments env now inputNow (Suc i) segs in
      case (start, fin) of
        (Some s, Some (e, v)) \<Rightarrow>
          if e < s then
            (startIssues @ endIssues @ [Issue (''/segments/'' @ show_nat i @ ''/ended_at'') ''Segment ended before it started.'']
               @ restIssues, rest)
          else (startIssues @ endIssues @ restIssues,
                \<lparr>parsed_segment = seg, startedAtMs = s, endedAtMs = e, endedAtValue = v\<rparr> # rest)
      | _ \<Rightarrow> (startIssues @ endIssues @ restIssues, rest))"

definition isPausedSegment :: "PawActiveTimeConfig \<Rightarrow> ParsedTimingSegment \<Rightarrow> bool" where
  "isPausedSegment cfg p \<longleftrightarrow> active_enabled cfg \<and> stateNameString (seg_state (parsed_segment p)) \<in> set (pause_states cfg)"

definition segmentDuration :: "ParsedTimingSegment \<Rightarrow> int" where
  "segmentDuration p = endedAtMs p - startedAtMs p"

definition pausedSegment :: "ParsedTimingSegment \<Rightarrow> PawPausedTimingSegment" where
  "pausedSegment p = \<lparr>paused_state = seg_state (parsed_segment p), paused_started_at = started_at (parsed_segment p),
     paused_ended_at = endedAtValue p, duration_ms = segmentDuration p\<rparr>"

text \<open>One pass of the loop that adds up: total, paused and the paused segments.\<close>

definition addSegment ::
  "PawActiveTimeConfig \<Rightarrow> int \<times> int \<times> PawPausedTimingSegment list \<Rightarrow> ParsedTimingSegment \<Rightarrow>
     int \<times> int \<times> PawPausedTimingSegment list" where
  "addSegment cfg acc p =
     (case acc of (totalMs, paused, segs) \<Rightarrow>
        if isPausedSegment cfg p then (totalMs + segmentDuration p, paused + segmentDuration p, segs @ [pausedSegment p])
        else (totalMs + segmentDuration p, paused, segs))"

definition calculatePawActiveTime ::
  "time_env \<Rightarrow> PawActiveTimeConfig \<Rightarrow> PawStateTimingSegment list \<Rightarrow> js_date option \<Rightarrow>
     PawActiveTimeResult PawValidationResult" where
  "calculatePawActiveTime env cfg segments inputNow =
     (let (nowIssues, now) = parseOptionalNow env inputNow;
          (segmentIssues, parsed) = parseSegments env now inputNow 0 segments;
          issues = nowIssues @ segmentIssues in
      if length issues > 0 then Invalid issues
      else (case foldl (addSegment cfg) (0, 0, []) parsed of (totalMs, paused, segs) \<Rightarrow>
        Ok \<lparr>active_ms = totalMs - paused, paused_ms = paused, total_ms = totalMs,
            paused_segments = (if active_enabled cfg then segs else [])\<rparr>))"

section \<open>What a plan keeps\<close>

lemma validateSessions_ok:
  "validateSessions env i ss = ([], ps) \<Longrightarrow> ps = map (\<lambda>s. (s, the (parseTime env (last_activity_at s)))) ss"
proof (induction ss arbitrary: i ps)
  case (Cons s ss)
  then show ?case
    by (cases "validateSessions env (Suc i) ss")
      (auto simp: parseTimestamp_def timeOf_def validateNonEmptyString_def Let_def split: option.splits if_splits)
qed simp

lemma validateArtifacts_ok:
  "validateArtifacts env i as = ([], ps) \<Longrightarrow> ps = map (\<lambda>a. (a, the (parseTime env (artifact_created_at a)))) as"
proof (induction as arbitrary: i ps)
  case (Cons a as)
  then show ?case
    by (cases "validateArtifacts env (Suc i) as")
      (auto simp: parseTimestamp_def timeOf_def validateNonEmptyString_def Let_def split: option.splits if_splits)
qed simp

lemma compareRecent_comparator:
  assumes "comparator (localeCompare env)"
  shows "comparator (compareRecent env name)"
proof
  show "compareRecent env name x y \<le> 0 \<or> compareRecent env name y x \<le> 0" for x y
    using comparator.total_cmp [OF assms] by (auto simp: compareRecent_def)
  show "compareRecent env name x y \<le> 0 \<Longrightarrow> compareRecent env name y z \<le> 0 \<Longrightarrow> compareRecent env name x z \<le> 0" for x y z
    using comparator.trans_cmp [OF assms] by (auto simp: compareRecent_def split: if_splits)
qed

lemma plan_ok:
  assumes "createPawRetentionPlan env cfg sessions artifacts now = Ok plan"
  obtains k d t where "keep_last_sessions cfg = Num (of_nat k)" "artifact_days cfg = Num (of_nat d)" "timeOf env now = Some t"
    "plan = \<lparr>keep_sessions = map fst (take k (sort_by (compareRecent env ret_session_id)
                (map (\<lambda>s. (s, the (parseTime env (last_activity_at s)))) sessions))),
            remove_sessions = map (sessionRemoval (int k) \<circ> fst) (drop k (sort_by (compareRecent env ret_session_id)
                (map (\<lambda>s. (s, the (parseTime env (last_activity_at s)))) sessions))),
            keep_artifacts = map fst (filter (\<lambda>a. \<not> snd a < t - int d * MS_PER_DAY) (sort_by (compareRecent env artifact_name)
                (map (\<lambda>a. (a, the (parseTime env (artifact_created_at a)))) artifacts))),
            remove_artifacts = map (artifactRemoval (int d) \<circ> fst) (filter (\<lambda>a. snd a < t - int d * MS_PER_DAY)
                (sort_by (compareRecent env artifact_name)
                (map (\<lambda>a. (a, the (parseTime env (artifact_created_at a)))) artifacts)))\<rparr>"
proof -
  have nat_num: "\<exists>k. v = Num (of_nat k)" if "validateNonNegativeInteger v path message = []" for v path message
  proof -
    from that have "js_isInteger v" "\<not> js_gt (Num 0) v" by (auto simp: validateNonNegativeInteger_def split: if_splits)
    then obtain n :: int where "v = Num (of_int n)" "0 \<le> n" by (auto simp: js_isInteger_iff)
    then have "v = Num (of_nat (nat n))" by simp
    then show ?thesis by blast
  qed
  obtain si ps ai pa ni nt where split: "validateSessions env 0 sessions = (si, ps)" "validateArtifacts env 0 artifacts = (ai, pa)"
    "parseTimestamp env now ''/now'' ''now must be a valid timestamp.'' = (ni, nt)"
    by (metis surj_pair)
  have empty: "si = []" "ai = []" "nt \<noteq> None"
    and nums: "\<exists>k. keep_last_sessions cfg = Num (of_nat k)" "\<exists>d. artifact_days cfg = Num (of_nat d)"
    using assms nat_num by (auto simp: createPawRetentionPlan_def split Let_def split: if_splits)
  then obtain k d t where kd: "keep_last_sessions cfg = Num (of_nat k)" "artifact_days cfg = Num (of_nat d)" "nt = Some t"
    by auto
  have t: "timeOf env now = Some t" using split(3) kd(3) by (auto simp: parseTimestamp_def split: option.splits)
  have lists: "ps = map (\<lambda>s. (s, the (parseTime env (last_activity_at s)))) sessions"
    "pa = map (\<lambda>a. (a, the (parseTime env (artifact_created_at a)))) artifacts"
    using validateSessions_ok split(1) empty(1) validateArtifacts_ok split(2) empty(2) by auto
  show ?thesis
    using assms kd t lists
    by (intro that [OF kd(1,2) t]) (auto simp: createPawRetentionPlan_def split Let_def o_def split: if_splits)
qed

lemma fold_segments:
  "foldl (addSegment cfg) (totalMs, paused, segs) ps =
     (totalMs + sum_list (map segmentDuration ps),
      paused + sum_list (map segmentDuration (filter (isPausedSegment cfg) ps)),
      segs @ map pausedSegment (filter (isPausedSegment cfg) ps))"
  by (induction ps arbitrary: totalMs paused segs) (auto simp: addSegment_def)

lemma parsed_durations: "parseSegments env now inputNow i segs = (is, ps) \<Longrightarrow> p \<in> set ps \<Longrightarrow> 0 \<le> segmentDuration p"
proof (induction segs arbitrary: i "is" ps)
  case (Cons seg segs)
  obtain is2 ps2 where rest: "parseSegments env now inputNow (Suc i) segs = (is2, ps2)" by fastforce
  obtain si s where start: "parseSegmentTimestamp env (started_at seg) (''/segments/'' @ show_nat i @ ''/started_at'') = (si, s)"
    by fastforce
  obtain ei e where fin: "resolveEndedAt env seg i now inputNow = (ei, e)" by fastforce
  from Cons.prems rest start fin have "p \<in> set ps2 \<or> 0 \<le> segmentDuration p"
    by (auto simp: segmentDuration_def split: option.splits if_splits)
  with Cons.IH [OF rest] show ?case by blast
qed simp

lemma partial_sums:
  fixes f :: "'a \<Rightarrow> int"
  assumes "\<forall>x \<in> set xs. 0 \<le> f x"
  shows "0 \<le> sum_list (map f (filter P xs)) \<and> sum_list (map f (filter P xs)) \<le> sum_list (map f xs)"
  using assms by (induction xs) auto

section \<open>Properties\<close>

text \<open>
  (C13) What a retention plan does with every record: it keeps as many sessions as it is told, at least as
  recent as every session it removes, and removes exactly the artifacts older than the given
  days; each record is kept or removed once. The collation of the locale is assumed to be a
  consistent order.
\<close>

theorem retention_plan_exact:
  assumes ok: "createPawRetentionPlan env cfg sessions artifacts now = Ok plan"
    and order: "comparator (localeCompare env)"
  shows "\<exists>k d t rs ra. keep_last_sessions cfg = Num (of_nat k) \<and> artifact_days cfg = Num (of_nat d) \<and> timeOf env now = Some t
    \<and> remove_sessions plan = map (sessionRemoval (int k)) rs \<and> mset (keep_sessions plan @ rs) = mset sessions
    \<and> length (keep_sessions plan) = min k (length sessions)
    \<and> (\<forall>s \<in> set (keep_sessions plan). \<forall>r \<in> set rs.
        the (parseTime env (last_activity_at r)) \<le> the (parseTime env (last_activity_at s)))
    \<and> remove_artifacts plan = map (artifactRemoval (int d)) ra
    \<and> mset ra = filter_mset (\<lambda>a. the (parseTime env (artifact_created_at a)) < t - int d * 86400000) (mset artifacts)
    \<and> mset (keep_artifacts plan) = filter_mset (\<lambda>a. \<not> the (parseTime env (artifact_created_at a)) < t - int d * 86400000) (mset artifacts)"
  using ok
proof (cases rule: plan_ok)
  case (1 k d t)
  let ?s = "map (\<lambda>s. (s, the (parseTime env (last_activity_at s)))) sessions"
  let ?a = "map (\<lambda>a. (a, the (parseTime env (artifact_created_at a)))) artifacts"
  define ss where "ss = sort_by (compareRecent env ret_session_id) ?s"
  define sa where "sa = sort_by (compareRecent env artifact_name) ?a"
  have sorted: "sorted_wrt (\<lambda>a b. compareRecent env ret_session_id a b \<le> 0) ss"
    unfolding ss_def by (rule comparator.sorted_sort [OF compareRecent_comparator [OF order]])
  have recent: "snd r \<le> snd s" if "s \<in> set (take k ss)" "r \<in> set (drop k ss)" for r s
  proof -
    from sorted have "compareRecent env ret_session_id s r \<le> 0"
      using that by (metis append_take_drop_id sorted_wrt_append)
    then show ?thesis by (auto simp: compareRecent_def split: if_splits)
  qed
  have time: "x \<in> set ss \<Longrightarrow> snd x = the (parseTime env (last_activity_at (fst x)))" for x
    by (auto simp: ss_def)
  have all: "mset (map fst ss) = mset sessions" "mset (map fst sa) = mset artifacts"
    by (simp_all add: ss_def sa_def image_mset.compositionality comp_def)
  have parts: "mset (map fst (take k ss) @ map fst (drop k ss)) = mset sessions"
    unfolding map_append [symmetric] append_take_drop_id by (rule all)
  have sel: "mset (map fst (filter (\<lambda>a. P (snd a)) sa)) = filter_mset (\<lambda>a. P (the (parseTime env (artifact_created_at a)))) (mset artifacts)" for P
  proof -
    have "map fst (filter (\<lambda>a. P (snd a)) sa) = filter (\<lambda>a. P (the (parseTime env (artifact_created_at a)))) (map fst sa)"
      unfolding filter_map by (intro arg_cong [where f = "map fst"] filter_cong) (auto simp: sa_def)
    then show ?thesis using all(2) by simp
  qed
  let ?rs = "map fst (drop k ss)"
  let ?ra = "map fst (filter (\<lambda>a. snd a < t - int d * 86400000) sa)"
  have keep: "keep_sessions plan = map fst (take k ss)" and rem: "remove_sessions plan = map (sessionRemoval (int k)) ?rs"
    and rem_a: "remove_artifacts plan = map (artifactRemoval (int d)) ?ra"
    and keep_a: "keep_artifacts plan = map fst (filter (\<lambda>a. \<not> snd a < t - int d * 86400000) sa)"
    unfolding 1(4) by (simp_all add: ss_def sa_def MS_PER_DAY_def)
  have len: "length (keep_sessions plan) = min k (length sessions)" by (simp add: keep ss_def min.commute)
  have later: "\<forall>s \<in> set (keep_sessions plan). \<forall>r \<in> set ?rs.
      the (parseTime env (last_activity_at r)) \<le> the (parseTime env (last_activity_at s))"
  proof (intro ballI)
    fix s r
    assume "s \<in> set (keep_sessions plan)" "r \<in> set ?rs"
    then obtain x y where "x \<in> set (take k ss)" "y \<in> set (drop k ss)" "s = fst x" "r = fst y" by (auto simp: keep)
    moreover from this have "x \<in> set ss" "y \<in> set ss" by (meson in_set_takeD in_set_dropD)+
    ultimately show "the (parseTime env (last_activity_at r)) \<le> the (parseTime env (last_activity_at s))"
      using recent [of x y] time [of x] time [of y] by simp
  qed
  from 1(1-3) rem parts [folded keep] len later rem_a
    sel [of "\<lambda>x. x < t - int d * 86400000"] sel [of "\<lambda>x. \<not> x < t - int d * 86400000", folded keep_a]
  show ?thesis by blast
qed

definition sample_time_env :: time_env where
  "sample_time_env = \<lparr>parseTime = (\<lambda>s. Some (int (length s))), isoString = (\<lambda>t. ''x''), localeCompare = (\<lambda>a b. 0)\<rparr>"

theorem retention_plan_exact_witness:
  "\<exists>plan rs. createPawRetentionPlan sample_time_env \<lparr>keep_last_sessions = Num 1, artifact_days = Num 2\<rparr>
      [\<lparr>ret_session_id = ''a'', ret_session_path = ''p'', last_activity_at = ''x''\<rparr>,
       \<lparr>ret_session_id = ''b'', ret_session_path = ''q'', last_activity_at = ''xx''\<rparr>] [] (DateObject (Some 0)) = Ok plan
    \<and> remove_sessions plan = map (sessionRemoval 1) rs \<and> length (keep_sessions plan) = 1"
proof -
  have order: "comparator (localeCompare sample_time_env)"
    by unfold_locales (simp_all add: sample_time_env_def)
  obtain plan where run: "createPawRetentionPlan sample_time_env \<lparr>keep_last_sessions = Num 1, artifact_days = Num 2\<rparr>
      [\<lparr>ret_session_id = ''a'', ret_session_path = ''p'', last_activity_at = ''x''\<rparr>,
       \<lparr>ret_session_id = ''b'', ret_session_path = ''q'', last_activity_at = ''xx''\<rparr>] [] (DateObject (Some 0)) = Ok plan"
    by (simp add: createPawRetentionPlan_def validateNonNegativeInteger_def validateNonEmptyString_def parseTimestamp_def
        timeOf_def sample_time_env_def js_trim_def js_space_def Let_def)
  from retention_plan_exact [OF run order] run show ?thesis by force
qed

text \<open>
  Active and paused time partition the total: neither is negative, the paused time is the
  sum of the paused segments, and without the clock everything is active.
\<close>

theorem active_time_partition:
  assumes "calculatePawActiveTime env cfg segments now = Ok r"
  shows "active_ms r + paused_ms r = total_ms r \<and> 0 \<le> paused_ms r \<and> 0 \<le> active_ms r
    \<and> paused_ms r = sum_list (map duration_ms (paused_segments r)) \<and> (\<not> active_enabled cfg \<longrightarrow> paused_ms r = 0)"
proof -
  obtain ni n si ps where parse: "parseOptionalNow env now = (ni, n)" "parseSegments env n now 0 segments = (si, ps)"
    by (metis surj_pair)
  from assms have r: "r = \<lparr>active_ms = sum_list (map segmentDuration ps) - sum_list (map segmentDuration (filter (isPausedSegment cfg) ps)),
      paused_ms = sum_list (map segmentDuration (filter (isPausedSegment cfg) ps)), total_ms = sum_list (map segmentDuration ps),
      paused_segments = (if active_enabled cfg then map pausedSegment (filter (isPausedSegment cfg) ps) else [])\<rparr>"
    by (auto simp: calculatePawActiveTime_def parse fold_segments split: if_splits)
  have "\<forall>p \<in> set ps. 0 \<le> segmentDuration p" using parsed_durations [OF parse(2)] by blast
  from partial_sums [OF this, of "isPausedSegment cfg"] show ?thesis
    by (auto simp: r pausedSegment_def o_def isPausedSegment_def)
qed

theorem active_time_partition_witness:
  "\<exists>r. calculatePawActiveTime sample_time_env \<lparr>active_enabled = True, pause_states = [''IDLE'']\<rparr>
      [\<lparr>seg_state = Active IDLE, started_at = ''x'', ended_at = Some ''xxx''\<rparr>,
       \<lparr>seg_state = Active INTAKE, started_at = ''xxx'', ended_at = None\<rparr>] (Some (DateObject (Some 8))) = Ok r
    \<and> active_ms r + paused_ms r = total_ms r \<and> paused_ms r = 2 \<and> total_ms r = 7"
proof -
  obtain r where run: "calculatePawActiveTime sample_time_env \<lparr>active_enabled = True, pause_states = [''IDLE'']\<rparr>
      [\<lparr>seg_state = Active IDLE, started_at = ''x'', ended_at = Some ''xxx''\<rparr>,
       \<lparr>seg_state = Active INTAKE, started_at = ''xxx'', ended_at = None\<rparr>] (Some (DateObject (Some 8))) = Ok r"
    and r: "paused_ms r = 2" "total_ms r = 7"
    by (simp add: calculatePawActiveTime_def sample_time_env_def parseOptionalNow_def parseSegmentTimestamp_def
        resolveEndedAt_def addSegment_def isPausedSegment_def segmentDuration_def Let_def)
  with active_time_partition [OF run] show ?thesis by blast
qed


end
