(* ===== verification/Spec2Isabelle.thy ===== *)
theory Spec2Isabelle
  imports Paw_Build_Laws Paw_Lock_Race Paw_Budget Paw_Subprocess Paw_Retention
begin

text \<open>
  \<^bold>\<open>A verification library for Paw\<close>, the coding agent under \<open>src/packages/coding-agent/src/paw\<close>
  (file names below are relative to that directory).

  Paw drives a task through a persisted session: an intake, a specification, a plan of ordered
  slices, then for every slice a cycle of selection, implementation, review and verification,
  and a final report. The session is a JSON file per session id; a lock file with a heartbeat
  keeps two processes from driving the same session. Policies decide what a tool call may do,
  what a task may spend, what happens when a provider fails and what enters a model's context.
  Worker output reaches the repository as patches and is recorded in a journal per session.

  \<^bold>\<open>Theories\<close>, each with the definitions of its component in the order of the code, then
  specification, lemmas and properties:

  \<^item> \<open>Paw_Prelude\<close>: validation issues and results (\<open>contracts.ts\<close>), thrown errors as values, the
    parts of the JavaScript string and array library the sources use, and the interfaces as
    locales: \<open>comparator\<close> (what \<open>sort\<close> needs), \<open>validated_machine\<close> and \<open>accounted_machine\<close>
    (step functions that validate, and that account for what they are given),
    \<open>document_store\<close> and \<open>exclusive_lock\<close>.
  \<^item> \<open>Paw_State\<close> (\<open>state.ts\<close>): the session record, its validation and its transitions.
    Interprets \<open>accounted_machine\<close>. Validation decides well-formedness; the transition function
    is exactly a declarative step relation; slices are conserved along every run; a final
    report means a completed plan; blocking and resuming is a round trip; every plan can be
    completed and no reachable session is stuck.
  \<^item> \<open>Paw_Json\<close>: values of type \<open>unknown\<close> and the readers that collect issues.
  \<^item> \<open>Paw_Store\<close> (\<open>session-store.ts\<close>, file operations of \<open>persistence.ts\<close>): paths, the codec of
    states and locks, the state file and the lock. Interprets \<open>document_store\<close> and
    \<open>exclusive_lock\<close>. The codec is exact, the last write wins, what acquiring, refreshing and
    releasing do.
  \<^item> \<open>Paw_Lock_Race\<close>: the file operations of acquiring and releasing, interleaved between any
    number of processes: mutual exclusion without stale locks, a bound on the steps of an
    acquisition, and the race in the reclaiming of stale locks.
  \<^item> \<open>Paw_Risk\<close> (\<open>approval-policy.ts\<close>, \<open>risk-classifier.ts\<close>), \<open>Paw_Budget\<close>
    (\<open>budget-policy.ts\<close>), \<open>Paw_Resilience\<close> (\<open>resilience-policy.ts\<close>, \<open>context-budget.ts\<close>): the
    decisions on every branch, and their monotonicity and boundedness.
  \<^item> \<open>Paw_Plan_Slices\<close> (\<open>plan-slices.ts\<close>): untrusted planner output becomes an ordered queue.
    Interprets \<open>comparator\<close>. Accepted exactly when every entry describes a slice and ids and
    orders are unique.
  \<^item> \<open>Paw_Task\<close> (\<open>task-session.ts\<close>, \<open>plan-approval.ts\<close>, \<open>slice-selection.ts\<close>,
    \<open>slice-implementation.ts\<close>, \<open>lock-result-mapping.ts\<close>): the commands over the store, the lock
    and the machine. A session advances only under its lock; starting destroys nothing;
    plans are queued in order and slices selected from the front.
  \<^item> \<open>Paw_Edit\<close> (\<open>edit-policy.ts\<close>, \<open>patch-apply.ts\<close>): the ladder of edit attempts and the
    application of worker patches: confinement to the repository, verified contents,
    idempotency.
  \<^item> \<open>Paw_Journal\<close> (\<open>slice-journal.ts\<close>): the append-only record of applied changes.
  \<^item> \<open>Paw_Results\<close> (\<open>worker-result.ts\<close>, \<open>reviewer-result.ts\<close>, \<open>verifier-result.ts\<close> and the three
    \<open>-blocked-result.ts\<close>): the recorders of sub-agent results. Declares \<open>slice_recorder\<close>, the
    contract of a recorder, and interprets it on five of them.
  \<^item> \<open>Paw_Commands\<close>: all commands on one disk. Under any sequence of commands every stored
    session is reachable; a worker pass is guarded; a slice cycle completes its slice; worker
    patches can reach session files.

  \<^item> \<open>Paw_Checkpoint\<close> (\<open>checkpoints.ts\<close>, \<open>slice-checkpoint.ts\<close>, \<open>rollback-command.ts\<close>): names,
    metadata and snapshots of checkpoints, and rollback. Names are valid, metadata round-trips,
    a rollback restores exactly what is declared; a captured checkpoint cannot undo anything.

  \<^item> \<open>Paw_Report\<close> (\<open>verification-plan.ts\<close>, \<open>verification-runner.ts\<close>, \<open>final-report.ts\<close>,
    \<open>final-report-emission.ts\<close>): the commands that verify a gate, running them, the report and
    its emission. A gate is reported verified only if its command succeeded in time; a report
    is emitted exactly for finished sessions.
  \<^item> \<open>Paw_Subagent\<close> (\<open>subagent.ts\<close>, \<open>subagent-response.ts\<close>, \<open>subagent-runtime.ts\<close>,
    \<open>subagent-sandbox-preflight.ts\<close>, \<open>model-routing.ts\<close>): the contract of sub-agent outputs, what
    becomes of a response, one invocation of a sub-agent, and its executors. Every response is
    decided, and what is made up in its place satisfies the contract.
  \<^item> \<open>Paw_Decisions\<close> (\<open>verify-gate-decision-parse.ts\<close> and the readers of the verifier commands):
    gate decisions from files; well-formed decisions are read back.
  \<^item> \<open>Paw_Cli\<close> (\<open>cli-fs.ts\<close> and the command files): the commands on one session, each a check of
    the target, the lock around an operation of the theories above, and its result.
  \<^item> \<open>Paw_Cli_Laws\<close>: what every command keeps. Declares \<open>files_part\<close> and \<open>session_operation\<close>,
    the contract of what runs under the lock, makes \<open>slice_recorder\<close> a sublocale of it and
    interprets it for every command. Commands release their locks and keep stored sessions
    reachable; approving and retrying refine the machine; finalizing hides failed gates; a
    command that throws leaves its lock.
  \<^item> \<open>Paw_Orchestrate\<close> (\<open>worker-orchestrator.ts\<close>, \<open>reviewer-orchestrator.ts\<close>): one run of a
    sub-agent on the slice of a session, from the check of the session to the record of the
    result. A sub-agent is asked at most twice; the result of one that outlasts the lock is lost.
  \<^item> \<open>Paw_Build\<close> (\<open>build-command.ts\<close>, \<open>verification-command-policy.ts\<close>): the steps of a build, the
    dispatch by session state, the loop, the report, the executors of sub-agents and the
    policy around verification commands. Declares \<open>counted_files\<close> (what a step may do to the files)
    and interprets it on one step and on the loop. The loop is bounded; the default failover
    never leaves the primary model; the policy changes no allowed command.
  \<^item> \<open>Paw_Build_Laws\<close>: the loop at work. With agents that deliver, a planned session is
    driven to its end; the report written there forgets gates that were not verified.
  \<^item> \<open>Paw_Regex\<close>: the regular expressions the sources use, as a matcher that lists matches in the
    order JavaScript tries them, with its relational meaning.
  \<^item> \<open>Paw_Security\<close> (\<open>security-policy.ts\<close>, \<open>secret-scanner.ts\<close>, \<open>secret-scanner-regex-helpers.ts\<close>):
    secret paths, redaction, untrusted sources and the findings of a scan. What the default
    exclusions match; every finding occurs in its file; entropy flags only varied tokens.
  \<^item> \<open>Paw_Tools\<close> (\<open>tool-runtime.ts\<close>, \<open>command-allowlist.ts\<close>): the gates of a tool request and the
    execution of a plan. Nothing happens behind the gates; what a throwing executor threw is
    misreported; what the default allowlist lets through.
  \<^item> \<open>Paw_Subprocess\<close> (\<open>verification-executor.ts\<close>, \<open>tool-executor.ts\<close>): child processes as sequences
    of events. Declares \<open>output_collector\<close>, the contract of a listener, and interprets it on both
    streams of both executors. Output is bounded, time is not; verified commands ended in time.
  \<^item> \<open>Paw_Retention\<close> (\<open>retention-policy.ts\<close>, \<open>clean-command.ts\<close>, \<open>active-time.ts\<close>): what is kept and
    for how long, and how much time counts as active.

  \<^bold>\<open>Correspondence.\<close> Definitions keep the names of the functions, types and constants they
  translate. A function that throws returns \<open>js_error + 'a\<close>; one that may throw after it changed
  files returns the files beside its outcome. Functions that push onto an issue list return the
  issues in the order pushed. Interfaces of TypeScript are records, unions are datatypes; a
  string cast to a union of literals is a member of the union or a foreign string that only a
  later validation rejects.

  \<^bold>\<open>Choices.\<close> Strings are lists of code units 0 to 255. Numbers are exact (integers or rationals,
  with infinities and \<open>NaN\<close> where the code tests for them); rounding of binary64 is not modelled.
  Files are maps from paths; directories, permissions and I/O errors other than a missing file
  are not modelled, and an atomic write is a map update. A repository root is already absolute.
  The clock, process ids and the liveness probe are an argument (\<open>process_env\<close>). Parameters stand
  for code outside the repository: SHA-256 and the \<open>diff\<close> package in \<open>Paw_Edit\<close>, the rendered
  YAML of the initial files in \<open>Paw_Task\<close>, the UTF-8 codec, dates, directory listings and
  collation in \<open>Paw_Checkpoint\<close>, the executor of verification commands in \<open>Paw_Report\<close>, the
  sub-agent, the call of a provider, the model registry and the default configuration in
  \<open>Paw_Orchestrate\<close> and \<open>Paw_Build\<close>, the executor of tools in \<open>Paw_Tools\<close>, children, digests and
  the file system in \<open>Paw_Subprocess\<close>, dates, collation and directory listings in \<open>Paw_Retention\<close>.
  A collation is assumed to be a consistent order. A sub-agent acts on the project only through its output, and
  time passes only while it runs; token estimates round up exactly.

  \<^bold>\<open>Bounds.\<close> The retry loop of the lock runs the five attempts of the code and is shown to decide
  in its first when undisturbed. The ladder of edit attempts has fuel; the configured number of
  retries plus three is enough. The build loop runs the number of steps the code is given.
  The star of an expression iterates at most as often as characters are left, since an empty
  iteration is rejected, and a global match has two rounds more than characters, since each
  moves on by one. All other recursions are structural or shorten a string.

  \<^bold>\<open>Not modelled.\<close> Command-line arguments, rendering, prompts, the walk of the secret scanner over
  the directory tree, the detection of sandboxes and projects, model providers, the generic agent
  loop, the terminal interface and the schema validation of configuration files (done by a
  library) are left out; the texts of schema errors, which that library writes, are a parameter
  of \<open>Paw_Subagent\<close>.
\<close>

section \<open>Properties across components\<close>

end
